(* ===== verification/Go_Prelude.thy ===== *)
theory Go_Prelude
  imports Main "HOL-Library.AList" "HOL-Library.Char_ord" "HOL-Library.List_Lexorder"
    "HOL-Library.Product_Lexorder" "HOL-Library.Multiset"
begin

text \<open>
  The part of Go and its standard library the modelled packages use: strings as byte lists
  with the byte-wise order of Go's \<^verbatim>\<open><\<close>, maps as association lists in iteration order, fixed
  width integers as \<^typ>\<open>int\<close> with the wrap-around written out, the \<^verbatim>\<open>strings\<close>, \<^verbatim>\<open>strconv\<close>,
  \<^verbatim>\<open>sort\<close> and \<^verbatim>\<open>fmt\<close> functions the sources call, and the lemmas every component shares.
\<close>

named_theorems gomap_simps \<open>reading and writing a Go map\<close>
named_theorems wrap_simps \<open>fixed width arithmetic\<close>

subsection \<open>Fixed width integers\<close>

text \<open>
  \<open>wrap w x\<close> is the value a signed \<open>w\<close>-bit Go integer holds after a computation whose exact
  result is \<open>x\<close>: two's complement, wrapping silently.
\<close>

definition wrap :: "nat \<Rightarrow> int \<Rightarrow> int" where
  "wrap w x = (x + 2 ^ (w - 1)) mod 2 ^ w - 2 ^ (w - 1)"

abbreviation wrap32 :: "int \<Rightarrow> int" where "wrap32 \<equiv> wrap 32"
abbreviation wrap64 :: "int \<Rightarrow> int" where "wrap64 \<equiv> wrap 64"

definition in_range :: "nat \<Rightarrow> int \<Rightarrow> bool" where
  "in_range w x \<longleftrightarrow> - (2 ^ (w - 1)) \<le> x \<and> x < 2 ^ (w - 1)"

abbreviation int64_range :: "int \<Rightarrow> bool" where "int64_range \<equiv> in_range 64"

lemma wrap_id [wrap_simps]: "0 < w \<Longrightarrow> in_range w x \<Longrightarrow> wrap w x = x"
proof -
  assume w: "0 < w" and r: "in_range w x"
  obtain v where v: "w = Suc v" using w by (cases w) auto
  have "0 \<le> x + 2 ^ v" "x + 2 ^ v < 2 ^ Suc v"
    using r by (auto simp: in_range_def v)
  then show ?thesis by (simp add: wrap_def v)
qed

lemma wrap_in_range: "0 < w \<Longrightarrow> in_range w (wrap w x)"
proof -
  assume "0 < w"
  then obtain v where v: "w = Suc v" by (cases w) auto
  have "0 \<le> (x + 2 ^ v) mod 2 ^ Suc v" "(x + 2 ^ v) mod 2 ^ Suc v < 2 ^ Suc v" by simp_all
  then show ?thesis by (simp add: wrap_def in_range_def v)
qed

lemma wrap_add_left [wrap_simps]: "wrap w (wrap w a + b) = wrap w (a + b)"
proof -
  have "((a + 2 ^ (w - 1)) mod 2 ^ w - 2 ^ (w - 1) + b + 2 ^ (w - 1)) mod 2 ^ w
      = ((a + 2 ^ (w - 1)) mod 2 ^ w + b) mod 2 ^ w" by simp
  also have "\<dots> = (a + 2 ^ (w - 1) + b) mod 2 ^ w" by (simp add: mod_add_left_eq)
  also have "\<dots> = (a + b + 2 ^ (w - 1)) mod 2 ^ w" by (simp add: ac_simps)
  finally show ?thesis by (simp add: wrap_def)
qed

lemma wrap_add_right [wrap_simps]: "wrap w (a + wrap w b) = wrap w (a + b)"
  using wrap_add_left [of w b a] by (simp add: add.commute)

text \<open>The loop \<^verbatim>\<open>for ... { total += x }\<close> over a signed \<open>w\<close>-bit accumulator.\<close>

definition sum_wrap :: "nat \<Rightarrow> int list \<Rightarrow> int" where
  "sum_wrap w xs = foldl (\<lambda>acc x. wrap w (acc + x)) 0 xs"

lemma foldl_wrap: "foldl (\<lambda>acc x. wrap w (acc + x)) (wrap w a) xs = wrap w (a + sum_list xs)"
proof (induction xs arbitrary: a)
  case (Cons x xs)
  show ?case using Cons.IH [of "a + x"] by (simp add: wrap_add_left add.assoc)
qed simp

lemma sum_wrap_eq: "0 < w \<Longrightarrow> sum_wrap w xs = wrap w (sum_list xs)"
proof -
  assume "0 < w"
  then have "wrap w 0 = 0" by (simp add: wrap_id in_range_def)
  then show ?thesis using foldl_wrap [of w 0 xs] by (simp add: sum_wrap_def)
qed

lemma sum_wrap_exact: "0 < w \<Longrightarrow> in_range w (sum_list xs) \<Longrightarrow> sum_wrap w xs = sum_list xs"
  by (simp add: sum_wrap_eq wrap_id)

text \<open>Go's \<^verbatim>\<open>/\<close> truncates towards zero.\<close>

definition quot :: "int \<Rightarrow> int \<Rightarrow> int" where
  "quot a b = sgn a * sgn b * (\<bar>a\<bar> div \<bar>b\<bar>)"

lemma quot_nonneg: "0 \<le> a \<Longrightarrow> 0 < b \<Longrightarrow> quot a b = a div b"
  by (cases "a = 0") (auto simp: quot_def)

subsection \<open>Maps\<close>

text \<open>
  A Go map is an association list: the keys in the order one iteration happens to visit them.
  That order is not part of the value, so a function whose result must not depend on it is
  shown to be the same on any two lists with the same \<^const>\<open>map_of\<close>. A \<^verbatim>\<open>nil\<close> map and an
  empty one read the same and are both the empty list.
\<close>

type_synonym 'v gomap = "(string \<times> 'v) list"

definition wf_map :: "'v gomap \<Rightarrow> bool" where
  "wf_map m \<longleftrightarrow> distinct (map fst m)"

definition mget :: "'v \<Rightarrow> 'v gomap \<Rightarrow> string \<Rightarrow> 'v" where
  "mget z m k = (case map_of m k of None \<Rightarrow> z | Some v \<Rightarrow> v)"

abbreviation sget :: "string gomap \<Rightarrow> string \<Rightarrow> string" where "sget \<equiv> mget []"

definition mhas :: "'v gomap \<Rightarrow> string \<Rightarrow> bool" where
  "mhas m k \<longleftrightarrow> map_of m k \<noteq> None"

definition mput :: "'v gomap \<Rightarrow> string \<Rightarrow> 'v \<Rightarrow> 'v gomap" where
  "mput m k v = AList.update k v m"

lemma map_of_mput [gomap_simps]: "map_of (mput m k v) = (map_of m)(k \<mapsto> v)"
  by (simp add: mput_def update_conv')

lemma mget_mput [gomap_simps]: "mget z (mput m k v) k' = (if k' = k then v else mget z m k')"
  by (simp add: mget_def gomap_simps)

lemma mhas_mput [gomap_simps]: "mhas (mput m k v) k' \<longleftrightarrow> k' = k \<or> mhas m k'"
  by (simp add: mhas_def gomap_simps)

lemma wf_map_Nil [simp]: "wf_map []"
  by (simp add: wf_map_def)

lemma wf_map_mput [simp]: "wf_map m \<Longrightarrow> wf_map (mput m k v)"
  by (simp add: wf_map_def mput_def distinct_update)

lemma keys_mput [gomap_simps]: "fst ` set (mput m k v) = insert k (fst ` set m)"
  by (simp add: mput_def dom_map_of_conv_image_fst [symmetric] update_conv')

lemma mput_values: "snd ` set (mput m k v) \<subseteq> insert v (snd ` set m)"
  by (induction m) (auto simp: mput_def split: if_splits)

lemma mput_not_Nil [simp]: "mput m k v \<noteq> []"
  by (cases m) (auto simp: mput_def)

lemma mget_in_values: "mhas m k \<Longrightarrow> mget z m k \<in> snd ` set m"
  by (force simp: mhas_def mget_def dest: map_of_SomeD split: option.splits)

text \<open>The loops that write \<^verbatim>\<open>out[k] = append(out[k], x)\<close> group a list by a key.\<close>

fun group_into :: "('a \<Rightarrow> string) \<Rightarrow> ('a \<Rightarrow> 'b) \<Rightarrow> 'a list \<Rightarrow> 'b list gomap \<Rightarrow> 'b list gomap" where
  "group_into key f [] out = out"
| "group_into key f (x # xs) out = group_into key f xs (mput out (key x) (mget [] out (key x) @ [f x]))"

lemma group_into_get: "mget [] (group_into key f xs out) k = mget [] out k @ map f (filter (\<lambda>x. key x = k) xs)"
  by (induction key f xs out rule: group_into.induct) (auto simp: gomap_simps)

lemma group_into_keys: "fst ` set (group_into key f xs out) = fst ` set out \<union> key ` set xs"
  by (induction key f xs out rule: group_into.induct) (auto simp: gomap_simps)

lemma group_into_wf: "wf_map out \<Longrightarrow> wf_map (group_into key f xs out)"
  by (induction key f xs out rule: group_into.induct) auto

lemma mget_map_values: "mget z (map (\<lambda>(k, v). (k, f v)) m) k = (if mhas m k then f (mget z m k) else z)"
  by (induction m) (auto simp: mget_def mhas_def)

lemma mhas_iff: "mhas m k \<longleftrightarrow> k \<in> fst ` set m"
  by (simp add: mhas_def map_of_eq_None_iff)

lemma option_eqI: "(\<And>v. a = Some v \<longleftrightarrow> b = Some v) \<Longrightarrow> a = b"
  by (cases a; cases b) auto

subsection \<open>Sorting\<close>

text \<open>
  \<^verbatim>\<open>sort.Slice\<close> promises a permutation in key order and nothing about ties;
  \<^verbatim>\<open>sort.SliceStable\<close> also keeps the order of ties. \<^verbatim>\<open>sort.Strings\<close> sorts the values
  themselves. The locales state those contracts; the model uses the insertion sort of the
  library, which is what \<^verbatim>\<open>sort.Slice\<close> itself runs on short slices.
\<close>

locale go_sort =
  fixes sorter :: "('a \<Rightarrow> 'k::linorder) \<Rightarrow> 'a list \<Rightarrow> 'a list"
  assumes sorter_perm: "mset (sorter f xs) = mset xs"
    and sorter_sorted: "sorted (map f (sorter f xs))"
begin

lemma sorter_set: "set (sorter f xs) = set xs"
  using sorter_perm by (metis set_mset_mset)

lemma sorter_length: "length (sorter f xs) = length xs"
  using sorter_perm by (metis size_mset)

lemma sorter_distinct: "distinct (map f (sorter f xs)) = distinct (map f xs)"
  by (rule mset_eq_imp_distinct_iff) (simp add: sorter_perm)

lemma sorter_unique:
  assumes "distinct (map f xs)" and "mset ys = mset xs"
  shows "sorter f ys = sort_key f xs"
proof -
  have perm: "mset (sorter f ys) = mset xs" using assms(2) by (simp add: sorter_perm)
  then have sets: "set (sorter f ys) = set (sort_key f xs)" by (metis mset_eq_setD set_sort)
  have dist: "distinct (map f (sorter f ys))"
    using assms by (metis perm mset_eq_imp_distinct_iff mset_map)
  have "distinct (map f (sort_key f xs))"
    using assms by (metis mset_eq_imp_distinct_iff mset_map mset_sort)
  then have "map f (sorter f ys) = map f (sort_key f xs)"
    using dist sorter_sorted [of f ys] by (intro sorted_distinct_set_unique) (simp_all add: sets)
  moreover have "inj_on f (set (sorter f ys) \<union> set (sort_key f xs))"
    using dist by (simp add: sets distinct_map)
  ultimately show ?thesis by (rule map_inj_on)
qed

end

locale go_stable_sort = go_sort +
  assumes sorter_stable: "filter (\<lambda>y. f y = k) (sorter f xs) = filter (\<lambda>y. f y = k) xs"
begin

text \<open>A stable sort only depends on the order of the elements within each key.\<close>

lemma sorter_cong:
  assumes "\<And>k. filter (\<lambda>y. f y = k) xs = filter (\<lambda>y. f y = k) ys"
    and "mset xs = mset ys"
  shows "sorter f xs = sorter f ys"
proof -
  have key: "sort_key f zs = sorter f us"
    if "\<And>k. filter (\<lambda>y. f y = k) zs = filter (\<lambda>y. f y = k) us" "mset zs = mset us" for zs us
  proof (rule properties_for_sort_key)
    show "mset (sorter f us) = mset zs" using that by (simp add: sorter_perm)
    show "sorted (map f (sorter f us))" by (rule sorter_sorted)
    fix k assume "k \<in> set (sorter f us)"
    show "filter (\<lambda>x. f k = f x) (sorter f us) = filter (\<lambda>x. f k = f x) zs"
      using that(1) [of "f k"] sorter_stable [of f "f k" us] by (simp add: eq_commute [of "f k"])
  qed
  show ?thesis using key [OF assms] key [of xs xs] by simp
qed

end

definition sort_SliceStable :: "('a \<Rightarrow> 'k::linorder) \<Rightarrow> 'a list \<Rightarrow> 'a list" where
  "sort_SliceStable f xs = sort_key f xs"

definition sort_Slice :: "('a \<Rightarrow> 'k::linorder) \<Rightarrow> 'a list \<Rightarrow> 'a list" where
  "sort_Slice f xs = sort_key f xs"

definition sort_Strings :: "string list \<Rightarrow> string list" where
  "sort_Strings xs = sort xs"

interpretation stable: go_stable_sort "sort_SliceStable :: ('a \<Rightarrow> 'k::linorder) \<Rightarrow> 'a list \<Rightarrow> 'a list"
  by unfold_locales (simp_all add: sort_SliceStable_def sort_key_stable)

interpretation slice: go_sort "sort_Slice :: ('a \<Rightarrow> 'k::linorder) \<Rightarrow> 'a list \<Rightarrow> 'a list"
  by unfold_locales (simp_all add: sort_Slice_def)

lemmas sort_simps [simp] =
  stable.sorter_perm stable.sorter_sorted stable.sorter_set stable.sorter_length
  slice.sorter_perm slice.sorter_sorted slice.sorter_set slice.sorter_length

lemma sort_Strings_simps [simp]:
  "set (sort_Strings xs) = set xs"
  "mset (sort_Strings xs) = mset xs"
  "length (sort_Strings xs) = length xs"
  "distinct (sort_Strings xs) = distinct xs"
  "sorted (sort_Strings xs)"
  by (simp_all add: sort_Strings_def)

lemma sort_Strings_eq_iff: "mset xs = mset ys \<Longrightarrow> sort_Strings xs = sort_Strings ys"
  unfolding sort_Strings_def
  by (rule properties_for_sort) simp_all

text \<open>A sorted list of distinct values is determined by its set.\<close>

lemma sort_Strings_of_set:
  "distinct xs \<Longrightarrow> distinct ys \<Longrightarrow> set xs = set ys \<Longrightarrow> sort_Strings xs = sort_Strings ys"
  by (rule sort_Strings_eq_iff) (simp add: set_eq_iff_mset_eq_distinct)

subsection \<open>Keeping the first of each key\<close>

text \<open>
  The loop \<^verbatim>\<open>if _, dup := seen[key]; dup { continue }\<close> keeps the first element of each key. The
  loops of the sources that do it are shown equal to this one and get their laws from here.
\<close>

fun first_by :: "('a \<Rightarrow> 'k) \<Rightarrow> 'a list \<Rightarrow> 'k list \<Rightarrow> 'a list" where
  "first_by f [] seen = []"
| "first_by f (x # xs) seen =
     (if f x \<in> set seen then first_by f xs seen else x # first_by f xs (f x # seen))"

definition first_of :: "('a \<Rightarrow> 'k) \<Rightarrow> 'a list \<Rightarrow> 'a \<Rightarrow> bool" where
  "first_of f xs x \<longleftrightarrow> find (\<lambda>y. f y = f x) xs = Some x"

lemma first_by_keys: "f ` set (first_by f xs seen) = f ` set xs - set seen"
  by (induction f xs seen rule: first_by.induct) auto

lemma first_by_distinct: "distinct (map f (first_by f xs seen))"
proof (induction f xs seen rule: first_by.induct)
  case (2 f x xs seen)
  then show ?case using first_by_keys [of f xs "f x # seen"] by auto
qed simp

lemma first_by_iff: "x \<in> set (first_by f xs seen) \<longleftrightarrow> f x \<notin> set seen \<and> first_of f xs x"
proof (induction f xs seen rule: first_by.induct)
  case (2 f y ys seen)
  then show ?case by (auto simp: first_of_def)
qed (simp add: first_of_def)

lemma first_of_mem: "first_of f xs x \<Longrightarrow> x \<in> set xs"
  by (metis first_of_def find_Some_iff nth_mem)

lemma first_of_exists: "x \<in> set xs \<Longrightarrow> \<exists>y. first_of f xs y \<and> f y = f x"
  using first_by_keys [of f xs "[]"] first_by_iff [of _ f xs "[]"] by (metis Diff_empty image_iff list.set(1))

lemma first_of_distinct: "distinct (map f xs) \<Longrightarrow> first_of f xs x \<longleftrightarrow> x \<in> set xs"
  by (induction xs) (auto simp: first_of_def)

lemma distinct_filter_map: "distinct (map f xs) \<Longrightarrow> distinct (map f (filter P xs))"
  by (induction xs) auto

subsection \<open>strings\<close>

definition strings_HasPrefix :: "string \<Rightarrow> string \<Rightarrow> bool" where
  "strings_HasPrefix s p \<longleftrightarrow> take (length p) s = p"

definition strings_HasSuffix :: "string \<Rightarrow> string \<Rightarrow> bool" where
  "strings_HasSuffix s p \<longleftrightarrow> length p \<le> length s \<and> drop (length s - length p) s = p"

definition strings_TrimPrefix :: "string \<Rightarrow> string \<Rightarrow> string" where
  "strings_TrimPrefix s p = (if strings_HasPrefix s p then drop (length p) s else s)"

definition strings_CutPrefix :: "string \<Rightarrow> string \<Rightarrow> string option" where
  "strings_CutPrefix s p = (if strings_HasPrefix s p then Some (drop (length p) s) else None)"

lemma hasPrefix_append [simp]: "strings_HasPrefix (p @ s) p"
  by (simp add: strings_HasPrefix_def)

lemma hasPrefixE: "strings_HasPrefix s p \<Longrightarrow> (\<And>r. s = p @ r \<Longrightarrow> P) \<Longrightarrow> P"
  by (metis append_take_drop_id strings_HasPrefix_def)

lemma cutPrefix_Some_iff: "strings_CutPrefix s p = Some r \<longleftrightarrow> s = p @ r"
  by (auto simp: strings_CutPrefix_def elim: hasPrefixE)

fun strings_Join :: "string list \<Rightarrow> string \<Rightarrow> string" where
  "strings_Join [] sep = []"
| "strings_Join [x] sep = x"
| "strings_Join (x # xs) sep = x @ sep @ strings_Join xs sep"

lemma join_eq_Nil: "sep \<noteq> [] \<Longrightarrow> strings_Join xs sep = [] \<longleftrightarrow> xs = [] \<or> xs = [[]]"
  by (induction xs sep rule: strings_Join.induct) auto

text \<open>\<^verbatim>\<open>strings.Split\<close> and \<^verbatim>\<open>strings.Cut\<close> with a one byte separator.\<close>

fun split_at :: "char \<Rightarrow> string \<Rightarrow> string list" where
  "split_at c [] = [[]]"
| "split_at c (x # xs) =
     (if x = c then [] # split_at c xs
      else case split_at c xs of [] \<Rightarrow> [[x]] | y # ys \<Rightarrow> (x # y) # ys)"

lemma split_at_not_Nil [simp]: "split_at c s \<noteq> []"
  by (induction s) (auto split: list.splits)

lemma split_at_none: "c \<notin> set s \<Longrightarrow> split_at c s = [s]"
  by (induction s) auto

lemma split_at_append: "c \<notin> set s \<Longrightarrow> split_at c (s @ c # t) = s # split_at c t"
  by (induction s) auto

definition strings_Cut :: "string \<Rightarrow> char \<Rightarrow> (string \<times> string) option" where
  "strings_Cut s c = (if c \<in> set s
     then Some (takeWhile (\<lambda>x. x \<noteq> c) s, tl (dropWhile (\<lambda>x. x \<noteq> c) s)) else None)"

text \<open>
  \<^verbatim>\<open>strings.TrimSpace\<close>: the UTF-8 encodings of Unicode white space, cut off both ends.
  \<open>space_len\<close> is the length of the one the bytes start with, and \<open>space_len_rev\<close> the same read
  from the end of the string.
\<close>

definition space_len :: "nat list \<Rightarrow> nat" where
  "space_len bs = (case bs of
       [] \<Rightarrow> 0
     | a # r \<Rightarrow> if a \<in> {9, 10, 11, 12, 13, 32} then 1
       else case r of [] \<Rightarrow> 0
         | b # r' \<Rightarrow> if a = 194 \<and> b \<in> {133, 160} then 2
           else case r' of [] \<Rightarrow> 0
             | c # _ \<Rightarrow> if (a, b, c) = (225, 154, 128) \<or> (a, b, c) = (226, 129, 159) \<or> (a, b, c) = (227, 128, 128)
                 \<or> (a = 226 \<and> b = 128 \<and> (128 \<le> c \<and> c \<le> 138 \<or> c \<in> {168, 169, 175})) then 3 else 0)"

definition space_len_rev :: "nat list \<Rightarrow> nat" where
  "space_len_rev bs = (if space_len (take 1 bs) = 1 then 1
     else if space_len (rev (take 2 bs)) = 2 then 2
     else if space_len (rev (take 3 bs)) = 3 then 3 else 0)"

function trim_by :: "(nat list \<Rightarrow> nat) \<Rightarrow> string \<Rightarrow> string" where
  "trim_by f s = (if s = [] \<or> f (map of_char s) = 0 then s else trim_by f (drop (f (map of_char s)) s))"
  by auto
termination by (relation "measure (\<lambda>(f, s). length s)") auto

declare trim_by.simps [simp del]

definition strings_TrimSpace :: "string \<Rightarrow> string" where
  "strings_TrimSpace s = rev (trim_by space_len_rev (rev (trim_by space_len s)))"

lemma trim_by_stop: "f (map of_char s) = 0 \<Longrightarrow> trim_by f s = s"
  by (simp add: trim_by.simps)

text \<open>ASCII case folding, exact wherever one side of \<^verbatim>\<open>strings.EqualFold\<close> is plain ASCII without k or s.\<close>

definition lower_char :: "char \<Rightarrow> char" where
  "lower_char c = (let n = of_char c :: nat in if 65 \<le> n \<and> n \<le> 90 then char_of (n + 32) else c)"

definition upper_char :: "char \<Rightarrow> char" where
  "upper_char c = (let n = of_char c :: nat in if 97 \<le> n \<and> n \<le> 122 then char_of (n - 32) else c)"

definition strings_EqualFold :: "string \<Rightarrow> string \<Rightarrow> bool" where
  "strings_EqualFold s t \<longleftrightarrow> map lower_char s = map lower_char t"

definition strings_ToUpper :: "string \<Rightarrow> string" where
  "strings_ToUpper s = map upper_char s"

subsection \<open>strconv\<close>

definition digit_char :: "nat \<Rightarrow> char" where
  "digit_char n = char_of (48 + n)"

definition digit_val :: "char \<Rightarrow> nat option" where
  "digit_val c = (let n = of_char c :: nat in if 48 \<le> n \<and> n \<le> 57 then Some (n - 48) else None)"

fun nat_digits :: "nat \<Rightarrow> string" where
  "nat_digits n = (if n < 10 then [digit_char n] else nat_digits (n div 10) @ [digit_char (n mod 10)])"

declare nat_digits.simps [simp del]

text \<open>\<^verbatim>\<open>strconv.FormatInt(n, 10)\<close>, \<^verbatim>\<open>strconv.Itoa\<close>.\<close>

definition strconv_FormatInt :: "int \<Rightarrow> string" where
  "strconv_FormatInt n = (if n < 0 then CHR ''-'' # nat_digits (nat (- n)) else nat_digits (nat n))"

definition strconv_FormatBool :: "bool \<Rightarrow> string" where
  "strconv_FormatBool b = (if b then ''true'' else ''false'')"

fun digits_val :: "nat \<Rightarrow> string \<Rightarrow> nat option" where
  "digits_val acc [] = Some acc"
| "digits_val acc (c # cs) =
     (case digit_val c of None \<Rightarrow> None | Some d \<Rightarrow> digits_val (10 * acc + d) cs)"

text \<open>
  \<^verbatim>\<open>strconv.Atoi\<close>: an optional sign, at least one digit, nothing else, and a value an
  \<^verbatim>\<open>int\<close> can hold. \<^const>\<open>None\<close> is any error.
\<close>

definition strconv_Atoi :: "string \<Rightarrow> int option" where
  "strconv_Atoi s =
     (let (neg, ds) = (case s of [] \<Rightarrow> (False, [])
                       | c # cs \<Rightarrow> if c = CHR ''-'' then (True, cs)
                                   else if c = CHR ''+'' then (False, cs) else (False, s))
      in if ds = [] then None
         else case digits_val 0 ds of None \<Rightarrow> None
           | Some n \<Rightarrow> (let v = (if neg then - int n else int n)
                        in if int64_range v then Some v else None))"

lemma digit_val_char [simp]: "n < 10 \<Longrightarrow> digit_val (digit_char n) = Some n"
  by (simp add: digit_val_def digit_char_def)

lemma digit_char_is_digit: "n < 10 \<Longrightarrow> digit_char n \<notin> {CHR ''-'', CHR ''+'', CHR ''.'', CHR '':''}"
proof -
  assume "n < 10"
  then have "of_char (digit_char n) = 48 + n" by (simp add: digit_char_def)
  moreover have "of_char CHR ''-'' = (45::nat)" "of_char CHR ''+'' = (43::nat)"
    "of_char CHR ''.'' = (46::nat)" "of_char CHR '':'' = (58::nat)" by simp_all
  ultimately show ?thesis using \<open>n < 10\<close> by auto
qed

lemma digits_val_append: "digits_val a (xs @ ys) = Option.bind (digits_val a xs) (\<lambda>b. digits_val b ys)"
  by (induction xs arbitrary: a) (auto split: option.splits)

lemma digits_val_nat_digits: "digits_val 0 (nat_digits n) = Some n"
proof (induction n rule: nat_digits.induct)
  case (1 n)
  show ?case
  proof (cases "n < 10")
    case True
    then show ?thesis by (simp add: nat_digits.simps [of n])
  next
    case False
    with 1 show ?thesis by (simp add: nat_digits.simps [of n] digits_val_append)
  qed
qed

lemma nat_digits_chars: "c \<in> set (nat_digits n) \<Longrightarrow> \<exists>d < 10. c = digit_char d"
proof (induction n rule: nat_digits.induct)
  case (1 n)
  then show ?case
    by (cases "n < 10") (auto simp: nat_digits.simps [of n] intro: exI [of _ "n mod 10"])
qed

lemma nat_digits_not_Nil [simp]: "nat_digits n \<noteq> []"
  by (simp add: nat_digits.simps [of n])

lemma FormatInt_not_Nil [simp]: "strconv_FormatInt n \<noteq> []"
  by (simp add: strconv_FormatInt_def)

lemma FormatBool_not_Nil [simp]: "strconv_FormatBool b \<noteq> []"
  by (simp add: strconv_FormatBool_def)

lemma nat_digits_hd: "nat_digits n = c # cs \<Longrightarrow> c \<noteq> CHR ''-'' \<and> c \<noteq> CHR ''+''"
  using nat_digits_chars [of c n] digit_char_is_digit by fastforce

lemma Atoi_FormatInt:
  assumes "int64_range n"
  shows "strconv_Atoi (strconv_FormatInt n) = Some n"
proof (cases "n < 0")
  case True
  then show ?thesis using assms
    by (simp add: strconv_Atoi_def strconv_FormatInt_def digits_val_nat_digits Let_def)
next
  case False
  obtain c cs where c: "nat_digits (nat n) = c # cs" by (metis list.exhaust nat_digits_not_Nil)
  with False nat_digits_hd [OF c] digits_val_nat_digits [of "nat n"] assms show ?thesis
    by (simp add: strconv_Atoi_def strconv_FormatInt_def Let_def)
qed

subsection \<open>fmt\<close>

text \<open>
  \<^verbatim>\<open>%q\<close>: a double quoted string with Go escapes. Bytes above ASCII are copied, which is what
  \<^verbatim>\<open>strconv.Quote\<close> does with the printable characters they encode.
\<close>

definition hex_char :: "nat \<Rightarrow> char" where
  "hex_char n = (if n < 10 then char_of (48 + n) else char_of (87 + n))"

definition quote_char :: "char \<Rightarrow> string" where
  "quote_char c = (let n = of_char c :: nat in
     if n = 34 \<or> n = 92 then [char_of (92::nat), c]
     else if n = 7 then [char_of (92::nat), CHR ''a''] else if n = 8 then [char_of (92::nat), CHR ''b'']
     else if n = 12 then [char_of (92::nat), CHR ''f''] else if n = 10 then [char_of (92::nat), CHR ''n'']
     else if n = 13 then [char_of (92::nat), CHR ''r''] else if n = 9 then [char_of (92::nat), CHR ''t'']
     else if n = 11 then [char_of (92::nat), CHR ''v'']
     else if n < 32 \<or> n = 127 then [char_of (92::nat), CHR ''x'', hex_char (n div 16), hex_char (n mod 16)]
     else [c])"

definition fmt_q :: "string \<Rightarrow> string" where
  "fmt_q s = [char_of (34::nat)] @ concat (map quote_char s) @ [char_of (34::nat)]"

end
