(* ===== verification/Go_Time.thy ===== *)
theory Go_Time
  imports Go_Prelude "HOL-Library.Monad_Syntax"
begin

text \<open>
  Go's \<^verbatim>\<open>time\<close> package as far as the sources use it: instants, durations, RFC3339 in UTC in
  both directions. The lemmas show the two facts the sources rely on: formatting and parsing
  are inverse to the second, and the formatted strings sort in time order.
\<close>

subsection \<open>Instants and durations\<close>

text \<open>
  An instant is the number of nanoseconds since Go's zero time, 1 January of year 1, so
  \<^verbatim>\<open>IsZero\<close> is equality with 0. A duration is an \<^verbatim>\<open>int64\<close> of nanoseconds, and \<^verbatim>\<open>Sub\<close> saturates.
\<close>

type_synonym time = int
type_synonym duration = int

definition time_IsZero :: "time \<Rightarrow> bool" where
  "time_IsZero t \<longleftrightarrow> t = 0"

definition time_Sub :: "time \<Rightarrow> time \<Rightarrow> duration" where
  "time_Sub a b = max (- (2 ^ 63)) (min (2 ^ 63 - 1) (a - b))"

abbreviation Second :: duration where "Second \<equiv> 1000000000"
abbreviation Minute :: duration where "Minute \<equiv> 60000000000"

definition unix_epoch :: time where
  "unix_epoch = 62135596800 * Second"

text \<open>\<^verbatim>\<open>Duration.Truncate\<close> for a positive unit: towards zero.\<close>

definition duration_Truncate :: "duration \<Rightarrow> duration \<Rightarrow> duration" where
  "duration_Truncate d m = quot d m * m"

subsection \<open>Decimal fields of a fixed width\<close>

fun fixed :: "nat \<Rightarrow> nat \<Rightarrow> string" where
  "fixed 0 n = []"
| "fixed (Suc k) n = fixed k (n div 10) @ [digit_char (n mod 10)]"

lemma length_fixed [simp]: "length (fixed k n) = k"
  by (induction k arbitrary: n) auto

text \<open>\<^verbatim>\<open>time.appendInt\<close>: zero padded to the width, wider when the number is.\<close>

definition pad :: "nat \<Rightarrow> int \<Rightarrow> string" where
  "pad w x = (if x < 0 then ''-'' else []) @
     (let n = nat \<bar>x\<bar> in if n < 10 ^ w then fixed w n else nat_digits n)"

lemma list_less_append_same: "(us :: string) < vs \<Longrightarrow> xs @ us < xs @ vs"
  by (induction xs) auto

lemma list_less_append: "length xs = length ys \<Longrightarrow> (xs :: string) < ys \<Longrightarrow> xs @ us < ys @ vs"
  by (induction xs ys rule: list_induct2) auto

lemma digit_char_less: "m < n \<Longrightarrow> n < 10 \<Longrightarrow> digit_char m < digit_char n"
  by (simp add: digit_char_def less_char_def)

lemma fixed_less: "n < m \<Longrightarrow> m < 10 ^ k \<Longrightarrow> fixed k n < fixed k m"
proof (induction k arbitrary: n m)
  case (Suc k)
  show ?case
  proof (cases "n div 10 < m div 10")
    case True
    moreover have "m div 10 < 10 ^ k" using Suc.prems(2) by (simp add: less_mult_imp_div_less)
    ultimately have "fixed k (n div 10) < fixed k (m div 10)" by (rule Suc.IH)
    then show ?thesis by (simp add: list_less_append)
  next
    case False
    then have eq: "n div 10 = m div 10"
      using Suc.prems(1) div_le_mono [of n m 10] by simp
    then have "n mod 10 < m mod 10"
      using Suc.prems(1) div_mult_mod_eq [of n 10] div_mult_mod_eq [of m 10] by linarith
    then have "digit_char (n mod 10) < digit_char (m mod 10)" by (simp add: digit_char_less)
    then show ?thesis by (simp add: eq list_less_append_same)
  qed
qed simp

subsection \<open>The calendar\<close>

definition is_leap :: "int \<Rightarrow> bool" where
  "is_leap y \<longleftrightarrow> y mod 4 = 0 \<and> (y mod 100 \<noteq> 0 \<or> y mod 400 = 0)"

definition year_len :: "int \<Rightarrow> int" where
  "year_len y = (if is_leap y then 366 else 365)"

text \<open>Days from the zero time to the first day of a year.\<close>

definition year_start :: "int \<Rightarrow> int" where
  "year_start y = 365 * (y - 1) + (y - 1) div 4 - (y - 1) div 100 + (y - 1) div 400"

text \<open>The year and the day in it, cutting off 400, 100, 4 and 1 year cycles as \<^verbatim>\<open>time.absDate\<close> does.\<close>

definition year_yday :: "int \<Rightarrow> int \<times> int" where
  "year_yday d =
     (let a = d div 146097; d1 = d mod 146097;
          n = d1 div 36524; b = n - n div 4; d2 = d1 - 36524 * b;
          c = d2 div 1461; d3 = d2 mod 1461;
          k = d3 div 365; e = k - k div 4; d4 = d3 - 365 * e
      in (1 + 400 * a + 100 * b + 4 * c + e, d4))"

lemma div_rem_unique: "x = k * q + r \<Longrightarrow> 0 \<le> r \<Longrightarrow> r < k \<Longrightarrow> x div k = (q :: int)"
  by (metis div_pos_pos_trivial add.commute add_0 div_mult_self2 less_le_not_le mult.commute order_trans)

lemma div_pred: "1 < k \<Longrightarrow> y div k = (y - 1) div k + (if y mod k = 0 then 1 else 0 :: int)"
proof (cases "y mod k = 0")
  case True
  assume k: "1 < k"
  have "y - 1 = k * (y div k - 1) + (k - 1)" using True mult_div_mod_eq [of k y] by (simp add: algebra_simps)
  then have "(y - 1) div k = y div k - 1" by (rule div_rem_unique) (use k in simp_all)
  then show ?thesis using True by simp
next
  case False
  assume k: "1 < k"
  have "0 \<le> y mod k" "y mod k < k" using k by simp_all
  then have r: "0 \<le> y mod k - 1" "y mod k - 1 < k" using False by linarith+
  have "y - 1 = k * (y div k) + (y mod k - 1)" by simp
  then have "(y - 1) div k = y div k" by (rule div_rem_unique) (use r in simp_all)
  then show ?thesis using False by simp
qed

lemma year_yday_correct:
  assumes "year_yday d = (y, r)"
  shows "d = year_start y + r \<and> 0 \<le> r \<and> r < year_len y"
proof -
  define a where "a = d div 146097"
  define d1 where "d1 = d mod 146097"
  define n where "n = d1 div 36524"
  define b where "b = n - n div 4"
  define d2 where "d2 = d1 - 36524 * b"
  define c where "c = d2 div 1461"
  define d3 where "d3 = d2 mod 1461"
  define k where "k = d3 div 365"
  define e where "e = k - k div 4"
  have yr: "y = 1 + 400 * a + 100 * b + 4 * c + e" "r = d3 - 365 * e"
    using assms unfolding year_yday_def Let_def
    unfolding a_def [symmetric] d1_def [symmetric]
    unfolding n_def [symmetric]
    unfolding b_def [symmetric]
    unfolding d2_def [symmetric]
    unfolding c_def [symmetric] d3_def [symmetric]
    unfolding k_def [symmetric]
    unfolding e_def [symmetric] by simp_all
  have d: "d = 146097 * a + d1" "0 \<le> d1" "d1 < 146097" by (simp_all add: a_def d1_def)
  have n: "0 \<le> n" "n \<le> 4" "n = 4 \<Longrightarrow> d1 = 146096" using d by (auto simp: n_def)
  have b: "0 \<le> b" "b \<le> 3" "0 \<le> d2" "d2 \<le> 36524" "d2 = 36524 \<Longrightarrow> b = 3"
  proof -
    consider "n = 4" | "n \<le> 3" "0 \<le> n" using n by linarith
    then have "0 \<le> b \<and> b \<le> 3 \<and> 0 \<le> d2 \<and> d2 \<le> 36524 \<and> (d2 = 36524 \<longrightarrow> b = 3)"
    proof cases
      case 1
      then show ?thesis using n by (simp add: b_def d2_def)
    next
      case 2
      then have "b = n" by (simp add: b_def)
      moreover have "0 \<le> d1 - 36524 * n" "d1 - 36524 * n < 36524" unfolding n_def by presburger+
      ultimately show ?thesis using 2 by (simp add: d2_def)
    qed
    then show "0 \<le> b" "b \<le> 3" "0 \<le> d2" "d2 \<le> 36524" "d2 = 36524 \<Longrightarrow> b = 3" by simp_all
  qed
  have c: "d2 = 1461 * c + d3" "0 \<le> c" "c \<le> 24" "0 \<le> d3" "d3 \<le> 1460"
    using b by (simp_all add: c_def d3_def)
  have c24: "c = 24 \<Longrightarrow> d3 = 1460 \<Longrightarrow> b = 3" using c b by simp
  have e: "0 \<le> e" "e \<le> 3" "0 \<le> r" "r \<le> 365" "r = 365 \<Longrightarrow> e = 3 \<and> d3 = 1460"
  proof -
    have k: "0 \<le> k" "k \<le> 4" "k = 4 \<Longrightarrow> d3 = 1460" using c by (auto simp: k_def)
    consider "k = 4" | "k \<le> 3" "0 \<le> k" using k by linarith
    then have "0 \<le> e \<and> e \<le> 3 \<and> 0 \<le> r \<and> r \<le> 365 \<and> (r = 365 \<longrightarrow> e = 3 \<and> d3 = 1460)"
    proof cases
      case 1
      then show ?thesis using k by (simp add: e_def yr)
    next
      case 2
      then have "e = k" by (simp add: e_def)
      moreover have "0 \<le> d3 - 365 * k" "d3 - 365 * k < 365" unfolding k_def by presburger+
      ultimately show ?thesis using 2 by (simp add: yr)
    qed
    then show "0 \<le> e" "e \<le> 3" "0 \<le> r" "r \<le> 365" "r = 365 \<Longrightarrow> e = 3 \<and> d3 = 1460" by simp_all
  qed
  have y1: "y - 1 = 400 * a + 100 * b + 4 * c + e" by (simp add: yr)
  have "(y - 1) div 4 = 100 * a + 25 * b + c" "(y - 1) div 100 = 4 * a + b" "(y - 1) div 400 = a"
    using b c e
    by (simp_all add: div_rem_unique [of _ 4 "100 * a + 25 * b + c" e]
      div_rem_unique [of _ 100 "4 * a + b" "4 * c + e"]
      div_rem_unique [of _ 400 a "100 * b + 4 * c + e"] y1)
  then have start: "year_start y = 146097 * a + 36524 * b + 1461 * c + 365 * e"
    unfolding year_start_def y1 by simp
  have leap: "is_leap y" if "e = 3" "c = 24 \<Longrightarrow> b = 3"
  proof -
    have "y mod 4 = 0" unfolding yr using that by presburger
    moreover have "y mod 100 \<noteq> 0 \<or> y mod 400 = 0"
    proof (cases "c = 24")
      case True
      then show ?thesis unfolding yr using that by simp
    next
      case False
      then have "c \<le> 23" using c by simp
      then have "(4 * c + 4) mod 100 = 4 * c + 4" using c by (simp add: mod_pos_pos_trivial)
      moreover have "y = 4 * c + 4 + (4 * a + b) * 100" unfolding yr using that(1) by simp
      ultimately have "y mod 100 = 4 * c + 4" by (simp only: mod_mult_self1)
      then show ?thesis using c by simp
    qed
    ultimately show ?thesis by (simp add: is_leap_def)
  qed
  have "r < year_len y"
  proof (cases "r = 365")
    case True
    then show ?thesis using e leap c24 by (simp add: year_len_def)
  next
    case False
    then show ?thesis using e by (simp add: year_len_def)
  qed
  moreover have "d = year_start y + r" using start d c yr(2) by (simp add: d2_def)
  ultimately show ?thesis using e by simp
qed

lemma year_start_Suc: "year_start (y + 1) = year_start y + year_len y"
proof -
  have carry: "365 * y + A - B + C = 365 * (y - 1) + a - b + c + (if p \<and> (\<not> q \<or> r) then 366 else 365)"
    if "A = a + (if p then 1 else 0)" "B = b + (if q then 1 else 0)" "C = c + (if r then 1 else 0)"
      "q \<Longrightarrow> p" "r \<Longrightarrow> q" for A B C a b c :: int and p q r
    using that by (cases p; cases q; cases r) simp_all
  have "y mod 100 = 0 \<Longrightarrow> y mod 4 = 0" "y mod 400 = 0 \<Longrightarrow> y mod 100 = 0"
    using dvd_trans [of 4 100 y] dvd_trans [of 100 400 y] by (simp_all add: dvd_eq_mod_eq_0)
  from carry [OF div_pred [of 4 y] div_pred [of 100 y] div_pred [of 400 y] this]
  show ?thesis unfolding year_start_def year_len_def is_leap_def by (simp only: add_diff_cancel_right')
qed

lemma year_start_mono: "y \<le> z \<Longrightarrow> year_start y \<le> year_start z"
proof (induction z rule: int_ge_induct)
  case (step z)
  then show ?case using year_start_Suc [of z] by (simp add: year_len_def split: if_splits)
qed simp

lemma year_yday_less:
  assumes "d < d'" "year_yday d = (y, r)" "year_yday d' = (y', r')"
  shows "y < y' \<or> y = y' \<and> r < r'"
proof (rule ccontr)
  assume neg: "\<not> ?thesis"
  note c = year_yday_correct [OF assms(2)] year_yday_correct [OF assms(3)]
  show False
  proof (cases "y = y'")
    case True
    then show False using neg c assms(1) by auto
  next
    case False
    then have "y' + 1 \<le> y" using neg by auto
    then have "year_start (y' + 1) \<le> year_start y" by (rule year_start_mono)
    then show False using c assms(1) year_start_Suc [of y'] by auto
  qed
qed

text \<open>The month and the day of the month of a day in the year.\<close>

definition month_start :: "bool \<Rightarrow> int \<Rightarrow> int" where
  "month_start leap m =
     [0, 31, 59, 90, 120, 151, 181, 212, 243, 273, 304, 334, 365] ! nat (m - 1)
       + (if leap \<and> 3 \<le> m then 1 else 0)"

definition month_of :: "bool \<Rightarrow> int \<Rightarrow> int" where
  "month_of leap r =
     (let l = (if leap then 1 else 0) in
      if r < 31 then 1 else if r < 59 + l then 2 else if r < 90 + l then 3
      else if r < 120 + l then 4 else if r < 151 + l then 5 else if r < 181 + l then 6
      else if r < 212 + l then 7 else if r < 243 + l then 8 else if r < 273 + l then 9
      else if r < 304 + l then 10 else if r < 334 + l then 11 else 12)"

definition days_in :: "int \<Rightarrow> int \<Rightarrow> int" where
  "days_in y m = month_start (is_leap y) (m + 1) - month_start (is_leap y) m"

definition civil :: "int \<Rightarrow> int \<times> int \<times> int" where
  "civil d = (let (y, r) = year_yday d; m = month_of (is_leap y) r
     in (y, m, r - month_start (is_leap y) m + 1))"

definition days_of :: "int \<Rightarrow> int \<Rightarrow> int \<Rightarrow> int" where
  "days_of y m d = year_start y + month_start (is_leap y) m + d - 1"

lemma month_of_bounds:
  assumes "0 \<le> r" "r < (if leap then 366 else 365)"
  shows "1 \<le> month_of leap r \<and> month_of leap r \<le> 12
    \<and> month_start leap (month_of leap r) \<le> r \<and> r < month_start leap (month_of leap r + 1)"
  using assms by (cases leap) (simp_all add: month_of_def month_start_def Let_def nth_Cons')

lemma month_of_mono: "r \<le> r' \<Longrightarrow> month_of leap r \<le> month_of leap r'"
  unfolding month_of_def Let_def by (cases leap) (simp_all del: One_nat_def)

lemma civil_correct:
  assumes "civil d = (y, m, e)"
  shows "days_of y m e = d \<and> 1 \<le> m \<and> m \<le> 12 \<and> 1 \<le> e \<and> e \<le> days_in y m \<and> fst (year_yday d) = y"
proof -
  obtain r where r: "year_yday d = (y, r)" "m = month_of (is_leap y) r"
    "e = r - month_start (is_leap y) m + 1"
    using assms by (auto simp: civil_def Let_def split: prod.splits)
  have "d = year_start y + r" "0 \<le> r" "r < (if is_leap y then 366 else 365)"
    using year_yday_correct [OF r(1)] by (simp_all add: year_len_def)
  with month_of_bounds [of r "is_leap y"] r show ?thesis by (simp add: days_of_def days_in_def)
qed

lemma days_in_le: "1 \<le> m \<Longrightarrow> m \<le> 12 \<Longrightarrow> days_in y m \<le> 31"
proof -
  assume "1 \<le> m" "m \<le> 12"
  then have "m \<in> {1, 2, 3, 4, 5, 6, 7, 8, 9, 10, 11, 12}" by (simp, presburger)
  then show ?thesis by (auto simp: days_in_def month_start_def)
qed

lemma civil_less:
  assumes "d < d'" "civil d = (y, m, e)" "civil d' = (y', m', e')"
  shows "y < y' \<or> y = y' \<and> (m < m' \<or> m = m' \<and> e < e')"
proof -
  obtain r r' where r: "year_yday d = (y, r)" "m = month_of (is_leap y) r"
      "e = r - month_start (is_leap y) m + 1"
    and r': "year_yday d' = (y', r')" "m' = month_of (is_leap y') r'"
      "e' = r' - month_start (is_leap y') m' + 1"
    using assms(2,3) by (auto simp: civil_def Let_def split: prod.splits)
  from year_yday_less [OF assms(1) r(1) r'(1)] show ?thesis
    using r r' month_of_mono [of r r' "is_leap y"] by auto
qed

subsection \<open>RFC3339\<close>

text \<open>
  \<^verbatim>\<open>t.UTC().Format(time.RFC3339)\<close>. The layout has no fraction, so the second is cut off.
\<close>

definition rfc3339 :: "time \<Rightarrow> string" where
  "rfc3339 t =
     (let s = t div Second; (y, m, d) = civil (s div 86400); c = s mod 86400
      in pad 4 y @ ''-'' @ pad 2 m @ ''-'' @ pad 2 d @ ''T'' @
         pad 2 (c div 3600) @ '':'' @ pad 2 (c mod 3600 div 60) @ '':'' @ pad 2 (c mod 60) @ ''Z'')"

text \<open>The years the layout writes in four digits.\<close>

definition four_digit_year :: "time \<Rightarrow> bool" where
  "four_digit_year t \<longleftrightarrow> (let y = fst (civil (t div Second div 86400)) in 0 \<le> y \<and> y \<le> 9999)"

lemma pad_fixed: "0 \<le> x \<Longrightarrow> x < 10 ^ w \<Longrightarrow> pad w x = fixed w (nat x)"
proof -
  assume "0 \<le> x" "x < 10 ^ w"
  then have "nat x < 10 ^ w" by (simp add: nat_less_iff)
  then show ?thesis using \<open>0 \<le> x\<close> by (simp add: pad_def)
qed

lemma pad_less: "0 \<le> x \<Longrightarrow> x < z \<Longrightarrow> z < 10 ^ w \<Longrightarrow> pad w x < pad w z"
  using fixed_less [of "nat x" "nat z" w] by (simp add: pad_fixed nat_less_iff)

lemma length_pad: "0 \<le> x \<Longrightarrow> x < 10 ^ w \<Longrightarrow> length (pad w x) = w"
  by (simp add: pad_fixed)


lemma pad_append_less:
  assumes "0 \<le> x" "x < 10 ^ w" "0 \<le> z" "z < 10 ^ w" and "x < z \<or> x = z \<and> us < vs"
  shows "pad w x @ us < pad w z @ vs"
  using assms(5)
proof
  assume "x < z"
  then show ?thesis using assms by (intro list_less_append) (simp_all add: length_pad pad_less)
next
  assume "x = z \<and> us < vs"
  then show ?thesis by (simp add: list_less_append_same)
qed

lemma div_mod_less:
  fixes x z k :: int
  assumes "x < z" "0 < k"
  shows "x div k < z div k \<or> x div k = z div k \<and> x mod k < z mod k"
proof (cases "x div k = z div k")
  case True
  have "k * (x div k) + x mod k < k * (z div k) + z mod k"
    using assms(1) by (simp only: mult_div_mod_eq)
  then have "x mod k < z mod k" by (simp only: True add_less_cancel_left)
  then show ?thesis using True by blast
next
  case False
  then show ?thesis using assms zdiv_mono1 [of x z k] by simp
qed

lemma mod_hour_minute: "x mod 3600 mod 60 = x mod (60 :: int)"
  by (rule mod_mod_cancel) simp

lemma clock_less:
  assumes "(c::int) < c'"
  shows "c div 3600 < c' div 3600 \<or> c div 3600 = c' div 3600 \<and>
    (c mod 3600 div 60 < c' mod 3600 div 60 \<or> c mod 3600 div 60 = c' mod 3600 div 60 \<and> c mod 60 < c' mod 60)"
proof -
  have "c div 3600 < c' div 3600 \<or> c div 3600 = c' div 3600 \<and> c mod 3600 < c' mod 3600"
    by (rule div_mod_less) (use assms in simp_all)
  moreover have "c mod 3600 < c' mod 3600 \<Longrightarrow> c mod 3600 div 60 < c' mod 3600 div 60
      \<or> c mod 3600 div 60 = c' mod 3600 div 60 \<and> c mod 60 < c' mod 60"
    using div_mod_less [of "c mod 3600" "c' mod 3600" 60] unfolding mod_hour_minute by simp
  ultimately show ?thesis by blast
qed

lemma clock_bounds:
  fixes s :: int
  defines "c \<equiv> s mod 86400"
  shows "0 \<le> c div 3600" "c div 3600 < 24" "0 \<le> c mod 3600 div 60" "c mod 3600 div 60 < 60"
    "0 \<le> c mod 60" "c mod 60 < 60" "c div 3600 * 3600 + c mod 3600 div 60 * 60 + c mod 60 = c"
proof -
  have c: "0 \<le> c" "c < 86400" by (simp_all add: c_def)
  then show "0 \<le> c div 3600" "c div 3600 < 24" by simp_all
  have h: "0 \<le> c mod 3600" "c mod 3600 < 3600" by simp_all
  then show "0 \<le> c mod 3600 div 60" "c mod 3600 div 60 < 60" by simp_all
  show "0 \<le> c mod 60" "c mod 60 < 60" by simp_all
  show "c div 3600 * 3600 + c mod 3600 div 60 * 60 + c mod 60 = c"
    using div_mult_mod_eq [of c 3600] div_mult_mod_eq [of "c mod 3600" 60]
    unfolding mod_hour_minute by linarith
qed

text \<open>The layout over its six fields.\<close>

definition stamp :: "int \<Rightarrow> int \<Rightarrow> int \<Rightarrow> int \<Rightarrow> int \<Rightarrow> int \<Rightarrow> string" where
  "stamp y m d h i s = pad 4 y @ ''-'' @ pad 2 m @ ''-'' @ pad 2 d @ ''T'' @
     pad 2 h @ '':'' @ pad 2 i @ '':'' @ pad 2 s @ ''Z''"

lemma stamp_less:
  assumes "0 \<le> y" "y < 10 ^ 4" "0 \<le> y'" "y' < 10 ^ 4"
    and "list_all (\<lambda>x. 0 \<le> x \<and> x < 10 ^ 2) [m, d, h, i, s, m', d', h', i', s']"
    and "y < y' \<or> y = y' \<and> (m < m' \<or> m = m' \<and> (d < d' \<or> d = d' \<and>
      (h < h' \<or> h = h' \<and> (i < i' \<or> i = i' \<and> s < s'))))"
  shows "stamp y m d h i s < stamp y' m' d' h' i' s'"
proof -
  have next_field: "0 \<le> x \<and> x < 10 ^ 2 \<Longrightarrow> 0 \<le> z \<and> z < 10 ^ 2 \<Longrightarrow> x < z \<or> x = z \<and> us < vs
      \<Longrightarrow> [c] @ pad 2 x @ us < [c] @ pad 2 z @ vs" for x z us vs and c :: char
    by (rule list_less_append_same, rule pad_append_less) simp_all
  have b: "0 \<le> x \<and> x < 10 ^ 2" if "x \<in> {m, d, h, i, s, m', d', h', i', s'}" for x
    using that assms(5) by auto
  have s: "'':'' @ pad 2 s @ ''Z'' < '':'' @ pad 2 s' @ ''Z''" if "s < s'"
    using that b by (intro next_field) auto
  have i: "'':'' @ pad 2 i @ '':'' @ pad 2 s @ ''Z'' < '':'' @ pad 2 i' @ '':'' @ pad 2 s' @ ''Z''"
    if "i < i' \<or> i = i' \<and> s < s'"
    using that b s by (intro next_field) blast+
  have h: "''T'' @ pad 2 h @ '':'' @ pad 2 i @ '':'' @ pad 2 s @ ''Z''
      < ''T'' @ pad 2 h' @ '':'' @ pad 2 i' @ '':'' @ pad 2 s' @ ''Z''"
    if "h < h' \<or> h = h' \<and> (i < i' \<or> i = i' \<and> s < s')"
    using that b i by (intro next_field) blast+
  have d: "''-'' @ pad 2 d @ ''T'' @ pad 2 h @ '':'' @ pad 2 i @ '':'' @ pad 2 s @ ''Z''
      < ''-'' @ pad 2 d' @ ''T'' @ pad 2 h' @ '':'' @ pad 2 i' @ '':'' @ pad 2 s' @ ''Z''"
    if "d < d' \<or> d = d' \<and> (h < h' \<or> h = h' \<and> (i < i' \<or> i = i' \<and> s < s'))"
    using that b h by (intro next_field) blast+
  have m: "''-'' @ pad 2 m @ ''-'' @ pad 2 d @ ''T'' @ pad 2 h @ '':'' @ pad 2 i @ '':'' @ pad 2 s @ ''Z''
      < ''-'' @ pad 2 m' @ ''-'' @ pad 2 d' @ ''T'' @ pad 2 h' @ '':'' @ pad 2 i' @ '':'' @ pad 2 s' @ ''Z''"
    if "m < m' \<or> m = m' \<and> (d < d' \<or> d = d' \<and> (h < h' \<or> h = h' \<and> (i < i' \<or> i = i' \<and> s < s')))"
    using that b d by (intro next_field) blast+
  show ?thesis unfolding stamp_def
    by (rule pad_append_less [OF assms(1-4)]) (use assms(6) m in blast)
qed

lemma rfc3339_stamp:
  "rfc3339 t = (let s = t div Second; (y, m, d) = civil (s div 86400); c = s mod 86400
    in stamp y m d (c div 3600) (c mod 3600 div 60) (c mod 60))"
  by (simp add: rfc3339_def stamp_def Let_def split: prod.splits)

lemma rfc3339_bounds:
  assumes "four_digit_year t" "civil (t div Second div 86400) = (y, m, d)"
  shows "0 \<le> y" "y < 10 ^ 4" "0 \<le> m \<and> m < 10 ^ 2" "0 \<le> d \<and> d < 10 ^ 2"
  using assms civil_correct [OF assms(2)] days_in_le [of m y] by (simp_all add: four_digit_year_def)

text \<open>RFC3339 in UTC sorts in time order, to the second.\<close>

lemma rfc3339_less:
  assumes y: "four_digit_year t" "four_digit_year u" and less: "t div Second < u div Second"
  shows "rfc3339 t < rfc3339 u"
proof -
  obtain y m d where f: "civil (t div Second div 86400) = (y, m, d)" by (metis prod_cases3)
  obtain y' m' d' where f': "civil (u div Second div 86400) = (y', m', d')" by (metis prod_cases3)
  note b = rfc3339_bounds [OF y(1) f] rfc3339_bounds [OF y(2) f']
  define c where "c = t div Second mod 86400"
  define c' where "c' = u div Second mod 86400"
  note cb = clock_bounds [of "t div Second", folded c_def] clock_bounds [of "u div Second", folded c'_def]
  have "t div Second div 86400 < u div Second div 86400
      \<or> t div Second div 86400 = u div Second div 86400 \<and> c < c'"
    unfolding c_def c'_def by (rule div_mod_less [OF less]) simp
  then have "y < y' \<or> y = y' \<and> (m < m' \<or> m = m' \<and> (d < d' \<or> d = d' \<and> c < c'))"
    using civil_less [OF _ f f'] f f' by (metis Pair_inject)
  then have order: "y < y' \<or> y = y' \<and> (m < m' \<or> m = m' \<and> (d < d' \<or> d = d' \<and>
      (c div 3600 < c' div 3600 \<or> c div 3600 = c' div 3600 \<and> (c mod 3600 div 60 < c' mod 3600 div 60
        \<or> c mod 3600 div 60 = c' mod 3600 div 60 \<and> c mod 60 < c' mod 60))))"
    using clock_less [of c c'] by blast
  have two: "0 \<le> x \<Longrightarrow> x < n \<Longrightarrow> n \<le> 100 \<Longrightarrow> 0 \<le> x \<and> x < (10 :: int) ^ 2" for x n by simp
  note fields = two [OF cb(1,2)] two [OF cb(3,4)] two [OF cb(5,6)]
    two [OF cb(8,9)] two [OF cb(10,11)] two [OF cb(12,13)]
  have "stamp y m d (c div 3600) (c mod 3600 div 60) (c mod 60)
      < stamp y' m' d' (c' div 3600) (c' mod 3600 div 60) (c' mod 60)"
    by (rule stamp_less [OF b(1,2,5,6) _ order])
      (simp only: list.pred_inject simp_thms b fields numeral_le_iff semiring_norm)
  then show ?thesis unfolding rfc3339_stamp Let_def f f' c_def c'_def by simp
qed

lemma rfc3339_same: "t div Second = u div Second \<Longrightarrow> rfc3339 t = rfc3339 u"
  by (simp add: rfc3339_def)

lemma rfc3339_not_Nil [simp]: "rfc3339 t \<noteq> []"
  by (simp add: rfc3339_def Let_def split: prod.splits)

subsection \<open>Parsing RFC3339\<close>

text \<open>
  \<^verbatim>\<open>time.Parse(time.RFC3339, s)\<close>, the layout walked field by field: a four digit year, two
  digit month, day, minute and second, an hour of one or two digits, an optional fraction
  after a point or a comma (cut at nine digits), and \<^verbatim>\<open>Z\<close> or a numeric offset.
\<close>

definition is_digit :: "char \<Rightarrow> bool" where
  "is_digit c \<longleftrightarrow> digit_val c \<noteq> None"

definition dval :: "char \<Rightarrow> int" where
  "dval c = (case digit_val c of None \<Rightarrow> 0 | Some n \<Rightarrow> int n)"

fun getnum :: "bool \<Rightarrow> string \<Rightarrow> (int \<times> string) option" where
  "getnum fixed_width (a # b # r) =
     (if \<not> is_digit a then None
      else if is_digit b then Some (10 * dval a + dval b, r)
      else if fixed_width then None else Some (dval a, b # r))"
| "getnum fixed_width [a] = (if is_digit a \<and> \<not> fixed_width then Some (dval a, []) else None)"
| "getnum fixed_width [] = None"

fun getyear :: "string \<Rightarrow> (int \<times> string) option" where
  "getyear (a # b # c # d # r) =
     (if is_digit a \<and> is_digit b \<and> is_digit c \<and> is_digit d
      then Some (1000 * dval a + 100 * dval b + 10 * dval c + dval d, r) else None)"
| "getyear _ = None"

fun skip_char :: "char \<Rightarrow> string \<Rightarrow> string option" where
  "skip_char c (x # r) = (if x = c then Some r else None)"
| "skip_char c [] = None"

fun dec_val :: "int \<Rightarrow> string \<Rightarrow> int" where
  "dec_val acc [] = acc"
| "dec_val acc (c # cs) = dec_val (10 * acc + dval c) cs"

definition getfrac :: "string \<Rightarrow> int \<times> string" where
  "getfrac s = (case s of
       p # c # r \<Rightarrow> if p \<in> {CHR ''.'', CHR '',''} \<and> is_digit c
         then (let ds = take 9 (takeWhile is_digit (c # r))
               in (dec_val 0 ds * 10 ^ (9 - length ds), dropWhile is_digit (c # r)))
         else (0, s)
     | _ \<Rightarrow> (0, s))"

fun getzone :: "string \<Rightarrow> (int \<times> string) option" where
  "getzone [] = None"
| "getzone (z # r) =
     (if z = CHR ''Z'' then Some (0, r)
      else case r of
        a # b # c # d # e # r' \<Rightarrow>
          if c = CHR '':'' then do {
            (hr, _) \<leftarrow> getnum True [a, b];
            (mm, _) \<leftarrow> getnum True [d, e];
            if hr > 24 \<or> mm > 60 then None
            else if z = CHR ''+'' then Some ((hr * 60 + mm) * 60, r')
            else if z = CHR ''-'' then Some (- ((hr * 60 + mm) * 60), r')
            else None }
          else None
      | _ \<Rightarrow> None)"

definition time_Parse_RFC3339 :: "string \<Rightarrow> time option" where
  "time_Parse_RFC3339 v = do {
     (y, v) \<leftarrow> getyear v; v \<leftarrow> skip_char CHR ''-'' v;
     (m, v) \<leftarrow> getnum True v; v \<leftarrow> skip_char CHR ''-'' v;
     (d, v) \<leftarrow> getnum True v; v \<leftarrow> skip_char CHR ''T'' v;
     (h, v) \<leftarrow> getnum False v; v \<leftarrow> skip_char CHR '':'' v;
     (i, v) \<leftarrow> getnum True v; v \<leftarrow> skip_char CHR '':'' v;
     (s, v) \<leftarrow> getnum True v;
     (let (ns, v) = getfrac v in do {
       (off, v) \<leftarrow> getzone v;
       if v = [] \<and> 1 \<le> m \<and> m \<le> 12 \<and> h < 24 \<and> i < 60 \<and> s < 60 \<and> 1 \<le> d \<and> d \<le> days_in y m
       then Some ((days_of y m d * 86400 + h * 3600 + i * 60 + s - off) * Second + ns)
       else None }) }"

lemma digit_char_simps [simp]: "n < 10 \<Longrightarrow> is_digit (digit_char n)" "n < 10 \<Longrightarrow> dval (digit_char n) = int n"
  by (simp_all add: is_digit_def dval_def)

lemma fixed_2: "fixed 2 n = [digit_char (n div 10 mod 10), digit_char (n mod 10)]"
  by (simp only: numeral_2_eq_2 fixed.simps append.simps)

lemma fixed_4: "fixed 4 n = [digit_char (n div 10 div 10 div 10 mod 10),
    digit_char (n div 10 div 10 mod 10), digit_char (n div 10 mod 10), digit_char (n mod 10)]"
proof -
  have "4 = Suc (Suc (Suc (Suc 0)))" by simp
  then show ?thesis by (simp only: fixed.simps append.simps)
qed

lemma getnum_pad: "0 \<le> x \<Longrightarrow> x < 10 ^ 2 \<Longrightarrow> getnum b (pad 2 x @ r) = Some (x, r)"
proof -
  assume x: "0 \<le> x" "x < 10 ^ 2"
  then have n: "nat x div 10 < 10" by simp
  have "int (nat x) = x" using x by simp
  then have "10 * int (nat x div 10) + int (nat x mod 10) = x"
    by (metis mult_div_mod_eq of_nat_add of_nat_mult of_nat_numeral)
  moreover have "pad 2 x = [digit_char (nat x div 10 mod 10), digit_char (nat x mod 10)]"
    using x by (simp only: pad_fixed fixed_2)
  ultimately show ?thesis using n by simp
qed

lemma getyear_pad: "0 \<le> y \<Longrightarrow> y < 10 ^ 4 \<Longrightarrow> getyear (pad 4 y @ r) = Some (y, r)"
proof -
  assume y: "0 \<le> y" "y < 10 ^ 4"
  define n where "n = nat y"
  have n: "n div 10 div 10 div 10 < 10" using y by (simp add: n_def)
  have e: "n = 10 * (n div 10) + n mod 10" "n div 10 = 10 * (n div 10 div 10) + n div 10 mod 10"
    "n div 10 div 10 = 10 * (n div 10 div 10 div 10) + n div 10 div 10 mod 10" by simp_all
  have "1000 * (n div 10 div 10 div 10 mod 10) + 100 * (n div 10 div 10 mod 10)
      + 10 * (n div 10 mod 10) + n mod 10 = n"
    using e mod_less [OF n] by linarith
  then have "1000 * int (n div 10 div 10 div 10 mod 10) + 100 * int (n div 10 div 10 mod 10)
      + 10 * int (n div 10 mod 10) + int (n mod 10) = int n" by linarith
  moreover have "pad 4 y = fixed 4 n" using y by (simp add: pad_fixed n_def)
  moreover have "int n = y" using y by (simp add: n_def)
  ultimately show ?thesis by (simp only: fixed_4 append.simps getyear.simps digit_char_simps
      mod_less_divisor zero_less_numeral simp_thms if_True)
qed

text \<open>Parsing a formatted instant gives it back, cut to the second the layout has.\<close>

lemma parse_rfc3339:
  assumes "four_digit_year t"
  shows "time_Parse_RFC3339 (rfc3339 t) = Some (t div Second * Second)"
proof -
  obtain y m d where f: "civil (t div Second div 86400) = (y, m, d)" by (metis prod_cases3)
  note b = rfc3339_bounds [OF assms f] and cv = civil_correct [OF f]
  define c where "c = t div Second mod 86400"
  note cb = clock_bounds [of "t div Second", folded c_def]
  have "rfc3339 t = stamp y m d (c div 3600) (c mod 3600 div 60) (c mod 60)"
    unfolding rfc3339_stamp Let_def f c_def by simp
  moreover have "time_Parse_RFC3339 (stamp y m d h i s)
      = Some ((days_of y m d * 86400 + h * 3600 + i * 60 + s) * Second)"
    if "0 \<le> h" "h < 24" "0 \<le> i" "i < 60" "0 \<le> s" "s < 60" for h i s
    using b that cv
    by (simp add: stamp_def time_Parse_RFC3339_def getyear_pad getnum_pad getfrac_def)
  ultimately have "time_Parse_RFC3339 (rfc3339 t) = Some ((days_of y m d * 86400
      + (c div 3600 * 3600 + c mod 3600 div 60 * 60 + c mod 60)) * Second)"
    using cb by (simp only: add.assoc)
  also have "\<dots> = Some (t div Second * Second)"
    unfolding cb(7) using cv by (simp add: c_def)
  finally show ?thesis .
qed

subsection \<open>Duration.String\<close>

definition trim_zeros :: "string \<Rightarrow> string" where
  "trim_zeros s = rev (dropWhile (\<lambda>c. c = CHR ''0'') (rev s))"

text \<open>\<^verbatim>\<open>fmtFrac\<close>: the fraction of \<open>v\<close> over \<open>10 ^ prec\<close> without trailing zeros, no point when it is 0.\<close>

definition fmtFrac :: "nat \<Rightarrow> nat \<Rightarrow> string" where
  "fmtFrac v prec = (let f = trim_zeros (fixed prec (v mod 10 ^ prec))
     in if f = [] then [] else CHR ''.'' # f)"

definition duration_String :: "duration \<Rightarrow> string" where
  "duration_String d =
     (let u = nat \<bar>d\<bar>; sign = (if d < 0 then ''-'' else [])
      in if u = 0 then ''0s''
         else if u < 1000 then sign @ nat_digits u @ ''ns''
         else if u < 1000000
           then sign @ nat_digits (u div 1000) @ fmtFrac u 3 @ [char_of (194::nat), char_of (181::nat)] @ ''s''
         else if u < 1000000000 then sign @ nat_digits (u div 1000000) @ fmtFrac u 6 @ ''ms''
         else (let secs = u div 1000000000; mins = secs div 60; hours = mins div 60 in
           sign @ (if 0 < hours then nat_digits hours @ ''h'' else [])
                @ (if 0 < mins then nat_digits (mins mod 60) @ ''m'' else [])
                @ nat_digits (secs mod 60) @ fmtFrac u 9 @ ''s''))"

lemma duration_String_not_Nil [simp]: "duration_String d \<noteq> []"
  by (simp add: duration_String_def Let_def)

end
