(* ===== verification/Kube_Types.thy ===== *)
theory Kube_Types
  imports Go_Time
begin

text \<open>
  The Kubernetes API objects the sources read, cut down to the fields they read: nodes, pods,
  events, resource slices and jobs as records, custom resources as JSON values with the
  \<^verbatim>\<open>unstructured\<close> accessors, and quantities with the two readings the sources take of them.
\<close>

subsection \<open>Quantities\<close>

text \<open>
  A \<^verbatim>\<open>resource.Quantity\<close> held as an \<^verbatim>\<open>int64Amount\<close>, value times a power of ten, which is what
  every counted extended resource parses to. \<^verbatim>\<open>Value\<close> rounds a fraction away from zero and
  reads 0 when the result leaves \<^verbatim>\<open>int64\<close>.
\<close>

record quantity =
  q_value :: int
  q_scale :: int

type_synonym resource_list = "quantity gomap"

definition Sign :: "quantity \<Rightarrow> int" where
  "Sign q = sgn (q_value q)"

definition Value :: "quantity \<Rightarrow> int" where
  "Value q =
     (if 0 \<le> q_scale q
      then (let v = q_value q * 10 ^ nat (q_scale q) in if int64_range v then v else 0)
      else (let d = 10 ^ nat (- q_scale q)
            in sgn (q_value q) * (\<bar>q_value q\<bar> div d + (if \<bar>q_value q\<bar> mod d = 0 then 0 else 1))))"

definition quantity_of :: "int \<Rightarrow> quantity" where
  "quantity_of n = \<lparr>q_value = n, q_scale = 0\<rparr>"

definition wf_quantity :: "quantity \<Rightarrow> bool" where
  "wf_quantity q \<longleftrightarrow> int64_range (q_value q)"

lemma Value_quantity_of: "int64_range n \<Longrightarrow> Value (quantity_of n) = n"
  by (simp add: Value_def quantity_of_def)

text \<open>A quantity that reads as positive is positive; the converse fails only on overflow.\<close>

lemma Value_pos_Sign: "0 < Value q \<Longrightarrow> 0 < Sign q"
proof -
  assume pos: "0 < Value q"
  have "q_value q \<le> 0 \<Longrightarrow> Value q \<le> 0"
    by (auto simp: Value_def Let_def sgn_if mult_nonpos_nonneg pos_imp_zdiv_nonneg_iff)
  then show ?thesis using pos by (cases "0 < q_value q") (auto simp: Sign_def)
qed

lemma Sign_pos_Value_neg_scale:
  assumes "0 < Sign q" "q_scale q < 0"
  shows "0 < Value q"
proof -
  have v: "0 < q_value q" using assms(1) by (simp add: Sign_def)
  define d :: int where "d = 10 ^ nat (- q_scale q)"
  have d: "0 < d" by (simp add: d_def)
  have "0 < q_value q div d + (if q_value q mod d = 0 then 0 else 1)"
  proof (cases "q_value q mod d = 0")
    case True
    then have "q_value q div d * d = q_value q" using div_mult_mod_eq [of "q_value q" d] by simp
    then show ?thesis using v d True by (metis add.right_neutral zero_less_mult_pos2)
  next
    case False
    have "0 \<le> q_value q div d" using v d by (simp add: pos_imp_zdiv_nonneg_iff)
    then show ?thesis using False by simp
  qed
  then show ?thesis using assms(2) v by (simp add: Value_def Let_def d_def)
qed

subsection \<open>Nodes\<close>

record Taint =
  taint_Key :: string
  taint_Value :: string
  taint_Effect :: string

record Toleration =
  tol_Key :: string
  tol_Operator :: string
  tol_Value :: string
  tol_Effect :: string

record NodeCondition =
  cond_Type :: string
  cond_Status :: string
  cond_Reason :: string
  cond_Message :: string
  cond_LastTransitionTime :: time

text \<open>One of a node's addresses, the type as the API spells it.\<close>

record NodeAddress =
  addr_Type :: string
  addr_Address :: string

record NodeSystemInfo =
  ni_KubeletVersion :: string
  ni_OSImage :: string
  ni_KernelVersion :: string
  ni_ContainerRuntimeVersion :: string

record Node =
  node_Name :: string
  node_Labels :: "string gomap"
  node_CreationTimestamp :: time
  node_Unschedulable :: bool
  node_Taints :: "Taint list"
  node_Capacity :: resource_list
  node_Allocatable :: resource_list
  node_Conditions :: "NodeCondition list"
  node_Addresses :: "NodeAddress list"
  node_Info :: NodeSystemInfo

subsection \<open>Pods\<close>

record ContainerStateTerminated =
  term_ExitCode :: int
  term_Reason :: string
  term_FinishedAt :: time

text \<open>A waiting state is its reason; a running state is only ever tested for presence.\<close>

record ContainerState =
  state_Waiting :: "string option"
  state_Running :: bool
  state_Terminated :: "ContainerStateTerminated option"

record ContainerStatus =
  cs_Name :: string
  cs_State :: ContainerState
  cs_LastTerminationState :: ContainerState
  cs_Ready :: bool
  cs_RestartCount :: int

record Container =
  c_Name :: string
  c_Image :: string
  c_Requests :: resource_list
  c_Limits :: resource_list
  c_RestartPolicy :: "string option"

record PodSpec =
  spec_NodeName :: string
  spec_InitContainers :: "Container list"
  spec_Containers :: "Container list"
  spec_Overhead :: resource_list
  spec_ReadinessGates :: "string list"

record OwnerReference =
  owner_Name :: string
  owner_Controller :: "bool option"

record PodCondition =
  pc_Type :: string
  pc_Status :: string

record Pod =
  pod_Name :: string
  pod_Namespace :: string
  pod_Labels :: "string gomap"
  pod_OwnerReferences :: "OwnerReference list"
  pod_Spec :: PodSpec
  pod_Phase :: string
  pod_ContainerStatuses :: "ContainerStatus list"
  pod_InitContainerStatuses :: "ContainerStatus list"
  pod_UID :: string
  pod_Annotations :: "string gomap"
  pod_CreationTimestamp :: time
  pod_DeletionTimestamp :: "time option"
  pod_Reason :: string
  pod_PodIP :: string
  pod_NominatedNodeName :: string
  pod_Conditions :: "PodCondition list"

subsection \<open>Resource slices, events and jobs\<close>

record ResourceSlice =
  slice_Name :: string
  slice_Driver :: string
  slice_NodeName :: "string option"

record Event =
  event_ObjectKind :: string
  event_ObjectName :: string
  event_Reason :: string
  event_Message :: string
  event_LastTimestamp :: time
  event_EventTime :: time
  event_FirstTimestamp :: time

record Job =
  job_Namespace :: string
  job_Name :: string
  job_Parallelism :: "int option"
  job_Completions :: "int option"
  job_TemplateSpec :: PodSpec

subsection \<open>Unstructured objects\<close>

text \<open>
  A decoded JSON document, as \<^verbatim>\<open>unstructured.Unstructured\<close> holds one. The accessors answer
  with an error, with nothing found, or with the value.
\<close>

datatype json =
    JNull
  | JBool bool
  | JInt int
  | JFloat string
  | JString string
  | JList "json list"
  | JMap "(string \<times> json) list"

type_synonym unstructured = "json gomap"

datatype 'a nested = NestedErr | NestedMissing | NestedFound 'a

fun NestedFieldNoCopy :: "json \<Rightarrow> string list \<Rightarrow> json nested" where
  "NestedFieldNoCopy v [] = NestedFound v"
| "NestedFieldNoCopy JNull (f # fs) = NestedMissing"
| "NestedFieldNoCopy (JMap m) (f # fs) =
     (case map_of m f of None \<Rightarrow> NestedMissing | Some v \<Rightarrow> NestedFieldNoCopy v fs)"
| "NestedFieldNoCopy _ (f # fs) = NestedErr"

definition NestedString :: "unstructured \<Rightarrow> string list \<Rightarrow> string nested" where
  "NestedString obj fs = (case NestedFieldNoCopy (JMap obj) fs of
       NestedErr \<Rightarrow> NestedErr | NestedMissing \<Rightarrow> NestedMissing
     | NestedFound v \<Rightarrow> (case v of JString s \<Rightarrow> NestedFound s | _ \<Rightarrow> NestedErr))"

definition NestedBool :: "unstructured \<Rightarrow> string list \<Rightarrow> bool nested" where
  "NestedBool obj fs = (case NestedFieldNoCopy (JMap obj) fs of
       NestedErr \<Rightarrow> NestedErr | NestedMissing \<Rightarrow> NestedMissing
     | NestedFound v \<Rightarrow> (case v of JBool b \<Rightarrow> NestedFound b | _ \<Rightarrow> NestedErr))"

definition NestedSlice :: "unstructured \<Rightarrow> string list \<Rightarrow> json list nested" where
  "NestedSlice obj fs = (case NestedFieldNoCopy (JMap obj) fs of
       NestedErr \<Rightarrow> NestedErr | NestedMissing \<Rightarrow> NestedMissing
     | NestedFound v \<Rightarrow> (case v of JList xs \<Rightarrow> NestedFound xs | _ \<Rightarrow> NestedErr))"

text \<open>\<^verbatim>\<open>value, _ := ...\<close> where an error and an absence both read as the zero value.\<close>

fun nested_or :: "'a \<Rightarrow> 'a nested \<Rightarrow> 'a" where
  "nested_or z (NestedFound v) = v"
| "nested_or z _ = z"

definition GetName :: "unstructured \<Rightarrow> string" where
  "GetName obj = nested_or [] (NestedString obj [''metadata'', ''name''])"

definition GetNamespace :: "unstructured \<Rightarrow> string" where
  "GetNamespace obj = nested_or [] (NestedString obj [''metadata'', ''namespace''])"

end
