(* ===== verification/Output_Contract.thy ===== *)
theory Output_Contract
  imports Kube_Types
begin

text \<open>
  \<^verbatim>\<open>pkg/output\<close>: findings, severities and their ranking, the report status every command
  embeds, the mapping of reports and errors onto exit codes, and the stable order findings
  are printed in. The error values of the whole program are one datatype here, because
  \<^verbatim>\<open>errors.As\<close> walks trees that mix the error types of all packages.
\<close>

subsection \<open>Exit codes and severities\<close>

abbreviation (input) ExitOK :: int where "ExitOK \<equiv> 0"
abbreviation (input) ExitFindings :: int where "ExitFindings \<equiv> 1"
abbreviation (input) ExitUsage :: int where "ExitUsage \<equiv> 2"
abbreviation (input) ExitPartial :: int where "ExitPartial \<equiv> 3"
abbreviation (input) ExitError :: int where "ExitError \<equiv> 4"

type_synonym severity = string

definition SeverityError :: severity where "SeverityError = ''error''"
definition SeverityWarning :: severity where "SeverityWarning = ''warning''"
definition SeverityInfo :: severity where "SeverityInfo = ''info''"

lemmas severity_defs = SeverityError_def SeverityWarning_def SeverityInfo_def

definition severities :: "severity list" where
  "severities = [SeverityInfo, SeverityWarning, SeverityError]"

fun rank_from :: "nat \<Rightarrow> severity list \<Rightarrow> severity \<Rightarrow> nat" where
  "rank_from i [] s = 0"
| "rank_from i (known # rest) s = (if s = known then i + 1 else rank_from (i + 1) rest s)"

definition rank :: "severity \<Rightarrow> nat" where
  "rank s = rank_from 0 severities s"

subsection \<open>Findings and the report status\<close>

record Finding =
  f_Code :: string
  f_Severity :: severity
  f_Node :: string
  f_Component :: string
  f_Message :: string
  f_Evidence :: "string gomap"
  f_Docs :: string
  f_Next :: string

record Unreachable =
  u_Resource :: string
  u_Node :: string
  u_Reason :: string

record ReportStatus =
  rs_Findings :: "Finding list"
  rs_Partial :: bool
  rs_Unreachable :: "Unreachable list"
  rs_RemainingItemCount :: "int option"

subsection \<open>Errors\<close>

text \<open>
  The error values that reach a command. \<open>ErrText\<close> is any error that wraps nothing,
  \<open>ErrSentinel\<close> a package level \<^verbatim>\<open>errors.New\<close> variable, \<open>ErrStatus\<close> an API status with its
  reason, code and text, \<open>ErrFmt\<close> a \<^verbatim>\<open>fmt.Errorf\<close> with one \<^verbatim>\<open>%w\<close> at its end (the text before
  the verb, and what it wraps), \<open>ErrFmt2\<close> the format \<^verbatim>\<open>%w: %w\<close>, \<open>ErrJoin\<close> an \<^verbatim>\<open>errors.Join\<close>.
  The others are the program's own types; a \<open>PartialError\<close> always carries the failure it was
  made from, and a \<open>GatherError\<close> says whether the gather got part of what was asked for.
\<close>

datatype goerr =
    ErrText string
  | ErrSentinel string
  | ErrStatus string int string
  | ErrFmt string "goerr option"
  | ErrFmt2 goerr goerr
  | ErrJoin "goerr list"
  | PartialError string goerr
  | UsageError string "goerr option"
  | RunError goerr
  | PartialNodeError string "Unreachable list" "goerr option"
  | FindingsError string
  | MissingBundleError string goerr
  | LegacyBundleError string
  | UnsafeBundleFileError string string
  | BundleFileTooLargeError string int
  | GatherError bool goerr

definition ErrNotInstalled :: goerr where
  "ErrNotInstalled = ErrSentinel
     ''the GPU Operator is not installed: the cluster serves no nvidia.com/v1 clusterpolicies''"

definition Canceled :: goerr where "Canceled = ErrSentinel ''context canceled''"
definition DeadlineExceeded :: goerr where "DeadlineExceeded = ErrSentinel ''context deadline exceeded''"

text \<open>
  The tree \<^verbatim>\<open>errors.As\<close> and \<^verbatim>\<open>errors.Is\<close> walk, in their order: the error, then what each
  \<^verbatim>\<open>Unwrap\<close> gives, depth first, nil skipped.
\<close>

fun err_tree :: "goerr \<Rightarrow> goerr list" where
  "err_tree (ErrFmt m c) = ErrFmt m c # (case c of None \<Rightarrow> [] | Some e \<Rightarrow> err_tree e)"
| "err_tree (ErrJoin es) = ErrJoin es # concat (map err_tree es)"
| "err_tree (ErrFmt2 a b) = ErrFmt2 a b # err_tree a @ err_tree b"
| "err_tree (MissingBundleError d e) = MissingBundleError d e # err_tree e"
| "err_tree (PartialError r e) = PartialError r e # err_tree e"
| "err_tree (UsageError m c) = UsageError m c # (case c of None \<Rightarrow> [] | Some e \<Rightarrow> err_tree e)"
| "err_tree (RunError e) = RunError e # err_tree e"
| "err_tree (GatherError p e) = GatherError p e # err_tree e"
| "err_tree (PartialNodeError m us c) =
     PartialNodeError m us c # UsageError m None # (case c of None \<Rightarrow> [] | Some e \<Rightarrow> err_tree e)"
| "err_tree e = [e]"

definition errors_As :: "(goerr \<Rightarrow> bool) \<Rightarrow> goerr \<Rightarrow> goerr option" where
  "errors_As P e = find P (err_tree e)"

definition errors_Is :: "goerr \<Rightarrow> goerr \<Rightarrow> bool" where
  "errors_Is e target \<longleftrightarrow> target \<in> set (err_tree e)"

text \<open>\<^verbatim>\<open>errors.Join\<close>: nil when nothing is joined.\<close>

definition errors_Join :: "goerr list \<Rightarrow> goerr option" where
  "errors_Join es = (if es = [] then None else Some (ErrJoin es))"

lemma err_tree_head: "\<exists>es. err_tree e = e # es"
  by (cases e) auto

lemma err_tree_self [simp]: "e \<in> set (err_tree e)"
  using err_tree_head [of e] by auto

lemma errors_As_self: "P e \<Longrightarrow> errors_As P e = Some e"
  using err_tree_head [of e] by (auto simp: errors_As_def)

lemma errors_As_Some: "errors_As P e = Some x \<Longrightarrow> P x \<and> x \<in> set (err_tree e)"
  by (metis errors_As_def find_Some_iff nth_mem)

lemma errors_As_None_iff: "errors_As P e = None \<longleftrightarrow> (\<forall>x \<in> set (err_tree e). \<not> P x)"
  by (auto simp: errors_As_def find_None_iff)

subsection \<open>Error text\<close>

text \<open>\<^verbatim>\<open>engine.join\<close>: commas, and the word and before the last name.\<close>

fun join_rest :: "string list \<Rightarrow> string" where
  "join_rest [] = []"
| "join_rest [x] = '' and '' @ x"
| "join_rest (x # xs) = '', '' @ x @ join_rest xs"

fun join_names :: "string list \<Rightarrow> string" where
  "join_names [] = []"
| "join_names (x # xs) = x @ join_rest xs"

fun Error :: "goerr \<Rightarrow> string" where
  "Error (ErrText m) = m"
| "Error (ErrStatus r c m) = m"
| "Error (ErrFmt m c) = m @ (case c of None \<Rightarrow> ''%!w(<nil>)'' | Some e \<Rightarrow> Error e)"
| "Error (ErrJoin es) = strings_Join (map Error es) [char_of (10::nat)]"
| "Error (ErrSentinel m) = m"
| "Error (ErrFmt2 a b) = Error a @ '': '' @ Error b"
| "Error (MissingBundleError d e) =
     ''must-gather bundle '' @ fmt_q d @ '' is not a readable directory: '' @ Error e"
| "Error (LegacyBundleError n) = n @
     '' is from a bundle written by kubectl-nv v0.1.x, which this version cannot read; re-run must-gather''"
| "Error (UnsafeBundleFileError n mode) =
     n @ '' is not a regular file (mode '' @ mode @ ''); refusing to read it''"
| "Error (BundleFileTooLargeError n limit) =
     n @ '' is larger than the '' @ strconv_FormatInt limit @ '' byte limit''"
| "Error (PartialError r e) = ''could not read '' @ r @ '': '' @ Error e"
| "Error (UsageError m c) = (case c of None \<Rightarrow> m | Some e \<Rightarrow> m @ '': '' @ Error e)"
| "Error (RunError e) = ''reading the cluster: '' @ Error e"
| "Error (PartialNodeError m us c) =
     m @ ''; this run could not read '' @ join_names (sort_Strings (map u_Resource us))"
| "Error (FindingsError m) = m"
| "Error (GatherError p e) = Error e"

subsection \<open>API status errors\<close>

definition known_reasons :: "string list" where
  "known_reasons =
     [''Unauthorized'', ''Forbidden'', ''NotFound'', ''AlreadyExists'', ''Conflict'', ''Gone'', ''Invalid'',
      ''ServerTimeout'', ''StorageReadError'', ''Timeout'', ''TooManyRequests'', ''BadRequest'',
      ''MethodNotAllowed'', ''NotAcceptable'', ''RequestEntityTooLarge'', ''UnsupportedMediaType'',
      ''InternalError'', ''Expired'', ''ServiceUnavailable'']"

fun is_status :: "goerr \<Rightarrow> bool" where
  "is_status (ErrStatus _ _ _) = True"
| "is_status _ = False"

definition reasonAndCode :: "goerr \<Rightarrow> string \<times> int" where
  "reasonAndCode e = (case errors_As is_status e of
     Some (ErrStatus r c _) \<Rightarrow> (r, c) | _ \<Rightarrow> ([], 0))"

definition status_is :: "string \<Rightarrow> int \<Rightarrow> goerr \<Rightarrow> bool" where
  "status_is reason code e = (let (r, c) = reasonAndCode e
     in r = reason \<or> (r \<notin> set known_reasons \<and> c = code))"

definition IsForbidden :: "goerr \<Rightarrow> bool" where "IsForbidden = status_is ''Forbidden'' 403"
definition IsNotFound :: "goerr \<Rightarrow> bool" where "IsNotFound = status_is ''NotFound'' 404"

definition IsUnauthorized :: "goerr \<Rightarrow> bool" where "IsUnauthorized = status_is ''Unauthorized'' 401"

subsection \<open>Exit codes of reports and errors\<close>

text \<open>The errors with an \<^verbatim>\<open>ExitCode\<close> method, and what it answers.\<close>

fun err_ExitCode :: "goerr \<Rightarrow> int option" where
  "err_ExitCode (PartialError _ _) = Some ExitPartial"
| "err_ExitCode (UsageError _ _) = Some ExitUsage"
| "err_ExitCode (RunError _) = Some ExitError"
| "err_ExitCode (PartialNodeError _ _ _) = Some ExitPartial"
| "err_ExitCode (FindingsError _) = Some ExitFindings"
| "err_ExitCode (GatherError p _) = Some (if p then ExitPartial else ExitError)"
| "err_ExitCode _ = None"

definition ExitCodeFor :: "goerr option \<Rightarrow> int" where
  "ExitCodeFor err = (case err of None \<Rightarrow> ExitOK
     | Some e \<Rightarrow> (case errors_As (\<lambda>x. err_ExitCode x \<noteq> None) e of
         None \<Rightarrow> ExitError | Some x \<Rightarrow> the (err_ExitCode x)))"

fun ExitCode_loop :: "Finding list \<Rightarrow> severity \<Rightarrow> bool" where
  "ExitCode_loop [] failOn = False"
| "ExitCode_loop (f # fs) failOn = (if rank (f_Severity f) \<ge> rank failOn then True else ExitCode_loop fs failOn)"

definition ExitCode :: "ReportStatus \<Rightarrow> severity \<Rightarrow> int" where
  "ExitCode status failOn =
     (let failOn = (if failOn = [] then SeverityError else failOn)
      in if ExitCode_loop (rs_Findings status) failOn then ExitFindings
         else if rs_Partial status then ExitPartial else ExitOK)"

definition ParseSeverity :: "string \<Rightarrow> goerr + severity" where
  "ParseSeverity value =
     (if value = [] then Inr SeverityError
      else if value \<in> set severities then Inr value
      else Inl (UsageError (''unknown severity '' @ fmt_q value @ '': want one of ''
             @ strings_Join severities '', '') None))"

definition SortFindings :: "Finding list \<Rightarrow> Finding list" where
  "SortFindings fs = sort_SliceStable (\<lambda>f. (f_Node f, f_Code f)) fs"

subsection \<open>Tables\<close>

record Column =
  col_Header :: string
  col_Fields :: "string list"

definition OneField :: "string \<Rightarrow> string \<Rightarrow> Column" where
  "OneField header path = \<lparr>col_Header = header, col_Fields = [path]\<rparr>"

text \<open>
  What a kind promises the table printer: there are columns, and \<^verbatim>\<open>TableRows\<close> gives one cell
  per column of \<^verbatim>\<open>TableColumns\<close>.
\<close>

locale table_rows =
  fixes columns :: "'a \<Rightarrow> bool \<Rightarrow> Column list"
    and rows :: "'a \<Rightarrow> bool \<Rightarrow> string list list"
  assumes row_width: "r \<in> set (rows x wide) \<Longrightarrow> length r = length (columns x wide)"
    and some_column: "columns x wide \<noteq> []"
begin

text \<open>The table is rectangular: pairing a row with the columns loses no cell and no column.\<close>

lemma row_paired:
  assumes "r \<in> set (rows x wide)"
  shows "map fst (zip (columns x wide) r) = columns x wide" and "map snd (zip (columns x wide) r) = r"
  using row_width [OF assms] by simp_all

lemma rows_rectangular: "\<exists>n > 0. \<forall>r \<in> set (rows x wide). length r = n"
  using row_width [of _ x wide] some_column [of x wide] by (intro exI [of _ "length (columns x wide)"]) auto

end

subsection \<open>Limits\<close>

text \<open>
  \<^verbatim>\<open>output.Limitable\<close>: \<^verbatim>\<open>LimitItems(n)\<close> keeps the first \<open>n\<close> of what the kind repeats, answers how
  many there were, and records how many were left out. A limit that is not positive, or not
  reached, changes nothing.
\<close>

locale limitable =
  fixes LimitItems :: "int \<Rightarrow> 'a \<Rightarrow> 'a \<times> int"
    and items :: "'a \<Rightarrow> 'i list"
    and remaining :: "'a \<Rightarrow> int option"
  assumes limit_total: "snd (LimitItems n x) = int (length (items x))"
    and limit_untouched: "n \<le> 0 \<or> int (length (items x)) \<le> n \<Longrightarrow> fst (LimitItems n x) = x"
    and limit_cut: "0 < n \<Longrightarrow> n < int (length (items x)) \<Longrightarrow>
      items (fst (LimitItems n x)) = take (nat n) (items x)
      \<and> remaining (fst (LimitItems n x)) = Some (int (length (items x)) - n)"
begin

lemma limit_items: "items (fst (LimitItems n x)) = (if n \<le> 0 then items x else take (nat n) (items x))"
  using limit_untouched [of n x] limit_cut [of n x] by (cases "int (length (items x)) \<le> n") auto

lemma limit_nothing_lost:
  assumes "remaining x = None"
  shows "int (length (items (fst (LimitItems n x))))
    + (case remaining (fst (LimitItems n x)) of None \<Rightarrow> 0 | Some k \<Rightarrow> k) = int (length (items x))"
  using assms limit_untouched [of n x] limit_cut [of n x]
  by (cases "n \<le> 0 \<or> int (length (items x)) \<le> n") auto

lemma limit_idem: "fst (LimitItems n (fst (LimitItems n x))) = fst (LimitItems n x)"
  by (rule limit_untouched) (auto simp: limit_items)

end

subsection \<open>Lemmas\<close>

lemma rank_simps [simp]:
  "rank SeverityInfo = 1" "rank SeverityWarning = 2" "rank SeverityError = 3"
  by (simp_all add: rank_def severities_def severity_defs)

lemma rank_pos_iff: "0 < rank s \<longleftrightarrow> s \<in> set severities"
  by (auto simp: rank_def severities_def)

lemma ExitCode_loop_iff: "ExitCode_loop fs s \<longleftrightarrow> (\<exists>f \<in> set fs. rank s \<le> rank (f_Severity f))"
  by (induction fs) auto

lemma ParseSeverity_Inr: "ParseSeverity v = Inr s \<Longrightarrow> s \<in> set severities"
  by (auto simp: ParseSeverity_def severities_def split: if_splits)

lemma SortFindings_set [simp]: "set (SortFindings fs) = set fs"
  by (simp add: SortFindings_def)

lemma SortFindings_mset [simp]: "mset (SortFindings fs) = mset fs"
  by (simp add: SortFindings_def)

lemma SortFindings_sorted: "sorted (map (\<lambda>f. (f_Node f, f_Code f)) (SortFindings fs))"
  by (simp add: SortFindings_def)

lemma SortFindings_filter: "filter P (SortFindings fs) = SortFindings (filter P fs)"
  by (simp add: SortFindings_def sort_SliceStable_def filter_sort)

lemma SortFindings_cong:
  assumes "\<And>n c. filter (\<lambda>f. (f_Node f, f_Code f) = (n, c)) fs = filter (\<lambda>f. (f_Node f, f_Code f) = (n, c)) gs"
    and "mset fs = mset gs"
  shows "SortFindings fs = SortFindings gs"
  unfolding SortFindings_def
  by (rule stable.sorter_cong) (use assms in auto)

lemma err_tree_ErrJoin: "set (err_tree (ErrJoin es)) = insert (ErrJoin es) (\<Union>e \<in> set es. set (err_tree e))"
  by simp

lemma mset_eq_by_key:
  assumes "\<And>k. filter (\<lambda>y. f y = k) xs = filter (\<lambda>y. f y = k) ys"
  shows "mset xs = mset ys"
proof (rule multiset_eqI)
  fix x
  have "count (mset zs) x = count (mset (filter (\<lambda>y. f y = f x) zs)) x" for zs
    by (induction zs) auto
  then show "count (mset xs) x = count (mset ys) x" using assms by metis
qed

subsection \<open>Properties\<close>

text \<open>
  With a threshold \<^verbatim>\<open>--fail-on\<close> parses to, a report exits 1 exactly when
  some finding has a known severity at or above it; otherwise 3 when something could not be
  read, and 0 only for a complete run. A severity the program does not know never fails a run.
\<close>

theorem exit_code_gate:
  assumes "ParseSeverity v = Inr failOn"
  shows "ExitCode st failOn =
    (if \<exists>f \<in> set (rs_Findings st). f_Severity f \<in> set severities \<and> rank failOn \<le> rank (f_Severity f)
     then ExitFindings else if rs_Partial st then ExitPartial else ExitOK)"
proof -
  have "0 < rank failOn" using ParseSeverity_Inr [OF assms] by (simp add: rank_pos_iff)
  then have "rank failOn \<le> rank s \<longleftrightarrow> s \<in> set severities \<and> rank failOn \<le> rank s" for s
    using rank_pos_iff [of s] by linarith
  moreover have "failOn \<noteq> []" using ParseSeverity_Inr [OF assms] by (auto simp: severities_def severity_defs)
  ultimately show ?thesis by (simp add: ExitCode_def ExitCode_loop_iff)
qed

theorem exit_code_gate_witness:
  "ExitCode \<lparr>rs_Findings = [], rs_Partial = True, rs_Unreachable = [], rs_RemainingItemCount = None\<rparr> SeverityError = 3"
  using exit_code_gate [of "[]" SeverityError
      "\<lparr>rs_Findings = [], rs_Partial = True, rs_Unreachable = [], rs_RemainingItemCount = None\<rparr>"]
  by (simp add: ParseSeverity_def)

text \<open>
  An error always maps to one of the four documented failure codes
  and the absence of one to 0, so a failed run never exits 0.
\<close>

theorem exit_code_for_total:
  "ExitCodeFor err \<in> {0, 1, 2, 3, 4} \<and> (ExitCodeFor err = ExitOK \<longleftrightarrow> err = None)"
proof (cases err)
  case (Some e)
  have "err_ExitCode x = Some c \<Longrightarrow> c \<in> {1, 2, 3, 4}" for x c
    by (cases x) (auto split: if_splits)
  then show ?thesis using Some errors_As_Some [of "\<lambda>x. err_ExitCode x \<noteq> None" e]
    by (fastforce simp: ExitCodeFor_def split: option.splits)
qed (simp add: ExitCodeFor_def)

text \<open>
  \<^verbatim>\<open>SortFindings\<close> orders by node and then code, loses and invents
  nothing, and its result is decided by the findings of each node and code alone: two runs that
  produce the same findings for every node and code, in whatever interleaving, print the same.
\<close>

theorem sort_findings_canonical:
  "sorted (map (\<lambda>f. (f_Node f, f_Code f)) (SortFindings fs)) \<and> mset (SortFindings fs) = mset fs
   \<and> ((\<forall>n c. filter (\<lambda>f. f_Node f = n \<and> f_Code f = c) fs = filter (\<lambda>f. f_Node f = n \<and> f_Code f = c) gs)
      \<longrightarrow> SortFindings fs = SortFindings gs)"
proof (intro conjI impI)
  assume eq: "\<forall>n c. filter (\<lambda>f. f_Node f = n \<and> f_Code f = c) fs = filter (\<lambda>f. f_Node f = n \<and> f_Code f = c) gs"
  then have "mset fs = mset gs"
    by (intro mset_eq_by_key [where f = "\<lambda>f. (f_Node f, f_Code f)"]) auto
  then show "SortFindings fs = SortFindings gs" using eq by (intro SortFindings_cong) auto
qed (rule SortFindings_sorted SortFindings_mset)+

definition sample_finding :: "string \<Rightarrow> string \<Rightarrow> Finding" where
  "sample_finding node code = \<lparr>f_Code = code, f_Severity = SeverityInfo, f_Node = node, f_Component = ''node'',
     f_Message = [], f_Evidence = [], f_Docs = [], f_Next = []\<rparr>"

theorem sort_findings_canonical_witness:
  "SortFindings [sample_finding ''b'' ''X'', sample_finding ''a'' ''X'']
   = SortFindings [sample_finding ''a'' ''X'', sample_finding ''b'' ''X'']"
  using sort_findings_canonical [of "[sample_finding ''b'' ''X'', sample_finding ''a'' ''X'']"
      "[sample_finding ''a'' ''X'', sample_finding ''b'' ''X'']"]
  by (auto simp: sample_finding_def)

end
