(* ===== verification/Source_Nodes.thy ===== *)
theory Source_Nodes
  imports Output_Contract
begin

text \<open>
  \<^verbatim>\<open>pkg/source/source.go\<close>: what makes a node a GPU node, the classification of a node list into
  GPU nodes and hinted nodes, and the interface every reader of cluster state implements, as a
  locale with the laws the commands rely on.
\<close>

subsection \<open>Names\<close>

definition DRADriverName :: string where "DRADriverName = ''gpu.nvidia.com''"
definition LabelPCIVendor :: string where "LabelPCIVendor = ''feature.node.kubernetes.io/pci-10de.present''"
definition LabelGPUPresent :: string where "LabelGPUPresent = ''nvidia.com/gpu.present''"
definition ResourceGPU :: string where "ResourceGPU = ''nvidia.com/gpu''"
definition ResourceGPUShared :: string where "ResourceGPUShared = ''nvidia.com/gpu.shared''"
definition ResourceMIGPrefix :: string where "ResourceMIGPrefix = ''nvidia.com/mig-''"
definition labelValueTrue :: string where "labelValueTrue = ''true''"

lemmas source_names = DRADriverName_def LabelPCIVendor_def LabelGPUPresent_def ResourceGPU_def
  ResourceGPUShared_def ResourceMIGPrefix_def labelValueTrue_def

subsection \<open>Membership\<close>

definition isGPUNode :: "Node \<Rightarrow> bool" where
  "isGPUNode node =
     (if \<exists>name \<in> set [ResourceGPU, ResourceGPUShared].
           (case map_of (node_Capacity node) name of None \<Rightarrow> False | Some q \<Rightarrow> Sign q > 0)
      then True
      else \<exists>(name, q) \<in> set (node_Capacity node). strings_HasPrefix name ResourceMIGPrefix \<and> Sign q > 0)"

definition hasHintLabel :: "Node \<Rightarrow> bool" where
  "hasHintLabel node \<longleftrightarrow> sget (node_Labels node) LabelPCIVendor = labelValueTrue
     \<or> sget (node_Labels node) LabelGPUPresent = labelValueTrue"

text \<open>The set of node names is a map to the empty struct.\<close>

fun sliceNodeNames_loop :: "ResourceSlice list \<Rightarrow> unit gomap \<Rightarrow> unit gomap" where
  "sliceNodeNames_loop [] out = out"
| "sliceNodeNames_loop (s # rest) out =
     (case slice_NodeName s of
        None \<Rightarrow> sliceNodeNames_loop rest out
      | Some n \<Rightarrow> if slice_Driver s \<noteq> DRADriverName \<or> n = [] then sliceNodeNames_loop rest out
                  else sliceNodeNames_loop rest (mput out n ()))"

definition sliceNodeNames :: "ResourceSlice list \<Rightarrow> unit gomap" where
  "sliceNodeNames slices = sliceNodeNames_loop slices []"

definition sortByName :: "Node list \<Rightarrow> Node list" where
  "sortByName nodes = sort_Slice node_Name nodes"

fun classifyNodes_loop :: "unit gomap \<Rightarrow> Node list \<Rightarrow> string list \<Rightarrow> Node list \<Rightarrow> Node list \<Rightarrow> Node list \<times> Node list" where
  "classifyNodes_loop fromSlices [] seen gpus hinted = (gpus, hinted)"
| "classifyNodes_loop fromSlices (n # rest) seen gpus hinted =
     (if node_Name n \<in> set seen then classifyNodes_loop fromSlices rest seen gpus hinted
      else if mhas fromSlices (node_Name n) \<or> isGPUNode n
        then classifyNodes_loop fromSlices rest (node_Name n # seen) (gpus @ [n]) hinted
      else if hasHintLabel n
        then classifyNodes_loop fromSlices rest (node_Name n # seen) gpus (hinted @ [n])
      else classifyNodes_loop fromSlices rest (node_Name n # seen) gpus hinted)"

definition classifyNodes :: "Node list \<Rightarrow> unit gomap \<Rightarrow> Node list \<times> Node list" where
  "classifyNodes nodes fromSlices =
     (let (gpus, hinted) = classifyNodes_loop fromSlices nodes [] [] []
      in (sortByName gpus, sortByName hinted))"

subsection \<open>What the classification does\<close>

abbreviation gpu_member :: "unit gomap \<Rightarrow> Node \<Rightarrow> bool" where
  "gpu_member fromSlices n \<equiv> mhas fromSlices (node_Name n) \<or> isGPUNode n"

lemma sliceNodeNames_loop_has:
  "mhas (sliceNodeNames_loop slices out) k \<longleftrightarrow> mhas out k \<or>
    (\<exists>s \<in> set slices. slice_Driver s = DRADriverName \<and> slice_NodeName s = Some k \<and> k \<noteq> [])"
  by (induction slices out rule: sliceNodeNames_loop.induct)
     (auto simp: gomap_simps split: option.splits if_splits)

lemma sliceNodeNames_has:
  "mhas (sliceNodeNames slices) k \<longleftrightarrow>
    (\<exists>s \<in> set slices. slice_Driver s = DRADriverName \<and> slice_NodeName s = Some k \<and> k \<noteq> [])"
  by (simp add: sliceNodeNames_def sliceNodeNames_loop_has) (simp add: mhas_def)

lemma classifyNodes_loop_eq:
  "classifyNodes_loop fs nodes seen gpus hinted =
    (gpus @ filter (gpu_member fs) (first_by node_Name nodes seen),
     hinted @ filter (\<lambda>n. \<not> gpu_member fs n \<and> hasHintLabel n) (first_by node_Name nodes seen))"
  by (induction fs nodes seen gpus hinted rule: classifyNodes_loop.induct) auto

lemma classifyNodes_eq:
  "classifyNodes nodes fs =
    (sortByName (filter (gpu_member fs) (first_by node_Name nodes [])),
     sortByName (filter (\<lambda>n. \<not> gpu_member fs n \<and> hasHintLabel n) (first_by node_Name nodes [])))"
  by (simp add: classifyNodes_def classifyNodes_loop_eq)

lemma sortByName_strict: "distinct (map node_Name ns) \<Longrightarrow> sorted_wrt (<) (map node_Name (sortByName ns))"
  by (simp add: strict_sorted_iff sortByName_def slice.sorter_distinct)

lemma sortByName_set [simp]: "set (sortByName ns) = set ns"
  by (simp add: sortByName_def)

subsection \<open>The source interface\<close>

text \<open>
  A reader of cluster state, over whatever it keeps between calls. The two readers that are not
  part of \<^verbatim>\<open>Source\<close> are optional, as the type assertions in \<^verbatim>\<open>ReadNodeEvents\<close> and
  \<^verbatim>\<open>ReadComputeDomains\<close> make them.
\<close>

type_synonym ('s, 'a) reader = "'s \<Rightarrow> ('a \<times> goerr option) \<times> 's"

record 's Source =
  src_ClassifyNodes :: "('s, Node list \<times> Node list) reader"
  src_Pods :: "string \<Rightarrow> string \<Rightarrow> ('s, Pod list) reader"
  src_ResourceSlices :: "('s, ResourceSlice list) reader"
  src_ClusterPolicies :: "('s, unstructured list) reader"
  src_NodeEvents :: "('s, Event list) reader option"
  src_ComputeDomains :: "('s, unstructured list) reader option"

definition onlyNodeEvents :: "Event list \<Rightarrow> Event list" where
  "onlyNodeEvents events = filter (\<lambda>e. event_ObjectKind e = ''Node'') events"

definition ReadNodeEvents :: "'s Source \<Rightarrow> ('s, Event list) reader" where
  "ReadNodeEvents src s = (case src_NodeEvents src of None \<Rightarrow> (([], None), s) | Some r \<Rightarrow> r s)"

definition ReadComputeDomains :: "'s Source \<Rightarrow> ('s, unstructured list) reader" where
  "ReadComputeDomains src s = (case src_ComputeDomains src of None \<Rightarrow> (([], None), s) | Some r \<Rightarrow> r s)"

text \<open>\<^verbatim>\<open>errors.As(err, &partial)\<close>.\<close>

fun is_PartialError :: "goerr \<Rightarrow> bool" where
  "is_PartialError (PartialError _ _) = True"
| "is_PartialError _ = False"

definition isPartial :: "goerr \<Rightarrow> bool" where
  "isPartial e \<longleftrightarrow> errors_As is_PartialError e \<noteq> None"

definition node_names :: "Node list \<Rightarrow> string set" where
  "node_names ns = node_Name ` set ns"

text \<open>
  What \<^verbatim>\<open>Source\<close> documents: both halves of a classification sorted by name and free of
  duplicates, no node in both, nothing returned with a failure that is not partial, and the
  slices those of the NVIDIA driver.
\<close>

locale node_source =
  fixes src :: "'s Source"
  assumes gpu_sorted: "src_ClassifyNodes src s = (((gpus, hinted), err), s')
      \<Longrightarrow> sorted_wrt (<) (map node_Name gpus)"
    and hinted_sorted: "src_ClassifyNodes src s = (((gpus, hinted), err), s')
      \<Longrightarrow> sorted_wrt (<) (map node_Name hinted)"
    and halves_disjoint: "src_ClassifyNodes src s = (((gpus, hinted), err), s')
      \<Longrightarrow> node_names gpus \<inter> node_names hinted = {}"
    and failed_empty: "src_ClassifyNodes src s = (((gpus, hinted), Some e), s')
      \<Longrightarrow> \<not> isPartial e \<Longrightarrow> gpus = [] \<and> hinted = []"
    and slices_of_driver: "src_ResourceSlices src s = ((slices, err), s')
      \<Longrightarrow> x \<in> set slices \<Longrightarrow> slice_Driver x = DRADriverName"
begin

lemma all_names_distinct:
  assumes "src_ClassifyNodes src s = (((gpus, hinted), err), s')"
  shows "distinct (map node_Name (gpus @ hinted))"
  using gpu_sorted [OF assms] hinted_sorted [OF assms] halves_disjoint [OF assms]
  by (auto simp: strict_sorted_iff node_names_def)

end

lemma classifyNodes_laws:
  assumes "classifyNodes nodes fs = (gpus, hinted)"
  shows "sorted_wrt (<) (map node_Name gpus)" "sorted_wrt (<) (map node_Name hinted)"
    and "node_names gpus \<inter> node_names hinted = {}"
proof -
  let ?u = "first_by node_Name nodes []"
  have eq: "gpus = sortByName (filter (gpu_member fs) ?u)"
    "hinted = sortByName (filter (\<lambda>n. \<not> gpu_member fs n \<and> hasHintLabel n) ?u)"
    using assms by (simp_all add: classifyNodes_eq)
  have d: "distinct (map node_Name ?u)" by (rule first_by_distinct)
  then show "sorted_wrt (<) (map node_Name gpus)" "sorted_wrt (<) (map node_Name hinted)"
    by (simp_all add: eq sortByName_strict distinct_filter_map)
  have "inj_on node_Name (set ?u)" using d by (simp add: distinct_map)
  then show "node_names gpus \<inter> node_names hinted = {}"
    by (auto simp: eq node_names_def dest: inj_onD)
qed

lemma classifyNodes_members:
  assumes "classifyNodes nodes fs = (gpus, hinted)"
  shows "set gpus = {n. first_of node_Name nodes n \<and> gpu_member fs n}"
    and "set hinted = {n. first_of node_Name nodes n \<and> \<not> gpu_member fs n \<and> hasHintLabel n}"
proof -
  have "gpus = sortByName (filter (gpu_member fs) (first_by node_Name nodes []))"
    "hinted = sortByName (filter (\<lambda>n. \<not> gpu_member fs n \<and> hasHintLabel n) (first_by node_Name nodes []))"
    using assms by (simp_all add: classifyNodes_eq)
  then show "set gpus = {n. first_of node_Name nodes n \<and> gpu_member fs n}"
    "set hinted = {n. first_of node_Name nodes n \<and> \<not> gpu_member fs n \<and> hasHintLabel n}"
    by (auto simp: first_by_iff)
qed

subsection \<open>Properties\<close>

text \<open>
  The classification returns, of each node name the first node of
  the list: those some slice names or whose capacity holds a positive GPU resource as GPU
  nodes, and of the others those with a discovery label as hinted. Both halves are strictly
  sorted by name, so free of duplicates, and no name is in both.
\<close>

theorem classify_nodes_spec:
  assumes "classifyNodes nodes (sliceNodeNames slices) = (gpus, hinted)"
  shows "sorted_wrt (<) (map node_Name gpus) \<and> sorted_wrt (<) (map node_Name hinted)
    \<and> node_names gpus \<inter> node_names hinted = {}
    \<and> set gpus = {n. first_of node_Name nodes n \<and> (isGPUNode n \<or>
        (\<exists>s \<in> set slices. slice_Driver s = DRADriverName \<and> slice_NodeName s = Some (node_Name n) \<and> node_Name n \<noteq> []))}
    \<and> set hinted = {n. first_of node_Name nodes n \<and> hasHintLabel n \<and> n \<notin> set gpus}"
  using classifyNodes_laws [OF assms] classifyNodes_members [OF assms]
  by (auto simp: sliceNodeNames_has)

definition sample_node :: "string \<Rightarrow> string gomap \<Rightarrow> resource_list \<Rightarrow> Node" where
  "sample_node name labels capacity = \<lparr>node_Name = name, node_Labels = labels, node_CreationTimestamp = 0,
     node_Unschedulable = False, node_Taints = [], node_Capacity = capacity, node_Allocatable = capacity,
     node_Conditions = [], node_Addresses = [],
     node_Info = \<lparr>ni_KubeletVersion = [], ni_OSImage = [], ni_KernelVersion = [], ni_ContainerRuntimeVersion = []\<rparr>\<rparr>"

theorem classify_nodes_spec_witness:
  "sorted_wrt (<) (map node_Name (fst (classifyNodes
     [sample_node ''b'' [] [(''nvidia.com/gpu'', quantity_of 8)],
      sample_node ''a'' [] [(''nvidia.com/mig-1g.10gb'', quantity_of 7)]] (sliceNodeNames []))))"
  using classify_nodes_spec [OF surjective_pairing] by blast

end
