(* ===== verification/Inventory_Model.thy ===== *)
theory Inventory_Model
  imports Source_Nodes
begin

text \<open>
  \<^verbatim>\<open>pkg/inventory\<close>: the GPU node model (\<^verbatim>\<open>types.go\<close>, \<^verbatim>\<open>types_components.go\<close>) and how one is built
  from a Kubernetes node and the facts about it (\<^verbatim>\<open>model.go\<close>).
\<close>

subsection \<open>Types\<close>

definition ModeDevicePlugin :: string where "ModeDevicePlugin = ''device-plugin''"
definition ModeDRA :: string where "ModeDRA = ''dra''"
definition ModeBoth :: string where "ModeBoth = ''both''"
definition ModeNone :: string where "ModeNone = ''none''"

lemmas mode_names = ModeDevicePlugin_def ModeDRA_def ModeBoth_def ModeNone_def

record ResourceCount =
  rc_Capacity :: int
  rc_Allocatable :: int

record MIG =
  mig_Strategy :: string
  mig_Config :: string
  mig_ConfigState :: string
  mig_Capable :: bool
  mig_Resources :: "ResourceCount gomap"

record Sharing =
  sh_Strategy :: string
  sh_Replicas :: int

record Termination =
  t_Observed :: bool
  t_ExitCode :: int
  t_Reason :: string
  t_FinishedAt :: string

record InitResult =
  ir_Name :: string
  ir_ExitCode :: "int option"
  ir_Reason :: string
  ir_LastTermination :: Termination

record OperandPod =
  op_Name :: string
  op_Namespace :: string
  op_Component :: string
  op_Phase :: string
  op_Restarts :: int
  op_Images :: "string list"
  op_Ready :: bool
  op_LastTermination :: Termination
  op_InitContainers :: "InitResult list"

record GPUNode =
  g_Name :: string
  g_Labels :: "string gomap"
  g_CreationTimestamp :: time
  g_Product :: string
  g_Count :: int
  g_Capacity :: int
  g_Allocatable :: int
  g_Requested :: int
  g_RequestedKnown :: bool
  g_DriverVersion :: string
  g_CUDAVersion :: string
  g_Mode :: string
  g_MIG :: MIG
  g_Sharing :: Sharing
  g_UpgradeState :: string
  g_Deploy :: "string gomap"
  g_Clique :: string
  g_Topology :: "string gomap"
  g_Ready :: bool
  g_Unschedulable :: bool
  g_Taints :: "Taint list"
  g_Conditions :: "NodeCondition list"
  g_Operands :: "OperandPod list"
  g_ResourceSlices :: "string list"
  g_Hinted :: bool

type_synonym GPUNodeList = "GPUNode list"

subsection \<open>Components\<close>

definition ComponentDriver :: string where "ComponentDriver = ''nvidia-driver-daemonset''"
definition ComponentVGPUManager :: string where "ComponentVGPUManager = ''nvidia-vgpu-manager-daemonset''"
definition ComponentContainerToolkit :: string where "ComponentContainerToolkit = ''nvidia-container-toolkit-daemonset''"
definition ComponentDevicePlugin :: string where "ComponentDevicePlugin = ''nvidia-device-plugin-daemonset''"
definition ComponentGFD :: string where "ComponentGFD = ''gpu-feature-discovery''"
definition ComponentDCGM :: string where "ComponentDCGM = ''nvidia-dcgm''"
definition ComponentDCGMExporter :: string where "ComponentDCGMExporter = ''nvidia-dcgm-exporter''"
definition ComponentOperatorValidator :: string where "ComponentOperatorValidator = ''nvidia-operator-validator''"
definition ComponentMIGManager :: string where "ComponentMIGManager = ''nvidia-mig-manager''"
definition ComponentNodeStatusExporter :: string where "ComponentNodeStatusExporter = ''nvidia-node-status-exporter''"
definition ComponentOperator :: string where "ComponentOperator = ''gpu-operator''"
definition ComponentDRADriver :: string where "ComponentDRADriver = ''nvidia-dra-driver-kubelet-plugin''"
definition ComponentIMEXDaemon :: string where "ComponentIMEXDaemon = ''compute-domain-daemon''"

lemmas component_names = ComponentDriver_def ComponentVGPUManager_def ComponentContainerToolkit_def
  ComponentDevicePlugin_def ComponentGFD_def ComponentDCGM_def ComponentDCGMExporter_def
  ComponentOperatorValidator_def ComponentMIGManager_def ComponentNodeStatusExporter_def
  ComponentOperator_def ComponentDRADriver_def ComponentIMEXDaemon_def

definition DeployLabelPrefix :: string where "DeployLabelPrefix = ''nvidia.com/gpu.deploy.''"

definition Components :: "string list" where
  "Components = [ComponentDriver, ComponentVGPUManager, ComponentContainerToolkit, ComponentDevicePlugin,
     ComponentGFD, ComponentDCGM, ComponentDCGMExporter, ComponentOperatorValidator, ComponentMIGManager,
     ComponentNodeStatusExporter, ComponentOperator, ComponentDRADriver, ComponentIMEXDaemon]"

definition componentForDeployKey :: "string gomap" where
  "componentForDeployKey =
     [(''driver'', ComponentDriver), (''vgpu-manager'', ComponentVGPUManager),
      (''container-toolkit'', ComponentContainerToolkit), (''device-plugin'', ComponentDevicePlugin),
      (''gpu-feature-discovery'', ComponentGFD), (''dcgm'', ComponentDCGM),
      (''dcgm-exporter'', ComponentDCGMExporter), (''operator-validator'', ComponentOperatorValidator),
      (''mig-manager'', ComponentMIGManager), (''node-status-exporter'', ComponentNodeStatusExporter),
      (''dra-driver'', ComponentDRADriver)]"

definition DeployKeys :: "string list" where
  "DeployKeys = sort_Strings (map fst componentForDeployKey)"

definition ComponentForDeployKey :: "string \<Rightarrow> string option" where
  "ComponentForDeployKey key = map_of componentForDeployKey key"

definition DeployLabel :: "string \<Rightarrow> string" where
  "DeployLabel key = DeployLabelPrefix @ key"

subsection \<open>Labels\<close>

definition LabelProduct :: string where "LabelProduct = ''nvidia.com/gpu.product''"
definition LabelCount :: string where "LabelCount = ''nvidia.com/gpu.count''"
definition LabelClique :: string where "LabelClique = ''nvidia.com/gpu.clique''"
definition LabelDriverVersionFull :: string where "LabelDriverVersionFull = ''nvidia.com/cuda.driver-version.full''"
definition LabelRuntimeVersionFull :: string where "LabelRuntimeVersionFull = ''nvidia.com/cuda.runtime-version.full''"
definition LabelDriverMajor :: string where "LabelDriverMajor = ''nvidia.com/cuda.driver.major''"
definition LabelDriverMinor :: string where "LabelDriverMinor = ''nvidia.com/cuda.driver.minor''"
definition LabelDriverRev :: string where "LabelDriverRev = ''nvidia.com/cuda.driver.rev''"
definition LabelRuntimeMajor :: string where "LabelRuntimeMajor = ''nvidia.com/cuda.runtime.major''"
definition LabelRuntimeMinor :: string where "LabelRuntimeMinor = ''nvidia.com/cuda.runtime.minor''"
definition LabelMIGStrategy :: string where "LabelMIGStrategy = ''nvidia.com/mig.strategy''"
definition LabelMIGCapable :: string where "LabelMIGCapable = ''nvidia.com/mig.capable''"
definition LabelMIGConfig :: string where "LabelMIGConfig = ''nvidia.com/mig.config''"
definition LabelMIGConfigState :: string where "LabelMIGConfigState = ''nvidia.com/mig.config.state''"
definition LabelSharingStrategy :: string where "LabelSharingStrategy = ''nvidia.com/gpu.sharing-strategy''"
definition LabelReplicas :: string where "LabelReplicas = ''nvidia.com/gpu.replicas''"
definition LabelUpgradeState :: string where "LabelUpgradeState = ''nvidia.com/gpu-driver-upgrade-state''"
definition TopologyFabricPrefix :: string where "TopologyFabricPrefix = ''fabric.topograph.run/tier-''"
definition TopologyAcceleratorDomain :: string where "TopologyAcceleratorDomain = ''accelerator.topograph.run/domain''"
definition TopologyAcceleratorSubDomain :: string where "TopologyAcceleratorSubDomain = ''accelerator.topograph.run/sub-domain''"

subsection \<open>Reading one node\<close>

definition quantity_in :: "resource_list \<Rightarrow> string \<Rightarrow> int" where
  "quantity_in rl name = (case map_of rl name of None \<Rightarrow> 0 | Some q \<Rightarrow> Value q)"

definition wholeGPUs :: "resource_list \<Rightarrow> int" where
  "wholeGPUs rl = wrap64 (quantity_in rl ResourceGPU + quantity_in rl ResourceGPUShared)"

definition atoi :: "string \<Rightarrow> int" where
  "atoi s = (case strconv_Atoi s of None \<Rightarrow> 0 | Some n \<Rightarrow> n)"

definition isReady :: "Node \<Rightarrow> bool" where
  "isReady node = (case find (\<lambda>c. cond_Type c = ''Ready'') (node_Conditions node) of
     None \<Rightarrow> False | Some c \<Rightarrow> cond_Status c = ''True'')"

definition joinVersion :: "string list \<Rightarrow> string" where
  "joinVersion parts = strings_Join (takeWhile (\<lambda>p. p \<noteq> []) parts) ''.''"

definition driverVersion :: "string gomap \<Rightarrow> string" where
  "driverVersion labels = (let full = sget labels LabelDriverVersionFull in
     if full \<noteq> [] then full
     else joinVersion [sget labels LabelDriverMajor, sget labels LabelDriverMinor, sget labels LabelDriverRev])"

definition cudaVersion :: "string gomap \<Rightarrow> string" where
  "cudaVersion labels = (let full = sget labels LabelRuntimeVersionFull in
     if full \<noteq> [] then full
     else joinVersion [sget labels LabelRuntimeMajor, sget labels LabelRuntimeMinor])"

text \<open>The loops over a map put each entry they keep under its key.\<close>

fun range_put :: "(string \<Rightarrow> 'v \<Rightarrow> (string \<times> 'w) option) \<Rightarrow> 'v gomap \<Rightarrow> 'w gomap \<Rightarrow> 'w gomap" where
  "range_put f [] out = out"
| "range_put f ((k, v) # rest) out =
     (case f k v of None \<Rightarrow> range_put f rest out | Some (k', w) \<Rightarrow> range_put f rest (mput out k' w))"

definition deployLabels :: "string gomap \<Rightarrow> string gomap" where
  "deployLabels labels = range_put (\<lambda>name value. case strings_CutPrefix name DeployLabelPrefix of
     None \<Rightarrow> None | Some key \<Rightarrow> if key = [] then None else Some (key, value)) labels []"

definition isTopologyLabel :: "string \<Rightarrow> bool" where
  "isTopologyLabel name \<longleftrightarrow> strings_HasPrefix name TopologyFabricPrefix
     \<or> name = TopologyAcceleratorDomain \<or> name = TopologyAcceleratorSubDomain"

definition topologyLabels :: "string gomap \<Rightarrow> string gomap" where
  "topologyLabels labels = range_put (\<lambda>name value. if isTopologyLabel name then Some (name, value) else None) labels []"

definition migResources :: "Node \<Rightarrow> ResourceCount gomap" where
  "migResources node = range_put (\<lambda>name q. if strings_HasPrefix name ResourceMIGPrefix
     then Some (name, \<lparr>rc_Capacity = Value q, rc_Allocatable = quantity_in (node_Allocatable node) name\<rparr>)
     else None) (node_Capacity node) []"

definition isGPUResource :: "string \<Rightarrow> bool" where
  "isGPUResource name \<longleftrightarrow> name = ResourceGPU \<or> name = ResourceGPUShared \<or> strings_HasPrefix name ResourceMIGPrefix"

definition mode :: "Node \<Rightarrow> bool \<Rightarrow> string" where
  "mode node hasSlice =
     (let byPlugin = (\<exists>(name, q) \<in> set (node_Capacity node). isGPUResource name \<and> Sign q > 0)
      in if byPlugin \<and> hasSlice then ModeBoth
         else if byPlugin then ModeDevicePlugin
         else if hasSlice then ModeDRA else ModeNone)"

record nodeContext =
  nc_hinted :: bool
  nc_sliceNames :: "string list"
  nc_requested :: int
  nc_requestedKnown :: bool
  nc_operands :: "OperandPod list"
  nc_withDetails :: bool

definition buildNode :: "Node \<Rightarrow> nodeContext \<Rightarrow> GPUNode" where
  "buildNode node ctx = (let labels = node_Labels node in
     \<lparr>g_Name = node_Name node, g_Labels = labels, g_CreationTimestamp = node_CreationTimestamp node,
      g_Product = sget labels LabelProduct, g_Count = atoi (sget labels LabelCount),
      g_Capacity = wholeGPUs (node_Capacity node), g_Allocatable = wholeGPUs (node_Allocatable node),
      g_Requested = (if nc_requestedKnown ctx then nc_requested ctx else 0),
      g_RequestedKnown = nc_requestedKnown ctx,
      g_DriverVersion = driverVersion labels, g_CUDAVersion = cudaVersion labels,
      g_Mode = mode node (nc_sliceNames ctx \<noteq> []),
      g_MIG = \<lparr>mig_Strategy = sget labels LabelMIGStrategy, mig_Config = sget labels LabelMIGConfig,
        mig_ConfigState = sget labels LabelMIGConfigState,
        mig_Capable = (sget labels LabelMIGCapable = labelValueTrue), mig_Resources = migResources node\<rparr>,
      g_Sharing = \<lparr>sh_Strategy = sget labels LabelSharingStrategy, sh_Replicas = atoi (sget labels LabelReplicas)\<rparr>,
      g_UpgradeState = sget labels LabelUpgradeState, g_Deploy = deployLabels labels,
      g_Clique = sget labels LabelClique, g_Topology = topologyLabels labels,
      g_Ready = isReady node, g_Unschedulable = node_Unschedulable node, g_Taints = node_Taints node,
      g_Conditions = (if nc_withDetails ctx then node_Conditions node else []),
      g_Operands = nc_operands ctx,
      g_ResourceSlices = (if nc_withDetails ctx then nc_sliceNames ctx else []),
      g_Hinted = nc_hinted ctx\<rparr>)"

subsection \<open>The maps a node carries\<close>

lemma range_put_wf: "wf_map out \<Longrightarrow> wf_map (range_put f m out)"
  by (induction f m out rule: range_put.induct) (auto split: option.splits)

text \<open>
  When the loop keeps some keys and renames them injectively, what it computes does not depend
  on the order of iteration.
\<close>

lemma range_put_hit:
  assumes "wf_map m" and inj: "\<And>a b. P a \<Longrightarrow> P b \<Longrightarrow> g a = g b \<Longrightarrow> a = b" and "P k"
  shows "map_of (range_put (\<lambda>k v. if P k then Some (g k, h k v) else None) m out) (g k)
    = (case map_of m k of None \<Rightarrow> map_of out (g k) | Some v \<Rightarrow> Some (h k v))"
  using assms(1)
proof (induction m arbitrary: out)
  case (Cons e m)
  obtain j v where e: "e = (j, v)" by (cases e)
  have wf: "wf_map m" and j: "map_of m j = None"
    using Cons.prems by (simp_all add: e wf_map_def map_of_eq_None_iff)
  show ?case
  proof (cases "P j")
    case True
    have "g k = g j \<longleftrightarrow> k = j" using inj [OF \<open>P k\<close> True] by auto
    then show ?thesis using True j Cons.IH [OF wf, of "mput out (g j) (h j v)"]
      by (auto simp: e gomap_simps split: option.splits)
  next
    case False
    then have "k \<noteq> j" using \<open>P k\<close> by auto
    then show ?thesis using False by (simp add: e Cons.IH [OF wf])
  qed
qed simp

lemma range_put_miss:
  assumes "\<And>k. P k \<Longrightarrow> g k \<noteq> k'"
  shows "map_of (range_put (\<lambda>k v. if P k then Some (g k, h k v) else None) m out) k' = map_of out k'"
proof (induction m arbitrary: out)
  case (Cons e m)
  obtain j v where e: "e = (j, v)" by (cases e)
  have "P j \<Longrightarrow> k' \<noteq> g j" using assms [of j] by auto
  then show ?case by (simp add: e Cons.IH gomap_simps)
qed simp

lemma deploy_filter:
  "(\<lambda>name value. case strings_CutPrefix name DeployLabelPrefix of
     None \<Rightarrow> None | Some key \<Rightarrow> if key = [] then None else Some (key, value))
   = (\<lambda>name value. if \<exists>key. key \<noteq> [] \<and> name = DeployLabel key
       then Some (drop (length DeployLabelPrefix) name, value) else None)"
proof (intro ext)
  fix name and val :: 'a
  show "(case strings_CutPrefix name DeployLabelPrefix of
     None \<Rightarrow> None | Some key \<Rightarrow> if key = [] then None else Some (key, val))
   = (if \<exists>key. key \<noteq> [] \<and> name = DeployLabel key
       then Some (drop (length DeployLabelPrefix) name, val) else None)"
  proof (cases "strings_CutPrefix name DeployLabelPrefix")
    case None
    then have "name \<noteq> DeployLabelPrefix @ key" for key
      using cutPrefix_Some_iff [of name DeployLabelPrefix key] by auto
    then show ?thesis using None by (simp add: DeployLabel_def)
  next
    case (Some key)
    then have "name = DeployLabelPrefix @ key" by (simp add: cutPrefix_Some_iff)
    then show ?thesis using Some by (simp add: DeployLabel_def)
  qed
qed

lemma deployLabels_lookup:
  assumes "wf_map labels"
  shows "map_of (deployLabels labels) key = (if key = [] then None else map_of labels (DeployLabel key))"
proof (cases "key = []")
  case True
  then show ?thesis unfolding deployLabels_def deploy_filter
    by (subst range_put_miss) (auto simp: DeployLabel_def)
next
  case False
  have "map_of (deployLabels labels) (drop (length DeployLabelPrefix) (DeployLabel key))
      = (case map_of labels (DeployLabel key) of None \<Rightarrow> map_of [] key | Some v \<Rightarrow> Some v)"
    unfolding deployLabels_def deploy_filter
    by (subst range_put_hit [OF assms]) (use False in \<open>auto simp: DeployLabel_def split: option.splits\<close>)
  then show ?thesis using False by (simp add: DeployLabel_def split: option.splits)
qed

lemma topologyLabels_lookup:
  assumes "wf_map labels"
  shows "map_of (topologyLabels labels) k = (if isTopologyLabel k then map_of labels k else None)"
  using range_put_hit [OF assms, of isTopologyLabel "\<lambda>k. k" k "\<lambda>k v. v" "[]"]
    range_put_miss [of isTopologyLabel "\<lambda>k. k" k "\<lambda>k v. v" labels "[]"]
  by (cases "isTopologyLabel k") (auto simp: topologyLabels_def split: option.splits)

lemma migResources_lookup:
  assumes "wf_map (node_Capacity node)"
  shows "map_of (migResources node) name = (if strings_HasPrefix name ResourceMIGPrefix
    then map_option (\<lambda>q. \<lparr>rc_Capacity = Value q, rc_Allocatable = quantity_in (node_Allocatable node) name\<rparr>)
      (map_of (node_Capacity node) name) else None)"
proof -
  let ?P = "\<lambda>name. strings_HasPrefix name ResourceMIGPrefix"
  let ?h = "\<lambda>name q. \<lparr>rc_Capacity = Value q, rc_Allocatable = quantity_in (node_Allocatable node) name\<rparr>"
  show ?thesis
    using range_put_hit [OF assms, of ?P "\<lambda>k. k" name ?h "[]"]
      range_put_miss [of ?P "\<lambda>k. k" name ?h "node_Capacity node" "[]"]
    by (cases "?P name") (auto simp: migResources_def split: option.splits)
qed

lemma wf_node_maps [simp]: "wf_map (deployLabels l)" "wf_map (topologyLabels l)" "wf_map (migResources n)"
  by (simp_all add: deployLabels_def topologyLabels_def migResources_def range_put_wf)

subsection \<open>Modes\<close>

lemma isGPUNode_iff:
  assumes "wf_map (node_Capacity node)"
  shows "isGPUNode node \<longleftrightarrow> (\<exists>(name, q) \<in> set (node_Capacity node). isGPUResource name \<and> Sign q > 0)"
proof -
  have m: "map_of (node_Capacity node) k = Some q \<longleftrightarrow> (k, q) \<in> set (node_Capacity node)" for k q
    using assms by (simp add: wf_map_def)
  have "(case map_of (node_Capacity node) k of None \<Rightarrow> False | Some q \<Rightarrow> Sign q > 0)
      \<longleftrightarrow> (\<exists>q. (k, q) \<in> set (node_Capacity node) \<and> Sign q > 0)" for k
    by (simp add: m [symmetric] split: option.splits)
  then show ?thesis by (auto simp: isGPUNode_def isGPUResource_def)
qed

lemma mode_none_iff:
  assumes "wf_map (node_Capacity node)"
  shows "mode node hasSlice = ModeNone \<longleftrightarrow> \<not> isGPUNode node \<and> \<not> hasSlice"
  by (simp add: mode_def Let_def mode_names isGPUNode_iff [OF assms])

lemma mode_dra_iff:
  assumes "wf_map (node_Capacity node)"
  shows "mode node hasSlice = ModeDRA \<longleftrightarrow> \<not> isGPUNode node \<and> hasSlice"
  by (simp add: mode_def Let_def mode_names isGPUNode_iff [OF assms])

lemma mode_both_iff:
  assumes "wf_map (node_Capacity node)"
  shows "mode node hasSlice = ModeBoth \<longleftrightarrow> isGPUNode node \<and> hasSlice"
  by (simp add: mode_def Let_def mode_names isGPUNode_iff [OF assms])

subsection \<open>Properties\<close>

text \<open>
  The maps of a built node read back the node: the deploy map
  holds, under each non-empty key, exactly the value of that key's deploy label; the topology
  map exactly the Topograph labels; and the MIG map, per MIG profile of the capacity, that
  capacity and the allocatable amount of the same name. None depends on the order the node's
  maps are iterated in.
\<close>

theorem build_node_reads_labels:
  assumes "wf_map (node_Labels node)" and "wf_map (node_Capacity node)"
  shows "map_of (g_Deploy (buildNode node ctx)) key
      = (if key = [] then None else map_of (node_Labels node) (DeployLabel key))
    \<and> map_of (g_Topology (buildNode node ctx)) k
      = (if isTopologyLabel k then map_of (node_Labels node) k else None)
    \<and> map_of (mig_Resources (g_MIG (buildNode node ctx))) name
      = (if strings_HasPrefix name ResourceMIGPrefix
         then map_option (\<lambda>q. \<lparr>rc_Capacity = Value q, rc_Allocatable = quantity_in (node_Allocatable node) name\<rparr>)
           (map_of (node_Capacity node) name) else None)"
  using deployLabels_lookup [OF assms(1)] topologyLabels_lookup [OF assms(1)] migResources_lookup [OF assms(2)]
  by (simp add: buildNode_def Let_def)

theorem build_node_reads_labels_witness:
  "map_of (g_Deploy (buildNode (sample_node ''a'' [(''nvidia.com/gpu.deploy.driver'', ''false'')] [])
     \<lparr>nc_hinted = False, nc_sliceNames = [], nc_requested = 0, nc_requestedKnown = True, nc_operands = [],
      nc_withDetails = True\<rparr>)) ''driver'' = Some ''false''"
  using build_node_reads_labels [of "sample_node ''a'' [(''nvidia.com/gpu.deploy.driver'', ''false'')] []"
      "\<lparr>nc_hinted = False, nc_sliceNames = [], nc_requested = 0, nc_requestedKnown = True, nc_operands = [],
      nc_withDetails = True\<rparr>" "''driver''"]
  by (simp add: sample_node_def DeployLabel_def DeployLabelPrefix_def wf_map_def)

text \<open>
  The mode of a built node and its membership agree: a node has
  some mode exactly when its capacity makes it a GPU node or a slice names it, it is in mode
  both exactly when both hold, and in mode dra exactly when only the slice does.
\<close>

theorem mode_matches_membership:
  assumes "wf_map (node_Capacity node)"
  shows "(g_Mode (buildNode node ctx) \<noteq> ModeNone \<longleftrightarrow> isGPUNode node \<or> nc_sliceNames ctx \<noteq> [])
    \<and> (g_Mode (buildNode node ctx) = ModeBoth \<longleftrightarrow> isGPUNode node \<and> nc_sliceNames ctx \<noteq> [])
    \<and> (g_Mode (buildNode node ctx) = ModeDRA \<longleftrightarrow> \<not> isGPUNode node \<and> nc_sliceNames ctx \<noteq> [])"
  using mode_none_iff [OF assms] mode_both_iff [OF assms] mode_dra_iff [OF assms]
  by (simp add: buildNode_def Let_def)

theorem mode_matches_membership_witness:
  "g_Mode (buildNode (sample_node ''a'' [] [(''nvidia.com/mig-1g.10gb'', quantity_of 7)])
     \<lparr>nc_hinted = False, nc_sliceNames = [''s''], nc_requested = 0, nc_requestedKnown = True, nc_operands = [],
      nc_withDetails = True\<rparr>) = ModeBoth"
  using mode_matches_membership [of "sample_node ''a'' [] [(''nvidia.com/mig-1g.10gb'', quantity_of 7)]"
      "\<lparr>nc_hinted = False, nc_sliceNames = [''s''], nc_requested = 0, nc_requestedKnown = True, nc_operands = [],
      nc_withDetails = True\<rparr>"]
  by (simp add: sample_node_def wf_map_def isGPUNode_def strings_HasPrefix_def source_names Sign_def quantity_of_def)

end
