(* ===== verification/Inventory_Pods.thy ===== *)
theory Inventory_Pods
  imports Inventory_Model
begin

text \<open>
  What pods contribute to a node: which pods are operands and of which component
  (\<^verbatim>\<open>operands.go\<close>, \<^verbatim>\<open>driverpods.go\<close>), when their containers last exited, and how many GPUs the
  pods of a node ask for (\<^verbatim>\<open>requested.go\<close>).
\<close>

subsection \<open>Driver pods\<close>

definition appLabel :: string where "appLabel = ''app''"
definition componentLabel :: string where "componentLabel = ''app.kubernetes.io/component''"
definition nameLabel :: string where "nameLabel = ''app.kubernetes.io/name''"
definition LabelComputeDomain :: string where "LabelComputeDomain = ''resource.nvidia.com/computeDomain''"

record driverSelector =
  ds_key :: string
  ds_value :: string
  ds_component :: string

definition driverSelectors :: "driverSelector list" where
  "driverSelectors =
     [\<lparr>ds_key = appLabel, ds_value = ComponentDriver, ds_component = ComponentDriver\<rparr>,
      \<lparr>ds_key = componentLabel, ds_value = ''nvidia-driver'', ds_component = ComponentDriver\<rparr>,
      \<lparr>ds_key = appLabel, ds_value = ComponentVGPUManager, ds_component = ComponentVGPUManager\<rparr>,
      \<lparr>ds_key = ''openshift.driver-toolkit'', ds_value = [], ds_component = ComponentDriver\<rparr>]"

definition DriverSelectors :: "string list" where
  "DriverSelectors = map (\<lambda>s. if ds_value s = [] then ds_key s else ds_key s @ ''='' @ ds_value s) driverSelectors"

fun DriverComponent_loop :: "driverSelector list \<Rightarrow> string gomap \<Rightarrow> string option" where
  "DriverComponent_loop [] labels = None"
| "DriverComponent_loop (s # rest) labels =
     (case map_of labels (ds_key s) of
        None \<Rightarrow> DriverComponent_loop rest labels
      | Some v \<Rightarrow> if ds_value s = [] \<or> ds_value s = v then Some (ds_component s)
                  else DriverComponent_loop rest labels)"

definition DriverComponent :: "string gomap \<Rightarrow> string option" where
  "DriverComponent labels = DriverComponent_loop driverSelectors labels"

subsection \<open>Terminations\<close>

definition no_termination :: Termination where
  "no_termination = \<lparr>t_Observed = False, t_ExitCode = 0, t_Reason = [], t_FinishedAt = []\<rparr>"

definition terminationFrom :: "ContainerState \<Rightarrow> Termination" where
  "terminationFrom st = (case state_Terminated st of None \<Rightarrow> no_termination
     | Some t \<Rightarrow> \<lparr>t_Observed = True, t_ExitCode = term_ExitCode t, t_Reason = term_Reason t,
         t_FinishedAt = (if time_IsZero (term_FinishedAt t) then [] else rfc3339 (term_FinishedAt t))\<rparr>)"

definition lastTermination :: "ContainerStatus \<Rightarrow> Termination" where
  "lastTermination s =
     (let current = terminationFrom (cs_State s); previous = terminationFrom (cs_LastTerminationState s)
      in if \<not> t_Observed current then previous
         else if \<not> t_Observed previous then current
         else if t_FinishedAt previous > t_FinishedAt current then previous else current)"

fun newestTermination_loop :: "ContainerStatus list \<Rightarrow> Termination \<Rightarrow> Termination" where
  "newestTermination_loop [] newest = newest"
| "newestTermination_loop (s # rest) newest =
     (let candidate = lastTermination s
      in if \<not> t_Observed candidate then newestTermination_loop rest newest
         else if \<not> t_Observed newest \<or> t_FinishedAt candidate > t_FinishedAt newest
           then newestTermination_loop rest candidate
         else newestTermination_loop rest newest)"

definition newestTermination :: "ContainerStatus list \<Rightarrow> Termination" where
  "newestTermination statuses = newestTermination_loop statuses no_termination"

subsection \<open>Operand pods\<close>

definition draComponentLabelKeys :: "string list" where
  "draComponentLabelKeys = [''nvidia-dra-driver-gpu-component'', ''dra-driver-nvidia-gpu-component'']"

definition draComponent :: "Pod \<Rightarrow> string" where
  "draComponent pod =
     (if mhas (pod_Labels pod) LabelComputeDomain then ComponentIMEXDaemon
      else if sget (pod_Labels pod) appLabel = ComponentDRADriver then ComponentDRADriver
      else if \<exists>key \<in> set draComponentLabelKeys. sget (pod_Labels pod) key = ''kubelet-plugin'' then ComponentDRADriver
      else [])"

definition controllerName :: "Pod \<Rightarrow> string" where
  "controllerName pod = (case find (\<lambda>ref. owner_Controller ref = Some True) (pod_OwnerReferences pod) of
     None \<Rightarrow> [] | Some ref \<Rightarrow> owner_Name ref)"

definition componentOf :: "Pod \<Rightarrow> string" where
  "componentOf pod = (case DriverComponent (pod_Labels pod) of Some driver \<Rightarrow> driver
     | None \<Rightarrow>
       if sget (pod_Labels pod) appLabel \<noteq> [] then sget (pod_Labels pod) appLabel
       else if draComponent pod \<noteq> [] then draComponent pod
       else if sget (pod_Labels pod) componentLabel \<noteq> [] then sget (pod_Labels pod) componentLabel
       else if sget (pod_Labels pod) nameLabel \<noteq> [] then sget (pod_Labels pod) nameLabel
       else if controllerName pod \<noteq> [] then controllerName pod
       else pod_Name pod)"

fun operatorNamespace :: "Pod list \<Rightarrow> string" where
  "operatorNamespace [] = []"
| "operatorNamespace (pod # rest) =
     (if componentOf pod = ComponentOperator then pod_Namespace pod else operatorNamespace rest)"

definition isOperand :: "Pod \<Rightarrow> string \<Rightarrow> bool" where
  "isOperand pod ns = (if draComponent pod \<noteq> [] then True else ns \<noteq> [] \<and> pod_Namespace pod = ns)"

fun images_add :: "Container list \<Rightarrow> string list \<times> string list \<Rightarrow> string list \<times> string list" where
  "images_add [] (seen, out) = (seen, out)"
| "images_add (c # rest) (seen, out) =
     (if c_Image c = [] then images_add rest (seen, out)
      else if c_Image c \<in> set seen then images_add rest (seen, out)
      else images_add rest (c_Image c # seen, out @ [c_Image c]))"

definition images :: "Pod \<Rightarrow> string list" where
  "images pod = snd (images_add (spec_Containers (pod_Spec pod))
     (images_add (spec_InitContainers (pod_Spec pod)) ([], [])))"

definition allReady :: "ContainerStatus list \<Rightarrow> bool" where
  "allReady statuses = (if statuses = [] then False else list_all cs_Ready statuses)"

definition initResult :: "ContainerStatus \<Rightarrow> InitResult" where
  "initResult s =
     (let (code, reason) = (case state_Terminated (cs_State s) of
          Some t \<Rightarrow> (Some (term_ExitCode t), term_Reason t)
        | None \<Rightarrow> (case state_Waiting (cs_State s) of
            Some reason \<Rightarrow> (None, reason)
          | None \<Rightarrow> if state_Running (cs_State s) then (None, ''Running'') else (None, [])))
      in \<lparr>ir_Name = cs_Name s, ir_ExitCode = code, ir_Reason = reason, ir_LastTermination = lastTermination s\<rparr>)"

definition initResults :: "ContainerStatus list \<Rightarrow> InitResult list" where
  "initResults statuses = map initResult statuses"

definition operandFromPod :: "Pod \<Rightarrow> OperandPod" where
  "operandFromPod pod =
     \<lparr>op_Name = pod_Name pod, op_Namespace = pod_Namespace pod, op_Component = componentOf pod,
      op_Phase = pod_Phase pod, op_Restarts = sum_wrap 32 (map cs_RestartCount (pod_ContainerStatuses pod)),
      op_Images = images pod, op_Ready = allReady (pod_ContainerStatuses pod),
      op_LastTermination = newestTermination (pod_ContainerStatuses pod),
      op_InitContainers = (if componentOf pod = ComponentOperatorValidator
        then initResults (pod_InitContainerStatuses pod) else [])\<rparr>"

definition pod_node :: "Pod \<Rightarrow> string" where
  "pod_node pod = spec_NodeName (pod_Spec pod)"

definition operandsByNode :: "Pod list \<Rightarrow> string \<Rightarrow> OperandPod list gomap" where
  "operandsByNode pods ns =
     map (\<lambda>(node, operands). (node, sort_Slice op_Name operands))
       (group_into pod_node operandFromPod
          (filter (\<lambda>pod. \<not> (pod_node pod = [] \<or> \<not> isOperand pod ns)) pods) [])"

subsection \<open>Requests\<close>

definition containerRequest :: "Container \<Rightarrow> string \<Rightarrow> int" where
  "containerRequest c name = (case map_of (c_Requests c) name of
       Some q \<Rightarrow> Value q
     | None \<Rightarrow> (case map_of (c_Limits c) name of None \<Rightarrow> 0 | Some q \<Rightarrow> Value q))"

definition gpuRequest :: "Container \<Rightarrow> int" where
  "gpuRequest c = wrap64 (containerRequest c ResourceGPU + containerRequest c ResourceGPUShared)"

definition isRestartable :: "Container \<Rightarrow> bool" where
  "isRestartable c \<longleftrightarrow> c_RestartPolicy c = Some ''Always''"

fun init_loop :: "Container list \<Rightarrow> int \<times> int \<Rightarrow> int \<times> int" where
  "init_loop [] (sidecars, peak) = (sidecars, peak)"
| "init_loop (c # rest) (sidecars, peak) =
     (if isRestartable c
      then (let sidecars = wrap64 (sidecars + gpuRequest c) in init_loop rest (sidecars, max peak sidecars))
      else init_loop rest (sidecars, max peak (wrap64 (sidecars + gpuRequest c))))"

definition PodSpecGPURequest :: "PodSpec \<Rightarrow> int" where
  "PodSpecGPURequest spec =
     (let containers = sum_wrap 64 (map gpuRequest (spec_Containers spec));
          (sidecars, peak) = init_loop (spec_InitContainers spec) (0, 0)
      in max peak (wrap64 (containers + sidecars)))"

definition podGPURequest :: "Pod \<Rightarrow> int" where
  "podGPURequest pod = PodSpecGPURequest (pod_Spec pod)"

fun requestedByNode_loop :: "Pod list \<Rightarrow> int gomap \<Rightarrow> int gomap" where
  "requestedByNode_loop [] out = out"
| "requestedByNode_loop (pod # rest) out =
     (if pod_node pod = [] then requestedByNode_loop rest out
      else if pod_Phase pod = ''Succeeded'' \<or> pod_Phase pod = ''Failed'' then requestedByNode_loop rest out
      else let n = podGPURequest pod in
        if n = 0 then requestedByNode_loop rest out
        else requestedByNode_loop rest (mput out (pod_node pod) (wrap64 (mget 0 out (pod_node pod) + n))))"

definition requestedByNode :: "Pod list \<Rightarrow> int gomap" where
  "requestedByNode pods = requestedByNode_loop pods []"

subsection \<open>The newest termination\<close>

lemma lastTermination_ge:
  assumes "t_Observed (terminationFrom st)" "st = cs_State s \<or> st = cs_LastTerminationState s"
  shows "t_Observed (lastTermination s) \<and> t_FinishedAt (terminationFrom st) \<le> t_FinishedAt (lastTermination s)"
  using assms by (auto simp: lastTermination_def Let_def)

lemma newestTermination_loop_ge:
  "(t_Observed newest \<longrightarrow> t_Observed (newestTermination_loop ss newest)
      \<and> t_FinishedAt newest \<le> t_FinishedAt (newestTermination_loop ss newest))
   \<and> (\<forall>s \<in> set ss. t_Observed (lastTermination s) \<longrightarrow> t_Observed (newestTermination_loop ss newest)
      \<and> t_FinishedAt (lastTermination s) \<le> t_FinishedAt (newestTermination_loop ss newest))"
proof (induction ss newest rule: newestTermination_loop.induct)
  case (2 s rest newest)
  then show ?case by (auto simp: Let_def)
qed simp

lemma newestTermination_ge:
  assumes "s \<in> set ss" "st = cs_State s \<or> st = cs_LastTerminationState s" "t_Observed (terminationFrom st)"
  shows "t_Observed (newestTermination ss) \<and> t_FinishedAt (terminationFrom st) \<le> t_FinishedAt (newestTermination ss)"
proof -
  have "t_Observed (lastTermination s) \<and> t_FinishedAt (terminationFrom st) \<le> t_FinishedAt (lastTermination s)"
    by (rule lastTermination_ge) (use assms in auto)
  moreover have "t_Observed (lastTermination s) \<longrightarrow> t_Observed (newestTermination ss)
      \<and> t_FinishedAt (lastTermination s) \<le> t_FinishedAt (newestTermination ss)"
    using newestTermination_loop_ge [of no_termination ss] assms(1) by (simp add: newestTermination_def)
  ultimately show ?thesis by (meson order_trans)
qed

lemma lastTermination_cases:
  "lastTermination s = terminationFrom (cs_State s) \<or> lastTermination s = terminationFrom (cs_LastTerminationState s)"
  by (simp add: lastTermination_def Let_def)

lemma newestTermination_loop_from:
  "newestTermination_loop ss newest = newest \<or> (\<exists>s \<in> set ss. newestTermination_loop ss newest = lastTermination s)"
  by (induction ss newest rule: newestTermination_loop.induct) (auto simp: Let_def)

lemma newestTermination_from:
  assumes "t_Observed (newestTermination ss)"
  shows "\<exists>s \<in> set ss. \<exists>st \<in> {cs_State s, cs_LastTerminationState s}. newestTermination ss = terminationFrom st"
  using newestTermination_loop_from [of ss no_termination] assms lastTermination_cases
  by (fastforce simp: newestTermination_def no_termination_def)

subsection \<open>Grouping by node\<close>

lemma operandsByNode_get:
  "mget [] (operandsByNode pods ns) n
    = (if n = [] then [] else sort_Slice op_Name (map operandFromPod (filter (\<lambda>p. pod_node p = n \<and> isOperand p ns) pods)))"
proof -
  let ?m = "group_into pod_node operandFromPod (filter (\<lambda>pod. \<not> (pod_node pod = [] \<or> \<not> isOperand pod ns)) pods) []"
  have get: "mget [] ?m n = map operandFromPod (filter (\<lambda>p. pod_node p = n)
      (filter (\<lambda>pod. \<not> (pod_node pod = [] \<or> \<not> isOperand pod ns)) pods))"
    by (simp only: group_into_get) (simp add: mget_def)
  have sel: "filter (\<lambda>p. pod_node p = n) (filter (\<lambda>pod. \<not> (pod_node pod = [] \<or> \<not> isOperand pod ns)) pods)
      = (if n = [] then [] else filter (\<lambda>p. pod_node p = n \<and> isOperand p ns) pods)"
    by (induction pods) auto
  have has: "mhas ?m n \<longleftrightarrow> mget [] ?m n \<noteq> []"
    unfolding mhas_iff group_into_keys group_into_get by (auto simp: filter_empty_conv mget_def)
  show ?thesis unfolding operandsByNode_def mget_map_values has get sel
    by (auto simp: sort_Slice_def)
qed

lemma requestedByNode_loop_get:
  assumes "n \<noteq> []" "\<And>k. int64_range (mget 0 out k)"
  shows "mget 0 (requestedByNode_loop pods out) n = wrap64 (mget 0 out n
    + sum_list (map podGPURequest (filter (\<lambda>p. pod_node p = n \<and> pod_Phase p \<notin> {''Succeeded'', ''Failed''}) pods)))"
  using assms(2)
proof (induction pods out rule: requestedByNode_loop.induct)
  case (1 out)
  then show ?case by (simp add: wrap_id)
next
  case (2 pod rest out)
  let ?new = "mput out (pod_node pod) (wrap64 (mget 0 out (pod_node pod) + podGPURequest pod))"
  have new: "int64_range (mget 0 ?new k)" for k
    using "2.prems" by (simp add: gomap_simps wrap_in_range)
  consider (skip) "pod_node pod = [] \<or> pod_Phase pod = ''Succeeded'' \<or> pod_Phase pod = ''Failed''"
    | (zero) "podGPURequest pod = 0" "pod_node pod \<noteq> []" "pod_Phase pod \<noteq> ''Succeeded''" "pod_Phase pod \<noteq> ''Failed''"
    | (count) "podGPURequest pod \<noteq> 0" "pod_node pod \<noteq> []" "pod_Phase pod \<noteq> ''Succeeded''" "pod_Phase pod \<noteq> ''Failed''"
    by blast
  then show ?case
  proof cases
    case skip
    then show ?thesis using "2.IH"(1,2) "2.prems" assms(1) by auto
  next
    case zero
    then show ?thesis using "2.IH"(3) "2.prems" by (simp add: Let_def)
  next
    case count
    then have "mget 0 (requestedByNode_loop rest ?new) n = wrap64 (mget 0 ?new n
        + sum_list (map podGPURequest (filter (\<lambda>p. pod_node p = n \<and> pod_Phase p \<notin> {''Succeeded'', ''Failed''}) rest)))"
      using "2.IH"(4) new by blast
    then show ?thesis using count by (auto simp: Let_def gomap_simps wrap_add_left add.assoc)
  qed
qed

lemma requestedByNode_get:
  assumes "n \<noteq> []"
  shows "mget 0 (requestedByNode pods) n = wrap64 (sum_list (map podGPURequest
    (filter (\<lambda>p. pod_node p = n \<and> pod_Phase p \<notin> {''Succeeded'', ''Failed''}) pods)))"
  using requestedByNode_loop_get [OF assms, of "[]" pods] by (simp add: requestedByNode_def mget_def in_range_def)

subsection \<open>The GPUs a pod holds over its life\<close>

text \<open>
  The reference for \<^verbatim>\<open>PodSpecGPURequest\<close>: init containers run one after the other; one that is
  restartable keeps its GPUs from then on; the containers start after the last of them.
  \<open>init_moments\<close> is what is held while each init container runs.
\<close>

fun init_moments :: "Container list \<Rightarrow> int \<Rightarrow> int list" where
  "init_moments [] held = []"
| "init_moments (c # rest) held =
     (held + gpuRequest c) # init_moments rest (if isRestartable c then held + gpuRequest c else held)"

definition sidecar_total :: "Container list \<Rightarrow> int" where
  "sidecar_total inits = sum_list (map gpuRequest (filter isRestartable inits))"

definition pod_moments :: "PodSpec \<Rightarrow> int list" where
  "pod_moments spec = init_moments (spec_InitContainers spec) 0
     @ [sidecar_total (spec_InitContainers spec) + sum_list (map gpuRequest (spec_Containers spec))]"

lemma init_loop_exact:
  assumes "\<forall>c \<in> set inits. 0 \<le> gpuRequest c" "0 \<le> held" "held + sum_list (map gpuRequest inits) < 2 ^ 63"
  shows "init_loop inits (held, peak) = (held + sidecar_total inits, fold max (init_moments inits held) peak)"
  using assms
proof (induction inits arbitrary: held peak)
  case (Cons c rest)
  have nn: "0 \<le> sum_list (map gpuRequest rest)" using Cons.prems(1) by (intro sum_list_nonneg) auto
  have c: "0 \<le> gpuRequest c" using Cons.prems(1) by simp
  have small: "held + gpuRequest c + sum_list (map gpuRequest rest) < 2 ^ 63" using Cons.prems(3) by simp
  have w: "wrap64 (held + gpuRequest c) = held + gpuRequest c"
    using c nn Cons.prems(2) small by (intro wrap_id) (simp_all add: in_range_def)
  have next_held: "0 \<le> held + gpuRequest c" using c Cons.prems(2) by simp
  have keep: "held + sum_list (map gpuRequest rest) < 2 ^ 63" using small c by simp
  show ?case
  proof (cases "isRestartable c")
    case True
    have "init_loop (c # rest) (held, peak) = init_loop rest (held + gpuRequest c, max peak (held + gpuRequest c))"
      using True by (simp add: w Let_def)
    also have "\<dots> = (held + gpuRequest c + sidecar_total rest,
        fold max (init_moments rest (held + gpuRequest c)) (max peak (held + gpuRequest c)))"
      using Cons.IH [OF _ next_held small] Cons.prems(1) by simp
    finally show ?thesis using True by (simp add: sidecar_total_def max.commute [of peak])
  next
    case False
    have "init_loop (c # rest) (held, peak) = init_loop rest (held, max peak (held + gpuRequest c))"
      using False by (simp add: w)
    also have "\<dots> = (held + sidecar_total rest, fold max (init_moments rest held) (max peak (held + gpuRequest c)))"
      using Cons.IH [OF _ Cons.prems(2) keep] Cons.prems(1) by simp
    finally show ?thesis using False by (simp add: sidecar_total_def max.commute [of peak])
  qed
qed (simp add: sidecar_total_def)

lemma sidecar_total_bounds:
  assumes "\<forall>c \<in> set inits. 0 \<le> gpuRequest c"
  shows "0 \<le> sidecar_total inits \<and> sidecar_total inits \<le> sum_list (map gpuRequest inits)"
  using assms by (induction inits) (auto simp: sidecar_total_def)

subsection \<open>Properties\<close>

text \<open>
  C39 (pod_request_is_peak). What a pod spec requests is the most GPUs the pod holds at any
  moment of its life: during any init container, with the restartable ones started before it
  still holding theirs, or while its containers run beside all restartable init containers.
  Requests have to be non-negative and their total has to fit an \<^verbatim>\<open>int64\<close>.
\<close>

theorem pod_request_is_peak:
  assumes "\<forall>c \<in> set (spec_InitContainers spec @ spec_Containers spec). 0 \<le> gpuRequest c"
    and "sum_list (map gpuRequest (spec_InitContainers spec @ spec_Containers spec)) < 2 ^ 63"
  shows "PodSpecGPURequest spec = Max (set (pod_moments spec))"
proof -
  let ?i = "spec_InitContainers spec" and ?c = "spec_Containers spec"
  have ci: "\<forall>c \<in> set ?i. 0 \<le> gpuRequest c" and cc: "0 \<le> sum_list (map gpuRequest ?c)"
    using assms(1) by (auto intro!: sum_list_nonneg)
  note sb = sidecar_total_bounds [OF ci]
  have small: "sum_list (map gpuRequest ?i) + sum_list (map gpuRequest ?c) < 2 ^ 63" using assms(2) by simp
  have il: "init_loop ?i (0, 0) = (sidecar_total ?i, fold max (init_moments ?i 0) 0)"
    using init_loop_exact [OF ci, of 0 0] small cc by simp
  have sum: "sum_wrap 64 (map gpuRequest ?c) = sum_list (map gpuRequest ?c)"
    using cc small sb by (intro sum_wrap_exact) (simp_all add: in_range_def)
  have tot: "wrap64 (sum_list (map gpuRequest ?c) + sidecar_total ?i) = sum_list (map gpuRequest ?c) + sidecar_total ?i"
    using cc small sb by (intro wrap_id) (simp_all add: in_range_def)
  let ?t = "sidecar_total ?i + sum_list (map gpuRequest ?c)"
  have "PodSpecGPURequest spec = max (fold max (init_moments ?i 0) 0) (sum_list (map gpuRequest ?c) + sidecar_total ?i)"
    unfolding PodSpecGPURequest_def Let_def il sum prod.case tot ..
  also have "\<dots> = fold max (pod_moments spec) 0"
    by (simp add: pod_moments_def max.commute add.commute)
  also have "\<dots> = Max (insert 0 (set (pod_moments spec)))"
    using Max.set_eq_fold [of 0 "pod_moments spec"] by simp
  also have "\<dots> = Max (set (pod_moments spec))"
  proof -
    have "0 \<le> ?t" using sb cc by simp
    moreover have "?t \<in> set (pod_moments spec)" by (simp add: pod_moments_def)
    ultimately have "0 \<le> Max (set (pod_moments spec))" by (meson List.finite_set Max_ge order_trans)
    then show ?thesis by (subst Max_insert) (auto simp: pod_moments_def max_def)
  qed
  finally show ?thesis .
qed

definition sample_container :: "int \<Rightarrow> bool \<Rightarrow> Container" where
  "sample_container gpus restartable = \<lparr>c_Name = ''c'', c_Image = ''img'', c_Requests = [(''nvidia.com/gpu'', quantity_of gpus)],
     c_Limits = [], c_RestartPolicy = (if restartable then Some ''Always'' else None)\<rparr>"

definition sample_spec :: PodSpec where
  "sample_spec = \<lparr>spec_NodeName = ''a'', spec_InitContainers = [sample_container 1 True, sample_container 8 False],
     spec_Containers = [sample_container 4 False], spec_Overhead = [], spec_ReadinessGates = []\<rparr>"

lemma gpuRequest_sample: "0 \<le> n \<Longrightarrow> n < 100 \<Longrightarrow> gpuRequest (sample_container n b) = n"
  by (simp add: gpuRequest_def containerRequest_def sample_container_def source_names Value_quantity_of in_range_def wrap_id)

theorem pod_request_is_peak_witness: "PodSpecGPURequest sample_spec = 9"
  using pod_request_is_peak [of sample_spec]
  by (simp add: sample_spec_def gpuRequest_sample pod_moments_def sidecar_total_def isRestartable_def)
     (simp add: sample_container_def)

text \<open>
  What a node is recorded as having in use is the sum, in \<^verbatim>\<open>int64\<close>, of
  the requests of the pods bound to it that have not finished, and of no others.
\<close>

theorem requests_per_node:
  assumes "n \<noteq> []"
  shows "mget 0 (requestedByNode pods) n = wrap64 (sum_list (map podGPURequest
    (filter (\<lambda>p. pod_node p = n \<and> pod_Phase p \<notin> {''Succeeded'', ''Failed''}) pods)))"
  by (rule requestedByNode_get [OF assms])

theorem requests_per_node_witness: "mget 0 (requestedByNode []) ''a'' = 0"
  using requests_per_node [of "''a''" "[]"] by (simp add: wrap_id in_range_def)

text \<open>
  The termination recorded for a pod is the latest of its
  containers, current or previous: it parses to a time no earlier, to the second, than any exit
  its statuses carry. The finish times have to have four digit years, which is what makes their
  strings sort in time order.
\<close>

theorem newest_termination_is_latest:
  assumes years: "\<forall>s \<in> set statuses. \<forall>st \<in> {cs_State s, cs_LastTerminationState s}.
      \<forall>t. state_Terminated st = Some t \<longrightarrow> four_digit_year (term_FinishedAt t)"
    and s: "s \<in> set statuses" "st = cs_State s \<or> st = cs_LastTerminationState s" "state_Terminated st = Some t"
    and dated: "\<not> time_IsZero (term_FinishedAt t)"
  shows "t_Observed (newestTermination statuses)
    \<and> (\<exists>at. time_Parse_RFC3339 (t_FinishedAt (newestTermination statuses)) = Some at
         \<and> term_FinishedAt t div Second * Second \<le> at)"
proof -
  let ?n = "newestTermination statuses"
  have mine: "t_Observed (terminationFrom st)" "t_FinishedAt (terminationFrom st) = rfc3339 (term_FinishedAt t)"
    using s(3) dated by (simp_all add: terminationFrom_def)
  have obs: "t_Observed ?n" and le: "rfc3339 (term_FinishedAt t) \<le> t_FinishedAt ?n"
    using newestTermination_ge [OF s(1,2) mine(1)] mine(2) by simp_all
  obtain s' st' where origin: "s' \<in> set statuses" "st' \<in> {cs_State s', cs_LastTerminationState s'}"
    "?n = terminationFrom st'" using newestTermination_from [OF obs] by blast
  then obtain u where u: "state_Terminated st' = Some u"
    using obs by (cases "state_Terminated st'") (auto simp: terminationFrom_def no_termination_def)
  have "t_FinishedAt ?n \<noteq> []"
    using le rfc3339_not_Nil [of "term_FinishedAt t"] by (metis le_Nil list.distinct(1) order_antisym Nil_le_Cons neq_Nil_conv)
  then have fin: "t_FinishedAt ?n = rfc3339 (term_FinishedAt u)" using origin(3) u by (simp add: terminationFrom_def split: if_splits)
  have yt: "four_digit_year (term_FinishedAt t)" and yu: "four_digit_year (term_FinishedAt u)"
    using years s origin(1,2) u by auto
  have "\<not> term_FinishedAt u div Second < term_FinishedAt t div Second"
    using rfc3339_less [OF yu yt] le fin by auto
  then show ?thesis using obs fin parse_rfc3339 [OF yu] by simp
qed

definition sample_status :: "time \<Rightarrow> ContainerStatus" where
  "sample_status at = \<lparr>cs_Name = ''driver'', cs_State = \<lparr>state_Waiting = None, state_Running = True, state_Terminated = None\<rparr>,
     cs_LastTerminationState = \<lparr>state_Waiting = None, state_Running = False,
       state_Terminated = Some \<lparr>term_ExitCode = 1, term_Reason = ''Error'', term_FinishedAt = at\<rparr>\<rparr>,
     cs_Ready = True, cs_RestartCount = 1\<rparr>"

definition sample_time :: time where "sample_time = 63902916245 * Second"

lemma sample_year: "four_digit_year sample_time"
  by code_simp

theorem newest_termination_is_latest_witness:
  "t_Observed (newestTermination [sample_status sample_time])"
proof -
  have "state_Terminated (cs_LastTerminationState (sample_status sample_time))
      = Some \<lparr>term_ExitCode = 1, term_Reason = ''Error'', term_FinishedAt = sample_time\<rparr>"
    by (simp add: sample_status_def)
  then show ?thesis
    using newest_termination_is_latest [of "[sample_status sample_time]" "sample_status sample_time"
        "cs_LastTerminationState (sample_status sample_time)"
        "\<lparr>term_ExitCode = 1, term_Reason = ''Error'', term_FinishedAt = sample_time\<rparr>"]
    by (simp add: sample_status_def sample_year time_IsZero_def) (simp add: sample_time_def)
qed

text \<open>
  The operands of a node are the operand pods bound to it, sorted by
  name, whatever order the pods were listed in.
\<close>

theorem operands_per_node:
  assumes "n \<noteq> []"
  shows "mget [] (operandsByNode pods ns) n
      = sort_Slice op_Name (map operandFromPod (filter (\<lambda>p. pod_node p = n \<and> isOperand p ns) pods))
    \<and> (distinct (map pod_Name (filter (\<lambda>p. pod_node p = n \<and> isOperand p ns) pods)) \<and> mset pods = mset pods'
       \<longrightarrow> mget [] (operandsByNode pods ns) n = mget [] (operandsByNode pods' ns) n)"
proof (intro conjI impI)
  let ?f = "\<lambda>ps. map operandFromPod (filter (\<lambda>p. pod_node p = n \<and> isOperand p ns) ps)"
  show "mget [] (operandsByNode pods ns) n = sort_Slice op_Name (?f pods)"
    using assms by (simp add: operandsByNode_get)
  assume d: "distinct (map pod_Name (filter (\<lambda>p. pod_node p = n \<and> isOperand p ns) pods)) \<and> mset pods = mset pods'"
  then have perm: "mset (?f pods') = mset (?f pods)" by (simp add: mset_filter)
  have names: "map op_Name (?f pods) = map pod_Name (filter (\<lambda>p. pod_node p = n \<and> isOperand p ns) pods)"
    by (simp add: operandFromPod_def)
  have "distinct (map op_Name (?f pods))" unfolding names using d by simp
  from slice.sorter_unique [OF this perm] slice.sorter_unique [OF this refl]
  show "mget [] (operandsByNode pods ns) n = mget [] (operandsByNode pods' ns) n"
    using assms by (simp add: operandsByNode_get)
qed

theorem operands_per_node_witness: "mget [] (operandsByNode [] ''gpu-operator'') ''a'' = []"
  using operands_per_node [of "''a''" "[]" "''gpu-operator''" "[]"] by (simp add: sort_Slice_def)

end
