(* ===== verification/Source_Live.thy ===== *)
theory Source_Live
  imports Source_Nodes
begin

text \<open>
  The live reader of \<^verbatim>\<open>pkg/source\<close>: \<^verbatim>\<open>live.go\<close>, and the parts of \<^verbatim>\<open>events.go\<close>,
  \<^verbatim>\<open>computedomains.go\<close>, \<^verbatim>\<open>kueue.go\<close> and \<^verbatim>\<open>jobs.go\<close> that read a running cluster. The API server is a
  parameter: what it would answer to each question at each moment. The reader's own state is
  the memo of the ResourceSlice list, and a clock that counts the requests made.
\<close>

subsection \<open>The API server\<close>

text \<open>
  What one moment of the cluster answers, a list endpoint walked to its end by client-go's
  pager counting as one question.
\<close>

record cluster_api =
  api_Nodes :: "goerr + Node list"
  api_ResourceSlices :: "goerr + ResourceSlice list"
  api_Pods :: "string \<Rightarrow> string \<Rightarrow> goerr + Pod list"
  api_Events :: "goerr + Event list"
  api_Dynamic :: "string \<Rightarrow> string \<Rightarrow> string \<Rightarrow> goerr + unstructured list"
  api_Discovery :: "string \<Rightarrow> goerr + string list"
  api_Job :: "string \<Rightarrow> string \<Rightarrow> goerr + Job"

record Live =
  live_slices :: "ResourceSlice list"
  live_sliceErr :: "goerr option"
  live_sliceRead :: bool
  live_clock :: nat

definition NewLive :: Live where
  "NewLive = \<lparr>live_slices = [], live_sliceErr = None, live_sliceRead = False, live_clock = 0\<rparr>"

type_synonym api = "nat \<Rightarrow> cluster_api"

definition request :: "(cluster_api \<Rightarrow> 'a) \<Rightarrow> api \<Rightarrow> Live \<Rightarrow> 'a \<times> Live" where
  "request q api l = (q (api (live_clock l)), l\<lparr>live_clock := live_clock l + 1\<rparr>)"

subsection \<open>Nodes and slices\<close>

definition readResourceSlices :: "api \<Rightarrow> (Live, ResourceSlice list) reader" where
  "readResourceSlices api l = (case request api_ResourceSlices api l of
       (Inr all_slices, l) \<Rightarrow> ((all_slices, None), l)
     | (Inl err, l) \<Rightarrow>
         if IsNotFound err then (([], None), l)
         else if IsForbidden err then (([], Some (PartialError ''resourceslices'' err)), l)
         else (([], Some (ErrFmt ''listing resourceslices: '' (Some err))), l))"

definition context_dead :: "goerr option \<Rightarrow> bool" where
  "context_dead err = (case err of None \<Rightarrow> False | Some e \<Rightarrow> errors_Is e Canceled \<or> errors_Is e DeadlineExceeded)"

definition listResourceSlices :: "api \<Rightarrow> (Live, ResourceSlice list) reader" where
  "listResourceSlices api l =
     (if live_sliceRead l then ((live_slices l, live_sliceErr l), l)
      else let ((slices, err), l) = readResourceSlices api l
           in if \<not> context_dead err
              then ((slices, err), l\<lparr>live_slices := slices, live_sliceErr := err, live_sliceRead := True\<rparr>)
              else ((slices, err), l))"

definition Live_ClassifyNodes :: "api \<Rightarrow> (Live, Node list \<times> Node list) reader" where
  "Live_ClassifyNodes api l = (case request api_Nodes api l of
       (Inl err, l) \<Rightarrow> ((([], []), Some (ErrFmt ''listing nodes: '' (Some err))), l)
     | (Inr nodes, l) \<Rightarrow>
         (let ((slices, sliceErr), l) = listResourceSlices api l
          in if (case sliceErr of None \<Rightarrow> False | Some e \<Rightarrow> \<not> is_PartialError e)
             then ((([], []), sliceErr), l)
             else ((classifyNodes nodes (sliceNodeNames slices), sliceErr), l)))"

definition Live_Nodes :: "api \<Rightarrow> (Live, Node list) reader" where
  "Live_Nodes api l = (let (((gpus, hinted), err), l) = Live_ClassifyNodes api l in ((gpus, err), l))"

definition Live_HintedNodes :: "api \<Rightarrow> (Live, Node list) reader" where
  "Live_HintedNodes api l = (let (((gpus, hinted), err), l) = Live_ClassifyNodes api l in ((hinted, err), l))"

definition Live_ResourceSlices :: "api \<Rightarrow> (Live, ResourceSlice list) reader" where
  "Live_ResourceSlices api l =
     (let ((all_slices, err), l) = listResourceSlices api l
      in case err of Some e \<Rightarrow> (([], err), l)
         | None \<Rightarrow> ((filter (\<lambda>s. slice_Driver s = DRADriverName) all_slices, None), l))"

subsection \<open>Pods, policies and events\<close>

definition Live_Pods :: "api \<Rightarrow> string \<Rightarrow> string \<Rightarrow> (Live, Pod list) reader" where
  "Live_Pods api ns selector l = (case request (\<lambda>a. api_Pods a ns selector) api l of
       (Inr pods, l) \<Rightarrow> ((pods, None), l)
     | (Inl err, l) \<Rightarrow>
         if IsForbidden err then (([], Some (PartialError ''pods'' err)), l)
         else (([], Some (ErrFmt (''listing pods in namespace '' @ fmt_q ns @ '': '') (Some err))), l))"

definition Live_ClusterPolicies :: "api \<Rightarrow> (Live, unstructured list) reader" where
  "Live_ClusterPolicies api l = (case request (\<lambda>a. api_Dynamic a ''nvidia.com'' ''v1'' ''clusterpolicies'') api l of
       (Inr items, l) \<Rightarrow> ((items, None), l)
     | (Inl err, l) \<Rightarrow>
         if IsNotFound err then (([], Some ErrNotInstalled), l)
         else if IsForbidden err then (([], Some (PartialError ''clusterpolicies'' err)), l)
         else (([], Some (ErrFmt ''listing clusterpolicies: '' (Some err))), l))"

definition Live_NodeEvents :: "api \<Rightarrow> (Live, Event list) reader" where
  "Live_NodeEvents api l = (case request api_Events api l of
       (Inr events, l) \<Rightarrow> ((onlyNodeEvents events, None), l)
     | (Inl err, l) \<Rightarrow>
         if IsForbidden err then (([], Some (PartialError ''events'' err)), l)
         else (([], Some (ErrFmt ''listing node events: '' (Some err))), l))"

subsection \<open>Versioned custom resources\<close>

text \<open>Discovery: a group version the cluster does not have is an answer, not a failure.\<close>

definition serves :: "string \<Rightarrow> string \<Rightarrow> string \<Rightarrow> api \<Rightarrow> Live \<Rightarrow> (bool \<times> goerr option) \<times> Live" where
  "serves grp version resource api l = (case request (\<lambda>a. api_Discovery a (grp @ ''/'' @ version)) api l of
       (Inr resources, l) \<Rightarrow> ((resource \<in> set resources, None), l)
     | (Inl err, l) \<Rightarrow> if IsNotFound err then ((False, None), l) else ((False, Some err), l))"

definition servesComputeDomains :: "api \<Rightarrow> string \<Rightarrow> Live \<Rightarrow> (bool \<times> goerr option) \<times> Live" where
  "servesComputeDomains api version l = serves ''resource.nvidia.com'' version ''computedomains'' api l"

definition servesKueue :: "api \<Rightarrow> string \<Rightarrow> string \<Rightarrow> Live \<Rightarrow> (bool \<times> goerr option) \<times> Live" where
  "servesKueue api version resource l = serves ''kueue.x-k8s.io'' version resource api l"

definition ErrComputeDomainDiscovery :: goerr where
  "ErrComputeDomainDiscovery = ErrSentinel ''the cluster would not say which resource.nvidia.com versions it serves''"

definition ErrKueueDiscovery :: goerr where
  "ErrKueueDiscovery = ErrSentinel ''the cluster would not say which kueue.x-k8s.io versions it serves''"

definition ErrKueueNotInstalled :: goerr where
  "ErrKueueNotInstalled = ErrSentinel ''kueue is not installed: the cluster serves no kueue.x-k8s.io topologies''"

fun ComputeDomains_loop :: "api \<Rightarrow> string list \<Rightarrow> (Live, unstructured list) reader" where
  "ComputeDomains_loop api [] l = (([], None), l)"
| "ComputeDomains_loop api (version # rest) l =
     (case servesComputeDomains api version l of
        ((_, Some err), l) \<Rightarrow>
          if IsForbidden err
          then (([], Some (PartialError ''computedomains'' (ErrFmt2 ErrComputeDomainDiscovery err))), l)
          else (([], Some (ErrFmt (''asking which resource.nvidia.com/'' @ version @ '' resources the cluster serves: '') (Some err))), l)
      | ((False, None), l) \<Rightarrow> ComputeDomains_loop api rest l
      | ((True, None), l) \<Rightarrow>
          (case request (\<lambda>a. api_Dynamic a ''resource.nvidia.com'' version ''computedomains'') api l of
             (Inr items, l) \<Rightarrow> ((items, None), l)
           | (Inl err, l) \<Rightarrow>
               if IsNotFound err then ComputeDomains_loop api rest l
               else if IsForbidden err then (([], Some (PartialError ''computedomains'' err)), l)
               else (([], Some (ErrFmt ''listing resource.nvidia.com computedomains: '' (Some err))), l)))"

definition Live_ComputeDomains :: "api \<Rightarrow> (Live, unstructured list) reader" where
  "Live_ComputeDomains api l = ComputeDomains_loop api [''v1beta1''] l"

fun listKueue_loop :: "api \<Rightarrow> string \<Rightarrow> string list \<Rightarrow> (Live, unstructured list) reader" where
  "listKueue_loop api resource [] l = (([], Some ErrKueueNotInstalled), l)"
| "listKueue_loop api resource (version # rest) l =
     (case servesKueue api version resource l of
        ((_, Some err), l) \<Rightarrow>
          if IsForbidden err
          then (([], Some (PartialError resource (ErrFmt2 ErrKueueDiscovery err))), l)
          else (([], Some (ErrFmt (''asking which kueue.x-k8s.io/'' @ version @ '' resources the cluster serves: '') (Some err))), l)
      | ((False, None), l) \<Rightarrow> listKueue_loop api resource rest l
      | ((True, None), l) \<Rightarrow>
          (case request (\<lambda>a. api_Dynamic a ''kueue.x-k8s.io'' version resource) api l of
             (Inr items, l) \<Rightarrow> ((items, None), l)
           | (Inl err, l) \<Rightarrow>
               if IsNotFound err then listKueue_loop api resource rest l
               else if IsForbidden err then (([], Some (PartialError resource err)), l)
               else (([], Some (ErrFmt (''listing kueue.x-k8s.io '' @ resource @ '': '') (Some err))), l)))"

definition kueueVersions :: "string list" where
  "kueueVersions = [''v1beta2'', ''v1beta1'', ''v1alpha1'']"

definition listKueue :: "api \<Rightarrow> string \<Rightarrow> (Live, unstructured list) reader" where
  "listKueue api resource l = listKueue_loop api resource kueueVersions l"

definition Live_Topologies :: "api \<Rightarrow> (Live, unstructured list) reader" where
  "Live_Topologies api = listKueue api ''topologies''"

definition Live_ResourceFlavors :: "api \<Rightarrow> (Live, unstructured list) reader" where
  "Live_ResourceFlavors api = listKueue api ''resourceflavors''"

definition Live_Job :: "api \<Rightarrow> string \<Rightarrow> string \<Rightarrow> (Live, Job option) reader" where
  "Live_Job api ns name l = (case request (\<lambda>a. api_Job a ns name) api l of
       (Inr job, l) \<Rightarrow> ((Some job, None), l)
     | (Inl err, l) \<Rightarrow>
         if IsNotFound err then ((None, Some err), l)
         else if IsForbidden err then ((None, Some (PartialError ''jobs'' err)), l)
         else ((None, Some (ErrFmt (''reading job '' @ ns @ ''/'' @ name @ '': '') (Some err))), l))"

definition live_source :: "api \<Rightarrow> Live Source" where
  "live_source api = \<lparr>src_ClassifyNodes = Live_ClassifyNodes api, src_Pods = Live_Pods api,
     src_ResourceSlices = Live_ResourceSlices api, src_ClusterPolicies = Live_ClusterPolicies api,
     src_NodeEvents = Some (Live_NodeEvents api), src_ComputeDomains = Some (Live_ComputeDomains api)\<rparr>"

subsection \<open>The live reader implements the source interface\<close>

lemma readResourceSlices_err:
  "readResourceSlices api l = ((slices, Some e), l') \<Longrightarrow> slices = []"
  by (auto simp: readResourceSlices_def request_def split: sum.splits if_splits)

lemma is_PartialError_isPartial: "is_PartialError e \<Longrightarrow> isPartial e"
  by (simp add: isPartial_def errors_As_self)

interpretation live: node_source "live_source api" for api
proof (unfold_locales, goal_cases)
  case (1 s gpus hinted err s')
  then show ?case
    by (auto simp: live_source_def Live_ClassifyNodes_def classifyNodes_laws
        split: sum.splits prod.splits if_splits)
next
  case (2 s gpus hinted err s')
  then show ?case
    by (auto simp: live_source_def Live_ClassifyNodes_def classifyNodes_laws
        split: sum.splits prod.splits if_splits)
next
  case (3 s gpus hinted err s')
  then show ?case
    by (auto simp: live_source_def Live_ClassifyNodes_def node_names_def
        dest: classifyNodes_laws(3) [unfolded node_names_def] split: sum.splits prod.splits if_splits)
next
  case (4 s gpus hinted e s')
  then show ?case
    by (auto simp: live_source_def Live_ClassifyNodes_def is_PartialError_isPartial
        split: sum.splits prod.splits if_splits)
next
  case (5 s slices err s' x)
  then show ?case
    by (auto simp: live_source_def Live_ResourceSlices_def split: prod.splits option.splits)
qed

subsection \<open>The memo\<close>

text \<open>Every operation of the reader, as a step on its state.\<close>

inductive live_step :: "api \<Rightarrow> Live \<Rightarrow> Live \<Rightarrow> bool" for api where
  classify: "live_step api l (snd (Live_ClassifyNodes api l))"
| nodes: "live_step api l (snd (Live_Nodes api l))"
| hinted: "live_step api l (snd (Live_HintedNodes api l))"
| slices: "live_step api l (snd (Live_ResourceSlices api l))"
| pods: "live_step api l (snd (Live_Pods api ns sel l))"
| policies: "live_step api l (snd (Live_ClusterPolicies api l))"
| events: "live_step api l (snd (Live_NodeEvents api l))"
| domains: "live_step api l (snd (Live_ComputeDomains api l))"
| topologies: "live_step api l (snd (Live_Topologies api l))"
| flavors: "live_step api l (snd (Live_ResourceFlavors api l))"
| job: "live_step api l (snd (Live_Job api ns name l))"

definition memo :: "Live \<Rightarrow> ResourceSlice list \<times> goerr option \<times> bool" where
  "memo l = (live_slices l, live_sliceErr l, live_sliceRead l)"

lemma memo_request: "request q api l = (a, l') \<Longrightarrow> memo l' = memo l"
  by (auto simp: request_def memo_def)

lemma memo_serves: "memo (snd (serves g v r api l)) = memo l"
  by (auto simp: serves_def dest!: memo_request split: prod.splits sum.splits)

lemma memo_ComputeDomains_loop: "memo (snd (ComputeDomains_loop api vs l)) = memo l"
proof (induction api vs l rule: ComputeDomains_loop.induct)
  case (2 api version rest l)
  obtain b e l1 where s: "servesComputeDomains api version l = ((b, e), l1)" by (metis surj_pair)
  then have m1: "memo l1 = memo l" using memo_serves [of _ version _ api l] by (metis servesComputeDomains_def snd_conv)
  obtain a l2 where r: "request (\<lambda>a. api_Dynamic a ''resource.nvidia.com'' version ''computedomains'') api l1 = (a, l2)"
    by (metis surj_pair)
  then have m2: "memo l2 = memo l1" by (rule memo_request)
  show ?case using 2 s r m1 m2 by (auto split: option.splits bool.splits sum.splits)
qed simp

lemma memo_listKueue_loop: "memo (snd (listKueue_loop api res vs l)) = memo l"
proof (induction api res vs l rule: listKueue_loop.induct)
  case (2 api res version rest l)
  obtain b e l1 where s: "servesKueue api version res l = ((b, e), l1)" by (metis surj_pair)
  then have m1: "memo l1 = memo l" using memo_serves [of _ version res api l] by (metis servesKueue_def snd_conv)
  obtain a l2 where r: "request (\<lambda>a. api_Dynamic a ''kueue.x-k8s.io'' version res) api l1 = (a, l2)"
    by (metis surj_pair)
  then have m2: "memo l2 = memo l1" by (rule memo_request)
  show ?case using 2 s r m1 m2 by (auto split: option.splits bool.splits sum.splits)
qed simp

lemma memo_listResourceSlices: "live_sliceRead l \<Longrightarrow> listResourceSlices api l = ((live_slices l, live_sliceErr l), l)"
  by (simp add: listResourceSlices_def)

lemma request_sliceRead: "request q api l = (a, l') \<Longrightarrow> live_sliceRead l' = live_sliceRead l"
  by (auto simp: request_def)

lemma memo_Live_ClassifyNodes: "live_sliceRead l \<Longrightarrow> memo (snd (Live_ClassifyNodes api l)) = memo l"
  by (auto simp: Live_ClassifyNodes_def memo_listResourceSlices request_sliceRead
      dest: memo_request split: prod.splits sum.splits)

lemma live_step_memo: "live_step api l l' \<Longrightarrow> live_sliceRead l \<Longrightarrow> memo l' = memo l"
proof (induction rule: live_step.induct)
  case (classify l) then show ?case by (rule memo_Live_ClassifyNodes)
next
  case (nodes l)
  then show ?case using memo_Live_ClassifyNodes [of l api] by (auto simp: Live_Nodes_def split: prod.splits)
next
  case (hinted l)
  then show ?case using memo_Live_ClassifyNodes [of l api] by (auto simp: Live_HintedNodes_def split: prod.splits)
next
  case (slices l)
  then show ?case by (simp add: Live_ResourceSlices_def memo_listResourceSlices split: option.splits)
qed (auto simp: Live_Pods_def Live_ClusterPolicies_def Live_NodeEvents_def Live_Job_def Live_ComputeDomains_def
    Live_Topologies_def Live_ResourceFlavors_def listKueue_def memo_ComputeDomains_loop memo_listKueue_loop
    simp del: ComputeDomains_loop.simps listKueue_loop.simps dest!: memo_request split: prod.splits sum.splits)

lemma live_steps_memo: "(live_step api)\<^sup>*\<^sup>* l l' \<Longrightarrow> live_sliceRead l \<Longrightarrow> memo l' = memo l"
proof (induction rule: rtranclp_induct)
  case (step l1 l2)
  then have "memo l1 = memo l" by simp
  then have "live_sliceRead l1" using step.prems by (simp add: memo_def)
  then show ?case using live_step_memo [OF step.hyps(2)] \<open>memo l1 = memo l\<close> by simp
qed simp

subsection \<open>Properties\<close>

text \<open>
  The ResourceSlice list is read once: when a read was not cut short by
  a dead context, every later read, after any sequence of other calls and whatever the cluster
  would answer by then, gives the same slices and the same error without another request.
\<close>

theorem slices_read_once:
  assumes "listResourceSlices api l = ((slices, err), l1)" and "\<not> context_dead err"
    and "(live_step api)\<^sup>*\<^sup>* l1 l2"
  shows "listResourceSlices api l2 = ((slices, err), l2)"
proof -
  have "live_sliceRead l1 \<and> live_slices l1 = slices \<and> live_sliceErr l1 = err"
    using assms(1,2) by (auto simp: listResourceSlices_def split: if_splits prod.splits)
  then show ?thesis using live_steps_memo [OF assms(3)] by (simp add: memo_def listResourceSlices_def)
qed

definition sample_api :: api where
  "sample_api n = \<lparr>api_Nodes = Inr [], api_ResourceSlices = Inl (ErrStatus ''Forbidden'' 403 ''denied''),
     api_Pods = (\<lambda>_ _. Inr []), api_Events = Inr [], api_Dynamic = (\<lambda>_ _ _. Inr []),
     api_Discovery = (\<lambda>_. Inr []), api_Job = (\<lambda>_ _. Inl (ErrStatus ''NotFound'' 404 ''no job''))\<rparr>"

lemma sample_denied: "IsForbidden (ErrStatus ''Forbidden'' 403 ''denied'')" "\<not> IsNotFound (ErrStatus ''Forbidden'' 403 ''denied'')"
  by (simp_all add: IsForbidden_def IsNotFound_def status_is_def reasonAndCode_def errors_As_def known_reasons_def)

theorem slices_read_once_witness:
  "listResourceSlices sample_api (snd (Live_Pods sample_api [] [] (snd (listResourceSlices sample_api NewLive))))
   = (([], Some (PartialError ''resourceslices'' (ErrStatus ''Forbidden'' 403 ''denied''))),
      snd (Live_Pods sample_api [] [] (snd (listResourceSlices sample_api NewLive))))"
proof (rule slices_read_once)
  show "listResourceSlices sample_api NewLive
    = (([], Some (PartialError ''resourceslices'' (ErrStatus ''Forbidden'' 403 ''denied''))),
       snd (listResourceSlices sample_api NewLive))"
    by (simp add: listResourceSlices_def readResourceSlices_def request_def sample_api_def sample_denied NewLive_def
        context_dead_def errors_Is_def Canceled_def DeadlineExceeded_def)
  show "\<not> context_dead (Some (PartialError ''resourceslices'' (ErrStatus ''Forbidden'' 403 ''denied'')))"
    by (simp add: context_dead_def errors_Is_def Canceled_def DeadlineExceeded_def)
  show "(live_step sample_api)\<^sup>*\<^sup>* (snd (listResourceSlices sample_api NewLive))
     (snd (Live_Pods sample_api [] [] (snd (listResourceSlices sample_api NewLive))))"
    by (rule r_into_rtranclp) (rule live_step.pods)
qed

text \<open>
  The errors of the API client are not this program's own: none of them is, or wraps, a
  \<^verbatim>\<open>PartialError\<close>.
\<close>

definition foreign_errors :: "api \<Rightarrow> bool" where
  "foreign_errors api \<longleftrightarrow> (\<forall>t e. api_Nodes (api t) = Inl e \<or>
     api_ResourceSlices (api t) = Inl e \<or> (\<exists>ns sel. api_Pods (api t) ns sel = Inl e)
     \<or> api_Events (api t) = Inl e \<or> (\<exists>g v r. api_Dynamic (api t) g v r = Inl e) \<longrightarrow> \<not> isPartial e)"

definition denied :: "goerr + 'a \<Rightarrow> bool" where
  "denied answer = (case answer of Inl e \<Rightarrow> IsForbidden e | Inr _ \<Rightarrow> False)"

definition partial_err :: "goerr option \<Rightarrow> bool" where
  "partial_err err = (case err of None \<Rightarrow> False | Some e \<Rightarrow> isPartial e)"

lemma partial_err_simps [simp]:
  "\<not> partial_err None" "partial_err (Some (PartialError r e))"
  "partial_err (Some (ErrFmt m (Some e))) = isPartial e"
  "\<not> partial_err (Some ErrNotInstalled)"
  by (simp_all add: partial_err_def isPartial_def errors_As_def ErrNotInstalled_def)

lemma not_found_not_forbidden: "IsNotFound e \<Longrightarrow> \<not> IsForbidden e"
  by (auto simp: IsNotFound_def IsForbidden_def status_is_def known_reasons_def split: prod.splits)

lemmas live_readers = Live_Pods_def Live_ClusterPolicies_def Live_NodeEvents_def readResourceSlices_def
  request_def

text \<open>
  A live read of pods, slices, cluster policies or events is partial,
  which exits 3, exactly when the API server denied it; every other failure is a plain error,
  which exits 4. This needs the client's errors not to be partial themselves.
\<close>

theorem partial_iff_denied:
  assumes "foreign_errors api"
  shows "(partial_err (snd (fst (Live_Pods api ns sel l))) \<longleftrightarrow> denied (api_Pods (api (live_clock l)) ns sel))
    \<and> (partial_err (snd (fst (readResourceSlices api l))) \<longleftrightarrow> denied (api_ResourceSlices (api (live_clock l))))
    \<and> (partial_err (snd (fst (Live_ClusterPolicies api l))) \<longleftrightarrow>
         denied (api_Dynamic (api (live_clock l)) ''nvidia.com'' ''v1'' ''clusterpolicies''))
    \<and> (partial_err (snd (fst (Live_NodeEvents api l))) \<longleftrightarrow> denied (api_Events (api (live_clock l))))"
proof -
  have "api_Pods (api t) ns sel = Inl e \<Longrightarrow> \<not> isPartial e"
    "api_ResourceSlices (api t) = Inl e \<Longrightarrow> \<not> isPartial e" "api_Events (api t) = Inl e \<Longrightarrow> \<not> isPartial e"
    "api_Dynamic (api t) g v r = Inl e \<Longrightarrow> \<not> isPartial e" for t ns sel g v r e
    using assms by (blast dest: foreign_errors_def [THEN iffD1])+
  then show ?thesis
    by (simp add: live_readers denied_def not_found_not_forbidden split: sum.splits)
qed

theorem partial_iff_denied_witness:
  "partial_err (snd (fst (readResourceSlices sample_api NewLive)))"
proof -
  have "foreign_errors sample_api"
    by (auto simp: foreign_errors_def sample_api_def isPartial_def errors_As_def)
  then show ?thesis
    using partial_iff_denied [of sample_api "[]" "[]" NewLive] by (simp add: denied_def sample_api_def sample_denied)
qed

end
