(* ===== verification/Source_Bundle.thy ===== *)
theory Source_Bundle
  imports Source_Nodes
begin

text \<open>
  The reader of a must-gather directory, \<^verbatim>\<open>pkg/source/bundle.go\<close>, with the bundle halves of
  \<^verbatim>\<open>events.go\<close>, \<^verbatim>\<open>computedomains.go\<close>, \<^verbatim>\<open>kueue.go\<close> and \<^verbatim>\<open>jobs.go\<close>. The directory is a map from
  names to entries; the YAML decoder and the label selector parser are parameters.
\<close>

subsection \<open>A directory and its decoder\<close>

text \<open>
  A regular file with its bytes, a regular file of some size that cannot be opened or read, or
  something that is not a regular file, with its mode.
\<close>

datatype entry = EntryFile string | EntryUnreadable int goerr | EntryOther string

fun entry_size :: "entry \<Rightarrow> int" where
  "entry_size (EntryFile content) = int (length content)"
| "entry_size (EntryUnreadable n _) = n"
| "entry_size (EntryOther _) = 0"

record Bundle =
  b_dir :: "string \<Rightarrow> entry option"
  b_maxFileBytes :: int

text \<open>
  What \<^verbatim>\<open>sigs.k8s.io/yaml\<close> makes of a document: the keys of a top level mapping, and the value
  each type decodes to, with the error, which may leave part of the value behind.
\<close>

record codec =
  top_keys :: "string \<Rightarrow> string list option"
  dec_nodes :: "string \<Rightarrow> Node list \<times> goerr option"
  dec_slices :: "string \<Rightarrow> ResourceSlice list \<times> goerr option"
  dec_pods :: "string \<Rightarrow> Pod list \<times> goerr option"
  dec_events :: "string \<Rightarrow> Event list \<times> goerr option"
  dec_objects :: "string \<Rightarrow> unstructured list \<times> goerr option"
  dec_object :: "string \<Rightarrow> unstructured \<times> goerr option"

subsection \<open>Reading files\<close>

definition isLegacyDocument :: "codec \<Rightarrow> string \<Rightarrow> bool" where
  "isLegacyDocument cd content = (case top_keys cd content of None \<Rightarrow> False
     | Some keys \<Rightarrow> \<exists>key \<in> set [''typemeta'', ''listmeta'', ''objectmeta'']. key \<in> set keys)"

definition readFile :: "codec \<Rightarrow> (string \<Rightarrow> 'a list \<times> goerr option) \<Rightarrow> Bundle \<Rightarrow> goerr option \<Rightarrow> string
    \<Rightarrow> 'a list \<times> goerr option" where
  "readFile cd dec b ctx name = (case ctx of Some e \<Rightarrow> ([], Some e)
     | None \<Rightarrow> (case b_dir b name of
         None \<Rightarrow> ([], Some (ErrText ''no such file or directory''))
       | Some (EntryOther mode) \<Rightarrow> ([], Some (UnsafeBundleFileError name mode))
       | Some ent \<Rightarrow>
           if entry_size ent > b_maxFileBytes b then ([], Some (BundleFileTooLargeError name (b_maxFileBytes b)))
           else (case ent of
               EntryUnreadable _ e \<Rightarrow> ([], Some e)
             | EntryFile content \<Rightarrow>
                 if isLegacyDocument cd content then ([], Some (LegacyBundleError name)) else dec content)))"

definition markerLimit :: int where "markerLimit = 4096"

definition readRaw :: "Bundle \<Rightarrow> goerr option \<Rightarrow> string \<Rightarrow> goerr + string" where
  "readRaw b ctx name = (case ctx of Some e \<Rightarrow> Inl e
     | None \<Rightarrow> (case b_dir b name of
         None \<Rightarrow> Inl (ErrText ''no such file or directory'')
       | Some (EntryOther mode) \<Rightarrow> Inl (UnsafeBundleFileError name mode)
       | Some ent \<Rightarrow>
           if entry_size ent > markerLimit then Inl (BundleFileTooLargeError name markerLimit)
           else (case ent of EntryUnreadable _ e \<Rightarrow> Inl e | EntryFile content \<Rightarrow> Inr content)))"

fun is_structural :: "goerr \<Rightarrow> bool" where
  "is_structural (LegacyBundleError _) = True"
| "is_structural (UnsafeBundleFileError _ _) = True"
| "is_structural (BundleFileTooLargeError _ _) = True"
| "is_structural _ = False"

definition isStructuralBundleError :: "goerr \<Rightarrow> bool" where
  "isStructuralBundleError e \<longleftrightarrow> errors_As is_structural e \<noteq> None
     \<or> errors_Is e Canceled \<or> errors_Is e DeadlineExceeded"

definition readYAML :: "codec \<Rightarrow> (string \<Rightarrow> 'a list \<times> goerr option) \<Rightarrow> Bundle \<Rightarrow> goerr option \<Rightarrow> string
    \<Rightarrow> 'a list \<times> goerr option" where
  "readYAML cd dec b ctx name = (let (v, err) = readFile cd dec b ctx name
     in case err of None \<Rightarrow> (v, None)
        | Some e \<Rightarrow> if isStructuralBundleError e then (v, Some e) else (v, Some (PartialError name e)))"

subsection \<open>Markers\<close>

text \<open>\<^verbatim>\<open>filepath.Ext\<close> of a name without a separator: from its last dot on.\<close>

definition filepath_Ext :: "string \<Rightarrow> string" where
  "filepath_Ext name = (if CHR ''.'' \<in> set name
     then CHR ''.'' # rev (takeWhile (\<lambda>c. c \<noteq> CHR ''.'') (rev name)) else [])"

definition marker_name :: "string \<Rightarrow> string" where
  "marker_name name = take (length name - length (filepath_Ext name)) name @ ''.missing''"

text \<open>No marker, or the error the marker stands for, which may be none.\<close>

definition markerReason :: "Bundle \<Rightarrow> goerr option \<Rightarrow> string \<Rightarrow> goerr option \<Rightarrow> goerr option option" where
  "markerReason b ctx name absent = (case readRaw b ctx (marker_name name) of
       Inl _ \<Rightarrow> None
     | Inr raw \<Rightarrow> (let reason = strings_TrimSpace raw
         in if reason = ''not installed'' then Some absent
            else Some (Some (PartialError name (ErrText reason)))))"

subsection \<open>The reads\<close>

definition Bundle_ResourceSlices :: "codec \<Rightarrow> Bundle \<Rightarrow> goerr option \<Rightarrow> ResourceSlice list \<times> goerr option" where
  "Bundle_ResourceSlices cd b ctx = (let (items, err) = readFile cd (dec_slices cd) b ctx ''resourceslices.yaml''
     in case err of
          Some e \<Rightarrow> if isStructuralBundleError e then ([], Some e)
            else ([], Some (PartialError ''resourceslices'' (ErrFmt ''resourceslices.yaml: '' (Some e))))
        | None \<Rightarrow> (filter (\<lambda>s. slice_Driver s = DRADriverName) items, None))"

definition Bundle_ClassifyNodes :: "codec \<Rightarrow> Bundle \<Rightarrow> goerr option \<Rightarrow> (Node list \<times> Node list) \<times> goerr option" where
  "Bundle_ClassifyNodes cd b ctx = (let (nodes, err) = readYAML cd (dec_nodes cd) b ctx ''nodes.yaml''
     in case err of Some e \<Rightarrow> (([], []), Some e)
        | None \<Rightarrow> (let (slices, sliceErr) = Bundle_ResourceSlices cd b ctx
            in if (case sliceErr of None \<Rightarrow> False | Some e \<Rightarrow> isStructuralBundleError e) then (([], []), sliceErr)
               else (classifyNodes nodes (sliceNodeNames slices), sliceErr)))"

definition Bundle_Nodes :: "codec \<Rightarrow> Bundle \<Rightarrow> goerr option \<Rightarrow> Node list \<times> goerr option" where
  "Bundle_Nodes cd b ctx = (let ((gpus, _), err) = Bundle_ClassifyNodes cd b ctx in (gpus, err))"

definition Bundle_HintedNodes :: "codec \<Rightarrow> Bundle \<Rightarrow> goerr option \<Rightarrow> Node list \<times> goerr option" where
  "Bundle_HintedNodes cd b ctx = (let ((_, hinted), err) = Bundle_ClassifyNodes cd b ctx in (hinted, err))"

text \<open>The namespaces recorded are the keys of a map, so sorted they are the distinct names.\<close>

definition describeNamespaces :: "string list \<Rightarrow> string" where
  "describeNamespaces recorded =
     (if recorded = [] then ''no namespaces''
      else let names = sort_Strings recorded
           in if length names = 1 then ''namespace '' @ hd names
              else ''namespaces '' @ strings_Join names '', '')"

definition podsNotRecorded :: "string \<Rightarrow> string list \<Rightarrow> goerr option \<Rightarrow> goerr" where
  "podsNotRecorded ns recorded gpuPodsErr =
     (if ns = []
      then ErrFmt (''gpu_pods.yaml is not in the bundle, so it holds only '' @ describeNamespaces recorded @ '': '') gpuPodsErr
      else ErrText (''gpu_operand_pods.yaml holds only '' @ describeNamespaces recorded))"

definition pod_key :: "Pod \<Rightarrow> string" where
  "pod_key p = pod_Namespace p @ ''/'' @ pod_Name p"

fun merge_pods :: "string \<Rightarrow> (string gomap \<Rightarrow> bool) \<Rightarrow> Pod list \<Rightarrow> string list \<Rightarrow> Pod list \<Rightarrow> Pod list" where
  "merge_pods ns sel [] seen out = out"
| "merge_pods ns sel (p # rest) seen out =
     (if pod_key p \<in> set seen then merge_pods ns sel rest seen out
      else if ns \<noteq> [] \<and> pod_Namespace p \<noteq> ns then merge_pods ns sel rest (pod_key p # seen) out
      else if \<not> sel (pod_Labels p) then merge_pods ns sel rest (pod_key p # seen) out
      else merge_pods ns sel rest (pod_key p # seen) (out @ [p]))"

definition Bundle_Pods :: "(string \<Rightarrow> goerr + (string gomap \<Rightarrow> bool)) \<Rightarrow> codec \<Rightarrow> Bundle \<Rightarrow> goerr option
    \<Rightarrow> string \<Rightarrow> string \<Rightarrow> Pod list \<times> goerr option" where
  "Bundle_Pods parse cd b ctx ns selector =
     (case (if selector = [] then Inr (\<lambda>_. True) else parse selector) of
        Inl err \<Rightarrow> ([], Some (ErrFmt (''parse selector '' @ fmt_q selector @ '': '') (Some err)))
      | Inr sel \<Rightarrow>
          (let (pods, err) = readYAML cd (dec_pods cd) b ctx ''gpu_operand_pods.yaml''
           in case err of Some e \<Rightarrow> ([], Some e)
              | None \<Rightarrow>
                  (let (gpuPods, gpuPodsErr) = readYAML cd (dec_pods cd) b ctx ''gpu_pods.yaml''
                   in if (case gpuPodsErr of None \<Rightarrow> False | Some e \<Rightarrow> isStructuralBundleError e)
                      then ([], gpuPodsErr)
                      else let recorded = remdups (map pod_Namespace pods);
                               out = merge_pods ns sel (pods @ gpuPods) [] []
                           in if ns = [] \<and> gpuPodsErr = None \<or> ns \<in> set recorded then (out, None)
                              else (out, Some (PartialError ''pods'' (podsNotRecorded ns recorded gpuPodsErr))))))"

definition Bundle_ClusterPolicies :: "codec \<Rightarrow> Bundle \<Rightarrow> goerr option \<Rightarrow> unstructured list \<times> goerr option" where
  "Bundle_ClusterPolicies cd b ctx = (let (obj, err) = readYAML cd (dec_object cd) b ctx ''cluster_policy.yaml''
     in case err of
          Some e \<Rightarrow> (case markerReason b ctx ''cluster_policy.yaml'' (Some ErrNotInstalled) of
              Some marked \<Rightarrow> ([], marked) | None \<Rightarrow> ([], Some e))
        | None \<Rightarrow> if obj = [] then ([], Some (PartialError ''cluster_policy.yaml'' (ErrText ''content is not a Kubernetes object'')))
                  else ([obj], None))"

definition Bundle_NodeEvents :: "codec \<Rightarrow> Bundle \<Rightarrow> goerr option \<Rightarrow> Event list \<times> goerr option" where
  "Bundle_NodeEvents cd b ctx = (let (events, err) = readYAML cd (dec_events cd) b ctx ''node_events.yaml''
     in case err of Some e \<Rightarrow> ([], Some e) | None \<Rightarrow> (onlyNodeEvents events, None))"

definition Bundle_ComputeDomains :: "codec \<Rightarrow> Bundle \<Rightarrow> goerr option \<Rightarrow> unstructured list \<times> goerr option" where
  "Bundle_ComputeDomains cd b ctx = (let (items, err) = readYAML cd (dec_objects cd) b ctx ''compute_domains.yaml''
     in case err of
          Some e \<Rightarrow> (case markerReason b ctx ''compute_domains.yaml'' None of
              Some marked \<Rightarrow> ([], marked) | None \<Rightarrow> ([], Some e))
        | None \<Rightarrow> (items, None))"

definition bundleHasNoKueue :: "string \<Rightarrow> unstructured list \<times> goerr option" where
  "bundleHasNoKueue resource =
     ([], Some (PartialError resource (ErrText ''must-gather does not collect the Kueue objects'')))"

definition Bundle_Job :: "string \<Rightarrow> string \<Rightarrow> Job option \<times> goerr option" where
  "Bundle_Job ns name =
     (None, Some (PartialError ''jobs'' (ErrText ''must-gather does not collect the workload objects'')))"

definition bundle_source :: "(string \<Rightarrow> goerr + (string gomap \<Rightarrow> bool)) \<Rightarrow> codec \<Rightarrow> Bundle \<Rightarrow> goerr option \<Rightarrow> unit Source" where
  "bundle_source parse cd b ctx =
     \<lparr>src_ClassifyNodes = (\<lambda>s. (Bundle_ClassifyNodes cd b ctx, s)),
      src_Pods = (\<lambda>ns selector s. (Bundle_Pods parse cd b ctx ns selector, s)),
      src_ResourceSlices = (\<lambda>s. (Bundle_ResourceSlices cd b ctx, s)),
      src_ClusterPolicies = (\<lambda>s. (Bundle_ClusterPolicies cd b ctx, s)),
      src_NodeEvents = Some (\<lambda>s. (Bundle_NodeEvents cd b ctx, s)),
      src_ComputeDomains = Some (\<lambda>s. (Bundle_ComputeDomains cd b ctx, s))\<rparr>"

subsection \<open>A bundle implements the source interface\<close>

lemma Bundle_ResourceSlices_err:
  "Bundle_ResourceSlices cd b ctx = (slices, Some e) \<Longrightarrow> \<not> isStructuralBundleError e \<Longrightarrow> isPartial e"
  by (auto simp: Bundle_ResourceSlices_def isPartial_def errors_As_self split: prod.splits option.splits if_splits)

interpretation gathered: node_source "bundle_source parse cd b ctx" for parse cd b ctx
proof (unfold_locales, goal_cases)
  case (1 s gpus hinted err s')
  then show ?case
    by (auto simp: bundle_source_def Bundle_ClassifyNodes_def classifyNodes_laws
        split: prod.splits option.splits if_splits)
next
  case (2 s gpus hinted err s')
  then show ?case
    by (auto simp: bundle_source_def Bundle_ClassifyNodes_def classifyNodes_laws
        split: prod.splits option.splits if_splits)
next
  case (3 s gpus hinted err s')
  then show ?case
    by (auto simp: bundle_source_def Bundle_ClassifyNodes_def node_names_def
        dest: classifyNodes_laws(3) [unfolded node_names_def] split: prod.splits option.splits if_splits)
next
  case (4 s gpus hinted e s')
  then show ?case
    by (auto simp: bundle_source_def Bundle_ClassifyNodes_def
        dest: Bundle_ResourceSlices_err split: prod.splits option.splits if_splits)
next
  case (5 s slices err s' x)
  then show ?case
    by (auto simp: bundle_source_def Bundle_ResourceSlices_def split: prod.splits option.splits if_splits)
qed

lemma merge_pods_eq:
  "merge_pods ns sel ps seen out = out @ filter (\<lambda>p. (ns = [] \<or> pod_Namespace p = ns) \<and> sel (pod_Labels p))
     (first_by pod_key ps seen)"
  by (induction ns sel ps seen out rule: merge_pods.induct) auto

text \<open>Whatever fails below, a bundle read fails as a whole only for a structural reason.\<close>

lemma readYAML_err:
  "readYAML cd dec b ctx name = (v, Some e) \<Longrightarrow> isStructuralBundleError e \<or> isPartial e"
  by (auto simp: readYAML_def isPartial_def errors_As_self split: prod.splits option.splits if_splits)

subsection \<open>Properties\<close>

text \<open>
  The pods a bundle answers with are those of both files, one per
  namespace and name with the operand file first, that are in the namespace and match the
  selector. The answer carries no error only when it is complete for the question: all
  namespaces with the GPU pod file present, or a namespace the operand file records.
\<close>

theorem bundle_pods_complete:
  assumes "Bundle_Pods parse cd b ctx ns selector = (out, None)"
  shows "\<exists>sel operands gpuPods gpuErr.
      (selector = [] \<and> sel = (\<lambda>_. True) \<or> selector \<noteq> [] \<and> parse selector = Inr sel)
      \<and> readYAML cd (dec_pods cd) b ctx ''gpu_operand_pods.yaml'' = (operands, None)
      \<and> readYAML cd (dec_pods cd) b ctx ''gpu_pods.yaml'' = (gpuPods, gpuErr)
      \<and> (ns = [] \<and> gpuErr = None \<or> ns \<in> pod_Namespace ` set operands)
      \<and> distinct (map pod_key out)
      \<and> set out = {p. first_of pod_key (operands @ gpuPods) p \<and> (ns = [] \<or> pod_Namespace p = ns) \<and> sel (pod_Labels p)}"
proof -
  obtain sel where sel: "(if selector = [] then Inr (\<lambda>_. True) else parse selector) = Inr sel"
    using assms by (cases "if selector = [] then Inr (\<lambda>_. True) else parse selector") (auto simp: Bundle_Pods_def)
  obtain operands e1 where r1: "readYAML cd (dec_pods cd) b ctx ''gpu_operand_pods.yaml'' = (operands, e1)"
    by (metis surj_pair)
  obtain gpuPods gpuErr where r2: "readYAML cd (dec_pods cd) b ctx ''gpu_pods.yaml'' = (gpuPods, gpuErr)"
    by (metis surj_pair)
  have e1: "e1 = None" using assms sel r1 by (auto simp: Bundle_Pods_def split: option.splits)
  have fin: "out = merge_pods ns sel (operands @ gpuPods) [] []"
    "ns = [] \<and> gpuErr = None \<or> ns \<in> pod_Namespace ` set operands"
    using assms sel r1 r2 e1 by (auto simp: Bundle_Pods_def Let_def split: option.splits if_splits)
  have "(selector = [] \<and> sel = (\<lambda>_. True)) \<or> (selector \<noteq> [] \<and> parse selector = Inr sel)"
    using sel by (auto split: if_splits)
  moreover have "distinct (map pod_key out)"
    by (simp add: fin(1) merge_pods_eq distinct_filter_map first_by_distinct)
  moreover have "set out = {p. first_of pod_key (operands @ gpuPods) p \<and> (ns = [] \<or> pod_Namespace p = ns) \<and> sel (pod_Labels p)}"
    by (auto simp: fin(1) merge_pods_eq first_by_iff)
  ultimately show ?thesis using r1 r2 e1 fin(2) by blast
qed

definition sample_pod :: "string \<Rightarrow> string \<Rightarrow> Pod" where
  "sample_pod ns name = \<lparr>pod_Name = name, pod_Namespace = ns, pod_Labels = [], pod_OwnerReferences = [],
     pod_Spec = \<lparr>spec_NodeName = [], spec_InitContainers = [], spec_Containers = [], spec_Overhead = [], spec_ReadinessGates = []\<rparr>, pod_Phase = ''Running'',
     pod_ContainerStatuses = [], pod_InitContainerStatuses = [], pod_UID = [], pod_Annotations = [], pod_CreationTimestamp = 0,
     pod_DeletionTimestamp = None, pod_Reason = [], pod_PodIP = [], pod_NominatedNodeName = [], pod_Conditions = []\<rparr>"

definition sample_codec :: codec where
  "sample_codec = \<lparr>top_keys = (\<lambda>_. Some [''items'']), dec_nodes = (\<lambda>_. ([], None)), dec_slices = (\<lambda>_. ([], None)),
     dec_pods = (\<lambda>_. ([sample_pod ''gpu-operator'' ''driver''], None)), dec_events = (\<lambda>_. ([], None)),
     dec_objects = (\<lambda>_. ([], None)), dec_object = (\<lambda>_. ([], None))\<rparr>"

definition sample_bundle :: Bundle where
  "sample_bundle = \<lparr>b_dir = (\<lambda>_. Some (EntryFile ''items: []'')), b_maxFileBytes = 1000\<rparr>"

theorem bundle_pods_complete_witness:
  "distinct (map pod_key (fst (Bundle_Pods (\<lambda>_. Inr (\<lambda>_. True)) sample_codec sample_bundle None [] [])))"
proof -
  have "Bundle_Pods (\<lambda>_. Inr (\<lambda>_. True)) sample_codec sample_bundle None [] []
      = ([sample_pod ''gpu-operator'' ''driver''], None)"
    by (simp add: Bundle_Pods_def readYAML_def readFile_def sample_bundle_def sample_codec_def isLegacyDocument_def)
  from bundle_pods_complete [OF this] this show ?thesis by auto
qed

end
