(* ===== verification/Inventory_Build.thy ===== *)
theory Inventory_Build
  imports Inventory_Pods Source_Live Source_Bundle
begin

text \<open>
  \<^verbatim>\<open>pkg/inventory/build.go\<close> and \<^verbatim>\<open>table.go\<close>: the inventory of a cluster read through a source,
  with what could not be read, and its table. The label selector language is a parameter: what
  \<^verbatim>\<open>labels.Parse\<close> makes of a selector.
\<close>

type_synonym selector_parser = "string \<Rightarrow> goerr + (string gomap \<Rightarrow> bool)"

subsection \<open>Building\<close>

record BuildOptions =
  bo_Node :: string
  bo_Selector :: string
  bo_NoPods :: bool
  bo_IncludeHinted :: bool
  bo_WithDetails :: bool

definition parseSelector :: "selector_parser \<Rightarrow> selector_parser" where
  "parseSelector parse value =
     (if value = [] then Inr (\<lambda>_. True)
      else case parse value of
          Inl err \<Rightarrow> Inl (UsageError (''could not parse the label selector '' @ fmt_q value) (Some err))
        | Inr sel \<Rightarrow> Inr sel)"

definition filterNodes :: "Node list \<Rightarrow> string \<Rightarrow> (string gomap \<Rightarrow> bool) \<Rightarrow> Node list" where
  "filterNodes nodes name sel =
     filter (\<lambda>n. \<not> (name \<noteq> [] \<and> node_Name n \<noteq> name) \<and> sel (node_Labels n)) nodes"

definition names_node :: "ResourceSlice \<Rightarrow> bool" where
  "names_node s \<longleftrightarrow> \<not> (slice_Driver s \<noteq> DRADriverName \<or> slice_NodeName s = None \<or> slice_NodeName s = Some [])"

definition slicesByNode :: "ResourceSlice list \<Rightarrow> string list gomap" where
  "slicesByNode slices = map (\<lambda>(node, names). (node, sort_Strings names))
     (group_into (\<lambda>s. the (slice_NodeName s)) slice_Name (filter names_node slices) [])"

fun joinPartials_loop :: "goerr list \<Rightarrow> string list \<Rightarrow> goerr list \<Rightarrow> goerr list" where
  "joinPartials_loop [] seen kept = kept"
| "joinPartials_loop (err # rest) seen kept =
     (case errors_As is_PartialError err of
        Some (PartialError resource _) \<Rightarrow>
          if resource \<in> set seen then joinPartials_loop rest seen kept
          else joinPartials_loop rest (resource # seen) (kept @ [err])
      | _ \<Rightarrow> joinPartials_loop rest seen (kept @ [err]))"

definition joinPartials :: "goerr list \<Rightarrow> goerr option" where
  "joinPartials partials = (if partials = [] then None else errors_Join (joinPartials_loop partials [] []))"

record clusterFacts =
  cf_slices :: "string list gomap"
  cf_requested :: "int gomap"
  cf_requestedKnown :: bool
  cf_operands :: "OperandPod list gomap"
  cf_withDetails :: bool

definition forNode :: "clusterFacts \<Rightarrow> string \<Rightarrow> bool \<Rightarrow> nodeContext" where
  "forNode f name hinted = \<lparr>nc_hinted = hinted, nc_sliceNames = mget [] (cf_slices f) name,
     nc_requested = mget 0 (cf_requested f) name, nc_requestedKnown = cf_requestedKnown f,
     nc_operands = mget [] (cf_operands f) name, nc_withDetails = cf_withDetails f\<rparr>"

text \<open>A read that failed for a reason that is not partial ends the build; a partial one is kept.\<close>

definition fatal :: "goerr option \<Rightarrow> bool" where
  "fatal err = (case err of None \<Rightarrow> False | Some e \<Rightarrow> \<not> isPartial e)"

definition kept_err :: "goerr option \<Rightarrow> goerr list" where
  "kept_err err = (case err of None \<Rightarrow> [] | Some e \<Rightarrow> [e])"

definition build_at :: "clusterFacts \<Rightarrow> bool \<Rightarrow> Node \<Rightarrow> GPUNode" where
  "build_at facts hinted n = buildNode n (forNode facts (node_Name n) hinted)"

definition gatherFacts :: "BuildOptions \<Rightarrow> ResourceSlice list \<Rightarrow> Pod list \<Rightarrow> bool \<Rightarrow> clusterFacts" where
  "gatherFacts opts slices pods requestedKnown =
     \<lparr>cf_slices = slicesByNode slices, cf_requested = requestedByNode pods, cf_requestedKnown = requestedKnown,
      cf_operands = operandsByNode pods (operatorNamespace pods), cf_withDetails = bo_WithDetails opts\<rparr>"

definition assemble :: "BuildOptions \<Rightarrow> (string gomap \<Rightarrow> bool) \<Rightarrow> Node list \<Rightarrow> Node list \<Rightarrow> ResourceSlice list
    \<Rightarrow> Pod list \<Rightarrow> bool \<Rightarrow> GPUNodeList \<times> int" where
  "assemble opts sel gpu hinted slices pods requestedKnown =
     (let gpuNodes = filterNodes gpu (bo_Node opts) sel;
          hintedNodes = filterNodes hinted (bo_Node opts) sel;
          excluded = (if \<not> bo_IncludeHinted opts then int (length hintedNodes) else 0);
          hintedNodes = (if \<not> bo_IncludeHinted opts then [] else hintedNodes);
          facts = gatherFacts opts slices pods requestedKnown
      in (sort_Slice g_Name (map (build_at facts False) gpuNodes @ map (build_at facts True) hintedNodes), excluded))"

definition BuildWithHinted :: "selector_parser \<Rightarrow> 's Source \<Rightarrow> BuildOptions \<Rightarrow> 's
    \<Rightarrow> (GPUNodeList option \<times> int \<times> goerr option) \<times> 's" where
  "BuildWithHinted parse src opts s = (case parseSelector parse (bo_Selector opts) of
       Inl e \<Rightarrow> ((None, 0, Some e), s)
     | Inr sel \<Rightarrow>
         (let (((gpu, hinted), err1), s) = src_ClassifyNodes src s
          in if fatal err1 then ((None, 0, Some (ErrFmt ''classifying the cluster's nodes: '' err1)), s)
             else let ((slices, err2), s) = src_ResourceSlices src s
               in if fatal err2 then ((None, 0, Some (ErrFmt ''reading the GPU resource slices: '' err2)), s)
                  else let ((pods, err3), s) = (if bo_NoPods opts then (([], None), s) else src_Pods src [] [] s)
                    in if fatal err3 then ((None, 0, Some (ErrFmt ''listing the cluster's pods: '' err3)), s)
                       else let (items, excluded) = assemble opts sel gpu hinted slices pods
                                  (\<not> bo_NoPods opts \<and> err3 = None)
                         in ((Some items, excluded, joinPartials (kept_err err1 @ kept_err err2 @ kept_err err3)), s)))"

definition inventory_Build :: "selector_parser \<Rightarrow> 's Source \<Rightarrow> BuildOptions \<Rightarrow> 's \<Rightarrow> (GPUNodeList option \<times> goerr option) \<times> 's" where
  "inventory_Build parse src opts s = (let ((l, _, err), s) = BuildWithHinted parse src opts s in ((l, err), s))"

subsection \<open>Tables\<close>

definition baseColumns :: "Column list" where
  "baseColumns = [OneField ''NODE'' ''metadata.name'', OneField ''PRODUCT'' ''product'',
     \<lparr>col_Header = ''GPUS'', col_Fields = [''requested'', ''allocatable'', ''capacity'']\<rparr>,
     OneField ''DRIVER'' ''driverVersion'', OneField ''CUDA'' ''cudaVersion'', OneField ''MODE'' ''mode'',
     OneField ''MIG'' ''mig.strategy'', OneField ''UPGRADE'' ''upgradeState'',
     \<lparr>col_Header = ''STATUS'', col_Fields = [''ready'', ''unschedulable'']\<rparr>]"

definition columnsFor :: "bool \<Rightarrow> string list \<Rightarrow> Column list" where
  "columnsFor wide topologyKeys = (if \<not> wide then baseColumns
     else baseColumns @ [OneField ''CLIQUE'' ''clique''] @ map (\<lambda>key. OneField (strings_ToUpper key) ''topology'') topologyKeys)"

definition gpus_cell :: "GPUNode \<Rightarrow> string" where
  "gpus_cell n = (if g_RequestedKnown n then strconv_FormatInt (g_Requested n) else ''?'') @ ''/''
     @ strconv_FormatInt (g_Allocatable n) @ ''/'' @ strconv_FormatInt (g_Capacity n)"

definition node_status :: "GPUNode \<Rightarrow> string" where
  "node_status n = (if g_Ready n then ''Ready'' else ''NotReady'')
     @ (if g_Unschedulable n then '',SchedulingDisabled'' else [])"

definition node_row :: "GPUNode \<Rightarrow> bool \<Rightarrow> string list \<Rightarrow> string list" where
  "node_row n wide topologyKeys =
     (let row = [g_Name n, g_Product n, gpus_cell n, g_DriverVersion n, g_CUDAVersion n, g_Mode n,
                 mig_Strategy (g_MIG n), g_UpgradeState n, node_status n]
      in if \<not> wide then row else row @ [g_Clique n] @ map (sget (g_Topology n)) topologyKeys)"

definition sortedKeys :: "string gomap \<Rightarrow> string list" where
  "sortedKeys m = sort_Strings (map fst m)"

definition GPUNode_TableColumns :: "GPUNode \<Rightarrow> bool \<Rightarrow> Column list" where
  "GPUNode_TableColumns n wide = columnsFor wide (sortedKeys (g_Topology n))"

definition GPUNode_TableRows :: "GPUNode \<Rightarrow> bool \<Rightarrow> string list list" where
  "GPUNode_TableRows n wide = [node_row n wide (sortedKeys (g_Topology n))]"

text \<open>The keys of all nodes, collected in a map and sorted.\<close>

definition topologyKeys :: "GPUNodeList \<Rightarrow> string list" where
  "topologyKeys items = sort_Strings (remdups (concat (map (\<lambda>n. map fst (g_Topology n)) items)))"

definition GPUNodeList_TableColumns :: "GPUNodeList \<Rightarrow> bool \<Rightarrow> Column list" where
  "GPUNodeList_TableColumns items wide = columnsFor wide (topologyKeys items)"

definition GPUNodeList_TableRows :: "GPUNodeList \<Rightarrow> bool \<Rightarrow> string list list" where
  "GPUNodeList_TableRows items wide = map (\<lambda>n. node_row n wide (topologyKeys items)) items"

lemma node_row_width: "length (node_row n wide keys) = length (columnsFor wide keys)"
  by (simp add: node_row_def columnsFor_def baseColumns_def Let_def)

lemma columnsFor_not_Nil: "columnsFor wide keys \<noteq> []"
  by (simp add: columnsFor_def baseColumns_def)

interpretation node_table: table_rows GPUNode_TableColumns GPUNode_TableRows
  by unfold_locales
     (auto simp: GPUNode_TableColumns_def GPUNode_TableRows_def node_row_width columnsFor_not_Nil)

interpretation node_list_table: table_rows GPUNodeList_TableColumns GPUNodeList_TableRows
  by unfold_locales
     (auto simp: GPUNodeList_TableColumns_def GPUNodeList_TableRows_def node_row_width columnsFor_not_Nil)

subsection \<open>What a build returns\<close>

definition partial_resource :: "goerr \<Rightarrow> string option" where
  "partial_resource e = (case errors_As is_PartialError e of Some (PartialError r _) \<Rightarrow> Some r | _ \<Rightarrow> None)"

lemma isPartial_resource: "isPartial e \<longleftrightarrow> (\<exists>r. partial_resource e = Some r)"
proof (cases "errors_As is_PartialError e")
  case (Some x)
  then obtain r c where "x = PartialError r c"
    using errors_As_Some [OF Some] by (cases x) auto
  then show ?thesis using Some by (simp add: isPartial_def partial_resource_def)
qed (simp add: isPartial_def partial_resource_def)

lemma joinPartials_loop_eq:
  assumes "\<forall>e \<in> set es. isPartial e"
  shows "joinPartials_loop es seen kept = kept @ first_by partial_resource es (map Some seen)"
  using assms
proof (induction es arbitrary: seen kept)
  case (Cons e es)
  then obtain r where r: "partial_resource e = Some r" by (auto simp: isPartial_resource)
  then obtain c where "errors_As is_PartialError e = Some (PartialError r c)"
    by (auto simp: partial_resource_def split: option.splits goerr.splits)
  moreover have "Some r \<in> set (map Some seen) \<longleftrightarrow> r \<in> set seen" by auto
  ultimately show ?case using Cons r by simp
qed simp

lemma fatal_kept: "\<not> fatal err \<Longrightarrow> e \<in> set (kept_err err) \<Longrightarrow> isPartial e"
  by (auto simp: fatal_def kept_err_def split: option.splits)

lemma buildNode_simps [simp]:
  "g_Name (buildNode n ctx) = node_Name n" "g_Hinted (buildNode n ctx) = nc_hinted ctx"
  by (simp_all add: buildNode_def Let_def)

lemma forNode_simps [simp]:
  "nc_hinted (forNode f n h) = h" "nc_sliceNames (forNode f n h) = mget [] (cf_slices f) n"
  by (simp_all add: forNode_def)

text \<open>A successful build, taken apart.\<close>

lemma BuildWithHinted_Some:
  assumes "BuildWithHinted parse src opts s = ((Some items, excluded, err), s')"
  obtains sel gpu hinted err1 s1 slices err2 s2 pods err3 where
    "parseSelector parse (bo_Selector opts) = Inr sel"
    "src_ClassifyNodes src s = (((gpu, hinted), err1), s1)" "\<not> fatal err1"
    "src_ResourceSlices src s1 = ((slices, err2), s2)" "\<not> fatal err2"
    "(if bo_NoPods opts then (([], None), s2) else src_Pods src [] [] s2) = ((pods, err3), s')" "\<not> fatal err3"
    "assemble opts sel gpu hinted slices pods (\<not> bo_NoPods opts \<and> err3 = None) = (items, excluded)"
    "err = joinPartials (kept_err err1 @ kept_err err2 @ kept_err err3)"
proof -
  obtain sel where sel: "parseSelector parse (bo_Selector opts) = Inr sel"
    using assms by (cases "parseSelector parse (bo_Selector opts)") (auto simp: BuildWithHinted_def)
  obtain gpu hinted err1 s1 where c: "src_ClassifyNodes src s = (((gpu, hinted), err1), s1)" by (metis surj_pair)
  have f1: "\<not> fatal err1" using assms sel c by (auto simp: BuildWithHinted_def)
  obtain slices err2 s2 where r: "src_ResourceSlices src s1 = ((slices, err2), s2)" by (metis surj_pair)
  have f2: "\<not> fatal err2" using assms sel c f1 r by (auto simp: BuildWithHinted_def)
  obtain pods err3 s3 where p: "(if bo_NoPods opts then (([], None), s2) else src_Pods src [] [] s2) = ((pods, err3), s3)"
    by (metis surj_pair)
  have f3: "\<not> fatal err3" using assms sel c f1 r f2 p by (auto simp: BuildWithHinted_def)
  obtain i x where a: "assemble opts sel gpu hinted slices pods (\<not> bo_NoPods opts \<and> err3 = None) = (i, x)"
    by (metis surj_pair)
  have "i = items" "x = excluded" "s3 = s'" "err = joinPartials (kept_err err1 @ kept_err err2 @ kept_err err3)"
    using assms sel c f1 r f2 p f3 a by (simp_all add: BuildWithHinted_def)
  then show ?thesis using that sel c f1 r f2 p f3 a by blast
qed

definition picked :: "BuildOptions \<Rightarrow> (string gomap \<Rightarrow> bool) \<Rightarrow> Node \<Rightarrow> bool" where
  "picked opts sel n \<longleftrightarrow> (bo_Node opts = [] \<or> node_Name n = bo_Node opts) \<and> sel (node_Labels n)"

lemma filterNodes_picked: "filterNodes ns (bo_Node opts) sel = filter (picked opts sel) ns"
  unfolding filterNodes_def by (rule filter_cong) (auto simp: picked_def)

lemma build_at_simps [simp]:
  "g_Name (build_at f h n) = node_Name n" "g_Hinted (build_at f h n) = h"
  by (simp_all add: build_at_def)

lemma assemble_eq:
  "assemble opts sel gpu hinted slices pods known =
    (sort_Slice g_Name (map (build_at (gatherFacts opts slices pods known) False) (filter (picked opts sel) gpu)
       @ map (build_at (gatherFacts opts slices pods known) True)
           (if bo_IncludeHinted opts then filter (picked opts sel) hinted else [])),
     if bo_IncludeHinted opts then 0 else int (length (filter (picked opts sel) hinted)))"
  by (simp add: assemble_def Let_def filterNodes_picked)

lemma assemble_sorted:
  assumes "assemble opts sel gpu hinted slices pods known = (items, excluded)"
    and "distinct (map node_Name (gpu @ hinted))"
  shows "sorted_wrt (<) (map g_Name items)"
proof -
  let ?raw = "map (build_at (gatherFacts opts slices pods known) False) (filter (picked opts sel) gpu)
    @ map (build_at (gatherFacts opts slices pods known) True)
        (if bo_IncludeHinted opts then filter (picked opts sel) hinted else [])"
  have names: "map g_Name ?raw = map node_Name (filter (picked opts sel) gpu
      @ (if bo_IncludeHinted opts then filter (picked opts sel) hinted else []))"
    by (simp add: comp_def)
  have "distinct (map g_Name ?raw)" unfolding names using assms(2) by (auto simp: distinct_filter_map)
  moreover have "items = sort_Slice g_Name ?raw" using assms(1) unfolding assemble_eq by blast
  ultimately show ?thesis by (simp only: strict_sorted_iff slice.sorter_distinct slice.sorter_sorted simp_thms)
qed

lemma assemble_set:
  assumes "assemble opts sel gpu hinted slices pods known = (items, excluded)"
  shows "set items = build_at (gatherFacts opts slices pods known) False ` {n \<in> set gpu. picked opts sel n}
      \<union> (if bo_IncludeHinted opts
         then build_at (gatherFacts opts slices pods known) True ` {n \<in> set hinted. picked opts sel n} else {})"
  using assms unfolding assemble_eq by auto

lemma assemble_members:
  assumes "assemble opts sel gpu hinted slices pods known = (items, excluded)"
  shows "g_Name ` {x \<in> set items. \<not> g_Hinted x} = node_Name ` {n \<in> set gpu. picked opts sel n}"
    and "g_Name ` {x \<in> set items. g_Hinted x}
      = (if bo_IncludeHinted opts then node_Name ` {n \<in> set hinted. picked opts sel n} else {})"
    and "excluded = (if bo_IncludeHinted opts then 0 else int (length (filter (picked opts sel) hinted)))"
proof -
  let ?f = "gatherFacts opts slices pods known"
  have "{x \<in> set items. \<not> g_Hinted x} = build_at ?f False ` {n \<in> set gpu. picked opts sel n}"
    "{x \<in> set items. g_Hinted x}
      = (if bo_IncludeHinted opts then build_at ?f True ` {n \<in> set hinted. picked opts sel n} else {})"
    unfolding assemble_set [OF assms] by auto
  then show "g_Name ` {x \<in> set items. \<not> g_Hinted x} = node_Name ` {n \<in> set gpu. picked opts sel n}"
    "g_Name ` {x \<in> set items. g_Hinted x}
      = (if bo_IncludeHinted opts then node_Name ` {n \<in> set hinted. picked opts sel n} else {})"
    by (simp_all add: image_image)
  show "excluded = (if bo_IncludeHinted opts then 0 else int (length (filter (picked opts sel) hinted)))"
    using assms unfolding assemble_eq by simp
qed

context node_source
begin

lemma build_sorted:
  assumes "BuildWithHinted parse src opts s = ((Some items, excluded, err), s')"
  shows "sorted_wrt (<) (map g_Name items)"
  by (rule BuildWithHinted_Some [OF assms]) (erule assemble_sorted, rule all_names_distinct)

text \<open>A partial build names each resource it could not read once.\<close>

lemma build_partials:
  assumes "BuildWithHinted parse src opts s = ((Some items, excluded, Some e), s')"
  shows "\<exists>es. e = ErrJoin es \<and> es \<noteq> [] \<and> (\<forall>x \<in> set es. isPartial x) \<and> distinct (map partial_resource es)"
proof (rule BuildWithHinted_Some [OF assms])
  fix err1 err2 err3
  assume f: "\<not> fatal err1" "\<not> fatal err2" "\<not> fatal err3"
    and e: "Some e = joinPartials (kept_err err1 @ kept_err err2 @ kept_err err3)"
  let ?ps = "kept_err err1 @ kept_err err2 @ kept_err err3"
  have all: "\<forall>x \<in> set ?ps. isPartial x" using f by (auto simp: fatal_kept)
  have "e = ErrJoin (first_by partial_resource ?ps [])" "first_by partial_resource ?ps [] \<noteq> []"
    using e joinPartials_loop_eq [OF all, of "[]" "[]"]
    by (auto simp: joinPartials_def errors_Join_def split: if_splits)
  moreover have "\<forall>x \<in> set (first_by partial_resource ?ps []). isPartial x"
    using all first_of_mem [of partial_resource ?ps] by (metis first_by_iff)
  ultimately show ?thesis by (auto simp: first_by_distinct)
qed

end

subsection \<open>Slices and modes agree\<close>

lemma slicesByNode_has: "mget [] (slicesByNode slices) n \<noteq> [] \<longleftrightarrow> mhas (sliceNodeNames slices) n"
proof -
  let ?m = "group_into (\<lambda>s. the (slice_NodeName s)) slice_Name (filter names_node slices) []"
  have "mget [] ?m n \<noteq> [] \<longleftrightarrow> (\<exists>s \<in> set slices. names_node s \<and> the (slice_NodeName s) = n)"
    unfolding group_into_get by (auto simp: filter_empty_conv mget_def)
  moreover have "mhas ?m n \<longleftrightarrow> (\<exists>s \<in> set slices. names_node s \<and> the (slice_NodeName s) = n)"
    unfolding mhas_iff group_into_keys by auto
  moreover have "names_node s \<and> the (slice_NodeName s) = n
      \<longleftrightarrow> slice_Driver s = DRADriverName \<and> slice_NodeName s = Some n \<and> n \<noteq> []" for s
    by (cases "slice_NodeName s") (auto simp: names_node_def)
  ultimately show ?thesis
    by (simp add: slicesByNode_def mget_map_values sliceNodeNames_has) (metis length_0_conv sort_Strings_simps(3))
qed

lemma sliceNodeNames_driver:
  "mhas (sliceNodeNames (filter (\<lambda>s. slice_Driver s = DRADriverName) slices)) n \<longleftrightarrow> mhas (sliceNodeNames slices) n"
  by (auto simp: sliceNodeNames_has)

text \<open>A denial is an answer of the server, not a dead context.\<close>

definition denials_answered :: "api \<Rightarrow> bool" where
  "denials_answered api \<longleftrightarrow> (\<forall>t e. api_ResourceSlices (api t) = Inl e \<longrightarrow> IsForbidden e \<longrightarrow>
     \<not> errors_Is e Canceled \<and> \<not> errors_Is e DeadlineExceeded)"

definition wf_nodes :: "api \<Rightarrow> bool" where
  "wf_nodes api \<longleftrightarrow> (\<forall>t ns. api_Nodes (api t) = Inr ns \<longrightarrow> (\<forall>n \<in> set ns. wf_map (node_Capacity n)))"

lemma partial_not_dead: "\<not> errors_Is e Canceled \<Longrightarrow> \<not> errors_Is e DeadlineExceeded
    \<Longrightarrow> \<not> context_dead (Some (PartialError r e))"
  by (simp add: context_dead_def errors_Is_def) (simp add: Canceled_def DeadlineExceeded_def)

text \<open>
  A first classification by the live reader leaves the slices it used in the memo, so the
  slices it answers with next are the same.
\<close>

lemma live_classify_slices:
  assumes c: "Live_ClassifyNodes api l = (((gpu, hinted), err1), l1)" and "\<not> live_sliceRead l"
    and ok: "\<not> fatal err1" "foreign_errors api" "denials_answered api"
  obtains t nodes slices where "api_Nodes (api t) = Inr nodes"
    "classifyNodes nodes (sliceNodeNames slices) = (gpu, hinted)"
    "fst (fst (Live_ResourceSlices api l1)) = filter (\<lambda>s. slice_Driver s = DRADriverName) slices"
proof -
  let ?l = "l\<lparr>live_clock := live_clock l + 1\<rparr>"
  have foreign: "api_Nodes (api t) = Inl e \<Longrightarrow> \<not> isPartial e" "api_ResourceSlices (api t) = Inl e \<Longrightarrow> \<not> isPartial e" for t e
    using ok(2) unfolding foreign_errors_def by blast+
  have wrapped: "fatal (Some (ErrFmt m (Some e))) \<longleftrightarrow> \<not> isPartial e" for m e
    by (simp add: fatal_def isPartial_def errors_As_def)
  obtain nodes where nodes: "api_Nodes (api (live_clock l)) = Inr nodes"
    using c ok(1) foreign wrapped
    by (cases "api_Nodes (api (live_clock l))") (auto simp: Live_ClassifyNodes_def request_def)
  obtain slices serr l2 where r: "listResourceSlices api ?l = ((slices, serr), l2)" by (metis surj_pair)
  have cl: "(if (case serr of None \<Rightarrow> False | Some e \<Rightarrow> \<not> is_PartialError e) then ((([], []), serr), l2)
      else ((classifyNodes nodes (sliceNodeNames slices), serr), l2)) = (((gpu, hinted), err1), l1)"
    using c nodes r by (simp add: Live_ClassifyNodes_def request_def)
  then have e: "serr = err1" "l2 = l1" by (auto split: if_splits)
  have read: "readResourceSlices api ?l = ((slices, serr), ?l\<lparr>live_clock := live_clock l + 2\<rparr>)
      \<and> (\<not> context_dead serr \<longrightarrow> l2 = ?l\<lparr>live_clock := live_clock l + 2, live_slices := slices,
          live_sliceErr := serr, live_sliceRead := True\<rparr>)"
    using r assms(2)
    by (auto simp: listResourceSlices_def readResourceSlices_def request_def split: prod.splits if_splits sum.splits)
  have shape: "serr = None \<or> (\<exists>e. serr = Some (PartialError ''resourceslices'' e) \<and> slices = [] \<and> \<not> context_dead serr)"
    using read ok e foreign wrapped partial_not_dead
    by (auto simp: readResourceSlices_def request_def denials_answered_def split: sum.splits if_splits)
  then have "\<not> context_dead serr" by (auto simp: context_dead_def)
  then have memo: "live_sliceRead l1" "live_slices l1 = slices" "live_sliceErr l1 = serr"
    using read e by auto
  have "classifyNodes nodes (sliceNodeNames slices) = (gpu, hinted)" using cl shape by auto
  moreover have "fst (fst (Live_ResourceSlices api l1)) = filter (\<lambda>s. slice_Driver s = DRADriverName) slices"
    using memo shape by (auto simp: Live_ResourceSlices_def memo_listResourceSlices)
  ultimately show ?thesis using that nodes by blast
qed

subsection \<open>Properties\<close>

text \<open>
  C1 (build_sorted_from_any_source). The inventory is strictly sorted by node name, so one
  entry per node, whether it was read from a cluster or from a bundle.
\<close>

theorem build_sorted_from_any_source:
  "(BuildWithHinted parse (live_source api) opts l = ((Some items, excluded, err), l')
      \<longrightarrow> sorted_wrt (<) (map g_Name items))
   \<and> (BuildWithHinted parse (bundle_source parse cd b ctx) opts u = ((Some items', excluded', err'), u')
      \<longrightarrow> sorted_wrt (<) (map g_Name items'))"
  using live.build_sorted gathered.build_sorted by blast

definition sample_opts :: BuildOptions where
  "sample_opts = \<lparr>bo_Node = [], bo_Selector = [], bo_NoPods = True, bo_IncludeHinted = True, bo_WithDetails = True\<rparr>"

definition quiet_api :: api where
  "quiet_api n = (sample_api n)\<lparr>api_ResourceSlices := Inr [], api_Nodes := Inr
     [sample_node ''b'' [] [(''nvidia.com/gpu'', quantity_of 8)], sample_node ''a'' [(''nvidia.com/gpu.present'', ''true'')] []]\<rparr>"

lemma quiet_build:
  "\<exists>items err l'. BuildWithHinted (\<lambda>_. Inr (\<lambda>_. True)) (live_source quiet_api) sample_opts NewLive = ((Some items, 0, err), l')"
  by (simp add: BuildWithHinted_def parseSelector_def sample_opts_def live_source_def Live_ClassifyNodes_def
      Live_ResourceSlices_def listResourceSlices_def readResourceSlices_def request_def quiet_api_def sample_api_def
      NewLive_def context_dead_def fatal_def assemble_def Let_def split: prod.splits)

theorem build_sorted_from_any_source_witness:
  "\<exists>items err l'. BuildWithHinted (\<lambda>_. Inr (\<lambda>_. True)) (live_source quiet_api) sample_opts NewLive
     = ((Some items, 0, err), l') \<and> sorted_wrt (<) (map g_Name items)"
  using quiet_build build_sorted_from_any_source [of "\<lambda>_. Inr (\<lambda>_. True)" quiet_api sample_opts NewLive] by blast




lemma denied_build:
  "\<exists>items e l'. BuildWithHinted (\<lambda>_. Inr (\<lambda>_. True)) (live_source sample_api) sample_opts NewLive = ((Some items, 0, Some e), l')"
  by (simp add: BuildWithHinted_def parseSelector_def sample_opts_def live_source_def Live_ClassifyNodes_def
      Live_ResourceSlices_def listResourceSlices_def readResourceSlices_def request_def sample_api_def sample_denied
      NewLive_def context_dead_def fatal_def assemble_def Let_def errors_Is_def Canceled_def DeadlineExceeded_def
      isPartial_def errors_As_def joinPartials_def errors_Join_def kept_err_def classifyNodes_def)


text \<open>
  In an inventory read by a fresh live reader, a node is listed as
  hinted exactly when its mode is none: membership was decided from the same slices the mode is
  computed from, because the slice list is read once. It holds when slices could not be read,
  too.
\<close>

theorem hinted_iff_no_mode:
  assumes b: "BuildWithHinted parse (live_source api) opts NewLive = ((Some items, excluded, err), l')"
    and api: "foreign_errors api" "denials_answered api" "wf_nodes api" and x: "x \<in> set items"
  shows "g_Hinted x \<longleftrightarrow> g_Mode x = ModeNone"
proof (rule BuildWithHinted_Some [OF b])
  fix sel gpu hinted err1 s1 slices err2 s2 pods err3
  assume c: "src_ClassifyNodes (live_source api) NewLive = (((gpu, hinted), err1), s1)" "\<not> fatal err1"
    and r: "src_ResourceSlices (live_source api) s1 = ((slices, err2), s2)"
    and a: "assemble opts sel gpu hinted slices pods (\<not> bo_NoPods opts \<and> err3 = None) = (items, excluded)"
  have c': "Live_ClassifyNodes api NewLive = (((gpu, hinted), err1), s1)" using c by (simp add: live_source_def)
  obtain t nodes allSlices where n: "api_Nodes (api t) = Inr nodes"
    "classifyNodes nodes (sliceNodeNames allSlices) = (gpu, hinted)"
    "fst (fst (Live_ResourceSlices api s1)) = filter (\<lambda>s. slice_Driver s = DRADriverName) allSlices"
    by (rule live_classify_slices [OF c' _ c(2) api(1,2)]) (simp_all add: NewLive_def)
  have sl: "slices = filter (\<lambda>s. slice_Driver s = DRADriverName) allSlices"
    using r n(3) by (simp add: live_source_def)
  let ?f = "gatherFacts opts slices pods (\<not> bo_NoPods opts \<and> err3 = None)"
  have mode: "g_Mode (build_at ?f h n) = ModeNone \<longleftrightarrow> \<not> gpu_member (sliceNodeNames allSlices) n"
    if "n \<in> set nodes" for h n
    using that n(1) api(3) slicesByNode_has [of slices] sliceNodeNames_driver [of allSlices]
    by (auto simp: build_at_def buildNode_def Let_def mode_none_iff wf_nodes_def gatherFacts_def sl)
  have mem: "set gpu \<subseteq> {n \<in> set nodes. gpu_member (sliceNodeNames allSlices) n}"
    "set hinted \<subseteq> {n \<in> set nodes. \<not> gpu_member (sliceNodeNames allSlices) n}"
    using classifyNodes_members [OF n(2)] first_of_mem by auto
  show ?thesis using x mem mode unfolding assemble_set [OF a] by (auto split: if_splits)
qed

theorem hinted_iff_no_mode_witness:
  "\<exists>items err l'. BuildWithHinted (\<lambda>_. Inr (\<lambda>_. True)) (live_source quiet_api) sample_opts NewLive
     = ((Some items, 0, err), l') \<and> (\<forall>x \<in> set items. g_Hinted x \<longleftrightarrow> g_Mode x = ModeNone)"
proof -
  have "foreign_errors quiet_api" "denials_answered quiet_api" "wf_nodes quiet_api"
    by (auto simp: foreign_errors_def denials_answered_def wf_nodes_def quiet_api_def sample_api_def
        sample_node_def wf_map_def)
  then show ?thesis using quiet_build hinted_iff_no_mode [of "\<lambda>_. Inr (\<lambda>_. True)" quiet_api sample_opts] by blast
qed

end
