(* ===== verification/Health_Contract.thy ===== *)
theory Health_Contract
  imports Inventory_Build
begin

text \<open>
  \<^verbatim>\<open>pkg/health\<close>: operator versions and the range a rule applies to (\<^verbatim>\<open>rule_version.go\<close>), rules, their
  input and their registry (\<^verbatim>\<open>rule.go\<close>), the report with its summary line, limit and table
  (\<^verbatim>\<open>report.go\<close>), and the contract every rule keeps, as a locale.
\<close>

subsection \<open>Versions\<close>

datatype version = Version int int int

fun compareVersions :: "version \<Rightarrow> version \<Rightarrow> int" where
  "compareVersions (Version a1 a2 a3) (Version b1 b2 b3) =
     (if a1 < b1 then -1 else if a1 > b1 then 1
      else if a2 < b2 then -1 else if a2 > b2 then 1
      else if a3 < b3 then -1 else if a3 > b3 then 1 else 0)"

text \<open>The order \<^verbatim>\<open>compareVersions\<close> gives is a linear order on versions.\<close>

instantiation version :: linorder
begin

definition less_eq_version :: "version \<Rightarrow> version \<Rightarrow> bool" where
  "less_eq_version a b \<longleftrightarrow> compareVersions a b \<le> 0"

definition less_version :: "version \<Rightarrow> version \<Rightarrow> bool" where
  "less_version a b \<longleftrightarrow> compareVersions a b < 0"

instance
proof
  fix a b c :: version
  show "a < b \<longleftrightarrow> a \<le> b \<and> \<not> b \<le> a"
    by (cases a; cases b) (auto simp: less_version_def less_eq_version_def)
  show "a \<le> a" by (cases a) (simp add: less_eq_version_def)
  show "a \<le> b \<Longrightarrow> b \<le> c \<Longrightarrow> a \<le> c"
    by (cases a; cases b; cases c) (auto simp: less_eq_version_def split: if_splits)
  show "a \<le> b \<Longrightarrow> b \<le> a \<Longrightarrow> a = b"
    by (cases a; cases b) (auto simp: less_eq_version_def split: if_splits)
  show "a \<le> b \<or> b \<le> a"
    by (cases a; cases b) (auto simp: less_eq_version_def)
qed

end

fun parse_parts :: "string list \<Rightarrow> int list option" where
  "parse_parts [] = Some []"
| "parse_parts (part # rest) =
     (if part = [] \<or> (\<exists>c \<in> set part. c = CHR ''+'' \<or> c = CHR ''-'') then None
      else case strconv_Atoi part of None \<Rightarrow> None
        | Some n \<Rightarrow> (case parse_parts rest of None \<Rightarrow> None | Some ns \<Rightarrow> Some (n # ns)))"

fun version_of :: "int list \<Rightarrow> version" where
  "version_of [a, b, c] = Version a b c"
| "version_of [a, b] = Version a b 0"
| "version_of [a] = Version a 0 0"
| "version_of _ = Version 0 0 0"

definition parseVersion :: "string \<Rightarrow> version option" where
  "parseVersion s =
     (let s = strings_TrimPrefix (strings_TrimSpace s) ''v''
      in if s = [] then None
         else let s = takeWhile (\<lambda>c. \<not> (c = CHR ''-'' \<or> c = CHR ''+'')) s;
                  parts = split_at CHR ''.'' s
           in if length parts > 3 then None else map_option version_of (parse_parts parts))"

definition VersionInRange :: "string \<Rightarrow> string \<Rightarrow> string \<Rightarrow> bool" where
  "VersionInRange v minv maxExclusive = (case parseVersion v of None \<Rightarrow> True
     | Some ver \<Rightarrow>
         if (case parseVersion minv of None \<Rightarrow> False | Some lower \<Rightarrow> compareVersions ver lower < 0) then False
         else if (case parseVersion maxExclusive of None \<Rightarrow> False | Some upper \<Rightarrow> compareVersions ver upper \<ge> 0) then False
         else True)"

subsection \<open>Rules and their registry\<close>

record Input =
  in_Nodes :: "GPUNode list"
  in_Hinted :: "GPUNode list"
  in_ClusterPolicies :: "unstructured list"
  in_ComputeDomains :: "unstructured list"
  in_ResourceSlices :: "ResourceSlice list"
  in_OperatorVersion :: string
  in_OperatorInstalled :: bool
  in_Events :: "Event list"
  in_Now :: time

record Rule =
  rule_Code :: string
  rule_Severity :: severity
  rule_Applies :: "string \<Rightarrow> bool"
  rule_Evaluate :: "Input \<Rightarrow> Finding list"

definition rule_areas :: "string list" where
  "rule_areas = [''NODE'', ''OP'', ''DRV'', ''CTK'', ''DP'', ''DRA'', ''MIG'', ''DCGM'', ''CD'', ''UPG'', ''TOPO'']"

text \<open>\<^verbatim>\<open>CodePattern\<close>: \<^verbatim>\<open>NV-\<close>, an area, a hyphen and three digits, and nothing else.\<close>

definition codeRE_MatchString :: "string \<Rightarrow> bool" where
  "codeRE_MatchString s \<longleftrightarrow> (\<exists>area \<in> set rule_areas. let p = ''NV-'' @ area @ ''-'' in
     take (length p) s = p \<and> length (drop (length p) s) = 3 \<and> list_all is_digit (drop (length p) s))"

definition CodePattern :: string where
  "CodePattern = ''^NV-('' @ strings_Join rule_areas ''|'' @ '')-[0-9]{3}$''"

type_synonym Registry = "Rule gomap"

definition NewRegistry :: Registry where "NewRegistry = []"

text \<open>Registering panics, the left of the sum, rather than answering with an error.\<close>

definition Register :: "Registry \<Rightarrow> Rule option \<Rightarrow> string + Registry" where
  "Register reg rule = (case rule of
       None \<Rightarrow> Inl ''health: Register was called with a nil rule''
     | Some r \<Rightarrow>
         if \<not> codeRE_MatchString (rule_Code r)
         then Inl (''health: rule code '' @ fmt_q (rule_Code r) @ '' does not match '' @ CodePattern)
         else if mhas reg (rule_Code r)
         then Inl (''health: rule code '' @ fmt_q (rule_Code r) @ '' is registered twice'')
         else Inr (mput reg (rule_Code r) r))"

fun Register_each :: "Registry \<Rightarrow> Rule list \<Rightarrow> string + Registry" where
  "Register_each reg [] = Inr reg"
| "Register_each reg (r # rest) = (case Register reg (Some r) of Inl p \<Rightarrow> Inl p | Inr reg \<Rightarrow> Register_each reg rest)"

definition Rules :: "Registry \<Rightarrow> Rule list" where
  "Rules reg = sort_Slice rule_Code (map snd reg)"

subsection \<open>The report\<close>

record Summary =
  s_Errors :: int
  s_Warnings :: int
  s_Infos :: int
  s_NodesChecked :: int
  s_GPUCapacity :: int
  s_GPUAllocatable :: int
  s_GPURequested :: int
  s_GPURequestedKnown :: bool

definition plural :: "int \<Rightarrow> string \<Rightarrow> string \<Rightarrow> string" where
  "plural n one many = (if n = 1 then ''1 '' @ one else strconv_FormatInt n @ '' '' @ many)"

definition Line :: "Summary \<Rightarrow> string" where
  "Line s = plural (s_NodesChecked s) ''node'' ''nodes'' @ '' checked, ''
     @ strconv_FormatInt (s_GPUCapacity s) @ '' GPUs capacity, ''
     @ strconv_FormatInt (s_GPUAllocatable s) @ '' allocatable''
     @ (if s_GPURequestedKnown s then '', '' @ strconv_FormatInt (s_GPURequested s) @ '' requested'' else [])
     @ '': '' @ plural (s_Errors s) ''error'' ''errors'' @ '', '' @ plural (s_Warnings s) ''warning'' ''warnings''
     @ '', '' @ plural (s_Infos s) ''info'' ''infos''"

definition ReportName :: string where "ReportName = ''cluster''"

record HealthReport =
  hr_Name :: string
  hr_Status :: ReportStatus
  hr_Summary :: Summary

definition zero_summary :: Summary where
  "zero_summary = \<lparr>s_Errors = 0, s_Warnings = 0, s_Infos = 0, s_NodesChecked = 0, s_GPUCapacity = 0,
     s_GPUAllocatable = 0, s_GPURequested = 0, s_GPURequestedKnown = False\<rparr>"

definition NewHealthReport :: HealthReport where
  "NewHealthReport = \<lparr>hr_Name = ReportName,
     hr_Status = \<lparr>rs_Findings = [], rs_Partial = False, rs_Unreachable = [], rs_RemainingItemCount = None\<rparr>,
     hr_Summary = zero_summary\<rparr>"

definition HealthReport_LimitItems :: "int \<Rightarrow> HealthReport \<Rightarrow> HealthReport \<times> int" where
  "HealthReport_LimitItems n r =
     (let total = int (length (rs_Findings (hr_Status r)))
      in if n \<le> 0 \<or> total \<le> n then (r, total)
         else (r\<lparr>hr_Status := (hr_Status r)\<lparr>rs_Findings := take (nat n) (rs_Findings (hr_Status r)),
                  rs_RemainingItemCount := Some (total - n)\<rparr>\<rparr>, total))"

definition HealthReport_ExitCode :: "HealthReport \<Rightarrow> severity \<Rightarrow> int" where
  "HealthReport_ExitCode r failOn = ExitCode (hr_Status r) failOn"

definition HealthReport_TableColumns :: "HealthReport \<Rightarrow> bool \<Rightarrow> Column list" where
  "HealthReport_TableColumns r wide =
     [OneField ''NODE'' ''findings.node'', OneField ''CODE'' ''findings.code'', OneField ''SEVERITY'' ''findings.severity'',
      OneField ''COMPONENT'' ''findings.component'', OneField ''MESSAGE'' ''findings.message'']
     @ (if wide then [OneField ''NEXT'' ''findings.next''] else [])"

definition finding_row :: "bool \<Rightarrow> Finding \<Rightarrow> string list" where
  "finding_row wide f = [if f_Node f = [] then ''-'' else f_Node f, f_Code f, f_Severity f, f_Component f, f_Message f]
     @ (if wide then [f_Next f] else [])"

definition HealthReport_TableRows :: "HealthReport \<Rightarrow> bool \<Rightarrow> string list list" where
  "HealthReport_TableRows r wide = map (finding_row wide) (rs_Findings (hr_Status r))"

definition CatalogPath :: "string \<Rightarrow> string" where
  "CatalogPath code = (if code = [] then [] else ''docs/findings/'' @ code @ ''.md'')"

interpretation health_table: table_rows HealthReport_TableColumns HealthReport_TableRows
  by unfold_locales
     (auto simp: HealthReport_TableColumns_def HealthReport_TableRows_def finding_row_def)

interpretation health_limit: limitable HealthReport_LimitItems
  "\<lambda>r. rs_Findings (hr_Status r)" "\<lambda>r. rs_RemainingItemCount (hr_Status r)"
  by unfold_locales (auto simp: HealthReport_LimitItems_def Let_def)

subsection \<open>What every rule promises\<close>

text \<open>
  An input the rest of the program builds: the maps are maps, and the names the API server
  requires to be non-empty are. \<open>wf_node\<close> and \<open>wf_input\<close> say which.
\<close>

definition wf_node :: "GPUNode \<Rightarrow> bool" where
  "wf_node n \<longleftrightarrow> g_Name n \<noteq> [] \<and> wf_map (g_Deploy n) \<and> [] \<notin> fst ` set (g_Deploy n)
     \<and> wf_map (g_Topology n) \<and> wf_map (mig_Resources (g_MIG n))
     \<and> list_all (\<lambda>p. op_Name p \<noteq> [] \<and> op_Phase p \<noteq> []) (g_Operands n)
     \<and> list_all (\<lambda>c. cond_Type c \<noteq> []) (g_Conditions n)"

definition wf_input :: "Input \<Rightarrow> bool" where
  "wf_input i \<longleftrightarrow> list_all wf_node (in_Nodes i) \<and> list_all wf_node (in_Hinted i)
     \<and> list_all (\<lambda>p. GetName p \<noteq> []) (in_ClusterPolicies i)"

definition checked_names :: "Input \<Rightarrow> string set" where
  "checked_names i = g_Name ` (set (in_Nodes i) \<union> set (in_Hinted i))"

text \<open>An evidence map is a map, and what is absent is left out rather than empty.\<close>

definition good_evidence :: "string gomap \<Rightarrow> bool" where
  "good_evidence ev \<longleftrightarrow> wf_map ev \<and> [] \<notin> snd ` set ev"

locale health_rule =
  fixes r :: Rule
  assumes code_matches: "codeRE_MatchString (rule_Code r)"
    and severity_known: "rule_Severity r \<in> set severities"
    and finding_code: "f \<in> set (rule_Evaluate r i) \<Longrightarrow> f_Code f = rule_Code r"
    and finding_severity: "f \<in> set (rule_Evaluate r i) \<Longrightarrow> f_Severity f \<in> set severities"
    and finding_node: "f \<in> set (rule_Evaluate r i) \<Longrightarrow> f_Node f = [] \<or> f_Node f \<in> checked_names i"
    and finding_next: "f \<in> set (rule_Evaluate r i) \<Longrightarrow> f_Next f \<noteq> [] \<and> f_Message f \<noteq> []"
    and finding_component: "wf_input i \<Longrightarrow> f \<in> set (rule_Evaluate r i) \<Longrightarrow> f_Component f \<noteq> []"
    and finding_evidence: "wf_input i \<Longrightarrow> f \<in> set (rule_Evaluate r i) \<Longrightarrow> good_evidence (f_Evidence f)"
begin

lemma code_not_empty: "rule_Code r \<noteq> []"
  using code_matches by (auto simp: codeRE_MatchString_def Let_def)

lemma finding_docs: "f \<in> set (rule_Evaluate r i) \<Longrightarrow> CatalogPath (f_Code f) \<noteq> []"
  using finding_code code_not_empty by (simp add: CatalogPath_def)

end

subsection \<open>Lemmas on versions\<close>

lemma parse_parts_format:
  assumes "\<forall>n \<in> set ns. 0 \<le> n \<and> int64_range n"
  shows "parse_parts (map strconv_FormatInt ns) = Some ns"
  using assms
proof (induction ns)
  case (Cons n ns)
  have "strconv_FormatInt n = nat_digits (nat n)" using Cons.prems by (simp add: strconv_FormatInt_def)
  then have "\<forall>c \<in> set (strconv_FormatInt n). c \<noteq> CHR ''+'' \<and> c \<noteq> CHR ''-''"
    using nat_digits_chars digit_char_is_digit by fastforce
  then show ?case using Cons by (auto simp: Atoi_FormatInt)
qed simp

lemma format_chars:
  assumes "0 \<le> n" "c \<in> set (strconv_FormatInt n)"
  obtains d where "d < 10" "c = digit_char d"
  using assms nat_digits_chars [of c "nat n"] by (auto simp: strconv_FormatInt_def)

lemma format_no: "0 \<le> n \<Longrightarrow> CHR ''.'' \<notin> set (strconv_FormatInt n)"
proof
  assume "0 \<le> n" "CHR ''.'' \<in> set (strconv_FormatInt n)"
  then obtain d where "d < 10" "CHR ''.'' = digit_char d" by (rule format_chars)
  then show False using digit_char_is_digit [of d] by simp
qed

lemma space_len_ascii: "a < 128 \<Longrightarrow> a \<notin> {9, 10, 11, 12, 13, 32} \<Longrightarrow> space_len (a # r) = 0"
  by (auto simp: space_len_def split: list.splits)

lemma space_len_le: "space_len bs \<le> length bs"
  by (auto simp: space_len_def split: list.splits)

lemma space_len_rev_ascii: "a < 128 \<Longrightarrow> a \<notin> {9, 10, 11, 12, 13, 32} \<Longrightarrow> space_len_rev (a # r) = 0"
proof -
  assume a: "a < 128" "a \<notin> {9, 10, 11, 12, 13, 32}"
  have "space_len (xs @ [a]) = n \<Longrightarrow> n \<noteq> 0 \<Longrightarrow> n = Suc (length xs) \<Longrightarrow> length xs \<le> 2 \<Longrightarrow> False" for xs n
    using a by (cases xs; cases "tl xs") (auto simp: space_len_def split: if_splits list.splits)
  then have "length xs \<le> 2 \<Longrightarrow> space_len (xs @ [a]) \<noteq> Suc (length xs)" for xs by blast
  from this [of "[]"] this [of "rev (take 1 r)"] this [of "rev (take 2 r)"] space_len_le [of "[a]"]
    space_len_le [of "rev (take 1 r) @ [a]"]
  show ?thesis by (cases r; cases "tl r") (auto simp: space_len_rev_def)
qed

lemma TrimSpace_id:
  assumes "s = a # m @ [z]" "of_char a < (128::nat)" "of_char a \<notin> {9, 10, 11, 12, 13, 32::nat}"
    "of_char z < (128::nat)" "of_char z \<notin> {9, 10, 11, 12, 13, 32::nat}"
  shows "strings_TrimSpace s = s"
proof -
  have "trim_by space_len s = s" using assms by (intro trim_by_stop) (simp add: space_len_ascii)
  moreover have "trim_by space_len_rev (rev s) = rev s"
    using assms by (intro trim_by_stop) (simp add: space_len_rev_ascii)
  ultimately show ?thesis by (simp add: strings_TrimSpace_def)
qed

lemma split_at_join:
  assumes "\<forall>x \<in> set xs. c \<notin> set x" "xs \<noteq> []"
  shows "split_at c (strings_Join xs [c]) = xs"
  using assms
proof (induction xs "[c]" rule: strings_Join.induct)
  case (3 x y ys)
  then show ?case by (simp add: split_at_append)
qed (simp_all add: split_at_none)

lemma last_format: "0 \<le> n \<Longrightarrow> \<exists>m d. strconv_FormatInt n = m @ [digit_char d] \<and> d < 10"
  by (metis FormatInt_not_Nil append_butlast_last_id format_chars last_in_set)

lemma of_digit_char: "d < 10 \<Longrightarrow> of_char (digit_char d) = 48 + d"
  by (simp add: digit_char_def)

lemma of_digit_not_space: "d < 10 \<Longrightarrow> of_char (digit_char d) < (128::nat) \<and> of_char (digit_char d) \<notin> {9, 10, 11, 12, 13, 32::nat}"
  by (auto simp: of_digit_char)

lemma parseVersion_format:
  assumes "\<forall>n \<in> set ns. 0 \<le> n \<and> int64_range n" "ns \<noteq> []" "length ns \<le> 3"
  shows "parseVersion (''v'' @ strings_Join (map strconv_FormatInt ns) ''.'') = Some (version_of ns)"
proof -
  let ?j = "strings_Join (map strconv_FormatInt ns) ''.''"
  have chars: "c \<in> set ?j \<Longrightarrow> c = CHR ''.'' \<or> (\<exists>d < 10. c = digit_char d)" for c
  proof -
    have "c \<in> set (strings_Join xs ''.'') \<Longrightarrow> c = CHR ''.'' \<or> (\<exists>x \<in> set xs. c \<in> set x)" for xs
      by (induction xs "''.''" rule: strings_Join.induct) auto
    then show "c \<in> set ?j \<Longrightarrow> ?thesis" using assms(1) by (metis format_chars image_iff list.set_map)
  qed
  obtain m d where last: "?j = m @ [digit_char d]" "d < 10"
  proof -
    have "xs \<noteq> [] \<Longrightarrow> \<exists>pre. strings_Join xs ''.'' = pre @ last xs" for xs
      by (induction xs "''.''" rule: strings_Join.induct) auto
    then have "\<exists>pre. ?j = pre @ strconv_FormatInt (last ns)" using assms(2) by (metis last_map map_is_Nil_conv)
    moreover have "0 \<le> last ns" using assms(1,2) by auto
    ultimately show ?thesis using last_format that by (metis append.assoc)
  qed
  have trim: "strings_TrimSpace (''v'' @ ?j) = ''v'' @ ?j"
    by (rule TrimSpace_id [of _ "CHR ''v''" m "digit_char d"]) (use last of_digit_not_space in auto)
  have stop: "takeWhile (\<lambda>c. \<not> (c = CHR ''-'' \<or> c = CHR ''+'')) ?j = ?j"
    using chars digit_char_is_digit by (subst takeWhile_eq_all_conv) fastforce
  have split: "split_at CHR ''.'' ?j = map strconv_FormatInt ns"
  proof (rule split_at_join)
    show "\<forall>x \<in> set (map strconv_FormatInt ns). CHR ''.'' \<notin> set x"
      using assms(1) format_no by auto
  qed (use assms(2) in simp)
  have "?j \<noteq> []" using last by simp
  moreover have "strings_TrimPrefix (''v'' @ ?j) ''v'' = ?j"
    by (simp add: strings_TrimPrefix_def strings_HasPrefix_def)
  ultimately show ?thesis
    unfolding parseVersion_def trim Let_def stop split
    using assms(3) parse_parts_format [OF assms(1)] by (simp add: stop [unfolded de_Morgan_disj] split)
qed

lemma compareVersions_order: "compareVersions a b < 0 \<longleftrightarrow> a < b" "compareVersions a b \<ge> 0 \<longleftrightarrow> b \<le> a"
proof -
  show less: "compareVersions a b < 0 \<longleftrightarrow> a < b" by (simp add: less_version_def)
  have "compareVersions a b \<ge> 0 \<longleftrightarrow> \<not> a < b" by (simp only: less [symmetric] not_less)
  then show "compareVersions a b \<ge> 0 \<longleftrightarrow> b \<le> a" by (simp add: not_less)
qed

subsection \<open>Lemmas on the registry\<close>

definition wf_registry :: "Registry \<Rightarrow> bool" where
  "wf_registry reg \<longleftrightarrow> wf_map reg \<and> (\<forall>(code, rl) \<in> set reg. rule_Code rl = code \<and> codeRE_MatchString code)"

lemma mput_fresh: "k \<notin> fst ` set m \<Longrightarrow> mput m k v = m @ [(k, v)]"
  unfolding mput_def by (induction m) auto

lemma Register_each_fresh:
  assumes "distinct (map rule_Code rs)" "\<forall>r \<in> set rs. codeRE_MatchString (rule_Code r)"
    "\<forall>r \<in> set rs. rule_Code r \<notin> fst ` set reg"
  shows "Register_each reg rs = Inr (reg @ map (\<lambda>r. (rule_Code r, r)) rs)"
  using assms
proof (induction rs arbitrary: reg)
  case (Cons r rs)
  have "Register reg (Some r) = Inr (reg @ [(rule_Code r, r)])"
    using Cons.prems by (simp add: Register_def mhas_iff mput_fresh)
  moreover have "\<forall>r' \<in> set rs. rule_Code r' \<notin> fst ` set (reg @ [(rule_Code r, r)])"
    using Cons.prems by (auto simp: image_iff)
  ultimately show ?case using Cons.IH [of "reg @ [(rule_Code r, r)]"] Cons.prems by simp
qed simp

subsection \<open>Properties\<close>



text \<open>
  Registering rules with distinct, well-formed codes never
  panics, and what the registry then lists is those rules sorted by code, in whatever order
  they were registered; registering a code twice panics.
\<close>

theorem registry_order_independent:
  assumes "distinct (map rule_Code rs)" "\<forall>r \<in> set rs. codeRE_MatchString (rule_Code r)" "mset rs' = mset rs"
  shows "\<exists>reg. Register_each NewRegistry rs' = Inr reg \<and> wf_registry reg
    \<and> Rules reg = sort_key rule_Code rs
    \<and> (\<forall>r \<in> set rs. \<exists>panic. Register reg (Some r) = Inl panic)"
proof -
  let ?reg = "map (\<lambda>r. (rule_Code r, r)) rs'"
  have set': "set rs' = set rs" using assms(3) by (metis set_mset_mset)
  have d': "distinct (map rule_Code rs')" using assms(1,3) by (metis mset_eq_imp_distinct_iff mset_map)
  have "Register_each NewRegistry rs' = Inr ?reg"
    using Register_each_fresh [OF d', of "[]"] assms(2) set' by (simp add: NewRegistry_def)
  moreover have "wf_registry ?reg"
    using d' assms(2) set' by (auto simp: wf_registry_def wf_map_def comp_def)
  moreover have "Rules ?reg = sort_key rule_Code rs"
    using slice.sorter_unique [OF assms(1,3)] by (simp add: Rules_def comp_def)
  moreover have "\<exists>panic. Register ?reg (Some r) = Inl panic" if "r \<in> set rs" for r
    using that set' by (auto simp: Register_def mhas_iff image_image)
  ultimately show ?thesis by blast
qed

theorem registry_order_independent_witness:
  "\<exists>reg. Register_each NewRegistry [] = Inr reg \<and> Rules reg = []"
  using registry_order_independent [of "[]" "[]"] by auto

text \<open>
  A limit on a health report keeps a prefix of its findings, answers
  how many there were, and together with the count it records loses none; limiting twice changes
  nothing more.
\<close>

theorem limit_keeps_a_prefix:
  assumes "rs_RemainingItemCount (hr_Status r) = None"
  shows "snd (HealthReport_LimitItems n r) = int (length (rs_Findings (hr_Status r)))
    \<and> rs_Findings (hr_Status (fst (HealthReport_LimitItems n r)))
        = (if n \<le> 0 then rs_Findings (hr_Status r) else take (nat n) (rs_Findings (hr_Status r)))
    \<and> int (length (rs_Findings (hr_Status (fst (HealthReport_LimitItems n r)))))
        + (case rs_RemainingItemCount (hr_Status (fst (HealthReport_LimitItems n r))) of None \<Rightarrow> 0 | Some k \<Rightarrow> k)
        = int (length (rs_Findings (hr_Status r)))
    \<and> fst (HealthReport_LimitItems n (fst (HealthReport_LimitItems n r))) = fst (HealthReport_LimitItems n r)"
  using health_limit.limit_total health_limit.limit_items health_limit.limit_nothing_lost [of r n, OF assms]
    health_limit.limit_idem by blast

theorem limit_keeps_a_prefix_witness:
  "snd (HealthReport_LimitItems 3 NewHealthReport) = 0"
  using limit_keeps_a_prefix [of NewHealthReport 3] by (simp add: NewHealthReport_def)

end
