(* ===== verification/Rule_Support.thy ===== *)
theory Rule_Support
  imports Health_Contract
begin

text \<open>
  What the rules of \<^verbatim>\<open>pkg/health/rules\<close> share: \<^verbatim>\<open>rules.go\<close>, \<^verbatim>\<open>nodes.go\<close>, \<^verbatim>\<open>policy.go\<close>, \<^verbatim>\<open>target.go\<close> and
  \<^verbatim>\<open>options.go\<close>. The one that decides most is \<^verbatim>\<open>OperatorTargets\<close>, whether the operator is expected
  to run anything on a node.
\<close>

subsection \<open>Evidence\<close>

text \<open>A map literal, and \<^verbatim>\<open>setIf\<close>, which leaves out what is absent.\<close>

definition map_lit :: "(string \<times> string) list \<Rightarrow> string gomap" where
  "map_lit kvs = foldl (\<lambda>m (k, v). mput m k v) [] kvs"

definition setIf :: "string gomap \<Rightarrow> string \<Rightarrow> string \<Rightarrow> string gomap" where
  "setIf evidence key value = (if value \<noteq> [] then mput evidence key value else evidence)"

lemma good_mput: "good_evidence ev \<Longrightarrow> v \<noteq> [] \<Longrightarrow> good_evidence (mput ev k v)"
  using mput_values [of ev k v] by (auto simp: good_evidence_def)

lemma good_setIf: "good_evidence ev \<Longrightarrow> good_evidence (setIf ev k v)"
  by (simp add: setIf_def good_mput)

lemma good_if: "(b \<Longrightarrow> good_evidence x) \<Longrightarrow> (\<not> b \<Longrightarrow> good_evidence y) \<Longrightarrow> good_evidence (if b then x else y)"
  by simp

lemma good_map_lit:
  assumes "list_all (\<lambda>(k, v). v \<noteq> []) kvs"
  shows "good_evidence (map_lit kvs)"
proof -
  have "good_evidence ev \<Longrightarrow> list_all (\<lambda>(k, v). v \<noteq> []) kvs
      \<Longrightarrow> good_evidence (foldl (\<lambda>m (k, v). mput m k v) ev kvs)" for ev
    by (induction kvs arbitrary: ev) (auto simp: good_mput)
  then show ?thesis using assms by (simp add: map_lit_def good_evidence_def)
qed

lemma good_literals:
  "good_evidence (map_lit [])"
  "v1 \<noteq> [] \<Longrightarrow> good_evidence (map_lit [(k1, v1)])"
  "v1 \<noteq> [] \<Longrightarrow> v2 \<noteq> [] \<Longrightarrow> good_evidence (map_lit [(k1, v1), (k2, v2)])"
  "v1 \<noteq> [] \<Longrightarrow> v2 \<noteq> [] \<Longrightarrow> v3 \<noteq> [] \<Longrightarrow> good_evidence (map_lit [(k1, v1), (k2, v2), (k3, v3)])"
  "v1 \<noteq> [] \<Longrightarrow> v2 \<noteq> [] \<Longrightarrow> v3 \<noteq> [] \<Longrightarrow> v4 \<noteq> []
    \<Longrightarrow> good_evidence (map_lit [(k1, v1), (k2, v2), (k3, v3), (k4, v4)])"
  by (simp_all add: good_map_lit)

lemmas good_rules = good_literals good_setIf good_if good_mput

subsection \<open>Names\<close>

definition ComponentNode :: string where "ComponentNode = ''node''"
definition LabelGPUCount :: string where "LabelGPUCount = ''nvidia.com/gpu.count''"
definition LabelGPUReplicas :: string where "LabelGPUReplicas = ''nvidia.com/gpu.replicas''"
definition LabelWorkloadConfig :: string where "LabelWorkloadConfig = ''nvidia.com/gpu.workload.config''"

definition infoCommand :: "string \<Rightarrow> string" where "infoCommand node = ''kubectl nv info '' @ node"

definition itoa :: "int \<Rightarrow> string" where "itoa n = strconv_FormatInt n"
definition btoa :: "bool \<Rightarrow> string" where "btoa b = strconv_FormatBool b"

lemma encodings_not_Nil [simp]: "itoa n \<noteq> []" "btoa b \<noteq> []" "infoCommand node \<noteq> []" "ComponentNode \<noteq> []" "labelValueTrue \<noteq> []"
  by (simp_all add: itoa_def btoa_def infoCommand_def ComponentNode_def labelValueTrue_def)

definition versionRange_Applies :: "string \<Rightarrow> string \<Rightarrow> string \<Rightarrow> bool" where
  "versionRange_Applies minVersion maxVersion operatorVersion = VersionInRange operatorVersion minVersion maxVersion"

subsection \<open>Reading a node\<close>

definition labelIsTrue :: "GPUNode \<Rightarrow> string \<Rightarrow> bool" where
  "labelIsTrue node name \<longleftrightarrow> sget (g_Labels node) name = labelValueTrue"

definition isVirtualMachineWorkload :: "GPUNode \<Rightarrow> bool" where
  "isVirtualMachineWorkload node \<longleftrightarrow>
     sget (g_Labels node) LabelWorkloadConfig = ''vm-passthrough'' \<or> sget (g_Labels node) LabelWorkloadConfig = ''vm-vgpu''"

fun operandComponents_loop :: "OperandPod list \<Rightarrow> string list \<Rightarrow> string list \<Rightarrow> string list" where
  "operandComponents_loop [] seen names = names"
| "operandComponents_loop (pod # rest) seen names =
     (if op_Component pod = [] \<or> op_Component pod \<in> set seen then operandComponents_loop rest seen names
      else operandComponents_loop rest (op_Component pod # seen) (names @ [op_Component pod]))"

definition operandComponents :: "GPUNode \<Rightarrow> string" where
  "operandComponents node = strings_Join (sort_Strings (operandComponents_loop (g_Operands node) [] [])) '',''"

definition operandFor :: "GPUNode \<Rightarrow> string \<Rightarrow> OperandPod option" where
  "operandFor node component = find (\<lambda>pod. op_Component pod = component) (g_Operands node)"

definition DeployDisabled :: "string \<Rightarrow> bool" where
  "DeployDisabled v \<longleftrightarrow> v = ''false'' \<or> strings_HasPrefix v ''paused-''"

definition operandDisabledOn :: "GPUNode \<Rightarrow> string \<Rightarrow> bool" where
  "operandDisabledOn node key = (case map_of (g_Deploy node) key of None \<Rightarrow> False | Some v \<Rightarrow> DeployDisabled v)"

definition migAllocatable :: "GPUNode \<Rightarrow> int" where
  "migAllocatable node = sum_wrap 64 (map (\<lambda>(_, c). rc_Allocatable c) (mig_Resources (g_MIG node)))"

definition isMixedMIG :: "GPUNode \<Rightarrow> bool" where
  "isMixedMIG node \<longleftrightarrow> (\<exists>(_, c) \<in> set (mig_Resources (g_MIG node)). rc_Allocatable c > 0)"

definition declaresMIGResources :: "GPUNode \<Rightarrow> bool" where
  "declaresMIGResources node \<longleftrightarrow> mig_Resources (g_MIG node) \<noteq> []"

definition everyNode :: "Input \<Rightarrow> GPUNode list" where
  "everyNode i = in_Nodes i @ in_Hinted i"

definition upgradeStateFailed :: string where "upgradeStateFailed = ''upgrade-failed''"
definition upgradeStateDone :: string where "upgradeStateDone = ''upgrade-done''"

definition midUpgrade :: "GPUNode \<Rightarrow> bool" where
  "midUpgrade node \<longleftrightarrow> \<not> (g_UpgradeState node = [] \<or> g_UpgradeState node = upgradeStateDone
     \<or> g_UpgradeState node = upgradeStateFailed)"

definition insideWindow :: "Termination \<Rightarrow> time \<Rightarrow> duration \<Rightarrow> time \<times> bool" where
  "insideWindow t now d =
     (if \<not> t_Observed t \<or> t_FinishedAt t = [] then (0, False)
      else case time_Parse_RFC3339 (t_FinishedAt t) of
          None \<Rightarrow> (0, False)
        | Some at \<Rightarrow> (at, time_Sub now at < d))"

subsection \<open>Cluster policies\<close>

definition clusterPolicyState :: "unstructured \<Rightarrow> string" where
  "clusterPolicyState policy = nested_or [] (NestedString policy [''status'', ''state''])"

definition policyIsReady :: "unstructured \<Rightarrow> bool" where
  "policyIsReady p \<longleftrightarrow> strings_EqualFold (clusterPolicyState p) ''ready''"

definition activeClusterPolicy :: "unstructured list \<Rightarrow> unstructured option" where
  "activeClusterPolicy policies = (case policies of [] \<Rightarrow> None
     | p # _ \<Rightarrow> (case find policyIsReady policies of Some ready \<Rightarrow> Some ready | None \<Rightarrow> Some p))"

definition OperandEnabledInPolicy :: "Input \<Rightarrow> string \<Rightarrow> bool" where
  "OperandEnabledInPolicy i field = (case activeClusterPolicy (in_ClusterPolicies i) of None \<Rightarrow> True
     | Some policy \<Rightarrow> nested_or True (NestedBool policy [''spec'', field, ''enabled'']))"

definition stringField :: "unstructured \<Rightarrow> string \<Rightarrow> string" where
  "stringField flds name = (case map_of flds name of Some (JString s) \<Rightarrow> s | _ \<Rightarrow> [])"

fun tolerationOf :: "json \<Rightarrow> Toleration option" where
  "tolerationOf (JMap flds) = Some \<lparr>tol_Key = stringField flds ''key'',
     tol_Operator = (if stringField flds ''operator'' = [] then ''Equal'' else stringField flds ''operator''),
     tol_Value = stringField flds ''value'', tol_Effect = stringField flds ''effect''\<rparr>"
| "tolerationOf _ = None"

definition PolicyTolerations :: "Input \<Rightarrow> Toleration list" where
  "PolicyTolerations i = (case activeClusterPolicy (in_ClusterPolicies i) of None \<Rightarrow> []
     | Some policy \<Rightarrow> List.map_filter tolerationOf
         (nested_or [] (NestedSlice policy [''spec'', ''daemonsets'', ''tolerations''])))"

subsection \<open>Which nodes the operator targets\<close>

definition exists_tol :: "string \<Rightarrow> string \<Rightarrow> Toleration" where
  "exists_tol key eff = \<lparr>tol_Key = key, tol_Operator = ''Exists'', tol_Value = [], tol_Effect = eff\<rparr>"

definition defaultOperandTolerations :: "Toleration list" where
  "defaultOperandTolerations =
     [exists_tol ''nvidia.com/gpu'' ''NoSchedule'',
      exists_tol ''node.kubernetes.io/not-ready'' ''NoExecute'',
      exists_tol ''node.kubernetes.io/unreachable'' ''NoExecute'',
      exists_tol ''node.kubernetes.io/disk-pressure'' ''NoSchedule'',
      exists_tol ''node.kubernetes.io/memory-pressure'' ''NoSchedule'',
      exists_tol ''node.kubernetes.io/pid-pressure'' ''NoSchedule'',
      exists_tol ''node.kubernetes.io/unschedulable'' ''NoSchedule'',
      exists_tol ''node.kubernetes.io/network-unavailable'' ''NoSchedule'']"

fun toleratedBy :: "Taint \<Rightarrow> Toleration list \<Rightarrow> bool" where
  "toleratedBy taint [] = False"
| "toleratedBy taint (t # rest) =
     (if tol_Effect t \<noteq> [] \<and> tol_Effect t \<noteq> taint_Effect taint then toleratedBy taint rest
      else if tol_Key t \<noteq> [] \<and> tol_Key t \<noteq> taint_Key taint then toleratedBy taint rest
      else if tol_Operator t = ''Exists'' then True
      else if tol_Operator t = ''Equal'' \<and> tol_Key t \<noteq> [] \<and> tol_Value t = taint_Value taint then True
      else toleratedBy taint rest)"

fun everyOperandTaintedOff :: "Taint list \<Rightarrow> Toleration list \<Rightarrow> bool" where
  "everyOperandTaintedOff [] extra = False"
| "everyOperandTaintedOff (taint # rest) extra =
     (if taint_Effect taint \<noteq> ''NoSchedule'' \<and> taint_Effect taint \<noteq> ''NoExecute'' then everyOperandTaintedOff rest extra
      else if \<not> toleratedBy taint defaultOperandTolerations \<and> \<not> toleratedBy taint extra then True
      else everyOperandTaintedOff rest extra)"

definition everyOperandDisabled :: "string gomap \<Rightarrow> bool" where
  "everyOperandDisabled deploy = (if deploy = [] then False else \<forall>(_, v) \<in> set deploy. DeployDisabled v)"

definition deployGatedComponents :: "string list" where
  "deployGatedComponents = List.map_filter ComponentForDeployKey DeployKeys"

definition runsADeployGatedOperand :: "GPUNode \<Rightarrow> bool" where
  "runsADeployGatedOperand node \<longleftrightarrow> (\<exists>pod \<in> set (g_Operands node). op_Component pod \<in> set deployGatedComponents)"

definition OperatorTargets :: "GPUNode \<Rightarrow> Toleration list \<Rightarrow> bool" where
  "OperatorTargets node extra =
     (if everyOperandDisabled (g_Deploy node) then False
      else if runsADeployGatedOperand node then True
      else \<not> everyOperandTaintedOff (g_Taints node) extra)"

subsection \<open>Options\<close>

definition DefaultUpgradeStuckAfter :: duration where "DefaultUpgradeStuckAfter = 30 * Minute"

definition upgradeStuckAfter :: "duration \<Rightarrow> duration" where
  "upgradeStuckAfter d = (if d \<le> 0 then DefaultUpgradeStuckAfter else d)"

subsection \<open>Findings\<close>

text \<open>A finding of a rule about a node; the engine fills in the documentation link.\<close>

definition node_finding :: "string \<Rightarrow> severity \<Rightarrow> string \<Rightarrow> string \<Rightarrow> string \<Rightarrow> string gomap \<Rightarrow> Finding" where
  "node_finding code sev node component message evidence =
     \<lparr>f_Code = code, f_Severity = sev, f_Node = node, f_Component = component, f_Message = message,
      f_Evidence = evidence, f_Docs = [], f_Next = infoCommand node\<rparr>"

lemma node_finding_simps [simp]:
  "f_Code (node_finding c s n co m e) = c" "f_Severity (node_finding c s n co m e) = s"
  "f_Node (node_finding c s n co m e) = n" "f_Component (node_finding c s n co m e) = co"
  "f_Message (node_finding c s n co m e) = m" "f_Evidence (node_finding c s n co m e) = e"
  "f_Docs (node_finding c s n co m e) = []" "f_Next (node_finding c s n co m e) = infoCommand n"
  by (simp_all add: node_finding_def)

text \<open>
  A finding as the contract wants it, and the way every rule proves that its findings are: for
  a finding about a node, only the severity, the component, the message and the evidence are
  left to show.
\<close>

definition finding_ok :: "string \<Rightarrow> Input \<Rightarrow> Finding \<Rightarrow> bool" where
  "finding_ok code i f \<longleftrightarrow> f_Code f = code \<and> f_Severity f \<in> set severities
     \<and> (f_Node f = [] \<or> f_Node f \<in> checked_names i) \<and> f_Next f \<noteq> [] \<and> f_Message f \<noteq> []
     \<and> (wf_input i \<longrightarrow> f_Component f \<noteq> [] \<and> good_evidence (f_Evidence f))"

lemma health_ruleI:
  assumes "codeRE_MatchString (rule_Code r)" "rule_Severity r \<in> set severities"
    "\<And>i f. f \<in> set (rule_Evaluate r i) \<Longrightarrow> finding_ok (rule_Code r) i f"
  shows "health_rule r"
  by unfold_locales (use assms in \<open>auto simp: finding_ok_def\<close>)

lemma ok_node_finding:
  assumes "sev \<in> set severities" "node \<in> checked_names i" "message \<noteq> []"
    "wf_input i \<Longrightarrow> component \<noteq> []" "wf_input i \<Longrightarrow> good_evidence ev"
  shows "finding_ok code i (node_finding code sev node component message ev)"
  using assms by (simp add: finding_ok_def)

lemma if_None_Some: "(if b then None else x) = Some f \<longleftrightarrow> \<not> b \<and> x = Some f"
  by simp

lemmas rule_steps = Let_def if_None_Some option.inject

text \<open>
  What a rule returns, with the conditions on the way to it dropped: the two rules that walk a
  rule's guards to the finding it makes.
\<close>

lemma past_guard: "(if b then None else x) = Some f \<Longrightarrow> x = Some f"
  by (simp split: if_splits)

lemma ok_returned:
  assumes "Some (node_finding code sev node component message ev) = Some f"
    "sev \<in> set severities" "node \<in> checked_names i" "message \<noteq> []"
    "wf_input i \<Longrightarrow> component \<noteq> []" "wf_input i \<Longrightarrow> good_evidence ev"
  shows "finding_ok code i f"
  using assms ok_node_finding by auto

text \<open>A loop that appends the findings it makes and passes over the rest.\<close>

definition each :: "('a \<Rightarrow> 'b option) \<Rightarrow> 'a list \<Rightarrow> 'b list" where
  "each f xs = List.map_filter f xs"

lemma set_each [simp]: "set (each f xs) = {y. \<exists>x \<in> set xs. f x = Some y}"
  by (force simp: each_def List.map_filter_def)

lemma each_simps [simp]: "each f [] = []" "each f (xs @ ys) = each f xs @ each f ys"
  by (simp_all add: each_def List.map_filter_def)

text \<open>Over nodes with distinct names, the findings about one of them are what the rule makes of it.\<close>

lemma each_about:
  assumes "distinct (map g_Name xs)" "n \<in> set xs" "\<And>m f. g m = Some f \<Longrightarrow> f_Node f = g_Name m"
  shows "filter (\<lambda>f. f_Node f = g_Name n) (each g xs) = (case g n of None \<Rightarrow> [] | Some f \<Rightarrow> [f])"
  using assms(1,2)
proof (induction xs)
  case (Cons m xs)
  have none: "filter (\<lambda>f. f_Node f = g_Name n) (each g xs) = []" if "g_Name n \<notin> g_Name ` set xs"
    using that assms(3) by (auto simp: filter_empty_conv) (metis imageI)
  have step: "each g (m # xs) = (case g m of None \<Rightarrow> [] | Some f \<Rightarrow> [f]) @ each g xs"
    by (simp add: each_def List.map_filter_def split: option.split)
  show ?case
  proof (cases "n = m")
    case True
    then show ?thesis using Cons.prems none assms(3) [of m] by (simp add: step split: option.split)
  next
    case False
    then have "n \<in> set xs" "g_Name m \<noteq> g_Name n" using Cons.prems by (auto simp: image_iff)
    then show ?thesis using Cons assms(3) [of m] by (simp add: step split: option.split)
  qed
qed simp

lemma set_everyNode [simp]: "set (everyNode i) = set (in_Nodes i) \<union> set (in_Hinted i)"
  by (simp add: everyNode_def)

lemma severities_known [simp]:
  "SeverityError \<in> set severities" "SeverityWarning \<in> set severities" "SeverityInfo \<in> set severities"
  by (simp_all add: severities_def)

subsection \<open>Lemmas\<close>

lemma operandComponents_loop_eq:
  "operandComponents_loop pods seen names
    = names @ map op_Component (first_by op_Component (filter (\<lambda>p. op_Component p \<noteq> []) pods) seen)"
  by (induction pods seen names rule: operandComponents_loop.induct) auto

lemma operandComponents_set:
  "set (operandComponents_loop pods [] []) = {op_Component p | p. p \<in> set pods} - {[]}"
  using first_by_keys [of op_Component "filter (\<lambda>p. op_Component p \<noteq> []) pods" "[]"]
  by (auto simp: operandComponents_loop_eq)

lemma operandComponents_distinct: "distinct (operandComponents_loop pods [] [])"
  by (simp add: operandComponents_loop_eq first_by_distinct)

text \<open>The list of components a finding shows depends on the set of components alone.\<close>

lemma operandComponents_cong:
  assumes "op_Component ` set (g_Operands n) = op_Component ` set (g_Operands m)"
  shows "operandComponents n = operandComponents m"
proof -
  have "set (operandComponents_loop (g_Operands n) [] []) = set (operandComponents_loop (g_Operands m) [] [])"
    using assms by (simp add: operandComponents_set setcompr_eq_image)
  then have "sort_Strings (operandComponents_loop (g_Operands n) [] []) = sort_Strings (operandComponents_loop (g_Operands m) [] [])"
    by (rule sort_Strings_of_set [OF operandComponents_distinct operandComponents_distinct])
  then show ?thesis by (simp only: operandComponents_def)
qed

lemma operandFor_Some: "operandFor n c = Some p \<Longrightarrow> p \<in> set (g_Operands n) \<and> op_Component p = c"
  by (auto simp: operandFor_def find_Some_iff)

definition tolerates :: "Toleration \<Rightarrow> Taint \<Rightarrow> bool" where
  "tolerates t taint \<longleftrightarrow>
     (tol_Effect t = [] \<or> tol_Effect t = taint_Effect taint) \<and> (tol_Key t = [] \<or> tol_Key t = taint_Key taint)
     \<and> (tol_Operator t = ''Exists'' \<or> tol_Operator t = ''Equal'' \<and> tol_Key t \<noteq> [] \<and> tol_Value t = taint_Value taint)"

lemma toleratedBy_iff: "toleratedBy taint ts \<longleftrightarrow> (\<exists>t \<in> set ts. tolerates t taint)"
proof (induction ts)
  case (Cons t ts)
  have "toleratedBy taint (t # ts) \<longleftrightarrow> tolerates t taint \<or> toleratedBy taint ts"
    by (simp add: tolerates_def) blast
  then show ?case using Cons by simp
qed simp

lemma everyOperandTaintedOff_iff:
  "everyOperandTaintedOff taints extra \<longleftrightarrow> (\<exists>t \<in> set taints. taint_Effect t \<in> {''NoSchedule'', ''NoExecute''}
     \<and> \<not> toleratedBy t (defaultOperandTolerations @ extra))"
proof (induction taints)
  case (Cons t ts)
  have "toleratedBy t (defaultOperandTolerations @ extra)
      \<longleftrightarrow> toleratedBy t defaultOperandTolerations \<or> toleratedBy t extra" by (auto simp: toleratedBy_iff)
  then have "everyOperandTaintedOff (t # ts) extra \<longleftrightarrow> taint_Effect t \<in> {''NoSchedule'', ''NoExecute''}
      \<and> \<not> toleratedBy t (defaultOperandTolerations @ extra) \<or> everyOperandTaintedOff ts extra"
    by simp
  then show ?case using Cons by simp
qed simp

lemma wf_input_nodes: "wf_input i \<Longrightarrow> n \<in> set (in_Nodes i) \<union> set (in_Hinted i) \<Longrightarrow> wf_node n"
  by (auto simp: wf_input_def list_all_iff)

lemma checked_names_I [intro]:
  "n \<in> set (in_Nodes i) \<Longrightarrow> g_Name n \<in> checked_names i" "n \<in> set (in_Hinted i) \<Longrightarrow> g_Name n \<in> checked_names i"
  by (auto simp: checked_names_def)

subsection \<open>Properties\<close>

text \<open>
  The scheduler's own rule, \<^verbatim>\<open>Toleration.ToleratesTaint\<close> with its comparison operators off, and
  the tolerations the API server admits: an empty key goes with \<^verbatim>\<open>Exists\<close>.
\<close>

definition ToleratesTaint :: "Toleration \<Rightarrow> Taint \<Rightarrow> bool" where
  "ToleratesTaint t taint =
     (if tol_Effect t \<noteq> [] \<and> tol_Effect t \<noteq> taint_Effect taint then False
      else if tol_Key t \<noteq> [] \<and> tol_Key t \<noteq> taint_Key taint then False
      else if tol_Operator t = [] \<or> tol_Operator t = ''Equal'' then tol_Value t = taint_Value taint
      else tol_Operator t = ''Exists'')"

definition admitted :: "Toleration \<Rightarrow> bool" where
  "admitted t \<longleftrightarrow> tol_Operator t \<noteq> [] \<and> (tol_Key t = [] \<longrightarrow> tol_Operator t = ''Exists'')"

text \<open>
  C38 (targets_iff_schedulable). The operator targets a node exactly when not every operand
  there is disabled, and either one of its deploy-gated operands already runs or the scheduler
  would tolerate, by the operands' default tolerations and the policy's, every taint of the
  node that keeps pods away.
\<close>

theorem targets_iff_schedulable:
  assumes "\<forall>t \<in> set extra. admitted t"
  shows "OperatorTargets node extra \<longleftrightarrow>
    (g_Deploy node = [] \<or> (\<exists>(_, v) \<in> set (g_Deploy node). v \<noteq> ''false'' \<and> \<not> strings_HasPrefix v ''paused-''))
    \<and> ((\<exists>p \<in> set (g_Operands node). op_Component p \<in> set deployGatedComponents)
       \<or> (\<forall>taint \<in> set (g_Taints node). taint_Effect taint \<in> {''NoSchedule'', ''NoExecute''}
            \<longrightarrow> (\<exists>t \<in> set (defaultOperandTolerations @ extra). ToleratesTaint t taint)))"
proof -
  have adm: "\<forall>t \<in> set (defaultOperandTolerations @ extra). admitted t"
    using assms by (auto simp: defaultOperandTolerations_def exists_tol_def admitted_def)
  have "toleratedBy taint ts \<longleftrightarrow> (\<exists>t \<in> set ts. ToleratesTaint t taint)" if "\<forall>t \<in> set ts. admitted t" for taint ts
    unfolding toleratedBy_iff
    by (rule bex_cong) (use that in \<open>auto simp: ToleratesTaint_def tolerates_def admitted_def\<close>)
  note tol = this [OF adm]
  have dep: "\<not> everyOperandDisabled (g_Deploy node) \<longleftrightarrow> g_Deploy node = []
      \<or> (\<exists>(_, v) \<in> set (g_Deploy node). v \<noteq> ''false'' \<and> \<not> strings_HasPrefix v ''paused-'')"
    unfolding everyOperandDisabled_def DeployDisabled_def by (simp add: split_beta)
  have "OperatorTargets node extra \<longleftrightarrow> \<not> everyOperandDisabled (g_Deploy node)
      \<and> (runsADeployGatedOperand node \<or> \<not> everyOperandTaintedOff (g_Taints node) extra)"
    by (simp add: OperatorTargets_def)
  then show ?thesis unfolding dep runsADeployGatedOperand_def everyOperandTaintedOff_iff tol by blast
qed

definition sample_gpu_node :: "string \<Rightarrow> GPUNode" where
  "sample_gpu_node name = buildNode (sample_node name [(''nvidia.com/gpu.present'', ''true'')] [])
     \<lparr>nc_hinted = True, nc_sliceNames = [], nc_requested = 0, nc_requestedKnown = True, nc_operands = [],
      nc_withDetails = True\<rparr>"

theorem targets_iff_schedulable_witness: "OperatorTargets (sample_gpu_node ''a'') []"
  using targets_iff_schedulable [of "[]" "sample_gpu_node ''a''"]
  by (simp add: sample_gpu_node_def buildNode_def Let_def sample_node_def deployLabels_def strings_CutPrefix_def
      strings_HasPrefix_def DeployLabelPrefix_def)

definition sample_input :: "GPUNode list \<Rightarrow> Input" where
  "sample_input nodes = \<lparr>in_Nodes = nodes, in_Hinted = [], in_ClusterPolicies = [], in_ComputeDomains = [],
     in_ResourceSlices = [], in_OperatorVersion = [], in_OperatorInstalled = True, in_Events = [], in_Now = 0\<rparr>"

lemma sample_input_policies [simp]: "PolicyTolerations (sample_input ns) = []"
  by (simp add: PolicyTolerations_def sample_input_def activeClusterPolicy_def)

end
