(* ===== verification/Rules_Node.thy ===== *)
theory Rules_Node
  imports Rule_Support
begin

text \<open>
  The node rules, NV-NODE-001 to NV-NODE-005: a GPU the operator is not reconciling, no
  allocatable GPUs, fewer allocatable than capacity, a count label that disagrees with the
  capacity, and NVSentinel conditions and cordons.
\<close>

subsection \<open>NV-NODE-001\<close>

definition node001_finding :: "Toleration list \<Rightarrow> GPUNode \<Rightarrow> Finding option" where
  "node001_finding tolerations node =
     (if \<not> labelIsTrue node LabelPCIVendor \<or> labelIsTrue node LabelGPUPresent then None
      else if \<not> OperatorTargets node tolerations then None
      else Some (node_finding ''NV-NODE-001'' SeverityWarning (g_Name node) ComponentNode
        (''the GPU Operator is not reconciling this node: it has an NVIDIA PCI device and no '' @ LabelGPUPresent @ '' label'')
        (setIf (map_lit [(LabelPCIVendor, labelValueTrue)]) ''operands'' (operandComponents node))))"

definition NodePCIWithoutGPULabel_Evaluate :: "Input \<Rightarrow> Finding list" where
  "NodePCIWithoutGPULabel_Evaluate i =
     (if \<not> in_OperatorInstalled i then []
      else each (node001_finding (PolicyTolerations i)) (in_Nodes i @ in_Hinted i))"

definition NodePCIWithoutGPULabel :: Rule where
  "NodePCIWithoutGPULabel = \<lparr>rule_Code = ''NV-NODE-001'', rule_Severity = SeverityWarning,
     rule_Applies = versionRange_Applies [] [], rule_Evaluate = NodePCIWithoutGPULabel_Evaluate\<rparr>"

subsection \<open>NV-NODE-002\<close>

definition node002_finding :: "Toleration list \<Rightarrow> GPUNode \<Rightarrow> Finding option" where
  "node002_finding tolerations node =
     (if \<not> labelIsTrue node LabelGPUPresent \<or> g_Allocatable node > 0 then None
      else if g_Mode node = ModeDRA then None
      else if isVirtualMachineWorkload node then None
      else if \<not> OperatorTargets node tolerations then None
      else let mig = migAllocatable node in
        if isMixedMIG node \<and> mig > 0 then None
        else let evidence = map_lit [(LabelGPUPresent, labelValueTrue), (''capacity'', itoa (g_Capacity node)),
                 (''allocatable'', itoa (g_Allocatable node)), (''hinted'', btoa (g_Hinted node))];
               evidence = (if declaresMIGResources node then mput evidence ''mig.allocatable'' (itoa mig) else evidence);
               evidence = setIf evidence ''operands'' (operandComponents node)
             in Some (node_finding ''NV-NODE-002'' SeverityError (g_Name node) ComponentNode
                  ''the node reports GPUs present and advertises none the scheduler can place'' evidence))"

definition NodeNoAllocatableGPUs_Evaluate :: "Input \<Rightarrow> Finding list" where
  "NodeNoAllocatableGPUs_Evaluate i = each (node002_finding (PolicyTolerations i)) (in_Nodes i @ in_Hinted i)"

definition NodeNoAllocatableGPUs :: Rule where
  "NodeNoAllocatableGPUs = \<lparr>rule_Code = ''NV-NODE-002'', rule_Severity = SeverityError,
     rule_Applies = versionRange_Applies [] [], rule_Evaluate = NodeNoAllocatableGPUs_Evaluate\<rparr>"

subsection \<open>NV-NODE-003\<close>

definition node003_finding :: "Toleration list \<Rightarrow> GPUNode \<Rightarrow> Finding option" where
  "node003_finding tolerations node =
     (if g_Allocatable node \<le> 0 \<or> g_Allocatable node \<ge> g_Capacity node then None
      else if \<not> OperatorTargets node tolerations then None
      else Some (node_finding ''NV-NODE-003'' SeverityWarning (g_Name node) ComponentNode
        ''the node has fewer allocatable GPUs than its capacity''
        (map_lit [(''capacity'', itoa (g_Capacity node)), (''allocatable'', itoa (g_Allocatable node)),
           (''missing'', itoa (wrap64 (g_Capacity node - g_Allocatable node)))])))"

definition NodeAllocatableBelowCapacity_Evaluate :: "Input \<Rightarrow> Finding list" where
  "NodeAllocatableBelowCapacity_Evaluate i = each (node003_finding (PolicyTolerations i)) (in_Nodes i)"

definition NodeAllocatableBelowCapacity :: Rule where
  "NodeAllocatableBelowCapacity = \<lparr>rule_Code = ''NV-NODE-003'', rule_Severity = SeverityWarning,
     rule_Applies = versionRange_Applies [] [], rule_Evaluate = NodeAllocatableBelowCapacity_Evaluate\<rparr>"

subsection \<open>NV-NODE-004\<close>

definition replicaFactor :: "GPUNode \<Rightarrow> int" where
  "replicaFactor node = (if sh_Replicas (g_Sharing node) < 1 then 1 else sh_Replicas (g_Sharing node))"

definition expectedCapacity :: "GPUNode \<Rightarrow> int" where
  "expectedCapacity node = wrap64 (g_Count node * replicaFactor node)"

definition node004_finding :: "Toleration list \<Rightarrow> GPUNode \<Rightarrow> Finding option" where
  "node004_finding tolerations node =
     (if g_Count node \<le> 0 \<or> isMixedMIG node then None
      else if g_Mode node = ModeDRA then None
      else if \<not> OperatorTargets node tolerations then None
      else if expectedCapacity node = g_Capacity node then None
      else let evidence = map_lit [(LabelGPUCount, itoa (g_Count node)), (''capacity'', itoa (g_Capacity node)),
                 (''expectedCapacity'', itoa (expectedCapacity node))];
             evidence = (if replicaFactor node > 1
               then setIf (mput evidence LabelGPUReplicas (itoa (sh_Replicas (g_Sharing node))))
                      LabelSharingStrategy (sh_Strategy (g_Sharing node))
               else evidence)
           in Some (node_finding ''NV-NODE-004'' SeverityWarning (g_Name node) ComponentNode
                (''the '' @ LabelGPUCount @ '' label and the node's GPU capacity disagree'') evidence))"

definition NodeCountDiffersFromCapacity_Evaluate :: "Input \<Rightarrow> Finding list" where
  "NodeCountDiffersFromCapacity_Evaluate i = each (node004_finding (PolicyTolerations i)) (in_Nodes i)"

definition NodeCountDiffersFromCapacity :: Rule where
  "NodeCountDiffersFromCapacity = \<lparr>rule_Code = ''NV-NODE-004'', rule_Severity = SeverityWarning,
     rule_Applies = versionRange_Applies [] [], rule_Evaluate = NodeCountDiffersFromCapacity_Evaluate\<rparr>"

subsection \<open>NV-NODE-005\<close>

definition isSentinelFailure :: "NodeCondition \<Rightarrow> bool" where
  "isSentinelFailure c \<longleftrightarrow> cond_Status c = ''True'' \<and> cond_Reason c = cond_Type c @ ''IsNotHealthy''"

definition condition_finding :: "GPUNode \<Rightarrow> NodeCondition \<Rightarrow> Finding option" where
  "condition_finding node c =
     (if \<not> isSentinelFailure c then None
      else let evidence = map_lit [(''condition'', cond_Type c), (''status'', cond_Status c), (''reason'', cond_Reason c)];
             evidence = setIf evidence ''message'' (cond_Message c);
             evidence = (if \<not> time_IsZero (cond_LastTransitionTime c)
               then mput evidence ''since'' (rfc3339 (cond_LastTransitionTime c)) else evidence)
           in Some (node_finding ''NV-NODE-005'' SeverityInfo (g_Name node) ComponentNode
                ''an NVSentinel health check is reporting the node unhealthy'' evidence))"

definition cordon_finding :: "GPUNode \<Rightarrow> Finding" where
  "cordon_finding node = node_finding ''NV-NODE-005'' SeverityInfo (g_Name node) ComponentNode
     ''the GPU node is cordoned, so nothing new will be scheduled on it'' (map_lit [(''unschedulable'', btoa True)])"

definition NodeConditionOrCordon_Evaluate :: "Input \<Rightarrow> Finding list" where
  "NodeConditionOrCordon_Evaluate i = concat (map (\<lambda>node. each (condition_finding node) (g_Conditions node)
     @ (if \<not> g_Unschedulable node then [] else [cordon_finding node])) (in_Nodes i))"

definition NodeConditionOrCordon :: Rule where
  "NodeConditionOrCordon = \<lparr>rule_Code = ''NV-NODE-005'', rule_Severity = SeverityInfo,
     rule_Applies = versionRange_Applies [] [], rule_Evaluate = NodeConditionOrCordon_Evaluate\<rparr>"

subsection \<open>The rules keep the contract\<close>

lemma node_codes [simp]:
  "codeRE_MatchString ''NV-NODE-001''" "codeRE_MatchString ''NV-NODE-002''" "codeRE_MatchString ''NV-NODE-003''"
  "codeRE_MatchString ''NV-NODE-004''" "codeRE_MatchString ''NV-NODE-005''"
  by (simp_all add: codeRE_MatchString_def rule_areas_def is_digit_def digit_val_def)

lemma node001_ok:
  assumes "node001_finding tol n = Some f" "n \<in> set (in_Nodes i) \<union> set (in_Hinted i)"
  shows "finding_ok ''NV-NODE-001'' i f"
  using assms unfolding node001_finding_def Let_def
  by - ((drule past_guard)+, (erule ok_returned; (intro good_rules)?), auto)

lemma node002_ok:
  assumes "node002_finding tol n = Some f" "n \<in> set (in_Nodes i) \<union> set (in_Hinted i)"
  shows "finding_ok ''NV-NODE-002'' i f"
  using assms unfolding node002_finding_def Let_def
  by - ((drule past_guard)+, (erule ok_returned; (intro good_rules)?), auto)

lemma node003_ok:
  assumes "node003_finding tol n = Some f" "n \<in> set (in_Nodes i)"
  shows "finding_ok ''NV-NODE-003'' i f"
  using assms unfolding node003_finding_def Let_def
  by - ((drule past_guard)+, (erule ok_returned; (intro good_rules)?), auto)

lemma node004_ok:
  assumes "node004_finding tol n = Some f" "n \<in> set (in_Nodes i)"
  shows "finding_ok ''NV-NODE-004'' i f"
  using assms unfolding node004_finding_def Let_def
  by - ((drule past_guard)+, (erule ok_returned; (intro good_rules)?), auto)

lemma condition_ok:
  assumes "condition_finding n c = Some f" "n \<in> set (in_Nodes i)" "c \<in> set (g_Conditions n)"
  shows "finding_ok ''NV-NODE-005'' i f"
proof -
  have "isSentinelFailure c" using assms(1) by (auto simp: condition_finding_def split: if_splits)
  then have "cond_Status c \<noteq> []" "cond_Reason c \<noteq> []" by (simp_all add: isSentinelFailure_def)
  moreover have "wf_input i \<Longrightarrow> cond_Type c \<noteq> []"
    using assms(2,3) by (auto simp: wf_input_def wf_node_def list_all_iff)
  ultimately show ?thesis
    using assms(1,2) unfolding condition_finding_def Let_def
    by - ((drule past_guard)+, (erule ok_returned; (intro good_rules)?), auto)
qed

lemma cordon_ok: "n \<in> set (in_Nodes i) \<Longrightarrow> finding_ok ''NV-NODE-005'' i (cordon_finding n)"
  unfolding cordon_finding_def by (intro ok_node_finding good_rules) auto

interpretation node001: health_rule NodePCIWithoutGPULabel
  by (rule health_ruleI)
     (auto simp: NodePCIWithoutGPULabel_def NodePCIWithoutGPULabel_Evaluate_def dest: node001_ok split: if_splits)

interpretation node002: health_rule NodeNoAllocatableGPUs
  by (rule health_ruleI)
     (auto simp: NodeNoAllocatableGPUs_def NodeNoAllocatableGPUs_Evaluate_def dest: node002_ok)

interpretation node003: health_rule NodeAllocatableBelowCapacity
  by (rule health_ruleI)
     (auto simp: NodeAllocatableBelowCapacity_def NodeAllocatableBelowCapacity_Evaluate_def dest: node003_ok)

interpretation node004: health_rule NodeCountDiffersFromCapacity
  by (rule health_ruleI)
     (auto simp: NodeCountDiffersFromCapacity_def NodeCountDiffersFromCapacity_Evaluate_def dest: node004_ok)

interpretation node005: health_rule NodeConditionOrCordon
  by (rule health_ruleI)
     (auto simp: NodeConditionOrCordon_def NodeConditionOrCordon_Evaluate_def
       dest: condition_ok intro: cordon_ok split: if_splits)

subsection \<open>Properties\<close>

lemma node_findings_about:
  "node002_finding tol n = Some f \<Longrightarrow> f_Node f = g_Name n"
  "node003_finding tol n = Some f \<Longrightarrow> f_Node f = g_Name n"
  "node004_finding tol n = Some f \<Longrightarrow> f_Node f = g_Name n"
  unfolding node002_finding_def node003_finding_def node004_finding_def Let_def
  by ((drule past_guard)+, clarsimp)+

lemma node002_fires:
  "node002_finding tol n \<noteq> None \<longleftrightarrow> labelIsTrue n LabelGPUPresent \<and> g_Allocatable n \<le> 0 \<and> g_Mode n \<noteq> ModeDRA
     \<and> \<not> isVirtualMachineWorkload n \<and> OperatorTargets n tol \<and> \<not> (isMixedMIG n \<and> migAllocatable n > 0)"
  unfolding node002_finding_def Let_def by (auto simp: not_less)

lemma node003_fires:
  "node003_finding tol n \<noteq> None \<longleftrightarrow> 0 < g_Allocatable n \<and> g_Allocatable n < g_Capacity n \<and> OperatorTargets n tol"
  unfolding node003_finding_def by (simp add: not_le)

text \<open>
  A node short of GPUs is reported by exactly one of NV-NODE-002
  and NV-NODE-003 and by that one exactly once: by the second when some are left, by the first
  when none are, provided that the node says it has GPUs, that something other than a
  virtual machine or a DRA driver should advertise them and that no MIG partition is
  allocatable in their place. Any other node gets no finding of the two.
\<close>

theorem shortage_reported_once:
  assumes "distinct (map g_Name (in_Nodes i @ in_Hinted i))" "n \<in> set (in_Nodes i)"
  shows "length (filter (\<lambda>f. f_Node f = g_Name n)
      (NodeNoAllocatableGPUs_Evaluate i @ NodeAllocatableBelowCapacity_Evaluate i))
    = (if OperatorTargets n (PolicyTolerations i)
          \<and> (if g_Allocatable n > 0 then g_Allocatable n < g_Capacity n
             else labelIsTrue n LabelGPUPresent \<and> g_Mode n \<noteq> ModeDRA \<and> \<not> isVirtualMachineWorkload n
               \<and> \<not> (isMixedMIG n \<and> migAllocatable n > 0))
       then 1 else 0)"
proof -
  let ?about = "filter (\<lambda>f. f_Node f = g_Name n)" and ?tol = "PolicyTolerations i"
  have "?about (NodeNoAllocatableGPUs_Evaluate i) = (case node002_finding ?tol n of None \<Rightarrow> [] | Some f \<Rightarrow> [f])"
    unfolding NodeNoAllocatableGPUs_Evaluate_def
    by (rule each_about) (use assms node_findings_about in auto)
  moreover have "?about (NodeAllocatableBelowCapacity_Evaluate i) = (case node003_finding ?tol n of None \<Rightarrow> [] | Some f \<Rightarrow> [f])"
    unfolding NodeAllocatableBelowCapacity_Evaluate_def
    by (rule each_about) (use assms node_findings_about in auto)
  ultimately have "length (?about (NodeNoAllocatableGPUs_Evaluate i @ NodeAllocatableBelowCapacity_Evaluate i))
      = (if node002_finding ?tol n \<noteq> None then 1 else 0) + (if node003_finding ?tol n \<noteq> None then 1 else 0)"
    by (simp split: option.split)
  then show ?thesis unfolding node002_fires node003_fires by (simp add: not_less)
qed

theorem shortage_reported_once_witness:
  "length (filter (\<lambda>f. f_Node f = ''a'')
     (NodeNoAllocatableGPUs_Evaluate (sample_input [sample_gpu_node ''a'', (sample_gpu_node ''b'')\<lparr>g_Allocatable := 1\<rparr>])
      @ NodeAllocatableBelowCapacity_Evaluate (sample_input [sample_gpu_node ''a'', (sample_gpu_node ''b'')\<lparr>g_Allocatable := 1\<rparr>]))) = 1"
proof -
  have "OperatorTargets (sample_gpu_node ''a'') []" "labelIsTrue (sample_gpu_node ''a'') LabelGPUPresent"
    "g_Mode (sample_gpu_node ''a'') \<noteq> ModeDRA" "\<not> isVirtualMachineWorkload (sample_gpu_node ''a'')"
    "\<not> isMixedMIG (sample_gpu_node ''a'')" "\<not> g_Allocatable (sample_gpu_node ''a'') > 0"
    "g_Name (sample_gpu_node ''a'') = ''a''" "g_Name (sample_gpu_node ''b'') = ''b''" by code_simp+
  moreover note sample_input_policies
  ultimately show ?thesis
    using shortage_reported_once [of "sample_input [sample_gpu_node ''a'', (sample_gpu_node ''b'')\<lparr>g_Allocatable := 1\<rparr>]" "sample_gpu_node ''a''"]
    by (simp add: sample_input_def)
qed

text \<open>
  NV-NODE-004 speaks of a node exactly when the operator targets it,
  device-plugin advertising applies and the count the node's label gives, times the sharing
  replicas, is not its capacity. The product is taken in 64 bits, and this holds for the counts
  for which it fits.
\<close>

theorem count_disagreement:
  assumes "distinct (map g_Name (in_Nodes i))" "n \<in> set (in_Nodes i)"
    "in_range 64 (g_Count n * max 1 (sh_Replicas (g_Sharing n)))"
  shows "(\<exists>f \<in> set (NodeCountDiffersFromCapacity_Evaluate i). f_Node f = g_Name n) \<longleftrightarrow>
    g_Count n > 0 \<and> \<not> isMixedMIG n \<and> g_Mode n \<noteq> ModeDRA \<and> OperatorTargets n (PolicyTolerations i)
    \<and> g_Count n * max 1 (sh_Replicas (g_Sharing n)) \<noteq> g_Capacity n"
proof -
  have "replicaFactor n = max 1 (sh_Replicas (g_Sharing n))" by (simp add: replicaFactor_def)
  then have e: "expectedCapacity n = g_Count n * max 1 (sh_Replicas (g_Sharing n))"
    using assms(3) by (simp add: expectedCapacity_def wrap_id)
  have "filter (\<lambda>f. f_Node f = g_Name n) (NodeCountDiffersFromCapacity_Evaluate i)
      = (case node004_finding (PolicyTolerations i) n of None \<Rightarrow> [] | Some f \<Rightarrow> [f])"
    unfolding NodeCountDiffersFromCapacity_Evaluate_def
    by (rule each_about) (use assms node_findings_about in auto)
  then have "(\<exists>f \<in> set (NodeCountDiffersFromCapacity_Evaluate i). f_Node f = g_Name n)
      \<longleftrightarrow> node004_finding (PolicyTolerations i) n \<noteq> None"
    by (metis (mono_tags, lifting) filter_empty_conv list.distinct(1) not_None_eq option.simps(4,5))
  also have "\<dots> \<longleftrightarrow> g_Count n > 0 \<and> \<not> isMixedMIG n \<and> g_Mode n \<noteq> ModeDRA \<and> OperatorTargets n (PolicyTolerations i)
      \<and> expectedCapacity n \<noteq> g_Capacity n"
    unfolding node004_finding_def Let_def by (simp add: not_le)
  finally show ?thesis by (simp only: e)
qed

theorem count_disagreement_witness:
  "\<exists>f \<in> set (NodeCountDiffersFromCapacity_Evaluate (sample_input [(sample_gpu_node ''a'')\<lparr>g_Count := 8\<rparr>])). f_Node f = ''a''"
proof -
  let ?n = "(sample_gpu_node ''a'')\<lparr>g_Count := 8\<rparr>"
  have "OperatorTargets ?n []" "g_Mode ?n \<noteq> ModeDRA" "\<not> isMixedMIG ?n" "g_Capacity ?n = 0"
    "sh_Replicas (g_Sharing ?n) = 0" "g_Name ?n = ''a''" by code_simp+
  moreover note sample_input_policies
  ultimately show ?thesis
    using count_disagreement [of "sample_input [?n]" ?n] by (simp add: sample_input_def in_range_def)
qed

text \<open>
  NV-NODE-005 makes one finding per unhealthy NVSentinel
  condition of a checked node and one more when the node is cordoned, none of them naming any
  other node.
\<close>

theorem unhealthy_conditions_reported:
  assumes "distinct (map g_Name (in_Nodes i))" "n \<in> set (in_Nodes i)"
  shows "length (filter (\<lambda>f. f_Node f = g_Name n) (NodeConditionOrCordon_Evaluate i))
    = length (filter isSentinelFailure (g_Conditions n)) + (if g_Unschedulable n then 1 else 0)"
proof -
  define out where "out m = each (condition_finding m) (g_Conditions m) @ (if \<not> g_Unschedulable m then [] else [cordon_finding m])" for m
  have about: "f_Node f = g_Name m" if "f \<in> set (out m)" for f m
    using that unfolding out_def by (auto simp: condition_finding_def cordon_finding_def Let_def split: if_splits)
  have len: "length (out m) = length (filter isSentinelFailure (g_Conditions m)) + (if g_Unschedulable m then 1 else 0)" for m
  proof -
    have "length (each (condition_finding m) cs) = length (filter isSentinelFailure cs)" for cs
      by (induction cs) (simp_all add: each_def List.map_filter_def condition_finding_def Let_def)
    then show ?thesis by (simp add: out_def)
  qed
  have "length (filter (\<lambda>f. f_Node f = g_Name n) (concat (map out ns)))
      = (if n \<in> set ns then length (out n) else 0)" if "distinct (map g_Name ns)" "\<forall>m \<in> set ns. g_Name m = g_Name n \<longrightarrow> m = n" for ns
    using that
  proof (induction ns)
    case (Cons m ns)
    show ?case
    proof (cases "m = n")
      case True
      then have "n \<notin> set ns" using Cons.prems by auto
      moreover have "filter (\<lambda>f. f_Node f = g_Name n) (out n) = out n" using about by (simp add: filter_id_conv)
      ultimately show ?thesis using Cons True by simp
    next
      case False
      then have "filter (\<lambda>f. f_Node f = g_Name n) (out m) = []" using about Cons.prems by (auto simp: filter_empty_conv)
      then show ?thesis using Cons False by auto
    qed
  qed simp
  from this [of "in_Nodes i"] have "length (filter (\<lambda>f. f_Node f = g_Name n) (concat (map out (in_Nodes i)))) = length (out n)"
    using assms by (auto dest: inj_onD simp: distinct_map)
  then show ?thesis by (simp add: NodeConditionOrCordon_Evaluate_def out_def [symmetric] len)
qed

theorem unhealthy_conditions_reported_witness:
  "length (filter (\<lambda>f. f_Node f = ''a'') (NodeConditionOrCordon_Evaluate
     (sample_input [(sample_gpu_node ''a'')\<lparr>g_Unschedulable := True\<rparr>]))) = 1"
proof -
  let ?n = "(sample_gpu_node ''a'')\<lparr>g_Unschedulable := True\<rparr>"
  have "g_Conditions ?n = []" "g_Name ?n = ''a''" by code_simp+
  then show ?thesis using unhealthy_conditions_reported [of "sample_input [?n]" ?n] by (simp add: sample_input_def)
qed

end
