(* ===== verification/Rules_Operand.thy ===== *)
theory Rules_Operand
  imports Rule_Support
begin

text \<open>
  The rules about the operator and what it runs: NV-OP-001 and NV-OP-002 for its policies and
  the operands it is told not to run, NV-DRV-001 for the driver, NV-CTK-001 for the container
  toolkit, NV-DP-001 and NV-DCGM-001 for two operands every node should run, and NV-DRA-001 for
  a node that advertises its GPUs twice.
\<close>

subsection \<open>NV-OP-001\<close>

definition reconciledPolicyName :: "unstructured list \<Rightarrow> string" where
  "reconciledPolicyName policies = (case find policyIsReady policies of Some p \<Rightarrow> GetName p | None \<Rightarrow> [])"

definition describePolicyCommand :: "string \<Rightarrow> string" where
  "describePolicyCommand name = ''kubectl describe clusterpolicy '' @ name"

definition policy_finding :: "severity \<Rightarrow> string \<Rightarrow> string \<Rightarrow> string gomap \<Rightarrow> Finding" where
  "policy_finding sev message name evidence =
     \<lparr>f_Code = ''NV-OP-001'', f_Severity = sev, f_Node = [], f_Component = ComponentOperator, f_Message = message,
      f_Evidence = evidence, f_Docs = [], f_Next = describePolicyCommand name\<rparr>"

definition op001_finding :: "string \<Rightarrow> unstructured \<Rightarrow> Finding option" where
  "op001_finding reconciling policy =
     (let name = GetName policy; state = clusterPolicyState policy in
      if strings_EqualFold state ''ready'' then None
      else if state = [] \<and> reconciling \<noteq> [] \<and> reconciling \<noteq> name
      then Some (policy_finding SeverityWarning ''the ClusterPolicy is ignored: the operator is reconciling another one'' name
        (map_lit [(''name'', name), (''reconciling'', reconciling), (''ignoredPolicy'', btoa True)]))
      else Some (policy_finding SeverityError ''the ClusterPolicy is not ready'' name
        (setIf (map_lit [(''name'', name)]) ''status.state'' state)))"

definition OperatorClusterPolicyNotReady_Evaluate :: "Input \<Rightarrow> Finding list" where
  "OperatorClusterPolicyNotReady_Evaluate i =
     each (op001_finding (reconciledPolicyName (in_ClusterPolicies i))) (in_ClusterPolicies i)"

definition OperatorClusterPolicyNotReady :: Rule where
  "OperatorClusterPolicyNotReady = \<lparr>rule_Code = ''NV-OP-001'', rule_Severity = SeverityError,
     rule_Applies = versionRange_Applies [] [], rule_Evaluate = OperatorClusterPolicyNotReady_Evaluate\<rparr>"

subsection \<open>NV-OP-002\<close>

definition op002_finding :: "GPUNode \<Rightarrow> string \<Rightarrow> Finding option" where
  "op002_finding node key =
     (let v = sget (g_Deploy node) key in
      if \<not> DeployDisabled v then None
      else Some (node_finding ''NV-OP-002'' SeverityInfo (g_Name node)
        (case ComponentForDeployKey key of Some component \<Rightarrow> component | None \<Rightarrow> key)
        ''the operator is not running this operand on the node'' (map_lit [(DeployLabel key, v)])))"

definition OperatorOperandDisabled_evaluateNode :: "GPUNode \<Rightarrow> Finding list" where
  "OperatorOperandDisabled_evaluateNode node = each (op002_finding node) (sort_Strings (map fst (g_Deploy node)))"

definition OperatorOperandDisabled_Evaluate :: "Input \<Rightarrow> Finding list" where
  "OperatorOperandDisabled_Evaluate i =
     concat (map OperatorOperandDisabled_evaluateNode (in_Nodes i)) @ concat (map OperatorOperandDisabled_evaluateNode (in_Hinted i))"

definition OperatorOperandDisabled :: Rule where
  "OperatorOperandDisabled = \<lparr>rule_Code = ''NV-OP-002'', rule_Severity = SeverityInfo,
     rule_Applies = versionRange_Applies [] [], rule_Evaluate = OperatorOperandDisabled_Evaluate\<rparr>"

subsection \<open>Evidence about an operand\<close>

definition operandEvidence :: "GPUNode \<Rightarrow> string \<Rightarrow> OperandPod option \<Rightarrow> string gomap" where
  "operandEvidence node deployKey found =
     (let evidence = setIf (setIf (map_lit []) (DeployLabel deployKey) (sget (g_Deploy node) deployKey))
            ''operands'' (operandComponents node)
      in case found of None \<Rightarrow> evidence
        | Some pod \<Rightarrow> mput (mput (mput (mput evidence ''pod'' (op_Name pod)) ''phase'' (op_Phase pod))
            ''ready'' (btoa (op_Ready pod))) ''restarts'' (itoa (op_Restarts pod)))"

subsection \<open>NV-DRV-001\<close>

definition DriverRestartWindow :: duration where "DriverRestartWindow = 10 * Minute"

definition deployKeyForDriver :: "string \<Rightarrow> string" where
  "deployKeyForDriver component = (if component = ComponentVGPUManager then ''vgpu-manager'' else ''driver'')"

definition isDriverComponent :: "string \<Rightarrow> bool" where
  "isDriverComponent component \<longleftrightarrow> component = ComponentDriver \<or> component = ComponentVGPUManager"

definition DriverPodNotReady_evaluatePod :: "Input \<Rightarrow> GPUNode \<Rightarrow> OperandPod \<Rightarrow> Finding option" where
  "DriverPodNotReady_evaluatePod i node pod =
     (let deployKey = deployKeyForDriver (op_Component pod) in
      if operandDisabledOn node deployKey then None
      else let evidence = operandEvidence node deployKey (Some pod);
             (died, recent) = insideWindow (op_LastTermination pod) (in_Now i) DriverRestartWindow
           in if op_Ready pod \<and> (op_Restarts pod \<le> 0 \<or> \<not> recent) then None
              else let message = (if op_Ready pod then ''the driver pod on the node is restarting''
                         else ''the driver pod on the node is not ready'');
                     evidence = (if op_Ready pod
                       then mput (mput (mput evidence ''lastTerminationAt'' (rfc3339 died))
                              ''lastExitCode'' (itoa (t_ExitCode (op_LastTermination pod))))
                              ''restartWindow'' (duration_String DriverRestartWindow)
                       else evidence);
                     severity = (if midUpgrade node then SeverityInfo else SeverityError);
                     evidence = (if midUpgrade node then mput evidence LabelUpgradeState (g_UpgradeState node) else evidence)
                   in Some (node_finding ''NV-DRV-001'' severity (g_Name node) (op_Component pod) message evidence))"

definition DriverPodNotReady_Evaluate :: "Input \<Rightarrow> Finding list" where
  "DriverPodNotReady_Evaluate i =
     (if \<not> in_OperatorInstalled i then []
      else concat (map (\<lambda>node. each (\<lambda>pod. if \<not> isDriverComponent (op_Component pod) then None
          else DriverPodNotReady_evaluatePod i node pod) (g_Operands node)) (everyNode i)))"

definition DriverPodNotReady :: Rule where
  "DriverPodNotReady = \<lparr>rule_Code = ''NV-DRV-001'', rule_Severity = SeverityError,
     rule_Applies = versionRange_Applies [] [], rule_Evaluate = DriverPodNotReady_Evaluate\<rparr>"

subsection \<open>NV-CTK-001\<close>

definition toolkitFailure :: "InitResult \<Rightarrow> int \<times> bool" where
  "toolkitFailure result = (case ir_ExitCode result of
       Some code \<Rightarrow> (code, code \<noteq> 0)
     | None \<Rightarrow> if ir_Reason result \<noteq> ''CrashLoopBackOff'' \<or> \<not> t_Observed (ir_LastTermination result) then (0, False)
         else (t_ExitCode (ir_LastTermination result), t_ExitCode (ir_LastTermination result) \<noteq> 0))"

definition ctk001_finding :: "GPUNode \<Rightarrow> OperandPod \<Rightarrow> InitResult \<Rightarrow> Finding option" where
  "ctk001_finding node validator result =
     (if ir_Name result \<noteq> ''toolkit-validation'' then None
      else let (code, failed) = toolkitFailure result in
        if \<not> failed then None
        else let evidence = map_lit [(''pod'', op_Name validator), (''initContainer'', ir_Name result), (''exitCode'', itoa code)];
               evidence = setIf evidence (DeployLabel ''container-toolkit'') (sget (g_Deploy node) ''container-toolkit'');
               evidence = setIf evidence ''reason'' (ir_Reason result);
               evidence = (if ir_ExitCode result = None
                 then setIf evidence ''lastTerminationAt'' (t_FinishedAt (ir_LastTermination result)) else evidence)
             in Some (node_finding ''NV-CTK-001'' SeverityError (g_Name node) ComponentContainerToolkit
                  ''the toolkit-validation init container of the validator pod exited non-zero'' evidence))"

definition ToolkitValidationFailed_Evaluate :: "Input \<Rightarrow> Finding list" where
  "ToolkitValidationFailed_Evaluate i =
     (if \<not> in_OperatorInstalled i then []
      else concat (map (\<lambda>node. case operandFor node ComponentOperatorValidator of None \<Rightarrow> []
          | Some validator \<Rightarrow> each (ctk001_finding node validator) (op_InitContainers validator)) (everyNode i)))"

definition ToolkitValidationFailed :: Rule where
  "ToolkitValidationFailed = \<lparr>rule_Code = ''NV-CTK-001'', rule_Severity = SeverityError,
     rule_Applies = versionRange_Applies [] [], rule_Evaluate = ToolkitValidationFailed_Evaluate\<rparr>"

subsection \<open>NV-DP-001\<close>

definition PolicyFieldDevicePlugin :: string where "PolicyFieldDevicePlugin = ''devicePlugin''"
definition PolicyFieldDCGMExporter :: string where "PolicyFieldDCGMExporter = ''dcgmExporter''"

definition dp001_finding :: "GPUNode \<Rightarrow> Finding option" where
  "dp001_finding node =
     (if g_Mode node = ModeDRA \<or> operandDisabledOn node ''device-plugin'' then None
      else let found = operandFor node ComponentDevicePlugin in
        if (case found of None \<Rightarrow> False | Some pod \<Rightarrow> op_Ready pod) then None
        else Some (node_finding ''NV-DP-001'' SeverityError (g_Name node) ComponentDevicePlugin
          (if found = None then ''the node runs no device plugin pod'' else ''the device plugin pod on the node is not ready'')
          (operandEvidence node ''device-plugin'' found)))"

definition DevicePluginNotReady_Evaluate :: "Input \<Rightarrow> Finding list" where
  "DevicePluginNotReady_Evaluate i =
     (if \<not> in_OperatorInstalled i \<or> \<not> OperandEnabledInPolicy i PolicyFieldDevicePlugin then []
      else each dp001_finding (in_Nodes i))"

definition DevicePluginNotReady :: Rule where
  "DevicePluginNotReady = \<lparr>rule_Code = ''NV-DP-001'', rule_Severity = SeverityError,
     rule_Applies = versionRange_Applies [] [], rule_Evaluate = DevicePluginNotReady_Evaluate\<rparr>"

subsection \<open>NV-DRA-001\<close>

definition sortedList :: "string list \<Rightarrow> string" where
  "sortedList vs = strings_Join (sort_Strings vs) '',''"

definition dra001_finding :: "GPUNode \<Rightarrow> Finding option" where
  "dra001_finding node =
     (if g_Mode node \<noteq> ModeBoth then None
      else Some (node_finding ''NV-DRA-001'' SeverityInfo (g_Name node) ComponentNode
        ''the node advertises its GPUs through both the device plugin and dynamic resource allocation''
        (setIf (map_lit [(''mode'', g_Mode node), (''capacity'', itoa (g_Capacity node)), (''allocatable'', itoa (g_Allocatable node))])
           ''resourceSlices'' (sortedList (g_ResourceSlices node)))))"

definition DevicePluginAndDRABoth_Evaluate :: "Input \<Rightarrow> Finding list" where
  "DevicePluginAndDRABoth_Evaluate i = each dra001_finding (in_Nodes i)"

definition DevicePluginAndDRABoth :: Rule where
  "DevicePluginAndDRABoth = \<lparr>rule_Code = ''NV-DRA-001'', rule_Severity = SeverityInfo,
     rule_Applies = versionRange_Applies [] [], rule_Evaluate = DevicePluginAndDRABoth_Evaluate\<rparr>"

subsection \<open>NV-DCGM-001\<close>

definition dcgm001_finding :: "GPUNode \<Rightarrow> Finding option" where
  "dcgm001_finding node =
     (if operandDisabledOn node ''dcgm-exporter'' then None
      else let found = operandFor node ComponentDCGMExporter in
        if (case found of None \<Rightarrow> False | Some pod \<Rightarrow> op_Ready pod) then None
        else Some (node_finding ''NV-DCGM-001'' SeverityWarning (g_Name node) ComponentDCGMExporter
          (if found = None then ''the node runs no dcgm-exporter pod and the ClusterPolicy enables it''
           else ''the dcgm-exporter pod on the node is not ready'')
          (operandEvidence node ''dcgm-exporter'' found)))"

definition DCGMExporterNotReady_Evaluate :: "Input \<Rightarrow> Finding list" where
  "DCGMExporterNotReady_Evaluate i =
     (if \<not> in_OperatorInstalled i \<or> \<not> OperandEnabledInPolicy i PolicyFieldDCGMExporter then []
      else each dcgm001_finding (in_Nodes i))"

definition DCGMExporterNotReady :: Rule where
  "DCGMExporterNotReady = \<lparr>rule_Code = ''NV-DCGM-001'', rule_Severity = SeverityWarning,
     rule_Applies = versionRange_Applies [] [], rule_Evaluate = DCGMExporterNotReady_Evaluate\<rparr>"

subsection \<open>The rules keep the contract\<close>

lemma operand_codes [simp]:
  "codeRE_MatchString ''NV-OP-001''" "codeRE_MatchString ''NV-OP-002''" "codeRE_MatchString ''NV-DRV-001''"
  "codeRE_MatchString ''NV-CTK-001''" "codeRE_MatchString ''NV-DP-001''" "codeRE_MatchString ''NV-DRA-001''"
  "codeRE_MatchString ''NV-DCGM-001''"
  by (simp_all add: codeRE_MatchString_def rule_areas_def is_digit_def digit_val_def)

lemma component_not_Nil [simp]:
  "ComponentOperator \<noteq> []" "ComponentContainerToolkit \<noteq> []" "ComponentDevicePlugin \<noteq> []" "ComponentDCGMExporter \<noteq> []"
  by (simp_all add: component_names)

lemma deployed_component_not_Nil: "ComponentForDeployKey key = Some c \<Longrightarrow> c \<noteq> []"
  by (auto simp: ComponentForDeployKey_def componentForDeployKey_def component_names split: if_splits)

lemma wf_operand:
  "wf_input i \<Longrightarrow> n \<in> set (in_Nodes i) \<union> set (in_Hinted i) \<Longrightarrow> p \<in> set (g_Operands n) \<Longrightarrow> op_Name p \<noteq> [] \<and> op_Phase p \<noteq> []"
  using wf_input_nodes by (fastforce simp: wf_node_def list_all_iff)

lemma DeployDisabled_not_Nil: "DeployDisabled v \<Longrightarrow> v \<noteq> []"
  by (auto simp: DeployDisabled_def strings_HasPrefix_def)

lemma good_operandEvidence:
  assumes "\<And>p. found = Some p \<Longrightarrow> op_Name p \<noteq> [] \<and> op_Phase p \<noteq> []"
  shows "good_evidence (operandEvidence node key found)"
  using assms unfolding operandEvidence_def Let_def
  by (cases found) (simp_all add: good_setIf good_literals good_mput)

lemma op001_ok:
  assumes "op001_finding reconciling p = Some f" "p \<in> set (in_ClusterPolicies i)"
  shows "finding_ok ''NV-OP-001'' i f"
proof -
  have name: "wf_input i \<Longrightarrow> GetName p \<noteq> []" using assms(2) by (simp add: wf_input_def list_all_iff)
  have ok: "finding_ok ''NV-OP-001'' i (policy_finding sev m n ev)"
    if "sev \<in> set severities" "m \<noteq> []" "wf_input i \<Longrightarrow> good_evidence ev" for sev m n ev
    using that by (simp add: finding_ok_def policy_finding_def describePolicyCommand_def)
  show ?thesis
    using assms(1) unfolding op001_finding_def Let_def
    by (auto intro!: ok simp: good_setIf good_literals name split: if_splits)
qed

lemma op002_ok:
  assumes "op002_finding n key = Some f" "key \<in> fst ` set (g_Deploy n)" "n \<in> set (in_Nodes i) \<union> set (in_Hinted i)"
  shows "finding_ok ''NV-OP-002'' i f"
proof -
  have dis: "DeployDisabled (sget (g_Deploy n) key)"
    using assms(1) by (auto simp: op002_finding_def Let_def split: if_splits)
  have key: "wf_input i \<Longrightarrow> key \<noteq> []" using wf_input_nodes [OF _ assms(3)] assms(2) by (auto simp: wf_node_def simp del: set_map)
      (metis image_eqI fst_conv)
  show ?thesis
    using assms(1,3) DeployDisabled_not_Nil [OF dis] key deployed_component_not_Nil unfolding op002_finding_def Let_def
    by - ((drule past_guard)+, (erule ok_returned; (intro good_rules)?), auto split: option.splits)
qed

lemma drv001_ok:
  assumes "DriverPodNotReady_evaluatePod i n pod = Some f" "isDriverComponent (op_Component pod)" "pod \<in> set (g_Operands n)"
    "n \<in> set (in_Nodes i) \<union> set (in_Hinted i)"
  shows "finding_ok ''NV-DRV-001'' i f"
proof -
  have pod: "wf_input i \<Longrightarrow> op_Name pod \<noteq> [] \<and> op_Phase pod \<noteq> []" using wf_operand assms(3,4) by blast
  have "op_Component pod \<noteq> []" using assms(2) by (auto simp: isDriverComponent_def component_names)
  moreover have "midUpgrade n \<Longrightarrow> g_UpgradeState n \<noteq> []" by (simp add: midUpgrade_def)
  moreover note good_operandEvidence [of "Some pod" n "deployKeyForDriver (op_Component pod)"]
  ultimately show ?thesis
    using assms(1,4) pod unfolding DriverPodNotReady_evaluatePod_def Let_def split_beta
    by - ((drule past_guard)+, (erule ok_returned; (intro good_rules)?), auto)
qed

lemma ctk001_ok:
  assumes "ctk001_finding n p r = Some f" "p \<in> set (g_Operands n)" "n \<in> set (in_Nodes i) \<union> set (in_Hinted i)"
  shows "finding_ok ''NV-CTK-001'' i f"
proof -
  have "ir_Name r = ''toolkit-validation''" using assms(1) by (auto simp: ctk001_finding_def split: if_splits)
  then have "ir_Name r \<noteq> []" by simp
  moreover have "wf_input i \<Longrightarrow> op_Name p \<noteq> []" using wf_operand assms(2,3) by blast
  ultimately show ?thesis
    using assms(1,3) unfolding ctk001_finding_def Let_def split_beta
    by - ((drule past_guard)+, (erule ok_returned; (intro good_rules)?), auto)
qed

lemma found_operand_ok:
  assumes "wf_input i" "n \<in> set (in_Nodes i)" "operandFor n c = Some p"
  shows "op_Name p \<noteq> [] \<and> op_Phase p \<noteq> []"
  using wf_operand [OF assms(1)] assms(2,3) operandFor_Some by blast

lemma dp001_ok: "dp001_finding n = Some f \<Longrightarrow> n \<in> set (in_Nodes i) \<Longrightarrow> finding_ok ''NV-DP-001'' i f"
  unfolding dp001_finding_def Let_def
  by ((drule past_guard)+, (erule ok_returned; (intro good_operandEvidence found_operand_ok)?), auto)

lemma dcgm001_ok: "dcgm001_finding n = Some f \<Longrightarrow> n \<in> set (in_Nodes i) \<Longrightarrow> finding_ok ''NV-DCGM-001'' i f"
  unfolding dcgm001_finding_def Let_def
  by ((drule past_guard)+, (erule ok_returned; (intro good_operandEvidence found_operand_ok)?), auto)

lemma dra001_ok:
  assumes "dra001_finding n = Some f" "n \<in> set (in_Nodes i)"
  shows "finding_ok ''NV-DRA-001'' i f"
proof -
  have "g_Mode n \<noteq> []" using assms(1) by (auto simp: dra001_finding_def ModeBoth_def split: if_splits)
  then show ?thesis
    using assms unfolding dra001_finding_def
    by - ((drule past_guard)+, (erule ok_returned; (intro good_rules)?), auto)
qed

interpretation op001: health_rule OperatorClusterPolicyNotReady
  by (rule health_ruleI)
     (auto simp: OperatorClusterPolicyNotReady_def OperatorClusterPolicyNotReady_Evaluate_def dest: op001_ok)

interpretation op002: health_rule OperatorOperandDisabled
  by (rule health_ruleI)
     (auto simp: OperatorOperandDisabled_def OperatorOperandDisabled_Evaluate_def
       OperatorOperandDisabled_evaluateNode_def intro: op002_ok rev_image_eqI)

interpretation drv001: health_rule DriverPodNotReady
  by (rule health_ruleI)
     (auto simp: DriverPodNotReady_def DriverPodNotReady_Evaluate_def dest: drv001_ok split: if_splits)

interpretation ctk001: health_rule ToolkitValidationFailed
  by (rule health_ruleI)
     (auto simp: ToolkitValidationFailed_def ToolkitValidationFailed_Evaluate_def
       dest: operandFor_Some [OF sym] ctk001_ok split: if_splits option.splits)

interpretation dp001: health_rule DevicePluginNotReady
  by (rule health_ruleI)
     (auto simp: DevicePluginNotReady_def DevicePluginNotReady_Evaluate_def dest: dp001_ok split: if_splits)

interpretation dra001: health_rule DevicePluginAndDRABoth
  by (rule health_ruleI)
     (auto simp: DevicePluginAndDRABoth_def DevicePluginAndDRABoth_Evaluate_def dest: dra001_ok)

interpretation dcgm001: health_rule DCGMExporterNotReady
  by (rule health_ruleI)
     (auto simp: DCGMExporterNotReady_def DCGMExporterNotReady_Evaluate_def dest: dcgm001_ok split: if_splits)

subsection \<open>Properties\<close>

text \<open>
  NV-OP-001 makes one finding per policy that is not ready, in the
  policies' order. It is an error, except for a policy that has no state while the operator
  reconciles another one that is ready, which is only a warning.
\<close>

theorem policies_reported:
  "map (\<lambda>f. (f_Severity f, f_Next f)) (OperatorClusterPolicyNotReady_Evaluate i)
    = map (\<lambda>p. (if clusterPolicyState p = [] \<and> (\<exists>q. find policyIsReady (in_ClusterPolicies i) = Some q \<and> GetName q \<notin> {[], GetName p})
             then SeverityWarning else SeverityError, describePolicyCommand (GetName p)))
        (filter (\<lambda>p. \<not> policyIsReady p) (in_ClusterPolicies i))"
proof -
  define rec where "rec = reconciledPolicyName (in_ClusterPolicies i)"
  have rec: "rec \<noteq> [] \<and> rec \<noteq> name \<longleftrightarrow> (\<exists>q. find policyIsReady (in_ClusterPolicies i) = Some q \<and> GetName q \<notin> {[], name})" for name
    by (auto simp: rec_def reconciledPolicyName_def split: option.splits)
  have one: "map_option (\<lambda>f. (f_Severity f, f_Next f)) (op001_finding rec p)
      = (if policyIsReady p then None
         else Some (if clusterPolicyState p = [] \<and> rec \<noteq> [] \<and> rec \<noteq> GetName p then SeverityWarning else SeverityError,
                describePolicyCommand (GetName p)))" for p
    by (simp add: op001_finding_def policyIsReady_def policy_finding_def Let_def)
  have "map (\<lambda>f. (f_Severity f, f_Next f)) (each (op001_finding rec) ps)
      = map (\<lambda>p. (if clusterPolicyState p = [] \<and> rec \<noteq> [] \<and> rec \<noteq> GetName p then SeverityWarning else SeverityError,
                describePolicyCommand (GetName p))) (filter (\<lambda>p. \<not> policyIsReady p) ps)" for ps
  proof (induction ps)
    case (Cons p ps)
    then show ?case using one [of p] by (cases "op001_finding rec p") (auto simp: each_def List.map_filter_def split: if_splits)
  qed simp
  then show ?thesis unfolding OperatorClusterPolicyNotReady_Evaluate_def rec_def [symmetric] rec by simp
qed

text \<open>
  NV-OP-002 on a node the inventory built reports exactly the
  operands its labels disable, and each finding quotes the label it rests on as the node
  carries it: its whole evidence is that one label.
\<close>

theorem disabled_operands_quoted:
  assumes "wf_map (node_Labels n)"
  shows "f_Evidence ` set (OperatorOperandDisabled_evaluateNode (buildNode n ctx))
    = {[(DeployLabel key, v)] | key v. key \<noteq> [] \<and> map_of (node_Labels n) (DeployLabel key) = Some v
         \<and> (v = ''false'' \<or> strings_HasPrefix v ''paused-'')}"
proof -
  let ?d = "deployLabels (node_Labels n)"
  have look: "map_of ?d key = (if key = [] then None else map_of (node_Labels n) (DeployLabel key))" for key
    by (rule deployLabels_lookup [OF assms])
  have "g_Deploy (buildNode n ctx) = ?d" by (simp add: buildNode_def Let_def)
  then have "f_Evidence ` set (OperatorOperandDisabled_evaluateNode (buildNode n ctx))
      = {[(DeployLabel key, sget ?d key)] | key. key \<in> fst ` set ?d \<and> DeployDisabled (sget ?d key)}"
    unfolding OperatorOperandDisabled_evaluateNode_def
    by (force simp: op002_finding_def Let_def map_lit_def mput_def split: if_splits)
  also have "\<dots> = {[(DeployLabel key, v)] | key v. map_of ?d key = Some v \<and> DeployDisabled v}"
  proof -
    have "key \<in> fst ` set ?d \<and> DeployDisabled (sget ?d key) \<and> v = sget ?d key \<longleftrightarrow> map_of ?d key = Some v \<and> DeployDisabled v" for key v
      by (auto simp: mget_def dom_map_of_conv_image_fst [symmetric] split: option.splits)
    then show ?thesis by blast
  qed
  also have "\<dots> = {[(DeployLabel key, v)] | key v. key \<noteq> [] \<and> map_of (node_Labels n) (DeployLabel key) = Some v \<and> DeployDisabled v}"
  proof -
    have "map_of ?d key = Some v \<longleftrightarrow> key \<noteq> [] \<and> map_of (node_Labels n) (DeployLabel key) = Some v" for key v
      by (simp add: look)
    then show ?thesis by (simp only: conj_assoc)
  qed
  finally show ?thesis unfolding DeployDisabled_def .
qed

theorem disabled_operands_quoted_witness:
  "f_Evidence ` set (OperatorOperandDisabled_evaluateNode (buildNode
       (sample_node ''a'' [(''nvidia.com/gpu.deploy.driver'', ''false'')] [])
       \<lparr>nc_hinted = False, nc_sliceNames = [], nc_requested = 0, nc_requestedKnown = True, nc_operands = [], nc_withDetails = True\<rparr>))
   = {[(''nvidia.com/gpu.deploy.driver'', ''false'')]}"
  by (subst disabled_operands_quoted)
     (auto simp: sample_node_def wf_map_def DeployLabel_def DeployLabelPrefix_def)

text \<open>
  A driver pod that is ready again is still reported exactly when
  it has restarted and its newest termination, to the second the inventory records it at, is
  less than ten minutes back; one that is not ready is always reported. The severity is info
  exactly while the node is in the middle of a driver upgrade, and error otherwise.
\<close>

theorem driver_restart_window:
  assumes "four_digit_year died" "op_LastTermination pod = \<lparr>t_Observed = True, t_ExitCode = c, t_Reason = r, t_FinishedAt = rfc3339 died\<rparr>"
    "\<not> operandDisabledOn node (deployKeyForDriver (op_Component pod))"
  shows "map_option f_Severity (DriverPodNotReady_evaluatePod i node pod)
    = (if \<not> op_Ready pod \<or> op_Restarts pod > 0 \<and> in_Now i - died div Second * Second < 10 * Minute
       then Some (if g_UpgradeState node \<in> {[], ''upgrade-done'', ''upgrade-failed''} then SeverityError else SeverityInfo)
       else None)"
proof -
  have "time_Sub a b < 10 * Minute \<longleftrightarrow> a - b < 10 * Minute" for a b by (simp add: time_Sub_def min_def max_def)
  then have "insideWindow (op_LastTermination pod) (in_Now i) DriverRestartWindow
      = (died div Second * Second, in_Now i - died div Second * Second < 10 * Minute)"
    using assms(1,2) by (simp add: insideWindow_def parse_rfc3339 DriverRestartWindow_def)
  then show ?thesis
    using assms(3) by (simp add: DriverPodNotReady_evaluatePod_def Let_def midUpgrade_def
        upgradeStateDone_def upgradeStateFailed_def not_less)
qed

theorem driver_restart_window_witness:
  "map_option f_Severity (DriverPodNotReady_evaluatePod ((sample_input [])\<lparr>in_Now := sample_time + Minute\<rparr>) (sample_gpu_node ''a'')
     \<lparr>op_Name = ''p'', op_Namespace = ''g'', op_Component = ComponentDriver, op_Phase = ''Running'', op_Restarts = 1, op_Images = [],
      op_Ready = True, op_LastTermination = \<lparr>t_Observed = True, t_ExitCode = 1, t_Reason = [], t_FinishedAt = rfc3339 sample_time\<rparr>,
      op_InitContainers = []\<rparr>) = Some SeverityError"
proof -
  have "\<not> operandDisabledOn (sample_gpu_node ''a'') (deployKeyForDriver ComponentDriver)" "g_UpgradeState (sample_gpu_node ''a'') = []"
    by code_simp+
  then show ?thesis by (subst driver_restart_window [OF sample_year]) (simp_all add: sample_time_def)
qed

end
