(* ===== verification/Rules_Cluster.thy ===== *)
theory Rules_Cluster
  imports Rules_Node Rules_Operand
begin

text \<open>
  The rules about what spans nodes, NV-MIG-001, NV-CD-001, NV-UPG-001 and NV-TOPO-001, and the
  list of every rule with its registration.
\<close>

subsection \<open>NV-MIG-001\<close>

definition migResourceNames :: "GPUNode \<Rightarrow> string" where
  "migResourceNames node = strings_Join (sort_Strings
     (map fst (filter (\<lambda>(_, count). \<not> rc_Allocatable count \<le> 0) (mig_Resources (g_MIG node))))) '',''"

definition migEvidence :: "GPUNode \<Rightarrow> bool \<Rightarrow> string gomap" where
  "migEvidence node withResources =
     (let evidence = map_lit [(LabelMIGCapable, btoa (mig_Capable (g_MIG node)))];
          evidence = setIf evidence LabelMIGStrategy (mig_Strategy (g_MIG node));
          evidence = setIf evidence LabelMIGConfig (mig_Config (g_MIG node));
          evidence = setIf evidence LabelMIGConfigState (mig_ConfigState (g_MIG node))
      in if withResources
         then mput (setIf evidence ''migResources'' (migResourceNames node)) ''capacity'' (itoa (g_Capacity node))
         else evidence)"

definition configFinding :: "GPUNode \<Rightarrow> Finding option" where
  "configFinding node =
     (if mig_Config (g_MIG node) = [] \<or> mig_ConfigState (g_MIG node) = ''success'' then None
      else Some (node_finding ''NV-MIG-001''
        (if mig_ConfigState (g_MIG node) = ''failed'' then SeverityError else SeverityWarning)
        (g_Name node) ComponentMIGManager ''the MIG configuration the node was asked for has not been applied''
        (migEvidence node False)))"

definition strategyFinding :: "GPUNode \<Rightarrow> Finding option" where
  "strategyFinding node =
     (if \<not> mig_Capable (g_MIG node) then None
      else let advertisesMIG = isMixedMIG node in
        if (if mig_Strategy (g_MIG node) = ''single'' then \<not> advertisesMIG
            else if mig_Strategy (g_MIG node) = ''mixed''
            then advertisesMIG \<or> mig_Config (g_MIG node) = [] \<or> mig_Config (g_MIG node) = ''all-disabled''
            else True)
        then None
        else Some (node_finding ''NV-MIG-001'' SeverityWarning (g_Name node) ComponentNode
          ''the node's MIG strategy and the resources it advertises disagree'' (migEvidence node True)))"

definition mig001_finding :: "Toleration list \<Rightarrow> GPUNode \<Rightarrow> Finding option" where
  "mig001_finding tolerations node =
     (if isVirtualMachineWorkload node \<or> \<not> OperatorTargets node tolerations then None
      else case configFinding node of Some f \<Rightarrow> Some f | None \<Rightarrow> strategyFinding node)"

definition MIGConfigNotApplied_Evaluate :: "Input \<Rightarrow> Finding list" where
  "MIGConfigNotApplied_Evaluate i = each (mig001_finding (PolicyTolerations i)) (everyNode i)"

definition MIGConfigNotApplied :: Rule where
  "MIGConfigNotApplied = \<lparr>rule_Code = ''NV-MIG-001'', rule_Severity = SeverityWarning,
     rule_Applies = versionRange_Applies [] [], rule_Evaluate = MIGConfigNotApplied_Evaluate\<rparr>"

subsection \<open>NV-CD-001\<close>

record domainNode =
  dn_name :: string
  dn_cliqueID :: string
  dn_status :: string

definition domainName :: "unstructured \<Rightarrow> string" where
  "domainName domain = GetNamespace domain @ ''/'' @ GetName domain"

definition domainStatus :: "unstructured \<Rightarrow> string" where
  "domainStatus domain = nested_or [] (NestedString domain [''status'', ''status''])"

fun domainNode_of :: "json \<Rightarrow> domainNode option" where
  "domainNode_of (JMap flds) =
     (if stringField flds ''name'' = [] then None
      else Some \<lparr>dn_name = stringField flds ''name'', dn_cliqueID = stringField flds ''cliqueID'',
        dn_status = (if stringField flds ''status'' = [] then ''NotReady'' else stringField flds ''status'')\<rparr>)"
| "domainNode_of _ = None"

definition domainNodes :: "unstructured \<Rightarrow> domainNode list" where
  "domainNodes domain = List.map_filter domainNode_of (nested_or [] (NestedSlice domain [''status'', ''nodes'']))"

definition byName :: "GPUNode list \<Rightarrow> GPUNode gomap" where
  "byName nodes = foldl (\<lambda>m node. mput m (g_Name node) node) [] nodes"

definition cd001_finding :: "unstructured \<Rightarrow> domainNode \<Rightarrow> GPUNode \<Rightarrow> Finding option" where
  "cd001_finding domain entry node =
     (let found = operandFor node ComponentIMEXDaemon in
      if dn_status entry = ''Ready'' \<and> (case found of None \<Rightarrow> True | Some pod \<Rightarrow> op_Ready pod) then None
      else let evidence = map_lit [(''computeDomain'', domainName domain), (''nodeStatus'', dn_status entry)];
             evidence = setIf evidence ''computeDomainStatus'' (domainStatus domain);
             evidence = setIf evidence ''cliqueID'' (dn_cliqueID entry);
             evidence = (case found of None \<Rightarrow> evidence
               | Some pod \<Rightarrow> mput (mput evidence ''pod'' (op_Name pod)) ''ready'' (btoa (op_Ready pod)))
           in Some (node_finding ''NV-CD-001'' SeverityInfo (g_Name node) ComponentIMEXDaemon
                ''the IMEX daemon of a ComputeDomain covering the node is not ready'' evidence))"

text \<open>The loop over the domains and their nodes fills two things: the findings and the nodes without a clique.\<close>

type_synonym cd_state = "Finding list \<times> string list gomap"

definition cd001_entry :: "GPUNode gomap \<Rightarrow> unstructured \<Rightarrow> cd_state \<Rightarrow> domainNode \<Rightarrow> cd_state" where
  "cd001_entry known domain st entry = (case map_of known (dn_name entry) of None \<Rightarrow> st
     | Some node \<Rightarrow>
         (fst st @ (case cd001_finding domain entry node of None \<Rightarrow> [] | Some f \<Rightarrow> [f]),
          if g_Clique node = []
          then mput (snd st) (g_Name node) (mget [] (snd st) (g_Name node) @ [domainName domain]) else snd st))"

definition cd001_domain :: "GPUNode gomap \<Rightarrow> cd_state \<Rightarrow> unstructured \<Rightarrow> cd_state" where
  "cd001_domain known st domain = foldl (cd001_entry known domain) st (domainNodes domain)"

definition clique_finding :: "string list gomap \<Rightarrow> string \<Rightarrow> Finding" where
  "clique_finding cliqueless node = node_finding ''NV-CD-001'' SeverityInfo node ComponentNode
     (''the node is in a ComputeDomain and carries no '' @ LabelClique)
     (map_lit [(''computeDomains'', strings_Join (sort_Strings (mget [] cliqueless node)) '','')])"

definition cliqueFindings :: "string list gomap \<Rightarrow> Finding list" where
  "cliqueFindings cliqueless = map (clique_finding cliqueless) (sort_Strings (map fst cliqueless))"

definition ComputeDomainNotReady_Evaluate :: "Input \<Rightarrow> Finding list" where
  "ComputeDomainNotReady_Evaluate i =
     (if in_ComputeDomains i = [] then []
      else let (findings, cliqueless) = foldl (cd001_domain (byName (in_Nodes i))) ([], []) (in_ComputeDomains i)
           in findings @ cliqueFindings cliqueless)"

definition ComputeDomainNotReady :: Rule where
  "ComputeDomainNotReady = \<lparr>rule_Code = ''NV-CD-001'', rule_Severity = SeverityInfo,
     rule_Applies = versionRange_Applies [] [], rule_Evaluate = ComputeDomainNotReady_Evaluate\<rparr>"

subsection \<open>NV-UPG-001\<close>

definition upgradeStuckStates :: "string list" where
  "upgradeStuckStates = [''cordon-required'', ''pod-restart-required'', ''validation-required'']"

definition isStuckState :: "string \<Rightarrow> bool" where
  "isStuckState state \<longleftrightarrow> state \<in> set upgradeStuckStates"

definition upgradeEventReason :: string where "upgradeEventReason = ''GPUDriverUpgrade''"
definition upgradeEventPrefix :: string where "upgradeEventPrefix = ''Successfully updated node state label to ''"

definition eventTime :: "Event \<Rightarrow> time" where
  "eventTime event = (if \<not> time_IsZero (event_LastTimestamp event) then event_LastTimestamp event
     else if \<not> time_IsZero (event_EventTime event) then event_EventTime event
     else event_FirstTimestamp event)"

fun enteredState_loop :: "Event list \<Rightarrow> string \<Rightarrow> string \<Rightarrow> time \<Rightarrow> time" where
  "enteredState_loop [] node state newest = newest"
| "enteredState_loop (event # rest) node state newest =
     (if event_ObjectName event \<noteq> node \<or> event_Reason event \<noteq> upgradeEventReason
      then enteredState_loop rest node state newest
      else if \<not> strings_HasSuffix (event_Message event) (upgradeEventPrefix @ state)
      then enteredState_loop rest node state newest
      else enteredState_loop rest node state (if eventTime event > newest then eventTime event else newest))"

definition enteredState :: "Input \<Rightarrow> string \<Rightarrow> string \<Rightarrow> time \<times> bool" where
  "enteredState i node state =
     (let newest = enteredState_loop (in_Events i) node state 0 in (newest, \<not> time_IsZero newest))"

definition UpgradeStuck_evaluateNode :: "duration \<Rightarrow> Input \<Rightarrow> GPUNode \<Rightarrow> Finding option" where
  "UpgradeStuck_evaluateNode after i node =
     (let state = g_UpgradeState node;
          evidence = map_lit [(LabelUpgradeState, state), (''upgradeStuckAfter'', duration_String after)];
          finding = (\<lambda>severity message evidence.
            node_finding ''NV-UPG-001'' severity (g_Name node) ComponentNode message evidence)
      in if state = upgradeStateFailed then Some (finding SeverityError ''the node's driver upgrade failed'' evidence)
         else if \<not> isStuckState state then None
         else let (since, dated) = enteredState i (g_Name node) state
              in if \<not> dated
                 then Some (finding SeverityInfo
                   (''the node is in driver upgrade state '' @ state @ '' and no event says since when'') evidence)
                 else let elapsed = time_Sub (in_Now i) since
                      in if elapsed < after then None
                         else Some (finding SeverityWarning
                           (''the node has been in driver upgrade state '' @ state @ '' for longer than --upgrade-stuck-after'')
                           (mput (mput evidence ''since'' (rfc3339 since)) ''for'' (duration_String (duration_Truncate elapsed Second)))))"

definition UpgradeStuck_Evaluate :: "duration \<Rightarrow> Input \<Rightarrow> Finding list" where
  "UpgradeStuck_Evaluate after i = each (UpgradeStuck_evaluateNode after i) (everyNode i)"

definition NewUpgradeStuck :: "duration \<Rightarrow> Rule" where
  "NewUpgradeStuck after = (let after = (if after \<le> 0 then DefaultUpgradeStuckAfter else after) in
     \<lparr>rule_Code = ''NV-UPG-001'', rule_Severity = SeverityWarning,
      rule_Applies = versionRange_Applies [] [], rule_Evaluate = UpgradeStuck_Evaluate after\<rparr>)"

subsection \<open>NV-TOPO-001\<close>

definition tiersInUse :: "GPUNode list \<Rightarrow> string list" where
  "tiersInUse nodes = sort_Strings (map fst (foldl (\<lambda>seen node.
     foldl (\<lambda>seen (label, value). if value \<noteq> [] \<and> strings_HasPrefix label TopologyFabricPrefix
       then mput seen label True else seen) seen (g_Topology node)) [] nodes))"

definition topo001_finding :: "string list \<Rightarrow> GPUNode \<Rightarrow> Finding option" where
  "topo001_finding tiers node =
     (let present = filter (\<lambda>tier. sget (g_Topology node) tier \<noteq> []) tiers;
          missing = filter (\<lambda>tier. \<not> sget (g_Topology node) tier \<noteq> []) tiers
      in if missing = [] then None
         else Some (node_finding ''NV-TOPO-001'' SeverityInfo (g_Name node) ComponentNode
           ''the node is missing Topograph fabric tiers that other GPU nodes carry''
           (setIf (map_lit [(''missing'', strings_Join missing '','')]) ''present'' (strings_Join present '',''))))"

definition TopologyLabelsPartial_Evaluate :: "Input \<Rightarrow> Finding list" where
  "TopologyLabelsPartial_Evaluate i =
     (let tiers = tiersInUse (in_Nodes i) in if tiers = [] then [] else each (topo001_finding tiers) (in_Nodes i))"

definition TopologyLabelsPartial :: Rule where
  "TopologyLabelsPartial = \<lparr>rule_Code = ''NV-TOPO-001'', rule_Severity = SeverityInfo,
     rule_Applies = versionRange_Applies [] [], rule_Evaluate = TopologyLabelsPartial_Evaluate\<rparr>"

subsection \<open>Every rule\<close>

definition rule_literals :: "duration \<Rightarrow> Rule list" where
  "rule_literals stuckAfter =
     [NodePCIWithoutGPULabel, NodeNoAllocatableGPUs, NodeAllocatableBelowCapacity, NodeCountDiffersFromCapacity,
      NodeConditionOrCordon, OperatorClusterPolicyNotReady, OperatorOperandDisabled, DriverPodNotReady,
      ToolkitValidationFailed, DevicePluginNotReady, DevicePluginAndDRABoth, MIGConfigNotApplied,
      DCGMExporterNotReady, ComputeDomainNotReady, NewUpgradeStuck (upgradeStuckAfter stuckAfter), TopologyLabelsPartial]"

definition AllWith :: "duration \<Rightarrow> Rule list" where
  "AllWith stuckAfter = sort_Slice rule_Code (rule_literals stuckAfter)"

definition All_rules :: "Rule list" where
  "All_rules = AllWith 0"

definition rules_Register :: "Registry \<Rightarrow> string + Registry" where
  "rules_Register registry = Register_each registry All_rules"

subsection \<open>The rules keep the contract\<close>

lemma cluster_codes [simp]:
  "codeRE_MatchString ''NV-MIG-001''" "codeRE_MatchString ''NV-CD-001''" "codeRE_MatchString ''NV-UPG-001''"
  "codeRE_MatchString ''NV-TOPO-001''"
  by (simp_all add: codeRE_MatchString_def rule_areas_def is_digit_def digit_val_def)

lemma cluster_component_not_Nil [simp]: "ComponentMIGManager \<noteq> []" "ComponentIMEXDaemon \<noteq> []"
  by (simp_all add: component_names)

lemma good_migEvidence: "good_evidence (migEvidence node b)"
  unfolding migEvidence_def Let_def by (simp add: good_setIf good_literals good_mput)

lemma config_ok: "configFinding n = Some f \<Longrightarrow> g_Name n \<in> checked_names i \<Longrightarrow> finding_ok ''NV-MIG-001'' i f"
  unfolding configFinding_def
  by ((drule past_guard)+, (erule ok_returned; (intro good_migEvidence)?), auto)

lemma strategy_ok: "strategyFinding n = Some f \<Longrightarrow> g_Name n \<in> checked_names i \<Longrightarrow> finding_ok ''NV-MIG-001'' i f"
  unfolding strategyFinding_def Let_def
  by ((drule past_guard)+, (erule ok_returned; (intro good_migEvidence)?), auto)

lemma mig001_ok: "mig001_finding tol n = Some f \<Longrightarrow> g_Name n \<in> checked_names i \<Longrightarrow> finding_ok ''NV-MIG-001'' i f"
  unfolding mig001_finding_def
  by (drule past_guard) (auto simp: config_ok strategy_ok split: option.splits)

interpretation mig001: health_rule MIGConfigNotApplied
  by (rule health_ruleI)
     (auto simp: MIGConfigNotApplied_def MIGConfigNotApplied_Evaluate_def dest: mig001_ok)

text \<open>
  The loop of NV-CD-001, taken apart: the findings are those of the domain entries that name a
  known node, in order, and the nodes without a clique are those entries grouped by node.
\<close>

definition cd_entries :: "GPUNode gomap \<Rightarrow> unstructured list \<Rightarrow> (unstructured \<times> domainNode \<times> GPUNode) list" where
  "cd_entries known domains = concat (map (\<lambda>d. List.map_filter (\<lambda>e. map_option (\<lambda>n. (d, e, n)) (map_of known (dn_name e)))
     (domainNodes d)) domains)"

definition cd_cliqueless :: "GPUNode gomap \<Rightarrow> unstructured list \<Rightarrow> string list gomap" where
  "cd_cliqueless known domains = group_into (\<lambda>x. g_Name (snd (snd x))) (\<lambda>x. domainName (fst x))
     (filter (\<lambda>x. g_Clique (snd (snd x)) = []) (cd_entries known domains)) []"

lemma group_into_append: "group_into key f (xs @ ys) out = group_into key f ys (group_into key f xs out)"
  by (induction key f xs out rule: group_into.induct) auto

lemma join_not_Nil: "set xs \<noteq> {} \<and> [] \<notin> set xs \<Longrightarrow> strings_Join xs '','' \<noteq> []"
  by (subst join_eq_Nil) (simp_all, metis list.set_intros(1))

lemma each_append_one: "each f (x # xs) = (case f x of None \<Rightarrow> [] | Some y \<Rightarrow> [y]) @ each f xs"
  by (simp add: each_def List.map_filter_def split: option.split)

lemma cd001_loop:
  "foldl (cd001_domain known) (fs, cl) ds
    = (fs @ each (\<lambda>x. cd001_finding (fst x) (fst (snd x)) (snd (snd x))) (cd_entries known ds),
       group_into (\<lambda>x. g_Name (snd (snd x))) (\<lambda>x. domainName (fst x))
         (filter (\<lambda>x. g_Clique (snd (snd x)) = []) (cd_entries known ds)) cl)"
proof (induction ds arbitrary: fs cl)
  case (Cons d ds)
  have "foldl (cd001_entry known d) (fs, cl) es
      = (fs @ each (\<lambda>x. cd001_finding (fst x) (fst (snd x)) (snd (snd x))) (List.map_filter (\<lambda>e. map_option (\<lambda>n. (d, e, n)) (map_of known (dn_name e))) es),
         group_into (\<lambda>x. g_Name (snd (snd x))) (\<lambda>x. domainName (fst x))
           (filter (\<lambda>x. g_Clique (snd (snd x)) = []) (List.map_filter (\<lambda>e. map_option (\<lambda>n. (d, e, n)) (map_of known (dn_name e))) es)) cl)"
    for es fs cl
    by (induction es arbitrary: fs cl)
       (auto simp: cd001_entry_def each_append_one List.map_filter_simps split: option.split)
  then show ?case using Cons by (simp add: cd001_domain_def cd_entries_def group_into_append)
qed (simp add: cd_entries_def)

lemma byName_known: "map_of (byName ns) k = Some n \<Longrightarrow> n \<in> set ns \<and> g_Name n = k"
proof -
  have "map_of (foldl (\<lambda>m node. mput m (g_Name node) node) m ns) k = Some n
      \<Longrightarrow> map_of m k = Some n \<or> n \<in> set ns \<and> g_Name n = k" for m
    by (induction ns arbitrary: m) (force simp: map_of_mput split: if_splits)+
  then show "map_of (byName ns) k = Some n \<Longrightarrow> ?thesis" by (force simp: byName_def)
qed

lemma byName_of: "distinct (map g_Name ns) \<Longrightarrow> n \<in> set ns \<Longrightarrow> map_of (byName ns) (g_Name n) = Some n"
proof -
  have "distinct (map g_Name ns) \<Longrightarrow> n \<in> set ns
      \<Longrightarrow> map_of (foldl (\<lambda>m node. mput m (g_Name node) node) m ns) (g_Name n) = Some n" for m
  proof (induction ns arbitrary: m)
    case (Cons a ns)
    have skip: "map_of (foldl (\<lambda>m node. mput m (g_Name node) node) m ns) (g_Name a) = map_of m (g_Name a)"
      if "g_Name a \<notin> g_Name ` set ns" for m ns
      using that by (induction ns arbitrary: m) (auto simp: map_of_mput)
    show ?case using Cons skip [of ns] by (cases "n = a") (auto simp: map_of_mput)
  qed simp
  then show "distinct (map g_Name ns) \<Longrightarrow> n \<in> set ns \<Longrightarrow> ?thesis" by (simp add: byName_def)
qed

lemma cd_entries_iff:
  "(d, e, n) \<in> set (cd_entries known ds) \<longleftrightarrow> d \<in> set ds \<and> e \<in> set (domainNodes d) \<and> map_of known (dn_name e) = Some n"
  by (force simp: cd_entries_def List.map_filter_def)

lemma domainNodes_status: "e \<in> set (domainNodes d) \<Longrightarrow> dn_status e \<noteq> [] \<and> dn_name e \<noteq> []"
proof -
  assume "e \<in> set (domainNodes d)"
  then obtain j where "domainNode_of j = Some e" by (auto simp: domainNodes_def List.map_filter_def)
  then show ?thesis by (cases j) (auto split: if_splits)
qed

lemma cd001_ok:
  assumes "cd001_finding d e n = Some f" "e \<in> set (domainNodes d)" "n \<in> set (in_Nodes i)"
  shows "finding_ok ''NV-CD-001'' i f"
proof -
  have "good_evidence (case operandFor n ComponentIMEXDaemon of None \<Rightarrow> ev
      | Some pod \<Rightarrow> mput (mput ev ''pod'' (op_Name pod)) ''ready'' (btoa (op_Ready pod)))" if "wf_input i" "good_evidence ev" for ev
    using found_operand_ok [OF that(1) assms(3)] that(2) by (auto intro!: good_mput split: option.split)
  moreover have "domainName d \<noteq> []" by (simp add: domainName_def)
  ultimately show ?thesis
    using assms(1,3) domainNodes_status [OF assms(2)] unfolding cd001_finding_def Let_def
    by - ((drule past_guard)+, (erule ok_returned), auto simp: good_setIf good_literals)
qed

lemma cd_cliqueless_get:
  "mget [] (cd_cliqueless known ds) k = map (\<lambda>x. domainName (fst x))
     (filter (\<lambda>x. g_Clique (snd (snd x)) = [] \<and> g_Name (snd (snd x)) = k) (cd_entries known ds))"
  unfolding cd_cliqueless_def group_into_get filter_filter by (simp add: mget_def conj_commute)

lemma cd_cliqueless_keys:
  "fst ` set (cd_cliqueless known ds) = {g_Name n | d e n. (d, e, n) \<in> set (cd_entries known ds) \<and> g_Clique n = []}"
  by (force simp: cd_cliqueless_def group_into_keys)

lemma clique_ok:
  assumes "k \<in> fst ` set (cd_cliqueless (byName (in_Nodes i)) ds)"
  shows "finding_ok ''NV-CD-001'' i (clique_finding (cd_cliqueless (byName (in_Nodes i)) ds) k)"
proof -
  let ?cl = "mget [] (cd_cliqueless (byName (in_Nodes i)) ds) k"
  from assms obtain d e n where m: "(d, e, n) \<in> set (cd_entries (byName (in_Nodes i)) ds)" "g_Clique n = []" "k = g_Name n"
    by (auto simp: cd_cliqueless_keys)
  then have "n \<in> set (in_Nodes i)" using byName_known by (auto simp: cd_entries_iff)
  then have k: "k \<in> checked_names i" using m(3) by auto
  have "?cl \<noteq> []" using m by (force simp: cd_cliqueless_get filter_empty_conv)
  moreover have "\<forall>x \<in> set ?cl. x \<noteq> []" by (auto simp: cd_cliqueless_get domainName_def)
  ultimately have "set (sort_Strings ?cl) \<noteq> {} \<and> [] \<notin> set (sort_Strings ?cl)" by auto
  then have "strings_Join (sort_Strings ?cl) '','' \<noteq> []" by (rule join_not_Nil)
  then show ?thesis unfolding clique_finding_def
    by (intro ok_node_finding good_rules) (simp_all add: k)
qed

interpretation cd001: health_rule ComputeDomainNotReady
  by (rule health_ruleI)
     (auto simp: ComputeDomainNotReady_def ComputeDomainNotReady_Evaluate_def cd001_loop cliqueFindings_def
       cd_cliqueless_def [symmetric] cd_entries_iff
       dest!: byName_known intro: cd001_ok clique_ok rev_image_eqI split: if_splits)

lemma upg001_ok:
  assumes "UpgradeStuck_evaluateNode after i n = Some f" "g_Name n \<in> checked_names i"
  shows "finding_ok ''NV-UPG-001'' i f"
proof -
  have st: "g_UpgradeState n \<noteq> []"
    using assms(1) by (auto simp: UpgradeStuck_evaluateNode_def Let_def upgradeStateFailed_def isStuckState_def
        upgradeStuckStates_def split: if_splits)
  have ok: "finding_ok ''NV-UPG-001'' i (node_finding ''NV-UPG-001'' sev (g_Name n) ComponentNode m ev)"
    if "sev \<in> set severities" "m \<noteq> []" "good_evidence ev" for sev m ev
    using that assms(2) by (intro ok_node_finding) simp_all
  show ?thesis
    using assms(1) unfolding UpgradeStuck_evaluateNode_def Let_def split_beta
    by (auto intro!: ok good_mput good_literals simp: st split: if_splits)
qed

interpretation upg001: health_rule "NewUpgradeStuck after"
  by (rule health_ruleI)
     (auto simp: NewUpgradeStuck_def UpgradeStuck_Evaluate_def Let_def dest: upg001_ok)

lemma tiersInUse_set:
  "set (tiersInUse ns) = {t. \<exists>n \<in> set ns. \<exists>v. (t, v) \<in> set (g_Topology n) \<and> v \<noteq> [] \<and> strings_HasPrefix t TopologyFabricPrefix}"
proof -
  have inner: "fst ` set (foldl (\<lambda>seen (label, value). if value \<noteq> [] \<and> strings_HasPrefix label TopologyFabricPrefix
       then mput seen label True else seen) seen kvs)
     = fst ` set seen \<union> {t. \<exists>v. (t, v) \<in> set kvs \<and> v \<noteq> [] \<and> strings_HasPrefix t TopologyFabricPrefix}" for seen kvs
  proof (induction kvs arbitrary: seen)
    case (Cons kv kvs)
    obtain k v where kv: "kv = (k, v)" by fastforce
    have "{t. \<exists>v'. (t, v') \<in> set (kv # kvs) \<and> v' \<noteq> [] \<and> strings_HasPrefix t TopologyFabricPrefix}
        = (if v \<noteq> [] \<and> strings_HasPrefix k TopologyFabricPrefix then {k} else {})
          \<union> {t. \<exists>v'. (t, v') \<in> set kvs \<and> v' \<noteq> [] \<and> strings_HasPrefix t TopologyFabricPrefix}"
      by (auto simp: kv)
    then show ?case by (simp only: foldl_Cons kv prod.case Cons) (simp add: keys_mput)
  qed simp
  have "fst ` set (foldl (\<lambda>seen node. foldl (\<lambda>seen (label, value). if value \<noteq> [] \<and> strings_HasPrefix label TopologyFabricPrefix
       then mput seen label True else seen) seen (g_Topology node)) seen ns)
     = fst ` set seen \<union> {t. \<exists>n \<in> set ns. \<exists>v. (t, v) \<in> set (g_Topology n) \<and> v \<noteq> [] \<and> strings_HasPrefix t TopologyFabricPrefix}" for seen
    by (induction ns arbitrary: seen) (auto simp: inner)
  then show ?thesis by (simp add: tiersInUse_def)
qed

lemma tiersInUse_distinct: "distinct (tiersInUse ns)"
proof -
  have "wf_map seen \<Longrightarrow> wf_map (foldl (\<lambda>seen (label, value). if value \<noteq> [] \<and> strings_HasPrefix label TopologyFabricPrefix
       then mput seen label True else seen) seen kvs)" for seen kvs
    by (induction kvs arbitrary: seen) auto
  then have "wf_map seen \<Longrightarrow> wf_map (foldl (\<lambda>seen node. foldl (\<lambda>seen (label, value). if value \<noteq> [] \<and> strings_HasPrefix label TopologyFabricPrefix
       then mput seen label True else seen) seen (g_Topology node)) seen ns)" for seen
    by (induction ns arbitrary: seen) auto
  from this [of "[]"] show ?thesis by (simp add: tiersInUse_def wf_map_def)
qed

lemma topo001_ok:
  assumes "topo001_finding (tiersInUse ns) n = Some f" "g_Name n \<in> checked_names i"
  shows "finding_ok ''NV-TOPO-001'' i f"
proof -
  let ?m = "filter (\<lambda>tier. \<not> sget (g_Topology n) tier \<noteq> []) (tiersInUse ns)"
  have "[] \<notin> set (tiersInUse ns)" by (auto simp: tiersInUse_set strings_HasPrefix_def TopologyFabricPrefix_def)
  moreover have "?m \<noteq> []" using assms(1) by (auto simp: topo001_finding_def Let_def split: if_splits)
  ultimately have "set ?m \<noteq> {} \<and> [] \<notin> set ?m" by (metis filter_is_subset set_empty subsetD)
  then have "strings_Join ?m '','' \<noteq> []" by (rule join_not_Nil)
  then show ?thesis
    using assms unfolding topo001_finding_def Let_def
    by - ((drule past_guard)+, (erule ok_returned; (intro good_rules)?), auto)
qed

interpretation topo001: health_rule TopologyLabelsPartial
  by (rule health_ruleI)
     (auto simp: TopologyLabelsPartial_def TopologyLabelsPartial_Evaluate_def Let_def dest: topo001_ok split: if_splits)

subsection \<open>Every rule keeps the contract\<close>

lemma rule_codes: "map rule_Code (rule_literals d) =
  [''NV-NODE-001'', ''NV-NODE-002'', ''NV-NODE-003'', ''NV-NODE-004'', ''NV-NODE-005'', ''NV-OP-001'', ''NV-OP-002'',
   ''NV-DRV-001'', ''NV-CTK-001'', ''NV-DP-001'', ''NV-DRA-001'', ''NV-MIG-001'', ''NV-DCGM-001'', ''NV-CD-001'',
   ''NV-UPG-001'', ''NV-TOPO-001'']"
  unfolding rule_literals_def
  by (simp add: NodePCIWithoutGPULabel_def NodeNoAllocatableGPUs_def NodeAllocatableBelowCapacity_def
      NodeCountDiffersFromCapacity_def NodeConditionOrCordon_def OperatorClusterPolicyNotReady_def
      OperatorOperandDisabled_def DriverPodNotReady_def ToolkitValidationFailed_def DevicePluginNotReady_def
      DevicePluginAndDRABoth_def MIGConfigNotApplied_def DCGMExporterNotReady_def ComputeDomainNotReady_def
      NewUpgradeStuck_def Let_def TopologyLabelsPartial_def)

lemma rule_codes_distinct: "distinct (map rule_Code (rule_literals d))"
  unfolding rule_codes by code_simp

lemma rule_literals_ok: "list_all health_rule (rule_literals d)"
  unfolding rule_literals_def list.pred_inject
  using node001.health_rule_axioms node002.health_rule_axioms node003.health_rule_axioms node004.health_rule_axioms
    node005.health_rule_axioms op001.health_rule_axioms op002.health_rule_axioms drv001.health_rule_axioms
    ctk001.health_rule_axioms dp001.health_rule_axioms dra001.health_rule_axioms mig001.health_rule_axioms
    dcgm001.health_rule_axioms cd001.health_rule_axioms upg001.health_rule_axioms topo001.health_rule_axioms
  by (intro conjI) (simp_all only: list.pred_inject)

lemma AllWith_set: "set (AllWith d) = set (rule_literals d)"
  by (simp add: AllWith_def)

lemma AllWith_ok: "r \<in> set (AllWith d) \<Longrightarrow> health_rule r"
  using rule_literals_ok [of d] by (simp add: AllWith_set list_all_iff)

lemma AllWith_codes_distinct: "distinct (map rule_Code (AllWith d))"
  using rule_codes_distinct by (simp add: AllWith_def slice.sorter_distinct)

lemma AllWith_sorted: "sorted (map rule_Code (AllWith d))"
  by (simp add: AllWith_def)

subsection \<open>Properties\<close>

text \<open>
  Registering the rules never panics: all sixteen have well-formed codes
  and no two share one; what the registry lists afterwards is the list of the rules itself, in
  strictly ascending order of their codes.
\<close>

theorem rules_register:
  "\<exists>reg. rules_Register NewRegistry = Inr reg \<and> Rules reg = All_rules \<and> length All_rules = 16
    \<and> sorted_wrt (<) (map rule_Code All_rules)"
proof -
  let ?reg = "map (\<lambda>r. (rule_Code r, r)) All_rules"
  have d: "distinct (map rule_Code All_rules)" by (simp add: All_rules_def AllWith_codes_distinct)
  have m: "codeRE_MatchString (rule_Code r)" if "r \<in> set All_rules" for r
    using that health_rule.code_matches AllWith_ok by (auto simp: All_rules_def)
  have "rules_Register NewRegistry = Inr ?reg"
    using Register_each_fresh [OF d, of "[]"] m by (simp add: NewRegistry_def rules_Register_def)
  moreover have "Rules ?reg = All_rules"
    using slice.sorter_unique [OF d refl] AllWith_sorted by (simp add: Rules_def comp_def All_rules_def sort_key_id_if_sorted)
  moreover have "length All_rules = 16" by (simp add: All_rules_def AllWith_def rule_literals_def)
  moreover have "sorted_wrt (<) (map rule_Code All_rules)"
    using d AllWith_sorted by (simp add: All_rules_def strict_sorted_iff)
  ultimately show ?thesis by blast
qed

text \<open>
  C4 (rules_keep_contract). Whatever the input, every finding of every rule carries that rule's
  code and a known severity, names no node or one that was checked, and has a message and a next
  command; and on an input whose required names are there, it names a component and its evidence
  is a map with no empty value.
\<close>

theorem rules_keep_contract:
  assumes "r \<in> set (AllWith stuckAfter)" "f \<in> set (rule_Evaluate r i)"
  shows "f_Code f = rule_Code r \<and> f_Severity f \<in> {SeverityError, SeverityWarning, SeverityInfo}
    \<and> (f_Node f = [] \<or> f_Node f \<in> g_Name ` (set (in_Nodes i) \<union> set (in_Hinted i)))
    \<and> f_Message f \<noteq> [] \<and> f_Next f \<noteq> []
    \<and> (wf_input i \<longrightarrow> f_Component f \<noteq> [] \<and> wf_map (f_Evidence f) \<and> (\<forall>(k, v) \<in> set (f_Evidence f). v \<noteq> []))"
proof -
  have hr: "health_rule r" by (rule AllWith_ok [OF assms(1)])
  note laws = health_rule.finding_code [OF hr assms(2)] health_rule.finding_severity [OF hr assms(2)]
    health_rule.finding_node [OF hr assms(2)] health_rule.finding_next [OF hr assms(2)]
    health_rule.finding_component [OF hr _ assms(2)] health_rule.finding_evidence [OF hr _ assms(2)]
  have "\<forall>(k, v) \<in> set (f_Evidence f). v \<noteq> []" if "good_evidence (f_Evidence f)"
    using that by (force simp: good_evidence_def)
  then show ?thesis using laws by (auto simp: severities_def checked_names_def good_evidence_def)
qed

theorem rules_keep_contract_witness:
  "f_Evidence (cordon_finding ((sample_gpu_node ''a'')\<lparr>g_Unschedulable := True\<rparr>)) \<noteq> []
   \<and> f_Node (cordon_finding ((sample_gpu_node ''a'')\<lparr>g_Unschedulable := True\<rparr>)) = ''a''
   \<and> [] \<notin> snd ` set (f_Evidence (cordon_finding ((sample_gpu_node ''a'')\<lparr>g_Unschedulable := True\<rparr>)))"
proof -
  let ?n = "(sample_gpu_node ''a'')\<lparr>g_Unschedulable := True\<rparr>"
  have "g_Name ?n = ''a''" "g_Deploy ?n = []" "g_Topology ?n = []" "mig_Resources (g_MIG ?n) = []"
    "g_Operands ?n = []" "g_Conditions ?n = []" by code_simp+
  then have "wf_input (sample_input [?n])" by (simp add: wf_input_def wf_node_def sample_input_def)
  moreover have "NodeConditionOrCordon \<in> set (AllWith 0)" by (simp add: AllWith_set rule_literals_def)
  moreover have "cordon_finding ?n \<in> set (rule_Evaluate NodeConditionOrCordon (sample_input [?n]))"
    by (simp add: NodeConditionOrCordon_def NodeConditionOrCordon_Evaluate_def sample_input_def)
  moreover have "f_Node (cordon_finding ?n) = ''a''" using \<open>g_Name ?n = ''a''\<close> by (simp add: cordon_finding_def)
  moreover have "f_Evidence (cordon_finding ?n) \<noteq> []" by (simp add: cordon_finding_def map_lit_def)
  ultimately show ?thesis using rules_keep_contract [of NodeConditionOrCordon 0 "cordon_finding ?n" "sample_input [?n]"] by fastforce
qed

lemma enteredState_loop_Max:
  "enteredState_loop es node state newest = Max (insert newest (eventTime ` {e \<in> set es. event_ObjectName e = node
     \<and> event_Reason e = upgradeEventReason \<and> strings_HasSuffix (event_Message e) (upgradeEventPrefix @ state)}))"
proof (induction es arbitrary: newest)
  case (Cons e es)
  let ?P = "\<lambda>e. event_ObjectName e = node \<and> event_Reason e = upgradeEventReason
     \<and> strings_HasSuffix (event_Message e) (upgradeEventPrefix @ state)"
  have fin: "finite (eventTime ` {e \<in> set es. ?P e})" by simp
  show ?case
  proof (cases "?P e")
    case True
    then have "{x \<in> set (e # es). ?P x} = insert e {x \<in> set es. ?P x}" by auto
    moreover have "Max (insert (max newest (eventTime e)) A) = Max (insert newest (insert (eventTime e) A))" if "finite A" for A :: "int set"
      using that by (cases "A = {}") (simp_all add: max.assoc Max_insert)
    moreover have "enteredState_loop (e # es) node state newest = enteredState_loop es node state (max newest (eventTime e))"
      using True by (simp add: max_def)
    ultimately show ?thesis using Cons fin by simp
  next
    case False
    then have "{x \<in> set (e # es). ?P x} = {x \<in> set es. ?P x}" by auto
    then show ?thesis using False Cons by auto
  qed
qed simp

text \<open>
  A node whose driver upgrade failed is an error; one in a step where
  upgrades get stuck is an info when no event says since when, a warning when the newest such
  event is at least the given time back, and nothing before that. Any other state is nothing.
\<close>

theorem upgrade_severity:
  fixes i node after
  assumes "after \<le> 2 ^ 63 - 1" "0 < after"
    and seen_at: "seen_at = {eventTime e | e. e \<in> set (in_Events i) \<and> event_ObjectName e = g_Name node
      \<and> event_Reason e = ''GPUDriverUpgrade'' \<and> strings_HasSuffix (event_Message e)
          (''Successfully updated node state label to '' @ g_UpgradeState node) \<and> eventTime e > 0}"
  shows "map_option f_Severity (UpgradeStuck_evaluateNode after i node) =
    (if g_UpgradeState node = ''upgrade-failed'' then Some SeverityError
     else if g_UpgradeState node \<notin> {''cordon-required'', ''pod-restart-required'', ''validation-required''} then None
     else if seen_at = {} then Some SeverityInfo
     else if in_Now i - Max seen_at \<ge> after then Some SeverityWarning else None)"
proof -
  let ?E = "eventTime ` {e \<in> set (in_Events i). event_ObjectName e = g_Name node \<and> event_Reason e = upgradeEventReason
     \<and> strings_HasSuffix (event_Message e) (upgradeEventPrefix @ g_UpgradeState node)}"
  have ts: "seen_at = {t \<in> ?E. t > 0}" unfolding seen_at upgradeEventReason_def upgradeEventPrefix_def by auto
  have fin: "finite ?E" by simp
  have "Max (insert 0 ?E) = (if seen_at = {} then 0 else Max seen_at)"
  proof (cases "seen_at = {}")
    case True
    then have "\<forall>t \<in> insert 0 ?E. t \<le> 0" unfolding ts by auto
    then show ?thesis using True fin by (simp add: antisym)
  next
    case False
    have "Max seen_at \<in> seen_at" using False fin by (intro Max_in) (simp_all add: ts)
    moreover have "t \<le> Max seen_at" if "t \<in> insert 0 ?E" for t
    proof (cases "t > 0")
      case True
      then show ?thesis using that fin by (intro Max_ge) (auto simp: ts)
    next
      case False
      then show ?thesis using \<open>Max seen_at \<in> seen_at\<close> by (simp add: ts)
    qed
    ultimately show ?thesis using False fin by (intro Max_eqI) (auto simp: ts)
  qed
  then have ent: "enteredState i (g_Name node) (g_UpgradeState node)
      = (if seen_at = {} then (0, False) else (Max seen_at, True))"
  proof -
    have "seen_at \<noteq> {} \<Longrightarrow> Max seen_at > 0" using fin Max_in [of seen_at] by (simp add: ts)
    then show ?thesis using \<open>Max (insert 0 ?E) = _\<close>
      unfolding enteredState_def enteredState_loop_Max Let_def time_IsZero_def by (cases "seen_at = {}") (simp_all only: if_True if_False simp_thms, auto)
  qed
  have sub: "time_Sub a b < after \<longleftrightarrow> a - b < after" for a b
    using assms(1,2) by (auto simp: time_Sub_def min_def max_def)
  show ?thesis
    unfolding UpgradeStuck_evaluateNode_def Let_def ent upgradeStateFailed_def isStuckState_def upgradeStuckStates_def
    by (cases "seen_at = {}") (simp_all add: sub not_less)
qed

theorem upgrade_severity_witness:
  "map_option f_Severity (UpgradeStuck_evaluateNode (30 * Minute)
     ((sample_input [])\<lparr>in_Now := sample_time + 31 * Minute, in_Events := [\<lparr>event_ObjectKind = ''Node'', event_ObjectName = ''a'',
        event_Reason = ''GPUDriverUpgrade'', event_Message = ''Successfully updated node state label to cordon-required'',
        event_LastTimestamp = sample_time, event_EventTime = 0, event_FirstTimestamp = 0\<rparr>]\<rparr>)
     ((sample_gpu_node ''a'')\<lparr>g_UpgradeState := ''cordon-required''\<rparr>)) = Some SeverityWarning"
proof -
  have "g_Name (sample_gpu_node ''a'') = ''a''" by code_simp
  then show ?thesis
    by (subst upgrade_severity [OF _ _ refl])
       (simp_all add: eventTime_def time_IsZero_def sample_time_def strings_HasSuffix_def)
qed

text \<open>
  NV-TOPO-001 reports a node exactly when another checked node
  carries a fabric tier that it does not, once, and names in its evidence all the tiers it is
  missing, in ascending order.
\<close>

theorem topology_partial_iff:
  assumes "distinct (map g_Name (in_Nodes i))" "n \<in> set (in_Nodes i)" "wf_map (g_Topology n)"
    and miss: "missing = sorted_list_of_set {t. strings_HasPrefix t TopologyFabricPrefix \<and> sget (g_Topology n) t = []
      \<and> (\<exists>m \<in> set (in_Nodes i). \<exists>v. (t, v) \<in> set (g_Topology m) \<and> v \<noteq> [])}"
  shows "map (\<lambda>f. sget (f_Evidence f) ''missing'') (filter (\<lambda>f. f_Node f = g_Name n) (TopologyLabelsPartial_Evaluate i))
    = (if missing = [] then [] else [strings_Join missing '',''])"
proof -
  let ?tiers = "tiersInUse (in_Nodes i)"
  let ?m = "filter (\<lambda>tier. \<not> sget (g_Topology n) tier \<noteq> []) ?tiers"
  have srt: "sorted ?tiers" "distinct ?tiers" using tiersInUse_distinct by (simp_all add: tiersInUse_def)
  have "set ?m = {t. strings_HasPrefix t TopologyFabricPrefix \<and> sget (g_Topology n) t = []
      \<and> (\<exists>m \<in> set (in_Nodes i). \<exists>v. (t, v) \<in> set (g_Topology m) \<and> v \<noteq> [])}"
    by (auto simp: tiersInUse_set)
  then have m: "missing = ?m"
    unfolding miss using srt by (metis (no_types, lifting) distinct_filter sorted_filter sorted_list_of_set.idem_if_sorted_distinct sorted_wrt_filter)
  have ev: "topo001_finding ?tiers n = (if ?m = [] then None else Some (node_finding ''NV-TOPO-001'' SeverityInfo (g_Name n) ComponentNode
           ''the node is missing Topograph fabric tiers that other GPU nodes carry''
           (setIf (map_lit [(''missing'', strings_Join ?m '','')]) ''present'' (strings_Join (filter (\<lambda>tier. sget (g_Topology n) tier \<noteq> []) ?tiers) '',''))))"
    by (simp add: topo001_finding_def Let_def)
  have get: "sget (setIf (map_lit [(''missing'', x)]) ''present'' y) ''missing'' = x" for x y
    by (simp add: setIf_def map_lit_def mget_mput)
  have "filter (\<lambda>f. f_Node f = g_Name n) (each (topo001_finding ?tiers) (in_Nodes i))
      = (case topo001_finding ?tiers n of None \<Rightarrow> [] | Some f \<Rightarrow> [f])"
    by (rule each_about [OF assms(1,2)]) (auto simp: topo001_finding_def Let_def split: if_splits)
  then show ?thesis
    unfolding m TopologyLabelsPartial_Evaluate_def Let_def by (simp add: ev get)
qed

theorem topology_partial_iff_witness:
  "map (\<lambda>f. sget (f_Evidence f) ''missing'') (filter (\<lambda>f. f_Node f = ''a'') (TopologyLabelsPartial_Evaluate
     (sample_input [sample_gpu_node ''a'', (sample_gpu_node ''b'')\<lparr>g_Topology := [(''fabric.topograph.run/tier-1'', ''s'')]\<rparr>])))
   = [''fabric.topograph.run/tier-1'']"
proof -
  have a: "g_Name (sample_gpu_node ''a'') = ''a''" "g_Name (sample_gpu_node ''b'') = ''b''" "g_Topology (sample_gpu_node ''a'') = []"
    by code_simp+
  have "{t. strings_HasPrefix t TopologyFabricPrefix \<and> t = ''fabric.topograph.run/tier-1''} = {''fabric.topograph.run/tier-1''}"
    by (auto simp: strings_HasPrefix_def TopologyFabricPrefix_def)
  then show ?thesis
    using topology_partial_iff [of "sample_input [sample_gpu_node ''a'', (sample_gpu_node ''b'')\<lparr>g_Topology := [(''fabric.topograph.run/tier-1'', ''s'')]\<rparr>]"
        "sample_gpu_node ''a''", OF _ _ _ refl]
    by (simp add: sample_input_def a mget_def)
qed

text \<open>
  NV-MIG-001 makes at most one finding of a node: while the configuration
  the node was asked for is not applied it speaks of that alone, as an error when it failed, and
  only then does it compare the node's strategy with the resources it advertises.
\<close>

theorem mig_one_finding:
  assumes "distinct (map g_Name (in_Nodes i @ in_Hinted i))" "n \<in> set (in_Nodes i @ in_Hinted i)"
    "OperatorTargets n (PolicyTolerations i)" "\<not> isVirtualMachineWorkload n"
  shows "map (\<lambda>f. (f_Severity f, f_Component f)) (filter (\<lambda>f. f_Node f = g_Name n) (MIGConfigNotApplied_Evaluate i)) =
    (if mig_Config (g_MIG n) \<noteq> [] \<and> mig_ConfigState (g_MIG n) \<noteq> ''success''
     then [(if mig_ConfigState (g_MIG n) = ''failed'' then SeverityError else SeverityWarning, ComponentMIGManager)]
     else if mig_Capable (g_MIG n)
       \<and> (mig_Strategy (g_MIG n) = ''single'' \<and> isMixedMIG n
          \<or> mig_Strategy (g_MIG n) = ''mixed'' \<and> \<not> isMixedMIG n \<and> mig_Config (g_MIG n) \<notin> {[], ''all-disabled''})
     then [(SeverityWarning, ComponentNode)] else [])"
proof -
  let ?P = "\<lambda>f. (f_Severity f, f_Component f)"
  have about: "f_Node f = g_Name m" if "mig001_finding tol m = Some f" for tol m f
    using that unfolding mig001_finding_def configFinding_def strategyFinding_def Let_def
    by (auto split: if_splits option.splits)
  have "filter (\<lambda>f. f_Node f = g_Name n) (MIGConfigNotApplied_Evaluate i)
      = (case mig001_finding (PolicyTolerations i) n of None \<Rightarrow> [] | Some f \<Rightarrow> [f])"
    unfolding MIGConfigNotApplied_Evaluate_def everyNode_def by (rule each_about [OF assms(1,2) about])
  moreover have "mig001_finding (PolicyTolerations i) n = (case configFinding n of Some f \<Rightarrow> Some f | None \<Rightarrow> strategyFinding n)"
    using assms(3,4) by (simp add: mig001_finding_def)
  ultimately have "map ?P (filter (\<lambda>f. f_Node f = g_Name n) (MIGConfigNotApplied_Evaluate i))
      = (case map_option ?P (configFinding n) of Some p \<Rightarrow> [p] | None \<Rightarrow> (case map_option ?P (strategyFinding n) of Some p \<Rightarrow> [p] | None \<Rightarrow> []))"
    by (simp split: option.split)
  moreover have "map_option ?P (configFinding n) = (if mig_Config (g_MIG n) \<noteq> [] \<and> mig_ConfigState (g_MIG n) \<noteq> ''success''
      then Some (if mig_ConfigState (g_MIG n) = ''failed'' then SeverityError else SeverityWarning, ComponentMIGManager) else None)"
    by (simp add: configFinding_def)
  moreover have "map_option ?P (strategyFinding n) = (if mig_Capable (g_MIG n)
       \<and> (mig_Strategy (g_MIG n) = ''single'' \<and> isMixedMIG n
          \<or> mig_Strategy (g_MIG n) = ''mixed'' \<and> \<not> isMixedMIG n \<and> mig_Config (g_MIG n) \<notin> {[], ''all-disabled''})
      then Some (SeverityWarning, ComponentNode) else None)"
    by (auto simp: strategyFinding_def Let_def)
  ultimately show ?thesis by (simp only: if_distrib [of "case_option _ _"] option.case split: if_split)
qed

theorem mig_one_finding_witness:
  "map (\<lambda>f. (f_Severity f, f_Component f)) (filter (\<lambda>f. f_Node f = ''a'') (MIGConfigNotApplied_Evaluate
     (sample_input [(sample_gpu_node ''a'')\<lparr>g_MIG := \<lparr>mig_Strategy = ''mixed'', mig_Config = ''all-1g'', mig_ConfigState = ''failed'',
        mig_Capable = True, mig_Resources = []\<rparr>\<rparr>]))) = [(SeverityError, ComponentMIGManager)]"
proof -
  let ?n = "(sample_gpu_node ''a'')\<lparr>g_MIG := \<lparr>mig_Strategy = ''mixed'', mig_Config = ''all-1g'', mig_ConfigState = ''failed'',
        mig_Capable = True, mig_Resources = []\<rparr>\<rparr>"
  have "OperatorTargets ?n []" "\<not> isVirtualMachineWorkload ?n" "g_Name ?n = ''a''" by code_simp+
  moreover note sample_input_policies
  ultimately show ?thesis using mig_one_finding [of "sample_input [?n]" ?n] by (simp add: sample_input_def)
qed

lemma cd_entries_names:
  assumes known: "map_of (byName ns) (g_Name n) = Some n"
  shows "map (\<lambda>x. domainName (fst x)) (filter (\<lambda>x. g_Name (snd (snd x)) = g_Name n) (cd_entries (byName ns) ds))
      = concat (map (\<lambda>d. map (\<lambda>e. domainName d) (filter (\<lambda>e. dn_name e = g_Name n) (domainNodes d))) ds)"
proof -
  have one: "map (\<lambda>x. domainName (fst x)) (filter (\<lambda>x. g_Name (snd (snd x)) = g_Name n)
      (List.map_filter (\<lambda>e. map_option (\<lambda>m. (d, e, m)) (map_of (byName ns) (dn_name e))) es))
      = map (\<lambda>e. domainName d) (filter (\<lambda>e. dn_name e = g_Name n) es)" for d es
  proof (induction es)
    case (Cons e es)
    have "dn_name e = g_Name n \<Longrightarrow> map_of (byName ns) (dn_name e) = Some n" using known by simp
    moreover have "map_of (byName ns) (dn_name e) = Some m \<Longrightarrow> g_Name m = dn_name e" for m using byName_known by blast
    ultimately show ?case using Cons by (cases "map_of (byName ns) (dn_name e)") (auto simp: List.map_filter_simps)
  qed (simp add: List.map_filter_simps)
  show ?thesis by (induction ds) (simp_all add: cd_entries_def one)
qed

text \<open>
  A checked node that a ComputeDomain covers and that carries no
  clique label gets one finding about that, however many domains cover it, whose evidence lists
  all of them; a node with a clique, or in no domain, gets none.
\<close>

theorem cliqueless_reported_once:
  assumes "distinct (map g_Name (in_Nodes i))" "n \<in> set (in_Nodes i)"
    and dom: "domains = concat (map (\<lambda>d. map (\<lambda>e. domainName d) (filter (\<lambda>e. dn_name e = g_Name n) (domainNodes d))) (in_ComputeDomains i))"
  shows "map f_Evidence (filter (\<lambda>f. f_Node f = g_Name n \<and> f_Component f = ComponentNode) (ComputeDomainNotReady_Evaluate i))
    = (if g_Clique n = [] \<and> domains \<noteq> [] then [[(''computeDomains'', strings_Join (sort domains) '','')]] else [])"
proof -
  let ?k = "byName (in_Nodes i)" and ?ds = "in_ComputeDomains i"
  let ?cl = "cd_cliqueless ?k ?ds"
  let ?is = "\<lambda>f. f_Node f = g_Name n \<and> f_Component f = ComponentNode"
  have known: "map_of ?k (g_Name n) = Some n" by (rule byName_of [OF assms(1,2)])
  note entries = cd_entries_names [OF known]
  have same: "snd (snd x) = n" if "x \<in> set (cd_entries ?k ?ds)" "g_Name (snd (snd x)) = g_Name n" for x
  proof -
    obtain d e m where x: "x = (d, e, m)" by (cases x)
    then have m: "map_of ?k (dn_name e) = Some m" using that(1) by (simp add: cd_entries_iff)
    then have "dn_name e = g_Name n" using byName_known [OF m] that(2) x by simp
    then show ?thesis using m known x by simp
  qed
  have get: "mget [] ?cl (g_Name n) = (if g_Clique n = [] then domains else [])"
  proof -
    have "filter (\<lambda>x. g_Clique (snd (snd x)) = [] \<and> g_Name (snd (snd x)) = g_Name n) (cd_entries ?k ?ds)
        = (if g_Clique n = [] then filter (\<lambda>x. g_Name (snd (snd x)) = g_Name n) (cd_entries ?k ?ds) else [])"
      using same by (cases "g_Clique n = []") (auto intro!: filter_cong simp: filter_empty_conv)
    then show ?thesis using entries by (simp add: cd_cliqueless_get dom)
  qed
  have key: "g_Name n \<in> fst ` set ?cl \<longleftrightarrow> mget [] ?cl (g_Name n) \<noteq> []"
    unfolding cd_cliqueless_keys cd_cliqueless_get
    by (simp add: filter_empty_conv Bex_def split_paired_Ex) metis
  have first: "filter ?is (each (\<lambda>x. cd001_finding (fst x) (fst (snd x)) (snd (snd x))) xs) = []" for xs
    by (auto simp: filter_empty_conv cd001_finding_def Let_def ComponentNode_def component_names split: if_splits)
  have wf: "distinct (map fst ?cl)" using group_into_wf [OF wf_map_Nil] by (simp only: cd_cliqueless_def wf_map_def)
  have pick: "filter ?is (map (clique_finding cl) ks) = (if g_Name n \<in> set ks then [clique_finding cl (g_Name n)] else [])"
    if "distinct ks" for cl ks
    using that by (induction ks) (auto simp: clique_finding_def)
  have "filter ?is (ComputeDomainNotReady_Evaluate i) = (if g_Name n \<in> fst ` set ?cl then [clique_finding ?cl (g_Name n)] else [])"
  proof (cases "?ds = []")
    case True
    then show ?thesis by (simp add: ComputeDomainNotReady_Evaluate_def cd_cliqueless_def cd_entries_def)
  next
    case False
    then have "ComputeDomainNotReady_Evaluate i
        = each (\<lambda>x. cd001_finding (fst x) (fst (snd x)) (snd (snd x))) (cd_entries ?k ?ds) @ cliqueFindings ?cl"
      by (simp add: ComputeDomainNotReady_Evaluate_def cd001_loop cd_cliqueless_def)
    then show ?thesis using first wf by (simp add: cliqueFindings_def pick)
  qed
  then show ?thesis unfolding key get by (simp add: clique_finding_def get map_lit_def mput_def sort_Strings_def)
qed

theorem cliqueless_reported_once_witness:
  "map f_Evidence (filter (\<lambda>f. f_Node f = ''a'' \<and> f_Component f = ComponentNode) (ComputeDomainNotReady_Evaluate
     ((sample_input [sample_gpu_node ''a''])\<lparr>in_ComputeDomains := [[(''metadata'', JMap [(''name'', JString ''d''), (''namespace'', JString ''s'')]),
        (''status'', JMap [(''nodes'', JList [JMap [(''name'', JString ''a''), (''status'', JString ''Ready'')]])])]]\<rparr>)))
   = [[(''computeDomains'', ''s/d'')]]"
proof -
  let ?d = "[(''metadata'', JMap [(''name'', JString ''d''), (''namespace'', JString ''s'')]),
        (''status'', JMap [(''nodes'', JList [JMap [(''name'', JString ''a''), (''status'', JString ''Ready'')]])])]"
  have "g_Name (sample_gpu_node ''a'') = ''a''" "g_Clique (sample_gpu_node ''a'') = []" "domainName ?d = ''s/d''"
    "map dn_name (domainNodes ?d) = [''a'']" by code_simp+
  then show ?thesis
    using cliqueless_reported_once [of "(sample_input [sample_gpu_node ''a''])\<lparr>in_ComputeDomains := [?d]\<rparr>" "sample_gpu_node ''a''", OF _ _ refl]
    by (auto simp: sample_input_def map_eq_Cons_conv)
qed

end
