(* ===== verification/Health_Engine.thy ===== *)
theory Health_Engine
  imports Rules_Cluster
begin

text \<open>
  \<^verbatim>\<open>pkg/health/engine\<close>: a run of the rules over one input. What building the input returned is
  taken apart into reads that were denied, which the report names, and a failure, which is
  the run's own; then every applicable rule runs over the whole input, and the findings are
  filtered by \<^verbatim>\<open>--node\<close>, sorted and counted. The deep copies the engine takes before it runs
  a rule are the values themselves here.
\<close>

record engine_Options =
  eo_Node :: string
  eo_InputErr :: "goerr option"

definition keep :: "Finding \<Rightarrow> string \<Rightarrow> bool" where
  "keep finding nodeFilter \<longleftrightarrow> nodeFilter = [] \<or> f_Node finding = [] \<or> f_Node finding = nodeFilter"

definition knownNodes :: "GPUNode list \<Rightarrow> string" where
  "knownNodes nodes = (if nodes = [] then ''this run found none''
     else ''this run found '' @ join_names (sort_Strings (map g_Name nodes)))"

definition nodesChecked :: "Input \<Rightarrow> string \<Rightarrow> Unreachable list \<Rightarrow> goerr option \<Rightarrow> goerr + GPUNode list" where
  "nodesChecked i nodeFilter unreachable inputErr =
     (let all = in_Nodes i @ in_Hinted i in
      if nodeFilter = [] then Inr all
      else let checked = filter (\<lambda>node. g_Name node = nodeFilter) all in
        if checked \<noteq> [] then Inr checked
        else let usage = ''kubectl nv health looked at no node named '' @ fmt_q nodeFilter
                   @ '': it checks GPU nodes and nodes labelled as having GPUs, and '' @ knownNodes all
             in if unreachable \<noteq> [] then Inl (PartialNodeError usage unreachable inputErr)
                else Inl (UsageError usage None))"

definition count_severity :: "severity \<Rightarrow> Finding list \<Rightarrow> int" where
  "count_severity s findings = int (length (filter (\<lambda>f. f_Severity f = s) findings))"

definition summarize :: "GPUNode list \<Rightarrow> Finding list \<Rightarrow> Summary" where
  "summarize checked findings =
     \<lparr>s_Errors = count_severity SeverityError findings, s_Warnings = count_severity SeverityWarning findings,
      s_Infos = count_severity SeverityInfo findings, s_NodesChecked = int (length checked),
      s_GPUCapacity = sum_wrap 64 (map g_Capacity checked), s_GPUAllocatable = sum_wrap 64 (map g_Allocatable checked),
      s_GPURequested = sum_wrap 64 (map g_Requested checked),
      s_GPURequestedKnown = (checked \<noteq> [] \<and> list_all g_RequestedKnown checked)\<rparr>"

text \<open>
  \<^verbatim>\<open>collectPartial\<close> looks at one error at a time: a \<^verbatim>\<open>PartialError\<close> is collected, an error that
  unwraps to several needs all of them partial, one that unwraps to one needs that one, and
  anything else is a failure. An error that unwraps to nil is partial and collects nothing.
\<close>

fun collectPartial :: "goerr \<Rightarrow> (string \<times> goerr) list option"
and collectPartial_all :: "goerr list \<Rightarrow> (string \<times> goerr) list option" where
  "collectPartial (PartialError r e) = Some [(r, e)]"
| "collectPartial (ErrJoin es) = collectPartial_all es"
| "collectPartial (ErrFmt2 a b) = (case collectPartial a of None \<Rightarrow> None
     | Some xs \<Rightarrow> (case collectPartial b of None \<Rightarrow> None | Some ys \<Rightarrow> Some (xs @ ys)))"
| "collectPartial (PartialNodeError m us c) = (case c of None \<Rightarrow> Some [] | Some e \<Rightarrow> collectPartial e)"
| "collectPartial (ErrFmt m c) = (case c of None \<Rightarrow> Some [] | Some e \<Rightarrow> collectPartial e)"
| "collectPartial (UsageError m c) = (case c of None \<Rightarrow> Some [] | Some e \<Rightarrow> collectPartial e)"
| "collectPartial (RunError e) = collectPartial e"
| "collectPartial (MissingBundleError d e) = collectPartial e"
| "collectPartial (GatherError p e) = collectPartial e"
| "collectPartial (ErrText m) = None"
| "collectPartial (ErrSentinel m) = None"
| "collectPartial (ErrStatus r c m) = None"
| "collectPartial (FindingsError m) = None"
| "collectPartial (LegacyBundleError n) = None"
| "collectPartial (UnsafeBundleFileError n mo) = None"
| "collectPartial (BundleFileTooLargeError n l) = None"
| "collectPartial_all [] = Some []"
| "collectPartial_all (e # es) = (case collectPartial e of None \<Rightarrow> None
     | Some xs \<Rightarrow> (case collectPartial_all es of None \<Rightarrow> None | Some ys \<Rightarrow> Some (xs @ ys)))"

definition reasonFor :: "goerr \<Rightarrow> string" where
  "reasonFor e = (if IsForbidden e then ''forbidden'' else if IsUnauthorized e then ''unauthorized''
     else if IsNotFound e then ''not found'' else Error e)"

definition classifyInputError :: "goerr option \<Rightarrow> goerr + Unreachable list" where
  "classifyInputError err = (case err of None \<Rightarrow> Inr []
     | Some e \<Rightarrow> (case collectPartial e of None \<Rightarrow> Inl (RunError e)
         | Some partials \<Rightarrow> Inr (sort_Slice u_Resource
             (map (\<lambda>(r, cause). \<lparr>u_Resource = r, u_Node = [], u_Reason = reasonFor cause\<rparr>) partials))))"

definition with_docs :: "Finding \<Rightarrow> Finding" where
  "with_docs finding = (if f_Docs finding = [] then finding\<lparr>f_Docs := CatalogPath (f_Code finding)\<rparr> else finding)"

definition rule_findings :: "Input \<Rightarrow> string \<Rightarrow> Rule option \<Rightarrow> Finding list" where
  "rule_findings i nodeFilter rule = (case rule of None \<Rightarrow> []
     | Some r \<Rightarrow> if \<not> rule_Applies r (in_OperatorVersion i) then []
         else filter (\<lambda>f. keep f nodeFilter) (map with_docs (rule_Evaluate r i)))"

definition Run :: "Rule option list \<Rightarrow> Input \<Rightarrow> engine_Options \<Rightarrow> goerr + HealthReport" where
  "Run rules i opts = (case classifyInputError (eo_InputErr opts) of Inl e \<Rightarrow> Inl e
     | Inr unreachable \<Rightarrow> (case nodesChecked i (eo_Node opts) unreachable (eo_InputErr opts) of Inl e \<Rightarrow> Inl e
         | Inr checked \<Rightarrow>
             let found = SortFindings (concat (map (rule_findings i (eo_Node opts)) rules))
             in Inr (NewHealthReport\<lparr>hr_Status := \<lparr>rs_Findings = found, rs_Partial = (unreachable \<noteq> []),
                    rs_Unreachable = unreachable, rs_RemainingItemCount = None\<rparr>,
                  hr_Summary := summarize checked found\<rparr>)))"

subsection \<open>Lemmas\<close>

lemma with_docs_simps [simp]:
  "f_Code (with_docs f) = f_Code f" "f_Node (with_docs f) = f_Node f" "f_Severity (with_docs f) = f_Severity f"
  by (simp_all add: with_docs_def)

lemma rule_findings_filter: "rule_findings i n r = filter (\<lambda>f. keep f n) (rule_findings i [] r)"
  by (simp add: rule_findings_def keep_def split: option.split)

lemma rule_findings_iff:
  "f \<in> set (rule_findings i n r) \<longleftrightarrow> (\<exists>rule g. r = Some rule \<and> rule_Applies rule (in_OperatorVersion i)
     \<and> g \<in> set (rule_Evaluate rule i) \<and> f = with_docs g \<and> keep g n)"
  by (cases r) (auto simp: rule_findings_def keep_def)

lemma nodesChecked_Inr:
  "nodesChecked i n us e = Inr checked \<longleftrightarrow>
     checked = filter (\<lambda>node. n = [] \<or> g_Name node = n) (in_Nodes i @ in_Hinted i) \<and> (n = [] \<or> checked \<noteq> [])"
  by (auto simp: nodesChecked_def Let_def)

lemma collectPartial_all_iff:
  "collectPartial_all es = (if \<exists>e \<in> set es. collectPartial e = None then None
     else Some (concat (map (\<lambda>e. the (collectPartial e)) es)))"
  by (induction es) (auto split: option.splits)

lemma classify_cases:
  "classifyInputError err = (if \<exists>e. err = Some e \<and> collectPartial e = None then Inl (RunError (the err))
     else Inr (sort_Slice u_Resource (map (\<lambda>(r, cause). \<lparr>u_Resource = r, u_Node = [], u_Reason = reasonFor cause\<rparr>)
       (case err of None \<Rightarrow> [] | Some e \<Rightarrow> the (collectPartial e)))))"
  by (auto simp: classifyInputError_def sort_Slice_def split: option.split)

lemma exit_code_head: "err_ExitCode e = Some c \<Longrightarrow> ExitCodeFor (Some e) = c"
  by (simp add: ExitCodeFor_def errors_As_self)

text \<open>A list of keyed lists with distinct keys, put together: each key finds the list under it, in any order.\<close>

lemma concat_one_key:
  assumes "distinct (map key xs)" "\<And>x. x \<in> set xs \<Longrightarrow> key x \<noteq> k \<Longrightarrow> g x = []"
  shows "concat (map g xs) = (case map_of (map (\<lambda>x. (key x, x)) xs) k of None \<Rightarrow> [] | Some x \<Rightarrow> g x)"
  using assms
proof (induction xs)
  case (Cons x xs)
  have IH: "concat (map g xs) = (case map_of (map (\<lambda>x. (key x, x)) xs) k of None \<Rightarrow> [] | Some x \<Rightarrow> g x)"
    using Cons by simp
  show ?case
  proof (cases "key x = k")
    case True
    then have "map_of (map (\<lambda>x. (key x, x)) xs) k = None" using Cons.prems(1) by (auto simp: map_of_eq_None_iff image_image)
    then show ?thesis using True IH by simp
  next
    case False
    then show ?thesis using Cons.prems(2) [of x] IH by simp
  qed
qed simp

lemma map_of_key_perm:
  assumes "distinct (map key xs)" "mset xs = mset ys"
  shows "map_of (map (\<lambda>x. (key x, x)) xs) = map_of (map (\<lambda>x. (key x, x)) ys)"
proof (rule map_of_inject_set [THEN iffD2])
  show "distinct (map fst (map (\<lambda>x. (key x, x)) xs))" using assms(1) by (simp add: comp_def)
  show "distinct (map fst (map (\<lambda>x. (key x, x)) ys))"
    using assms by (simp add: comp_def) (metis mset_eq_imp_distinct_iff mset_map)
  show "set (map (\<lambda>x. (key x, x)) xs) = set (map (\<lambda>x. (key x, x)) ys)" using assms(2) by (metis mset_map set_mset_mset)
qed

lemma sort_stable_cong:
  assumes "mset xs = mset ys" "\<And>k. filter (\<lambda>x. f x = k) xs = filter (\<lambda>x. f x = k) ys"
  shows "sort_key f xs = sort_key f ys"
proof (rule properties_for_sort_key)
  show "mset (sort_key f ys) = mset xs" using assms(1) by simp
  show "filter (\<lambda>x. f k = f x) (sort_key f ys) = filter (\<lambda>x. f k = f x) xs" for k
    using sort_key_stable [of f "f k" ys] assms(2) [of "f k"] by (simp add: eq_commute)
qed simp

lemma run_cases:
  "map_sum (\<lambda>e. ExitCodeFor (Some e)) (\<lambda>r. rs_Partial (hr_Status r)) (Run rules i opts) =
    (let partials = (case eo_InputErr opts of None \<Rightarrow> Some [] | Some e \<Rightarrow> collectPartial e) in
     if partials = None then Inl 4
     else if eo_Node opts \<noteq> [] \<and> eo_Node opts \<notin> checked_names i then Inl (if partials = Some [] then 2 else 3)
     else Inr (partials \<noteq> Some []))"
proof -
  let ?partials = "case eo_InputErr opts of None \<Rightarrow> Some [] | Some e \<Rightarrow> collectPartial e"
  show ?thesis
  proof (cases ?partials)
    case None
    then have "Run rules i opts = Inl (RunError (the (eo_InputErr opts)))"
      by (auto simp: Run_def classify_cases split: option.splits)
    then show ?thesis using None by (simp add: exit_code_head)
  next
    case (Some ps)
    define us where "us = sort_Slice u_Resource (map (\<lambda>(r, cause). \<lparr>u_Resource = r, u_Node = [], u_Reason = reasonFor cause\<rparr>) ps)"
    have cl: "classifyInputError (eo_InputErr opts) = Inr us"
      using Some by (auto simp: classify_cases us_def split: option.splits)
    have e: "us = [] \<longleftrightarrow> ps = []" unfolding us_def by (metis length_0_conv length_map slice.sorter_length)
    have none: "filter (\<lambda>node. g_Name node = eo_Node opts) (in_Nodes i @ in_Hinted i) = [] \<longleftrightarrow> eo_Node opts \<notin> checked_names i"
      by (force simp: checked_names_def filter_empty_conv)
    show ?thesis
    proof (cases "eo_Node opts \<noteq> [] \<and> eo_Node opts \<notin> checked_names i")
      case True
      then show ?thesis unfolding Run_def cl nodesChecked_def Let_def none
        by (simp add: Some none e exit_code_head)
    next
      case False
      then obtain checked where "nodesChecked i (eo_Node opts) us (eo_InputErr opts) = Inr checked"
        using none by (cases "eo_Node opts = []") (simp_all add: nodesChecked_Inr)
      then show ?thesis using False Some by (simp add: Run_def cl e Let_def)
    qed
  qed
qed

subsection \<open>Properties\<close>


definition sample_denied :: goerr where
  "sample_denied = ErrJoin [PartialError ''pods'' (ErrStatus ''Forbidden'' 403 ''no'')]"

abbreviation sample_cordoned :: GPUNode where
  "sample_cordoned \<equiv> (sample_gpu_node ''a'')\<lparr>g_Unschedulable := True\<rparr>"

lemma sample_cordoned_simps [simp]:
  "g_Name (sample_gpu_node n) = n" "g_Capacity (sample_gpu_node n) = 0" "g_Conditions (sample_gpu_node n) = []"
  by (simp_all add: sample_gpu_node_def buildNode_def Let_def sample_node_def wholeGPUs_def quantity_in_def wrap_id in_range_def)



text \<open>
  C7 (node_filter_commutes). Asking for one node only narrows what is shown: the rules still
  see the whole cluster, and the report about a node has exactly the findings of the full report
  that are about it or about the cluster, in the same order, and the same reads missing.
\<close>

theorem node_filter_commutes:
  assumes "Run rules i (opts\<lparr>eo_Node := []\<rparr>) = Inr full" "node \<in> checked_names i" "node \<noteq> []"
  shows "\<exists>r. Run rules i (opts\<lparr>eo_Node := node\<rparr>) = Inr r
    \<and> rs_Findings (hr_Status r) = filter (\<lambda>f. f_Node f \<in> {[], node}) (rs_Findings (hr_Status full))
    \<and> rs_Unreachable (hr_Status r) = rs_Unreachable (hr_Status full) \<and> rs_Partial (hr_Status r) = rs_Partial (hr_Status full)"
proof -
  obtain us where us: "classifyInputError (eo_InputErr opts) = Inr us"
    using assms(1) by (auto simp: Run_def split: sum.splits)
  obtain checked where "nodesChecked i node us (eo_InputErr opts) = Inr checked"
    using assms(2) by (auto simp: nodesChecked_Inr checked_names_def filter_empty_conv)
  moreover have "concat (map (rule_findings i node) rules) = filter (\<lambda>f. keep f node) (concat (map (rule_findings i []) rules))"
    unfolding filter_concat map_map comp_def rule_findings_filter [of i node, symmetric] ..
  moreover have "(\<lambda>f. keep f node) = (\<lambda>f. f_Node f \<in> {[], node})" using assms(3) by (auto simp: keep_def)
  ultimately show ?thesis
    using assms(1) us by (auto simp: Run_def Let_def nodesChecked_def SortFindings_filter)
qed

theorem node_filter_commutes_witness:
  "\<exists>r. Run [] (sample_input [sample_gpu_node ''a'']) \<lparr>eo_Node = ''a'', eo_InputErr = Some sample_denied\<rparr> = Inr r
    \<and> rs_Partial (hr_Status r)"
proof -
  obtain full where "Run [] (sample_input [sample_gpu_node ''a'']) \<lparr>eo_Node = [], eo_InputErr = Some sample_denied\<rparr> = Inr full"
    "rs_Partial (hr_Status full)"
    by (simp add: Run_def classifyInputError_def sample_denied_def nodesChecked_def sort_Slice_def Let_def)
  then show ?thesis
    using node_filter_commutes [of "[]" "sample_input [sample_gpu_node ''a'']" "\<lparr>eo_Node = [], eo_InputErr = Some sample_denied\<rparr>" full "''a''"]
    by (auto simp: checked_names_def sample_input_def)
qed

text \<open>
  The report does not depend on the order the rules are given in:
  over rules with distinct codes whose findings carry their rule's code, any permutation of them
  gives the same report.
\<close>

theorem run_order_independent:
  assumes "distinct (map rule_Code rs)" "\<And>r f i. r \<in> set rs \<Longrightarrow> f \<in> set (rule_Evaluate r i) \<Longrightarrow> f_Code f = rule_Code r"
    and perm: "mset rs' = mset rs"
  shows "Run (map Some rs') i opts = Run (map Some rs) i opts"
proof -
  define g where "g r = rule_findings i (eo_Node opts) (Some r)" for r
  have code: "f_Code f = rule_Code r" if "f \<in> set (g r)" "r \<in> set rs" for f r
    using that assms(2) by (auto simp: g_def rule_findings_def split: if_splits)
  have set_rs: "set rs' = set rs" using perm by (metis set_mset_mset)
  have "sort_key (\<lambda>f. (f_Node f, f_Code f)) (concat (map g rs')) = sort_key (\<lambda>f. (f_Node f, f_Code f)) (concat (map g rs))"
  proof (rule sort_stable_cong)
    have "mset (concat (map g ys)) = \<Sum>\<^sub># (image_mset (\<lambda>r. mset (g r)) (mset ys))" for ys by (induction ys) auto
    then show "mset (concat (map g rs')) = mset (concat (map g rs))" by (simp only: perm)
  next
    fix k :: "string \<times> string"
    let ?g = "\<lambda>r. filter (\<lambda>f. (f_Node f, f_Code f) = k) (g r)"
    have "concat (map ?g ys) = (case map_of (map (\<lambda>r. (rule_Code r, r)) ys) (snd k) of None \<Rightarrow> [] | Some r \<Rightarrow> ?g r)"
      if "distinct (map rule_Code ys)" "set ys = set rs" for ys
      by (rule concat_one_key [OF that(1)]) (use code that(2) in \<open>auto simp: filter_empty_conv\<close>)
    moreover have "distinct (map rule_Code rs')" using assms(1) perm by (metis mset_eq_imp_distinct_iff mset_map)
    ultimately have "concat (map ?g rs') = concat (map ?g rs)"
      using assms(1) set_rs by (simp only: map_of_key_perm [OF assms(1) perm [symmetric]])
    then show "filter (\<lambda>f. (f_Node f, f_Code f) = k) (concat (map g rs')) = filter (\<lambda>f. (f_Node f, f_Code f) = k) (concat (map g rs))"
      by (simp add: filter_concat comp_def)
  qed
  then have "SortFindings (concat (map (rule_findings i (eo_Node opts)) (map Some rs')))
      = SortFindings (concat (map (rule_findings i (eo_Node opts)) (map Some rs)))"
    by (simp add: SortFindings_def sort_SliceStable_def comp_def g_def [symmetric])
  then show ?thesis by (simp only: Run_def)
qed

theorem run_order_independent_witness:
  "Run (map Some (rev (AllWith 0))) (sample_input [sample_cordoned]) \<lparr>eo_Node = [], eo_InputErr = None\<rparr>
   = Run (map Some (AllWith 0)) (sample_input [sample_cordoned]) \<lparr>eo_Node = [], eo_InputErr = None\<rparr>"
proof (rule run_order_independent)
  show "f_Code f = rule_Code r" if "r \<in> set (AllWith 0)" "f \<in> set (rule_Evaluate r i)" for r f i
    using health_rule.finding_code [OF AllWith_ok] that by blast
qed (simp_all add: AllWith_codes_distinct)

text \<open>
  An error that unwraps to nil counts as a read that was denied, with nothing to name: a usage
  error without a cause, handed in as what building the input returned, gives a report that is
  not partial.
\<close>

lemma nil_cause_reads_as_complete:
  "\<exists>r. Run rules i \<lparr>eo_Node = [], eo_InputErr = Some (UsageError m None)\<rparr> = Inr r \<and> \<not> rs_Partial (hr_Status r)"
  by (simp add: Run_def classifyInputError_def nodesChecked_def sort_Slice_def Let_def)

end
