(* ===== verification/Output_Fields.thy ===== *)
theory Output_Fields
  imports Output_Contract Kube_Types "HOL-Library.Sublist"
begin

text \<open>
  \<^verbatim>\<open>pkg/output/fields.go\<close>: the paths \<^verbatim>\<open>--fields\<close> accepts for a kind, and the projection of a
  document onto the paths asked for. A decoded document is a \<^typ>\<open>json\<close> value. The projection
  shares the parts it copies whole with its source; a later path through such a part copies it
  onto itself, which is no change, so values stand for them here.
\<close>

subsection \<open>The projection\<close>

definition alwaysKept :: "string list" where
  "alwaysKept = [''apiVersion'', ''kind'', ''metadata.name'']"

definition elementAt :: "json list \<Rightarrow> nat \<Rightarrow> json gomap option" where
  "elementAt values i = (if i \<ge> length values then None
     else case values ! i of JMap obj \<Rightarrow> Some obj | _ \<Rightarrow> None)"

fun copyPath :: "json gomap \<Rightarrow> json gomap \<Rightarrow> string list \<Rightarrow> json gomap" where
  "copyPath src dst [] = dst"
| "copyPath src dst (head # rest) = (case map_of src head of None \<Rightarrow> dst
     | Some v \<Rightarrow>
         if rest = [] then mput dst head v
         else case v of
             JMap child \<Rightarrow>
               let nested = (case map_of dst head of Some (JMap n) \<Rightarrow> n | _ \<Rightarrow> [])
               in mput dst head (JMap (copyPath child nested rest))
           | JList child \<Rightarrow>
               let existing = (case map_of dst head of Some (JList n) \<Rightarrow> n | _ \<Rightarrow> [])
               in mput dst head (JList (map (\<lambda>(i, entry). case entry of
                    JMap obj \<Rightarrow> JMap (copyPath obj (case elementAt existing i of Some into \<Rightarrow> into | None \<Rightarrow> []) rest)
                  | _ \<Rightarrow> entry) (enumerate 0 child)))
           | _ \<Rightarrow> dst)"

definition projectMap :: "json gomap \<Rightarrow> string list \<Rightarrow> json gomap" where
  "projectMap src fs = foldl (\<lambda>out path. copyPath src out (split_at CHR ''.'' path))
     (foldl (\<lambda>out path. copyPath src out (split_at CHR ''.'' path)) [] alwaysKept) fs"

text \<open>\<^verbatim>\<open>projectObject\<close>, from the decoded document: the items of a list, or the whole of anything else.\<close>

definition projectObject :: "json gomap \<Rightarrow> string list \<Rightarrow> json gomap" where
  "projectObject doc fs = (case map_of doc ''items'' of
       Some (JList items) \<Rightarrow> mput doc ''items'' (JList (map (\<lambda>item. case item of
           JMap m \<Rightarrow> JMap (projectMap m fs) | _ \<Rightarrow> item) items))
     | _ \<Rightarrow> projectMap doc fs)"

subsection \<open>The paths of a kind\<close>

text \<open>
  A Go type as the reflection over it sees it. A struct is named, so that a type may contain
  itself, and declared in an environment with its fields; \<open>sd_scalar\<close> is the answer
  \<^verbatim>\<open>marshalsItselfAsScalar\<close> gets by running the marshaller of the type.
\<close>

datatype gotype = GScalar | GMap | GPointer gotype | GSlice gotype | GStruct string

record StructField =
  sf_Name :: string
  sf_Tag :: string
  sf_Exported :: bool
  sf_Anonymous :: bool
  sf_Type :: gotype

record struct_decl =
  sd_Fields :: "StructField list"
  sd_scalar :: bool

type_synonym decls = "struct_decl gomap"

definition objectMeta :: string where "objectMeta = ''metav1.ObjectMeta''"

definition objectMetaPaths :: "string list" where
  "objectMetaPaths = [''annotations'', ''creationTimestamp'', ''labels'', ''name'', ''namespace'']"

definition fields_join :: "string \<Rightarrow> string \<Rightarrow> string" where
  "fields_join pre name = (if pre = [] then name else pre @ ''.'' @ name)"

fun elem :: "gotype \<Rightarrow> gotype" where
  "elem (GPointer t) = elem t"
| "elem t = t"

definition elemStruct :: "gotype \<Rightarrow> string option" where
  "elemStruct t = (case elem t of GStruct n \<Rightarrow> Some n | _ \<Rightarrow> None)"

text \<open>The name of a field, whether it is inlined and whether it is left out.\<close>

definition jsonName :: "StructField \<Rightarrow> string \<times> bool \<times> bool" where
  "jsonName f =
     (if sf_Tag f = ''-'' then ([], False, True)
      else let name = hd (split_at CHR '','' (sf_Tag f)) in
        if name = [] then (if sf_Anonymous f then ([], True, False) else (sf_Name f, False, False))
        else (name, False, False))"

definition leaf :: "string \<Rightarrow> string list" where
  "leaf pre = (if pre \<noteq> [] then [pre] else [])"

definition unseen :: "decls \<Rightarrow> string list \<Rightarrow> nat" where
  "unseen ds seen = card (fst ` set ds - set seen)"

lemma elem_size [simp]: "size (elem t) \<le> size t"
  by (induction t) auto

lemma elem_slice: "elem t = GSlice e \<Longrightarrow> 0 < size t"
  using elem_size [of t] by simp

lemma unseen_less: "map_of ds n = Some d \<Longrightarrow> n \<notin> set seen \<Longrightarrow> unseen ds (n # seen) < unseen ds seen"
proof -
  assume "map_of ds n = Some d" "n \<notin> set seen"
  then have "n \<in> fst ` set ds - set seen" by (force dest: map_of_SomeD)
  then show ?thesis unfolding unseen_def by (intro psubset_card_mono) auto
qed

function (sequential) collectFieldPaths :: "decls \<Rightarrow> string list \<Rightarrow> gotype \<Rightarrow> string \<Rightarrow> string list"
and collect_fields :: "decls \<Rightarrow> string list \<Rightarrow> StructField list \<Rightarrow> string \<Rightarrow> string list" where
  "collectFieldPaths ds seen t pre = (case elem t of
       GStruct n \<Rightarrow>
         if n = objectMeta then map (fields_join pre) objectMetaPaths
         else (case map_of ds n of None \<Rightarrow> leaf pre
           | Some d \<Rightarrow> if pre \<noteq> [] \<and> sd_scalar d \<or> n \<in> set seen then leaf pre
               else leaf pre @ collect_fields ds (n # seen) (sd_Fields d) pre)
     | GSlice e \<Rightarrow> (case elemStruct e of
           Some n \<Rightarrow> if pre \<noteq> [] then pre # collectFieldPaths ds seen (GStruct n) pre else leaf pre
         | None \<Rightarrow> leaf pre)
     | _ \<Rightarrow> leaf pre)"
| "collect_fields ds seen [] pre = []"
| "collect_fields ds seen (f # fs) pre =
     (if \<not> sf_Exported f then collect_fields ds seen fs pre
      else let (name, inline, skip) = jsonName f in
        if skip then collect_fields ds seen fs pre
        else if inline then collectFieldPaths ds seen (sf_Type f) pre @ collect_fields ds seen fs pre
        else collectFieldPaths ds seen (sf_Type f) (fields_join pre name) @ collect_fields ds seen fs pre)"
  by pat_completeness auto
termination
proof (relation "measures [\<lambda>x. case x of Inl (ds, seen, t, pre) \<Rightarrow> unseen ds seen | Inr (ds, seen, fs, pre) \<Rightarrow> unseen ds seen,
    \<lambda>x. case x of Inl (ds, seen, t, pre) \<Rightarrow> size t | Inr (ds, seen, fs, pre) \<Rightarrow> sum_list (map (\<lambda>f. Suc (size (sf_Type f))) fs)]")
qed (auto simp: unseen_less elemStruct_def split: gotype.splits dest: elem_slice)

definition itemType :: "decls \<Rightarrow> gotype \<Rightarrow> gotype" where
  "itemType ds t = (case elem t of
       GStruct n \<Rightarrow> (case map_of ds n of None \<Rightarrow> GStruct n
         | Some d \<Rightarrow>
             let items = (case find (\<lambda>f. sf_Name f = ''items'') (sd_Fields d) of
                 Some f \<Rightarrow> Some f | None \<Rightarrow> find (\<lambda>f. sf_Name f = ''Items'') (sd_Fields d))
             in case items of None \<Rightarrow> GStruct n
               | Some f \<Rightarrow> (case sf_Type f of GSlice e \<Rightarrow> elem e | _ \<Rightarrow> GStruct n))
     | u \<Rightarrow> u)"

definition FieldPaths :: "decls \<Rightarrow> gotype \<Rightarrow> string list" where
  "FieldPaths ds t = remdups_adj (sort_Strings (collectFieldPaths ds [] (itemType ds t) []))"

definition validateFields :: "string list \<Rightarrow> string list \<Rightarrow> goerr option" where
  "validateFields fs valid = map_option
     (\<lambda>field. UsageError (''unknown --fields path '' @ fmt_q field @ '': want one of '' @ strings_Join valid '', '') None)
     (find (\<lambda>field. field \<notin> set valid) fs)"

subsection \<open>Addresses in a document\<close>

text \<open>
  Where a value stands in a document: keys into objects and positions in arrays. Two documents
  with the same shape at every address are the same up to the order of the keys.
\<close>

datatype step = Key string | Idx nat

fun at :: "json \<Rightarrow> step list \<Rightarrow> json option" where
  "at j [] = Some j"
| "at (JMap m) (Key k # a) = (case map_of m k of None \<Rightarrow> None | Some v \<Rightarrow> at v a)"
| "at (JList vs) (Idx i # a) = (if i < length vs then at (vs ! i) a else None)"
| "at _ (_ # _) = None"

fun shape :: "json \<Rightarrow> json" where
  "shape (JMap m) = JMap []"
| "shape (JList vs) = JList (replicate (length vs) JNull)"
| "shape v = v"

fun keys_of :: "step list \<Rightarrow> string list" where
  "keys_of [] = []"
| "keys_of (Key k # a) = k # keys_of a"
| "keys_of (Idx i # a) = keys_of a"

definition in_array :: "step list \<Rightarrow> bool" where
  "in_array a \<longleftrightarrow> a \<noteq> [] \<and> (\<exists>i. last a = Idx i)"

fun container :: "json \<Rightarrow> bool" where
  "container (JMap m) = True"
| "container (JList vs) = True"
| "container v = False"

text \<open>
  What a projection onto paths keeps: all at and below a path, and on the way to one the objects
  and arrays that lead there, with what else the arrays hold.
\<close>

definition wanted :: "string list set \<Rightarrow> json \<Rightarrow> step list \<Rightarrow> bool" where
  "wanted ps j a \<longleftrightarrow> (\<exists>p \<in> ps. prefix p (keys_of a))
     \<or> (\<exists>p \<in> ps. prefix (keys_of a) p) \<and> (container j \<or> in_array a)"

fun flat :: "json \<Rightarrow> bool" where
  "flat (JMap m) = (\<forall>kv \<in> set m. flat (snd kv))"
| "flat (JList vs) = (\<forall>v \<in> set vs. flat v \<and> (case v of JList _ \<Rightarrow> False | _ \<Rightarrow> True))"
| "flat v = True"

subsection \<open>Lemmas\<close>

text \<open>That a document is what a projection onto some paths keeps of another, address by address.\<close>

definition keeps_value :: "string list set \<Rightarrow> json option \<Rightarrow> json option \<Rightarrow> bool" where
  "keeps_value ps sv dv \<longleftrightarrow> (\<forall>a. map_option shape (Option.bind dv (\<lambda>d. at d a)) = (case Option.bind sv (\<lambda>v. at v a) of
     None \<Rightarrow> None | Some j \<Rightarrow> if wanted ps j a then Some (shape j) else None))"

definition tails :: "string \<Rightarrow> string list set \<Rightarrow> string list set" where
  "tails h ps = {p. h # p \<in> ps \<or> p = [] \<and> [] \<in> ps}"

definition keeps :: "string list set \<Rightarrow> json gomap \<Rightarrow> json gomap \<Rightarrow> bool" where
  "keeps ps src dst \<longleftrightarrow> (\<forall>h. keeps_value (tails h ps) (map_of src h) (map_of dst h))"

lemma at_Key: "at (JMap m) (Key h # a) = Option.bind (map_of m h) (\<lambda>v. at v a)"
  by (simp split: option.split)

lemma wanted_Key: "wanted ps j (Key h # a) \<longleftrightarrow> wanted (tails h ps) j a"
proof -
  have "(\<exists>p \<in> ps. prefix p (h # keys_of a)) \<longleftrightarrow> (\<exists>p \<in> tails h ps. prefix p (keys_of a))"
    by (auto simp: tails_def prefix_Cons)
  moreover have "(\<exists>p \<in> ps. prefix (h # keys_of a) p) \<Longrightarrow> \<exists>p \<in> tails h ps. prefix (keys_of a) p"
    by (auto simp: tails_def prefix_def)
  moreover have "\<exists>p \<in> tails h ps. prefix (keys_of a) p \<Longrightarrow> (\<exists>p \<in> ps. prefix (h # keys_of a) p) \<or> [] \<in> ps"
    by (force simp: tails_def intro: bexI [of _ "h # p" for p])
  moreover have "in_array (Key h # a) \<longleftrightarrow> in_array a" by (auto simp: in_array_def)
  moreover have "[] \<in> ps \<Longrightarrow> \<exists>p \<in> ps. prefix p (h # keys_of a)" by (metis Nil_prefix)
  ultimately show ?thesis unfolding wanted_def keys_of.simps by blast
qed

lemma wanted_Idx: "wanted ps j (Idx i # a) \<longleftrightarrow> (if a = [] then ps \<noteq> {} else wanted ps j a)"
  by (auto simp: wanted_def in_array_def)

lemma wanted_Nil: "wanted ps j [] \<longleftrightarrow> [] \<in> ps \<or> ps \<noteq> {} \<and> container j"
  by (auto simp: wanted_def in_array_def)

lemma wanted_whole: "[] \<in> ps \<Longrightarrow> wanted ps j a"
  unfolding wanted_def by (metis Nil_prefix)

lemma keeps_at:
  assumes "keeps ps src dst" "a \<noteq> []"
  shows "map_option shape (at (JMap dst) a) = (case at (JMap src) a of None \<Rightarrow> None | Some j \<Rightarrow> if wanted ps j a then Some (shape j) else None)"
proof (cases a)
  case (Cons s b)
  show ?thesis
  proof (cases s)
    case (Key h)
    then show ?thesis using assms(1) unfolding Cons Key at_Key wanted_Key keeps_def keeps_value_def by blast
  qed (simp add: Cons)
qed (use assms in simp)

lemma keeps_value_object_down:
  assumes "keeps_value ps (Some (JMap c)) dv"
  shows "keeps ps c (case dv of Some (JMap n) \<Rightarrow> n | _ \<Rightarrow> [])"
proof -
  let ?n = "case dv of Some (JMap n) \<Rightarrow> n | _ \<Rightarrow> []"
  have "map_option shape (Option.bind (map_of ?n h) (\<lambda>d. at d b)) = map_option shape (Option.bind dv (\<lambda>d. at d (Key h # b)))" for h b
    by (auto split: option.split json.split)
  moreover have "Option.bind (Some (JMap c)) (\<lambda>v. at v (Key h # b)) = Option.bind (map_of c h) (\<lambda>v. at v b)" for h b
    by (auto split: option.split)
  moreover note spec [OF assms [unfolded keeps_value_def], of "Key h # b" for h b]
  ultimately show ?thesis
    unfolding keeps_def keeps_value_def by (simp only: wanted_Key simp_thms)
qed

lemma keeps_value_object_up:
  assumes "keeps ps c n" "ps \<noteq> {}"
  shows "keeps_value ps (Some (JMap c)) (Some (JMap n))"
  unfolding keeps_value_def
proof
  fix a
  show "map_option shape (Option.bind (Some (JMap n)) (\<lambda>d. at d a)) = (case Option.bind (Some (JMap c)) (\<lambda>v. at v a) of
     None \<Rightarrow> None | Some j \<Rightarrow> if wanted ps j a then Some (shape j) else None)"
    using keeps_at [OF assms(1), of a] assms(2) by (cases "a = []") (simp_all add: wanted_Nil)
qed

lemma keeps_value_list_down:
  assumes "keeps_value ps (Some (JList es)) dv" "i < length es" "es ! i = JMap c"
  shows "keeps ps c (case elementAt (case dv of Some (JList n) \<Rightarrow> n | _ \<Rightarrow> []) i of Some into \<Rightarrow> into | None \<Rightarrow> [])"
proof -
  let ?n = "case elementAt (case dv of Some (JList n) \<Rightarrow> n | _ \<Rightarrow> []) i of Some into \<Rightarrow> into | None \<Rightarrow> []"
  have "map_option shape (Option.bind (map_of ?n h) (\<lambda>d. at d b)) = map_option shape (Option.bind dv (\<lambda>d. at d (Idx i # Key h # b)))" for h b
    by (auto simp: elementAt_def split: option.split json.split)
  moreover have "Option.bind (Some (JList es)) (\<lambda>v. at v (Idx i # Key h # b)) = Option.bind (map_of c h) (\<lambda>v. at v b)" for h b
    using assms(2,3) by (auto split: option.split)
  moreover note spec [OF assms(1) [unfolded keeps_value_def], of "Idx i # Key h # b" for h b]
  moreover have "wanted ps j (Idx i # Key h # b) = wanted (tails h ps) j b" for j h b by (simp add: wanted_Idx wanted_Key)
  ultimately show ?thesis
    unfolding keeps_def keeps_value_def by (simp only: simp_thms)
qed

lemma keeps_value_list_up:
  assumes "length ds = length es" "ps \<noteq> {}"
    and "\<And>i. i < length es \<Longrightarrow> (case es ! i of JMap c \<Rightarrow> \<exists>n. ds ! i = JMap n \<and> keeps ps c n | JList _ \<Rightarrow> False | _ \<Rightarrow> ds ! i = es ! i)"
  shows "keeps_value ps (Some (JList es)) (Some (JList ds))"
  unfolding keeps_value_def
proof
  fix a
  consider "a = []" | k b where "a = Key k # b" | i b where "a = Idx i # b" "i < length es" | i b where "a = Idx i # b" "\<not> i < length es"
    by (metis neq_Nil_conv step.exhaust)
  then show "map_option shape (Option.bind (Some (JList ds)) (\<lambda>d. at d a)) = (case Option.bind (Some (JList es)) (\<lambda>v. at v a) of
     None \<Rightarrow> None | Some j \<Rightarrow> if wanted ps j a then Some (shape j) else None)"
  proof cases
    case 3
    show ?thesis
    proof (cases "\<exists>c. es ! i = JMap c")
      case True
      then obtain c n where "es ! i = JMap c" "ds ! i = JMap n" "keeps ps c n" using assms(3) [OF 3(2)] by auto
      then show ?thesis using 3 assms(1,2) keeps_at [of ps c n b] by (cases "b = []") (auto simp: wanted_Idx split: option.splits)
    next
      case False
      then have "ds ! i = es ! i" "\<not> container (es ! i)" using assms(3) [OF 3(2)] by (auto split: json.splits)
      then show ?thesis using 3 assms(1,2) by (cases b; cases "es ! i") (simp_all add: wanted_Idx)
    qed
  qed (use assms in \<open>simp_all add: wanted_Nil\<close>)
qed

lemma keeps_value_missing: "keeps_value ps None dv \<Longrightarrow> keeps_value ps' None dv"
  by (simp add: keeps_value_def)

lemma keeps_value_scalar:
  assumes "keeps_value ps (Some v) dv" "\<not> container v" "p \<noteq> []"
  shows "keeps_value (insert p ps) (Some v) dv"
proof -
  have "at v a = (if a = [] then Some v else None)" for a using assms(2) by (cases a; cases v) simp_all
  then show ?thesis using assms unfolding keeps_value_def by (auto simp: wanted_Nil)
qed

lemma keeps_value_whole: "[] \<in> ps \<Longrightarrow> keeps_value ps (Some v) (Some v)"
  by (auto simp: keeps_value_def wanted_whole split: option.split)

lemma tails_insert: "tails k (insert (h # rest) ps) = (if k = h then insert rest (tails k ps) else tails k ps)"
  by (auto simp: tails_def)

lemma keeps_insert:
  assumes "keeps ps src dst" "keeps_value (insert rest (tails h ps)) (map_of src h) (map_of dst' h)"
    "\<And>k. k \<noteq> h \<Longrightarrow> map_of dst' k = map_of dst k"
  shows "keeps (insert (h # rest) ps) src dst'"
  using assms unfolding keeps_def tails_insert by auto

lemma flat_at: "flat (JMap src) \<Longrightarrow> map_of src h = Some v \<Longrightarrow> flat v"
  by (drule map_of_SomeD) force

lemma copyPath_keeps:
  assumes "keeps ps src dst" "flat (JMap src)" "p \<noteq> []"
  shows "keeps (insert p ps) src (copyPath src dst p)"
  using assms
proof (induction p arbitrary: ps src dst)
  case (Cons h rest)
  have old: "keeps_value (tails h ps) (map_of src h) (map_of dst h)" using Cons.prems(1) by (simp add: keeps_def)
  show ?case
  proof (rule keeps_insert [OF Cons.prems(1)])
    show "map_of (copyPath src dst (h # rest)) k = map_of dst k" if "k \<noteq> h" for k
      using that by (simp add: map_of_mput Let_def split: option.split json.split)
    show "keeps_value (insert rest (tails h ps)) (map_of src h) (map_of (copyPath src dst (h # rest)) h)"
    proof (cases "map_of src h")
      case None
      then show ?thesis using old keeps_value_missing by simp
    next
      case (Some v)
      consider "rest = []" | "rest \<noteq> []" "\<not> container v" | c where "rest \<noteq> []" "v = JMap c" | es where "rest \<noteq> []" "v = JList es"
        by (cases v) auto
      then show ?thesis
      proof cases
        case 1
        then show ?thesis using Some keeps_value_whole by (simp add: map_of_mput)
      next
        case 2
        then have "copyPath src dst (h # rest) = dst" using Some by (cases v) simp_all
        then show ?thesis using old Some 2 keeps_value_scalar by simp
      next
        case 3
        have "flat (JMap c)" using flat_at [OF Cons.prems(2) Some] 3 by simp
        then have "keeps (insert rest (tails h ps)) c (copyPath c (case map_of dst h of Some (JMap n) \<Rightarrow> n | _ \<Rightarrow> []) rest)"
          using old Some 3 by (intro Cons.IH keeps_value_object_down) simp_all
        then show ?thesis using Some 3 by (auto simp: map_of_mput Let_def intro: keeps_value_object_up)
      next
        case 4
        let ?old = "case map_of dst h of Some (JList n) \<Rightarrow> n | _ \<Rightarrow> []"
        let ?entry = "\<lambda>(i, entry). case entry of
            JMap obj \<Rightarrow> JMap (copyPath obj (case elementAt ?old i of Some into \<Rightarrow> into | None \<Rightarrow> []) rest) | _ \<Rightarrow> entry"
        have fl: "flat (JList es)" using flat_at [OF Cons.prems(2) Some] 4 by simp
        have "case es ! i of JMap c \<Rightarrow> \<exists>n. map ?entry (enumerate 0 es) ! i = JMap n \<and> keeps (insert rest (tails h ps)) c n
            | JList _ \<Rightarrow> False | _ \<Rightarrow> map ?entry (enumerate 0 es) ! i = es ! i" if i: "i < length es" for i
        proof (cases "es ! i")
          case (JMap c)
          have "keeps (tails h ps) c (case elementAt ?old i of Some into \<Rightarrow> into | None \<Rightarrow> [])"
            using old i JMap Some 4 by (intro keeps_value_list_down) simp_all
          moreover have "flat (JMap c)" using fl i JMap by (metis flat.simps(2) nth_mem)
          ultimately have "keeps (insert rest (tails h ps)) c (copyPath c (case elementAt ?old i of Some into \<Rightarrow> into | None \<Rightarrow> []) rest)"
            using 4 by (intro Cons.IH) simp_all
          then show ?thesis using i JMap by (simp add: nth_enumerate_eq)
        qed (use fl i nth_mem [OF i] in \<open>auto simp: nth_enumerate_eq\<close>)
        then have "keeps_value (insert rest (tails h ps)) (Some (JList es)) (Some (JList (map ?entry (enumerate 0 es))))"
          by (intro keeps_value_list_up) simp_all
        then show ?thesis using Some 4 by (simp add: map_of_mput Let_def)
      qed
    qed
  qed
qed simp

lemma copyPaths_keeps:
  assumes "keeps ps src dst" "flat (JMap src)"
  shows "keeps (split_at c ` set paths \<union> ps) src (foldl (\<lambda>out path. copyPath src out (split_at c path)) dst paths)"
  using assms(1)
proof (induction paths arbitrary: ps dst)
  case (Cons p paths)
  have "keeps (insert (split_at c p) ps) src (copyPath src dst (split_at c p))"
    using Cons.prems assms(2) by (intro copyPath_keeps) simp_all
  from Cons.IH [OF this] show ?case by simp
qed simp

subsection \<open>Properties\<close>

text \<open>
  C13 (projection_exact). A projection shows at every address of a document either what the
  document has there or nothing: everything at and below a path that was asked for or is always
  kept, the objects and arrays that lead to one, with arrays at their full length, and nothing
  else. So neither the order the paths are given in nor a path given twice matters.
\<close>

theorem projection_exact:
  assumes "flat (JMap src)"
  shows "map_option shape (at (JMap (projectMap src fs)) a) = (case at (JMap src) a of None \<Rightarrow> None
    | Some j \<Rightarrow> if wanted (split_at CHR ''.'' ` set (alwaysKept @ fs)) j a then Some (shape j) else None)"
proof -
  have "keeps {} src []" by (auto simp: keeps_def keeps_value_def wanted_def tails_def split: option.split)
  from copyPaths_keeps [OF this assms, of "CHR ''.''" "alwaysKept @ fs"]
  have "keeps (split_at CHR ''.'' ` set (alwaysKept @ fs)) src (projectMap src fs)"
    by (simp add: projectMap_def)
  then show ?thesis by (cases "a = []") (simp add: wanted_Nil alwaysKept_def, rule keeps_at)
qed

definition sample_document :: "json gomap" where
  "sample_document = [(''kind'', JString ''K''), (''metadata'', JMap [(''name'', JString ''n''), (''uid'', JString ''u'')]),
     (''levels'', JList [JMap [(''a'', JInt 1), (''b'', JInt 2)], JMap [(''b'', JInt 3)]])]"

theorem projection_exact_witness:
  "map_option shape (at (JMap (projectMap sample_document [''levels.a''])) [Key ''levels'', Idx 0, Key ''a'']) = Some (JInt 1)
   \<and> map_option shape (at (JMap (projectMap sample_document [''levels.a''])) [Key ''levels'', Idx 0, Key ''b'']) = None
   \<and> map_option shape (at (JMap (projectMap sample_document [''levels.a''])) [Key ''levels'']) = Some (JList [JNull, JNull])"
proof -
  have f: "flat (JMap sample_document)" by (simp add: sample_document_def)
  have p: "split_at CHR ''.'' ` set (alwaysKept @ [''levels.a'']) = {[''apiVersion''], [''kind''], [''metadata'', ''name''], [''levels'', ''a'']}"
    by (simp add: alwaysKept_def)
  show ?thesis
    unfolding projection_exact [OF f] p by (simp add: sample_document_def wanted_def in_array_def numeral_2_eq_2)
qed

end
