(* ===== verification/Go_Utf8.thy ===== *)
theory Go_Utf8
  imports Go_Prelude
begin

text \<open>
  Go strings as text: the bytes of a string decoded into runes and runes encoded back, the way
  \<^verbatim>\<open>unicode/utf8\<close> does, and \<^verbatim>\<open>strings.Map\<close>. A byte that starts no well-formed rune reads as
  \<^verbatim>\<open>RuneError\<close> and is one byte wide.
\<close>

definition RuneError :: nat where "RuneError = 65533"

definition cont :: "nat \<Rightarrow> bool" where "cont b \<longleftrightarrow> 128 \<le> b \<and> b \<le> 191"

definition second_lo :: "nat \<Rightarrow> nat" where
  "second_lo b = (if b = 224 then 160 else if b = 240 then 144 else 128)"

definition second_hi :: "nat \<Rightarrow> nat" where
  "second_hi b = (if b = 237 then 159 else if b = 244 then 143 else 191)"

text \<open>The rune at the head of some bytes, and its width.\<close>

fun decode :: "nat list \<Rightarrow> nat \<times> nat" where
  "decode [] = (RuneError, 0)"
| "decode (b # bs) =
     (if b < 128 then (b, 1)
      else if 194 \<le> b \<and> b \<le> 223 then (case bs of
          b1 # _ \<Rightarrow> if cont b1 then ((b - 192) * 64 + (b1 - 128), 2) else (RuneError, 1) | [] \<Rightarrow> (RuneError, 1))
      else if 224 \<le> b \<and> b \<le> 239 then (case bs of
          b1 # b2 # _ \<Rightarrow> if second_lo b \<le> b1 \<and> b1 \<le> second_hi b \<and> cont b2
            then ((b - 224) * 4096 + (b1 - 128) * 64 + (b2 - 128), 3) else (RuneError, 1) | _ \<Rightarrow> (RuneError, 1))
      else if 240 \<le> b \<and> b \<le> 244 then (case bs of
          b1 # b2 # b3 # _ \<Rightarrow> if second_lo b \<le> b1 \<and> b1 \<le> second_hi b \<and> cont b2 \<and> cont b3
            then ((b - 240) * 262144 + (b1 - 128) * 4096 + (b2 - 128) * 64 + (b3 - 128), 4) else (RuneError, 1) | _ \<Rightarrow> (RuneError, 1))
      else (RuneError, 1))"

definition valid_rune :: "nat \<Rightarrow> bool" where
  "valid_rune r \<longleftrightarrow> r < 55296 \<or> 57344 \<le> r \<and> r < 1114112"

definition encode :: "nat \<Rightarrow> nat list" where
  "encode r = (let r = (if valid_rune r then r else RuneError) in
     if r < 128 then [r]
     else if r < 2048 then [192 + r div 64, 128 + r mod 64]
     else if r < 65536 then [224 + r div 4096, 128 + r div 64 mod 64, 128 + r mod 64]
     else [240 + r div 262144, 128 + r div 4096 mod 64, 128 + r div 64 mod 64, 128 + r mod 64])"

lemma decode_width: "bs \<noteq> [] \<Longrightarrow> 0 < snd (decode bs)"
  by (cases bs) (auto split: list.split)

function runes_of :: "nat list \<Rightarrow> nat list" where
  "runes_of [] = []"
| "runes_of (b # bs) = (let (r, w) = decode (b # bs) in r # runes_of (drop w (b # bs)))"
  by pat_completeness auto
termination
proof (relation "measure length")
  fix b :: nat and bs x r w assume x: "x = decode (b # bs)" "(r, w) = x"
  then have "0 < w" using decode_width [of "b # bs"] by (metis list.discI snd_conv)
  then show "(drop w (b # bs), b # bs) \<in> measure length" by simp
qed simp

definition runes :: "string \<Rightarrow> nat list" where
  "runes s = runes_of (map of_char s)"

definition of_runes :: "nat list \<Rightarrow> string" where
  "of_runes rs = map char_of (concat (map encode rs))"

definition strings_Map :: "(nat \<Rightarrow> nat option) \<Rightarrow> string \<Rightarrow> string" where
  "strings_Map f s = of_runes (List.map_filter f (runes s))"

lemma encode_bytes: "b \<in> set (encode r) \<Longrightarrow> b < 256"
proof -
  assume b: "b \<in> set (encode r)"
  define q where "q = (if valid_rune r then r else RuneError)"
  have q: "q < 1114112" by (auto simp: q_def valid_rune_def RuneError_def)
  have "b \<in> {q} \<and> q < 128 \<or> b \<in> {192 + q div 64, 128 + q mod 64} \<and> q < 2048
      \<or> b \<in> {224 + q div 4096, 128 + q div 64 mod 64, 128 + q mod 64} \<and> q < 65536
      \<or> b \<in> {240 + q div 262144, 128 + q div 4096 mod 64, 128 + q div 64 mod 64, 128 + q mod 64}"
    using b by (auto simp: encode_def Let_def q_def [symmetric] split: if_splits)
  then show ?thesis using q by auto
qed

lemma digits64: "r = r div 4096 * 4096 + r div 64 mod 64 * 64 + r mod 64" for r :: nat
proof -
  have "r div 4096 = r div 64 div 64" by (simp add: div_mult2_eq [symmetric])
  then have "r div 64 = r div 4096 * 64 + r div 64 mod 64" by simp
  moreover have "r = r div 64 * 64 + r mod 64" by simp
  ultimately show ?thesis by linarith
qed

lemma decode_encode:
  assumes "valid_rune r"
  shows "decode (encode r @ rest) = (r, length (encode r))"
proof -
  consider "r < 128" | "128 \<le> r" "r < 2048" | "2048 \<le> r" "r < 65536" | "65536 \<le> r" by linarith
  then show ?thesis
  proof cases
    case 1
    then show ?thesis using assms by (simp add: encode_def)
  next
    case 2
    then have "194 \<le> 192 + r div 64" "192 + r div 64 \<le> 223" by auto
    then show ?thesis using assms 2 by (simp add: encode_def cont_def)
  next
    case 3
    define a b c where abc: "a = r div 4096" "b = r div 64 mod 64" "c = r mod 64"
    have r: "r = a * 4096 + b * 64 + c" unfolding abc using digits64 [of r] by simp
    have lt: "b < 64" "c < 64" by (simp_all add: abc)
    then have "a \<le> 15" "a = 0 \<Longrightarrow> 32 \<le> b" "a = 13 \<Longrightarrow> b < 32" using 3 assms r by (auto simp: valid_rune_def)
    then have "second_lo (224 + a) \<le> 128 + b" "128 + b \<le> second_hi (224 + a)"
      using lt by (auto simp: second_lo_def second_hi_def)
    moreover have "encode r = [224 + a, 128 + b, 128 + c]" using 3 assms by (simp add: encode_def abc)
    ultimately show ?thesis using \<open>a \<le> 15\<close> lt r by (simp add: cont_def)
  next
    case 4
    define a b c d where abcd: "a = r div 262144" "b = r div 4096 mod 64" "c = r div 64 mod 64" "d = r mod 64"
    have "r div 4096 = a * 64 + b" unfolding abcd using div_mult2_eq [of r 4096 64] by simp
    then have r: "r = a * 262144 + b * 4096 + c * 64 + d" using digits64 [of r] by (simp add: abcd)
    have lt: "b < 64" "c < 64" "d < 64" by (simp_all add: abcd)
    then have "a \<le> 4" "a = 0 \<Longrightarrow> 16 \<le> b" "a = 4 \<Longrightarrow> b < 16" using 4 assms r by (auto simp: valid_rune_def)
    then have "second_lo (240 + a) \<le> 128 + b" "128 + b \<le> second_hi (240 + a)"
      using lt by (auto simp: second_lo_def second_hi_def)
    moreover have "encode r = [240 + a, 128 + b, 128 + c, 128 + d]" using 4 assms by (simp add: encode_def abcd)
    ultimately show ?thesis using \<open>a \<le> 4\<close> lt r by (simp add: cont_def)
  qed
qed

text \<open>Text made of valid runes reads back as those runes.\<close>

lemma runes_of_encode: "list_all valid_rune rs \<Longrightarrow> runes_of (concat (map encode rs)) = rs"
proof (induction rs)
  case (Cons r rs)
  have "encode r \<noteq> []" by (simp add: encode_def Let_def)
  then obtain b bs where "encode r @ concat (map encode rs) = b # bs" by (metis append_is_Nil_conv neq_Nil_conv)
  moreover from this have "decode (b # bs) = (r, length (encode r))" "drop (length (encode r)) (b # bs) = concat (map encode rs)"
    using decode_encode [of r "concat (map encode rs)"] Cons.prems by (simp, metis append_eq_conv_conj)
  ultimately show ?case using Cons by simp
qed simp

lemma runes_of_runes: "list_all valid_rune rs \<Longrightarrow> runes (of_runes rs) = rs"
proof -
  assume v: "list_all valid_rune rs"
  have "map of_char (map char_of (concat (map encode rs)) :: char list) = concat (map encode rs)"
    unfolding map_map by (rule map_idI) (auto simp: of_char_of dest: encode_bytes)
  then show ?thesis using runes_of_encode [OF v] by (simp add: runes_def of_runes_def)
qed

lemma decode_valid: "valid_rune (fst (decode bs))"
proof (cases bs)
  case (Cons b cs)
  then show ?thesis
    by (auto simp: valid_rune_def RuneError_def cont_def second_lo_def second_hi_def split: list.split)
qed (simp add: valid_rune_def RuneError_def)

lemma runes_valid: "list_all valid_rune (runes s)"
proof -
  have "list_all valid_rune (runes_of bs)" for bs
  proof (induction bs rule: runes_of.induct)
    case (2 b bs)
    then show ?case using decode_valid [of "b # bs"] 2 [OF refl prod.collapse] by (simp add: split_beta del: decode.simps)
  qed simp
  then show ?thesis by (simp add: runes_def)
qed

lemma runes_strings_Map:
  assumes "\<And>r r'. valid_rune r \<Longrightarrow> f r = Some r' \<Longrightarrow> valid_rune r'"
  shows "runes (strings_Map f s) = List.map_filter f (runes s)"
proof -
  have "list_all valid_rune (List.map_filter f (runes s))"
    using runes_valid [of s] assms by (auto simp: list_all_iff List.map_filter_def)
  then show ?thesis unfolding strings_Map_def by (rule runes_of_runes)
qed

end
