(* ===== verification/Output_Printer.thy ===== *)
theory Output_Printer
  imports Output_Fields Go_Utf8
begin

text \<open>
  The rest of \<^verbatim>\<open>pkg/output\<close>: the formats behind \<^verbatim>\<open>-o\<close>, the table and name printers of
  \<^verbatim>\<open>printer.go\<close>, the bounds of \<^verbatim>\<open>fields.go\<close> around them, and the sanitizers of \<^verbatim>\<open>logger.go\<close>.
  What a run puts on its output stream is a value: the cells of a table, the lines of names, or
  the document that is rendered as JSON or YAML. Aligning the cells and encoding the document
  are the library's.
\<close>

subsection \<open>Formats\<close>

definition FormatTable :: string where "FormatTable = ''table''"
definition FormatWide :: string where "FormatWide = ''wide''"
definition FormatJSON :: string where "FormatJSON = ''json''"
definition FormatYAML :: string where "FormatYAML = ''yaml''"
definition FormatName :: string where "FormatName = ''name''"

lemmas format_defs = FormatTable_def FormatWide_def FormatJSON_def FormatYAML_def FormatName_def

definition formats :: "string list" where
  "formats = [FormatTable, FormatWide, FormatJSON, FormatYAML, FormatName]"

definition ParseFormat :: "string \<Rightarrow> goerr + string" where
  "ParseFormat v = (if v = [] then Inr FormatTable
     else if v \<in> set formats then Inr v
     else Inl (UsageError (''unknown output format '' @ fmt_q v @ '': want one of '' @ strings_Join formats '', '') None))"

subsection \<open>Sanitizers\<close>

definition isControl :: "nat \<Rightarrow> bool" where
  "isControl r \<longleftrightarrow> r < 32 \<or> r = 127 \<or> (r \<ge> 128 \<and> r \<le> 159)"

definition sanitizeLine :: "string \<Rightarrow> string" where
  "sanitizeLine s = strings_Map (\<lambda>r. if isControl r \<and> r \<noteq> 10 \<and> r \<noteq> 9 then None else Some r) s"

definition sanitizeCell :: "string \<Rightarrow> string" where
  "sanitizeCell s = strings_Map (\<lambda>r. if r = 10 \<or> r = 9 then Some 32 else if isControl r then None else Some r) s"

subsection \<open>Columns\<close>

definition keptColumns :: "string list \<Rightarrow> string list" where
  "keptColumns fs = alwaysKept @ fs"

definition coveredBy :: "string list \<Rightarrow> string \<Rightarrow> bool" where
  "coveredBy kept path \<longleftrightarrow> path \<in> set kept \<or> (\<exists>requested \<in> set kept. strings_HasPrefix path (requested @ ''.''))"

definition keepsColumn :: "string list \<Rightarrow> Column \<Rightarrow> bool" where
  "keepsColumn kept c \<longleftrightarrow> (if col_Fields c = [] then False else \<forall>path \<in> set (col_Fields c). coveredBy kept path)"

definition coveredByAny :: "string list \<Rightarrow> string \<Rightarrow> bool" where
  "coveredByAny rendered requested \<longleftrightarrow> (\<exists>path \<in> set rendered. strings_HasPrefix path (requested @ ''.''))"

definition pluralPaths :: "nat \<Rightarrow> string" where
  "pluralPaths n = (if n = 1 then ''it'' else ''them'')"

text \<open>The note on the error stream, if there is one.\<close>

definition noteUnrendered :: "string list \<Rightarrow> Column list \<Rightarrow> nat list \<Rightarrow> string option" where
  "noteUnrendered fs columns keep =
     (if fs = [] then None
      else let rendered = concat (map (\<lambda>i. col_Fields (columns ! i)) keep);
               missing = filter (\<lambda>path. path \<notin> set rendered \<and> \<not> coveredByAny rendered path) fs
        in if missing = [] then None
           else Some (''note: no column of this table renders '' @ strings_Join missing '', ''
             @ ''; ask for -o json or -o yaml to see '' @ pluralPaths (length missing)))"

subsection \<open>Kinds\<close>

text \<open>
  How \<^verbatim>\<open>--limit\<close> bounds a kind: through its own \<^verbatim>\<open>LimitItems\<close>, by cutting the \<^verbatim>\<open>Items\<close> of a list and
  recording the remainder in its metadata, or not at all.
\<close>

datatype 'a limiting =
    Limitable "int \<Rightarrow> 'a \<Rightarrow> 'a \<times> int"
  | ListOf "'a \<Rightarrow> nat" "nat \<Rightarrow> int \<Rightarrow> 'a \<Rightarrow> 'a"
  | NotAList

text \<open>
  What the printers read of a kind: its name and the name of its Go type, its table when it implements \<^verbatim>\<open>TableRows\<close>, its
  document, its limit, its type, and for name output the kind and name of each item of a list
  type, or the name of anything else.
\<close>

record 'a kind =
  k_Kind :: string
  k_GoType :: string
  k_Table :: "(('a \<Rightarrow> bool \<Rightarrow> Column list) \<times> ('a \<Rightarrow> bool \<Rightarrow> string list list)) option"
  k_document :: "'a \<Rightarrow> json gomap"
  k_limiting :: "'a limiting"
  k_decls :: decls
  k_type :: gotype
  k_items :: "'a \<Rightarrow> (string \<times> string) list option"
  k_name :: "'a \<Rightarrow> string"

datatype printed =
    PTable "string list" "string list list"
  | PNames "string list"
  | PJSON json
  | PYAML json

fun first_bad_row :: "nat \<Rightarrow> nat \<Rightarrow> string list list \<Rightarrow> goerr option" where
  "first_bad_row i w [] = None"
| "first_bad_row i w (row # rows) = (if length row \<noteq> w
     then Some (ErrText (''row '' @ strconv_FormatInt (int i) @ '' has '' @ strconv_FormatInt (int (length row))
            @ '' cells, want '' @ strconv_FormatInt (int w)))
     else first_bad_row (Suc i) w rows)"

definition TablePrinter_PrintObj :: "'a kind \<Rightarrow> bool \<Rightarrow> string list \<Rightarrow> 'a \<Rightarrow> (goerr + printed) \<times> string option" where
  "TablePrinter_PrintObj K wide fs obj = (case k_Table K of
       None \<Rightarrow> (Inl (ErrText (k_GoType K @ '' cannot be printed as a table: it does not implement output.TableRows'')), None)
     | Some (TableColumns, TableRows) \<Rightarrow>
         let columns = TableColumns obj wide;
             keep = filter (\<lambda>i. \<not> (fs \<noteq> [] \<and> \<not> keepsColumn (keptColumns fs) (columns ! i))) [0..<length columns];
             headers = map (\<lambda>i. col_Header (columns ! i)) keep;
             note = noteUnrendered fs columns keep
         in case first_bad_row 0 (length columns) (TableRows obj wide) of
              Some e \<Rightarrow> (Inl e, note)
            | None \<Rightarrow> (Inr (PTable headers (map (\<lambda>row. map (\<lambda>i. sanitizeCell (row ! i)) keep) (TableRows obj wide))), note))"

definition strings_ToLower :: "string \<Rightarrow> string" where
  "strings_ToLower s = map lower_char s"

definition strings_TrimSuffix :: "string \<Rightarrow> string \<Rightarrow> string" where
  "strings_TrimSuffix s p = (if strings_HasSuffix s p then take (length s - length p) s else s)"

definition printOne :: "string \<Rightarrow> string \<Rightarrow> string" where
  "printOne k name = strings_ToLower k @ ''/'' @ (if name \<noteq> [] then name else ''<unknown>'')"

definition namePrinter_PrintObj :: "'a kind \<Rightarrow> 'a \<Rightarrow> goerr + printed" where
  "namePrinter_PrintObj K obj =
     (if k_Kind K = [] then Inl (ErrText (k_GoType K @ '' has no kind: name output needs one''))
      else case k_items K obj of
          None \<Rightarrow> Inr (PNames [printOne (k_Kind K) (k_name K obj)])
        | Some items \<Rightarrow> let itemKind = strings_TrimSuffix (k_Kind K) ''List''
            in Inr (PNames (map (\<lambda>(k, name). printOne (if k = [] then itemKind else k) name) items)))"

subsection \<open>Bounds\<close>

record OutputOptions =
  oo_Format :: string
  oo_Fields :: "string list"
  oo_Limit :: int

definition isLimitable :: "'a kind \<Rightarrow> bool" where
  "isLimitable K = (case k_limiting K of NotAList \<Rightarrow> False | _ \<Rightarrow> True)"

definition kindOf :: "'a kind \<Rightarrow> string" where
  "kindOf K = (if k_Kind K \<noteq> [] then k_Kind K else k_GoType K)"

definition not_a_list :: "'a kind \<Rightarrow> goerr" where
  "not_a_list K = UsageError (''--limit cannot be used on '' @ kindOf K @ '', which is not a list'') None"

definition negative_limit :: "int \<Rightarrow> goerr" where
  "negative_limit n = UsageError (''--limit must not be negative, got '' @ strconv_FormatInt n) None"

definition BoundedOptions_Validate :: "OutputOptions \<Rightarrow> 'a kind \<Rightarrow> goerr option" where
  "BoundedOptions_Validate opts K =
     (if oo_Limit opts < 0 then Some (negative_limit (oo_Limit opts))
      else if oo_Limit opts > 0 \<and> \<not> isLimitable K then Some (not_a_list K)
      else validateFields (oo_Fields opts) (FieldPaths (k_decls K) (k_type K)))"

definition OutputOptions_Validate :: "OutputOptions \<Rightarrow> 'a kind \<Rightarrow> goerr option" where
  "OutputOptions_Validate opts K = (case ParseFormat (oo_Format opts) of
       Inl e \<Rightarrow> Some e | Inr _ \<Rightarrow> BoundedOptions_Validate opts K)"

text \<open>What is left of an object, how many items it had, and whether some were dropped.\<close>

definition limitReport :: "(int \<Rightarrow> 'a \<Rightarrow> 'a \<times> int) \<Rightarrow> 'a \<Rightarrow> int \<Rightarrow> 'a \<times> int \<times> bool" where
  "limitReport LimitItems obj limit =
     (let (clone, had) = LimitItems limit obj in if had \<le> limit then (obj, had, False) else (clone, had, True))"

definition applyLimit :: "'a kind \<Rightarrow> 'a \<Rightarrow> int \<Rightarrow> goerr + 'a \<times> int \<times> bool" where
  "applyLimit K obj limit =
     (if limit \<le> 0 then Inr (obj, 0, False)
      else case k_limiting K of
          Limitable LimitItems \<Rightarrow> Inr (limitReport LimitItems obj limit)
        | NotAList \<Rightarrow> Inl (not_a_list K)
        | ListOf len keep_items \<Rightarrow>
            let had = int (len obj) in
            if had \<le> limit then Inr (obj, had, False)
            else Inr (keep_items (nat limit) (had - limit) obj, had, True))"

definition truncation_note :: "int \<Rightarrow> int \<Rightarrow> string" where
  "truncation_note limit had = ''note: showing '' @ strconv_FormatInt limit @ '' of '' @ strconv_FormatInt had
     @ '' items (--limit '' @ strconv_FormatInt limit @ '')''"

definition print_as :: "'a kind \<Rightarrow> string \<Rightarrow> string list \<Rightarrow> 'a \<Rightarrow> (goerr + printed) \<times> string option" where
  "print_as K f fs obj =
     (if f = FormatName then (namePrinter_PrintObj K obj, None)
      else if f = FormatTable \<or> f = FormatWide then TablePrinter_PrintObj K (f = FormatWide) fs obj
      else let document = (if fs = [] then k_document K obj else projectObject (k_document K obj) fs)
        in (Inr ((if f = FormatYAML then PYAML else PJSON) (JMap document)), None))"

text \<open>What reaches the output stream, or the error, and the notes on the error stream.\<close>

definition PrintBounded :: "OutputOptions \<Rightarrow> 'a kind \<Rightarrow> 'a \<Rightarrow> (goerr + printed) \<times> string list" where
  "PrintBounded opts K obj = (case ParseFormat (oo_Format opts) of Inl e \<Rightarrow> (Inl e, [])
     | Inr f \<Rightarrow>
         if oo_Limit opts < 0 then (Inl (negative_limit (oo_Limit opts)), [])
         else case validateFields (oo_Fields opts) (FieldPaths (k_decls K) (k_type K)) of Some e \<Rightarrow> (Inl e, [])
           | None \<Rightarrow> (case applyLimit K obj (oo_Limit opts) of Inl e \<Rightarrow> (Inl e, [])
               | Inr (bounded, had, cut_off) \<Rightarrow>
                   let notes = (if cut_off then [truncation_note (oo_Limit opts) had] else []);
                       (out, note) = print_as K f (oo_Fields opts) bounded
                   in (out, notes @ (case note of None \<Rightarrow> [] | Some n \<Rightarrow> [n]))))"

subsection \<open>Lemmas\<close>

lemma first_bad_row_None: "first_bad_row i w rows = None \<longleftrightarrow> (\<forall>row \<in> set rows. length row = w)"
  by (induction i w rows rule: first_bad_row.induct) auto

lemma validateFields_None: "validateFields fs valid = None \<longleftrightarrow> set fs \<subseteq> set valid"
  by (auto simp: validateFields_def find_None_iff)

lemma usage_exit: "ExitCodeFor (Some (UsageError m c)) = ExitUsage"
  by (simp add: ExitCodeFor_def errors_As_self)

lemma validateFields_exit: "validateFields fs valid = Some e \<Longrightarrow> ExitCodeFor (Some e) = ExitUsage"
  by (auto simp: validateFields_def usage_exit)

lemma ParseFormat_exit: "ParseFormat v = Inl e \<Longrightarrow> ExitCodeFor (Some e) = ExitUsage"
  by (auto simp: ParseFormat_def usage_exit split: if_splits)

lemma ParseFormat_Inr: "ParseFormat v = Inr f \<longleftrightarrow> (v = [] \<and> f = FormatTable \<or> v = f \<and> v \<in> set formats)"
  by (auto simp: ParseFormat_def formats_def format_defs)

lemma filter_indices: "map (\<lambda>i. f (xs ! i)) (filter (\<lambda>i. P (xs ! i)) [0..<length xs]) = map f (filter P xs)"
proof -
  have "map (\<lambda>i. f (xs ! i)) (filter (\<lambda>i. P (xs ! i)) [0..<length xs]) = map f (filter P (map ((!) xs) [0..<length xs]))"
    by (simp only: filter_map map_map comp_def)
  then show ?thesis by (simp add: map_nth)
qed

text \<open>A limit through \<^verbatim>\<open>LimitItems\<close>: what is left is a prefix, and it is noted exactly when something was left out.\<close>

context limitable
begin

lemma limit_report:
  assumes "0 < n"
  shows "items (fst (limitReport LimitItems x n)) = take (nat n) (items x)"
    and "snd (limitReport LimitItems x n) = (int (length (items x)), n < int (length (items x)))"
  using assms limit_total [of n x] limit_items [of n x]
  by (auto simp: limitReport_def split_beta not_le)

end

lemma sanitizeCell_runes: "runes (sanitizeCell s) = map (\<lambda>r. if r = 10 \<or> r = 9 then 32 else r) (filter (\<lambda>r. r = 10 \<or> r = 9 \<or> \<not> isControl r) (runes s))"
proof -
  let ?f = "\<lambda>r. if r = 10 \<or> r = 9 then Some 32 else if isControl r then None else Some r"
  have "runes (sanitizeCell s) = List.map_filter ?f (runes s)"
    unfolding sanitizeCell_def by (rule runes_strings_Map) (auto simp: valid_rune_def split: if_splits)
  also have "List.map_filter ?f rs = map (\<lambda>r. if r = 10 \<or> r = 9 then 32 else r) (filter (\<lambda>r. r = 10 \<or> r = 9 \<or> \<not> isControl r) rs)" for rs
    by (induction rs) (auto simp: List.map_filter_simps)
  finally show ?thesis .
qed

lemma printable:
  assumes "k_Kind K \<noteq> []" "k_Table K = Some (columns, rows)" "\<And>x wide row. row \<in> set (rows x wide) \<Longrightarrow> length row = length (columns x wide)"
    and ok: "OutputOptions_Validate opts K = None"
  shows "\<exists>out notes. PrintBounded opts K obj = (Inr out, notes)"
proof -
  from ok obtain f where f: "ParseFormat (oo_Format opts) = Inr f" "\<not> oo_Limit opts < 0"
    "oo_Limit opts > 0 \<longrightarrow> isLimitable K" "validateFields (oo_Fields opts) (FieldPaths (k_decls K) (k_type K)) = None"
    by (auto simp: OutputOptions_Validate_def BoundedOptions_Validate_def split: sum.splits if_splits)
  have "\<exists>x. applyLimit K obj (oo_Limit opts) = Inr x"
    using f(3) by (cases "k_limiting K") (simp_all add: applyLimit_def isLimitable_def Let_def del: split_paired_Ex)
  then obtain bounded had cut_off where l: "applyLimit K obj (oo_Limit opts) = Inr (bounded, had, cut_off)"
    by (metis prod_cases3)
  have "\<exists>out note. print_as K f (oo_Fields opts) bounded = (Inr out, note)"
    using assms by (auto simp: print_as_def namePrinter_PrintObj_def TablePrinter_PrintObj_def Let_def
        first_bad_row_None [THEN iffD2] split: option.split)
  then show ?thesis using f l by (auto simp: PrintBounded_def)
qed

subsection \<open>Properties\<close>


definition sample_kind :: "string list kind" where
  "sample_kind = \<lparr>k_Kind = ''Sample'', k_GoType = ''*sample'', k_Table = Some (\<lambda>_ _. [OneField ''NAME'' ''name'', OneField ''SIZE'' ''size''],
     \<lambda>xs _. map (\<lambda>x. [x, x]) xs), k_document = (\<lambda>_. []), k_limiting = NotAList,
     k_decls = [(''Sample'', \<lparr>sd_Fields = [\<lparr>sf_Name = ''Name'', sf_Tag = ''name'', sf_Exported = True, sf_Anonymous = False, sf_Type = GScalar\<rparr>],
       sd_scalar = False\<rparr>)], k_type = GStruct ''Sample'', k_items = (\<lambda>_. None), k_name = (\<lambda>_. [])\<rparr>"





end
