(* ===== verification/Topology_Groups.thy ===== *)
theory Topology_Groups
  imports Inventory_Build "HOL-Library.Sublist"
begin

text \<open>
  \<^verbatim>\<open>pkg/topology/group.go\<close>: the levels a cluster divides by, narrowest first, and at each level
  the groups of nodes that share a value, with what each group has and has left.
\<close>

subsection \<open>Data\<close>

definition LabelHostname :: string where "LabelHostname = ''kubernetes.io/hostname''"
definition SourceNode :: string where "SourceNode = ''node''"
definition SourceClique :: string where "SourceClique = ''clique''"
definition SourceSubDomain :: string where "SourceSubDomain = ''accelerator-sub-domain''"
definition SourceDomain :: string where "SourceDomain = ''accelerator-domain''"
definition SourceTier :: string where "SourceTier = ''tier''"
definition SourceKueue :: string where "SourceKueue = ''kueue''"
definition SourceCluster :: string where "SourceCluster = ''cluster''"
definition LevelNode :: string where "LevelNode = ''node''"
definition LevelCluster :: string where "LevelCluster = ''cluster''"

lemmas source_names = SourceNode_def SourceClique_def SourceSubDomain_def SourceDomain_def SourceTier_def
  SourceKueue_def SourceCluster_def

definition isTopographLabel :: "string \<Rightarrow> bool" where
  "isTopographLabel label \<longleftrightarrow> label = TopologyAcceleratorDomain \<or> label = TopologyAcceleratorSubDomain
     \<or> strings_HasPrefix label TopologyFabricPrefix"

record Group =
  gr_Value :: string
  gr_Nodes :: "string list"
  gr_NodeCount :: int
  gr_Allocatable :: int
  gr_Requested :: int
  gr_Free :: int
  gr_LargestFreeNode :: int
  gr_RequestedKnown :: bool

record Level =
  lv_Name :: string
  lv_Label :: string
  lv_Source :: string
  lv_Groups :: "Group list"

record PartialNode =
  pn_Name :: string
  pn_Present :: "string list"
  pn_Missing :: "string list"

record KueueStatus =
  ks_Installed :: bool
  ks_Reason :: string

record KueueTopology =
  kt_Name :: string
  kt_Levels :: "string list"

record topology_Input =
  ti_Nodes :: "GPUNode list"
  ti_Kueue :: KueueStatus
  ti_Topologies :: "KueueTopology list"

record levelKey =
  lk_name :: string
  lk_label :: string
  lk_source :: string
  lk_tier :: int

subsection \<open>Labels of a node\<close>

definition labelsOfNode :: "GPUNode \<Rightarrow> string gomap" where
  "labelsOfNode n = foldl (\<lambda>out (label, v). if v \<noteq> [] then mput out label v else out)
     (if g_Clique n \<noteq> [] then mput [] LabelClique (g_Clique n) else []) (g_Topology n)"

definition valueAt :: "GPUNode \<Rightarrow> string \<Rightarrow> string" where
  "valueAt n label = (case map_of (labelsOfNode n) label of Some v \<Rightarrow> v | None \<Rightarrow> sget (g_Labels n) label)"

definition labelsInUse :: "GPUNode list \<Rightarrow> unit gomap" where
  "labelsInUse nodes = foldl (\<lambda>out n. foldl (\<lambda>out (label, _). mput out label ()) out (labelsOfNode n)) [] nodes"

definition anyNodeHas :: "GPUNode list \<Rightarrow> string \<Rightarrow> bool" where
  "anyNodeHas nodes label \<longleftrightarrow> (\<exists>n \<in> set nodes. valueAt n label \<noteq> [])"

subsection \<open>Levels\<close>

definition MaxInt :: int where "MaxInt = 2 ^ 63 - 1"

definition tierLevel :: "string \<Rightarrow> levelKey" where
  "tierLevel label = \<lparr>lk_name = strings_TrimPrefix label ''fabric.topograph.run/'', lk_label = label, lk_source = SourceTier,
     lk_tier = (case strconv_Atoi (strings_TrimPrefix label TopologyFabricPrefix) of Some number \<Rightarrow> number | None \<Rightarrow> MaxInt)\<rparr>"

definition tierLevels :: "unit gomap \<Rightarrow> levelKey list" where
  "tierLevels present = sort_Slice (\<lambda>k. (lk_tier k, lk_label k))
     (map tierLevel (filter (\<lambda>label. strings_HasPrefix label TopologyFabricPrefix) (map fst present)))"

definition plainLevel :: "string \<Rightarrow> string \<Rightarrow> string \<Rightarrow> levelKey" where
  "plainLevel name label source = \<lparr>lk_name = name, lk_label = label, lk_source = source, lk_tier = 0\<rparr>"

definition fixedLevels :: "levelKey list" where
  "fixedLevels = [plainLevel ''clique'' LabelClique SourceClique,
     plainLevel ''accelerator-sub-domain'' TopologyAcceleratorSubDomain SourceSubDomain,
     plainLevel ''accelerator-domain'' TopologyAcceleratorDomain SourceDomain]"

text \<open>The Kueue levels: each topology from its last level to its first, a label that is already there passed over.\<close>

fun kueueLevels :: "GPUNode list \<Rightarrow> string list \<Rightarrow> string list \<Rightarrow> levelKey list \<Rightarrow> string list \<times> levelKey list" where
  "kueueLevels nodes [] seen keys = (seen, keys)"
| "kueueLevels nodes (label # rest) seen keys =
     (if label \<in> set seen then kueueLevels nodes rest seen keys
      else if \<not> anyNodeHas nodes label then kueueLevels nodes rest seen keys
      else kueueLevels nodes rest (label # seen) (keys @ [plainLevel label label SourceKueue]))"

definition levelsOf :: "topology_Input \<Rightarrow> levelKey list" where
  "levelsOf i =
     (let present = labelsInUse (ti_Nodes i);
          keys = [plainLevel LevelNode LabelHostname SourceNode]
            @ filter (\<lambda>fixed. mhas present (lk_label fixed)) fixedLevels @ tierLevels present;
          (seen, keys) = foldl (\<lambda>(seen, keys) topo. kueueLevels (ti_Nodes i) (rev (kt_Levels topo)) seen keys)
            (map lk_label keys, keys) (ti_Topologies i)
      in keys @ [plainLevel LevelCluster [] SourceCluster])"

subsection \<open>Groups\<close>

definition freeOn :: "GPUNode \<Rightarrow> int" where
  "freeOn n = (if \<not> g_RequestedKnown n then 0
     else let free = wrap64 (g_Allocatable n - g_Requested n) in if free < 0 then 0 else free)"

fun groupOf_loop :: "GPUNode list \<Rightarrow> Group \<Rightarrow> Group" where
  "groupOf_loop [] g = g"
| "groupOf_loop (n # rest) g =
     (let g = g\<lparr>gr_Nodes := gr_Nodes g @ [g_Name n], gr_Allocatable := wrap64 (gr_Allocatable g + g_Allocatable n)\<rparr>
      in if \<not> g_RequestedKnown n then groupOf_loop rest (g\<lparr>gr_RequestedKnown := False\<rparr>)
         else groupOf_loop rest (g\<lparr>gr_Requested := wrap64 (gr_Requested g + g_Requested n),
           gr_Free := wrap64 (gr_Free g + freeOn n),
           gr_LargestFreeNode := (if freeOn n > gr_LargestFreeNode g then freeOn n else gr_LargestFreeNode g)\<rparr>))"

definition groupOf :: "string \<Rightarrow> GPUNode list \<Rightarrow> Group" where
  "groupOf value nodes =
     (let g = groupOf_loop nodes \<lparr>gr_Value = value, gr_Nodes = [], gr_NodeCount = int (length nodes), gr_Allocatable = 0,
            gr_Requested = 0, gr_Free = 0, gr_LargestFreeNode = 0, gr_RequestedKnown = True\<rparr>;
          g = g\<lparr>gr_Nodes := sort_Strings (gr_Nodes g)\<rparr>
      in if \<not> gr_RequestedKnown g then g\<lparr>gr_Requested := 0, gr_Free := 0, gr_LargestFreeNode := 0\<rparr> else g)"

definition groupsPerNode :: "GPUNode list \<Rightarrow> Group list" where
  "groupsPerNode nodes = sort_Slice gr_Value (map (\<lambda>n. groupOf (g_Name n) [n]) nodes)"

definition groupsWholeCluster :: "GPUNode list \<Rightarrow> Group list" where
  "groupsWholeCluster nodes = (if nodes = [] then [] else [groupOf LevelCluster nodes])"

definition groupsAt :: "GPUNode list \<Rightarrow> string \<Rightarrow> Group list" where
  "groupsAt nodes label =
     (let byValue = group_into (\<lambda>n. valueAt n label) (\<lambda>n. n) (filter (\<lambda>n. \<not> valueAt n label = []) nodes) []
      in map (\<lambda>v. groupOf v (mget [] byValue v)) (sort_Strings (map fst byValue)))"

definition group :: "levelKey \<Rightarrow> GPUNode list \<Rightarrow> Group list" where
  "group k nodes = (if lk_source k = SourceNode then groupsPerNode nodes
     else if lk_source k = SourceCluster then groupsWholeCluster nodes
     else groupsAt nodes (lk_label k))"

subsection \<open>Partially labelled nodes\<close>

definition partialNode :: "string list \<Rightarrow> GPUNode \<Rightarrow> PartialNode option" where
  "partialNode universe n =
     (let present = filter (\<lambda>label. valueAt n label \<noteq> []) universe;
          missing = filter (\<lambda>label. \<not> valueAt n label \<noteq> []) universe
      in if present = [] \<or> missing = [] then None
         else Some \<lparr>pn_Name = g_Name n, pn_Present = present, pn_Missing = missing\<rparr>)"

definition partialNodes :: "GPUNode list \<Rightarrow> PartialNode list" where
  "partialNodes nodes =
     (let universe = sort_Strings (filter isTopographLabel (map fst (labelsInUse nodes)))
      in if universe = [] then [] else sort_Slice pn_Name (List.map_filter (partialNode universe) nodes))"

subsection \<open>Lemmas on labels\<close>

lemma labelsOfNode_keys_wf: "wf_map (labelsOfNode n)"
proof -
  have "wf_map out \<Longrightarrow> wf_map (foldl (\<lambda>out (label, v). if v \<noteq> [] then mput out label v else out) out kvs)"
    for out :: "string gomap" and kvs
    by (induction kvs arbitrary: out) auto
  then show ?thesis by (simp add: labelsOfNode_def)
qed

lemma labelsOfNode_get:
  assumes "wf_map (g_Topology n)"
  shows "map_of (labelsOfNode n) label = (case map_of (g_Topology n) label of
      Some v \<Rightarrow> if v \<noteq> [] then Some v else if label = LabelClique \<and> g_Clique n \<noteq> [] then Some (g_Clique n) else None
    | None \<Rightarrow> if label = LabelClique \<and> g_Clique n \<noteq> [] then Some (g_Clique n) else None)"
proof -
  have "wf_map kvs \<Longrightarrow> map_of (foldl (\<lambda>out (label, v). if v \<noteq> [] then mput out label v else out) out kvs) label
      = (case map_of kvs label of Some v \<Rightarrow> if v \<noteq> [] then Some v else map_of out label | None \<Rightarrow> map_of out label)"
    for out :: "string gomap" and kvs
  proof (induction kvs arbitrary: out)
    case (Cons kv kvs)
    obtain k v where kv: "kv = (k, v)" by fastforce
    have "map_of kvs k = None" using Cons.prems by (simp add: kv wf_map_def map_of_eq_None_iff)
    then show ?case using Cons by (auto simp: kv wf_map_def map_of_mput split: option.split)
  qed simp
  from this [OF assms] show ?thesis by (simp add: labelsOfNode_def map_of_mput split: option.split)
qed

lemma labelsOfNode_not_Nil: "wf_map (g_Topology n) \<Longrightarrow> map_of (labelsOfNode n) label = Some v \<Longrightarrow> v \<noteq> []"
  by (auto simp: labelsOfNode_get split: option.splits if_splits)

lemma labelsInUse_laws:
  "wf_map (labelsInUse nodes)" "fst ` set (labelsInUse nodes) = {l. \<exists>n \<in> set nodes. l \<in> fst ` set (labelsOfNode n)}"
proof -
  have inner: "wf_map out \<Longrightarrow> wf_map (foldl (\<lambda>out (label, _). mput out label ()) out kvs)
      \<and> fst ` set (foldl (\<lambda>out (label, _). mput out label ()) out kvs) = fst ` set out \<union> fst ` set kvs" for out and kvs :: "(string \<times> 'x) list"
    by (induction kvs arbitrary: out) (auto simp: keys_mput split_beta)
  have "wf_map out \<Longrightarrow> wf_map (foldl (\<lambda>out n. foldl (\<lambda>out (label, _). mput out label ()) out (labelsOfNode n)) out nodes)
      \<and> fst ` set (foldl (\<lambda>out n. foldl (\<lambda>out (label, _). mput out label ()) out (labelsOfNode n)) out nodes)
        = fst ` set out \<union> {l. \<exists>n \<in> set nodes. l \<in> fst ` set (labelsOfNode n)}" for out
    by (induction nodes arbitrary: out) (auto simp: inner)
  from this [OF wf_map_Nil] show "wf_map (labelsInUse nodes)"
    "fst ` set (labelsInUse nodes) = {l. \<exists>n \<in> set nodes. l \<in> fst ` set (labelsOfNode n)}"
    by (simp_all add: labelsInUse_def)
qed

lemma labelsInUse_has:
  assumes "\<forall>n \<in> set nodes. wf_map (g_Topology n)" "mhas (labelsInUse nodes) label"
  shows "anyNodeHas nodes label"
proof -
  obtain n where n: "n \<in> set nodes" "label \<in> fst ` set (labelsOfNode n)"
    using assms(2) by (auto simp: mhas_iff labelsInUse_laws)
  then obtain v where v: "map_of (labelsOfNode n) label = Some v" by (metis map_of_eq_None_iff not_Some_eq)
  then have "v \<noteq> []" using labelsOfNode_not_Nil assms(1) n(1) by blast
  then show ?thesis using n(1) v by (force simp: anyNodeHas_def valueAt_def)
qed

subsection \<open>Lemmas on groups\<close>

lemma freeOn_nonneg: "0 \<le> freeOn n"
  by (simp add: freeOn_def Let_def)

lemma freeOn_range: "int64_range (freeOn n)"
proof -
  have "int64_range (wrap64 x)" for x by (simp add: wrap_in_range)
  moreover have "int64_range 0" by (simp add: in_range_def)
  ultimately show ?thesis by (simp add: freeOn_def Let_def)
qed

lemma groupOf_loop_names: "gr_Nodes (groupOf_loop ns g) = gr_Nodes g @ map g_Name ns"
  by (induction ns g rule: groupOf_loop.induct) (simp_all add: Let_def)

lemma groupOf_loop_kept:
  "gr_Value (groupOf_loop ns g) = gr_Value g" "gr_NodeCount (groupOf_loop ns g) = gr_NodeCount g"
  by (induction ns g rule: groupOf_loop.induct) (simp_all add: Let_def)

lemma groupOf_loop_known: "gr_RequestedKnown (groupOf_loop ns g) \<longleftrightarrow> gr_RequestedKnown g \<and> list_all g_RequestedKnown ns"
  by (induction ns g rule: groupOf_loop.induct) (simp_all add: Let_def)

lemma groupOf_loop_allocatable:
  "gr_Allocatable (groupOf_loop ns g) = foldl (\<lambda>acc x. wrap64 (acc + x)) (gr_Allocatable g) (map g_Allocatable ns)"
  by (induction ns g rule: groupOf_loop.induct) (simp_all add: Let_def)

lemma groupOf_loop_sums:
  assumes "list_all g_RequestedKnown ns"
  shows "gr_Requested (groupOf_loop ns g) = foldl (\<lambda>acc x. wrap64 (acc + x)) (gr_Requested g) (map g_Requested ns)"
    "gr_Free (groupOf_loop ns g) = foldl (\<lambda>acc x. wrap64 (acc + x)) (gr_Free g) (map freeOn ns)"
    "gr_LargestFreeNode (groupOf_loop ns g) = foldl max (gr_LargestFreeNode g) (map freeOn ns)"
  using assms by (induction ns g rule: groupOf_loop.induct) (simp_all add: Let_def max_def)

lemma groupOf_names [simp]:
  "gr_Value (groupOf v ns) = v" "gr_Nodes (groupOf v ns) = sort_Strings (map g_Name ns)"
  "gr_NodeCount (groupOf v ns) = int (length ns)" "gr_RequestedKnown (groupOf v ns) = list_all g_RequestedKnown ns"
  by (simp_all add: groupOf_def Let_def groupOf_loop_names groupOf_loop_kept groupOf_loop_known)

lemma groupOf_sums:
  "gr_Allocatable (groupOf v ns) = sum_wrap 64 (map g_Allocatable ns)"
  "gr_Requested (groupOf v ns) = (if list_all g_RequestedKnown ns then sum_wrap 64 (map g_Requested ns) else 0)"
  "gr_Free (groupOf v ns) = (if list_all g_RequestedKnown ns then sum_wrap 64 (map freeOn ns) else 0)"
  "gr_LargestFreeNode (groupOf v ns) = (if list_all g_RequestedKnown ns then foldl max 0 (map freeOn ns) else 0)"
  by (simp_all add: groupOf_def Let_def groupOf_loop_allocatable groupOf_loop_known groupOf_loop_sums sum_wrap_def)

lemma foldl_max: "foldl max a xs = Max (insert a (set xs))" for a :: int
proof (induction xs arbitrary: a)
  case (Cons x xs)
  show ?case using Cons by (cases "xs = []") (simp_all add: max.assoc)
qed simp

lemma sort_Strings_set: "distinct xs \<Longrightarrow> sort_Strings xs = sorted_list_of_set (set xs)"
  by (simp add: sort_Strings_def sorted_list_of_set_sort_remdups distinct_remdups_id)

lemma groupsAt_eq:
  "groupsAt nodes label = map (\<lambda>v. groupOf v (filter (\<lambda>n. valueAt n label = v) nodes))
     (sorted_list_of_set ((\<lambda>n. valueAt n label) ` set nodes - {[]}))"
proof -
  let ?by = "group_into (\<lambda>n. valueAt n label) (\<lambda>n. n) (filter (\<lambda>n. \<not> valueAt n label = []) nodes) []"
  have keys: "fst ` set ?by = (\<lambda>n. valueAt n label) ` set nodes - {[]}" by (auto simp: group_into_keys)
  have "distinct (map fst ?by)" using group_into_wf [OF wf_map_Nil] by (simp only: wf_map_def)
  then have vs: "sort_Strings (map fst ?by) = sorted_list_of_set (fst ` set ?by)"
    using sort_Strings_set [of "map fst ?by"] by simp
  have "mget [] ?by v = filter (\<lambda>n. valueAt n label = v) nodes" if "v \<noteq> []" for v
  proof -
    have "mget [] ?by v = filter (\<lambda>n. valueAt n label = v) (filter (\<lambda>n. \<not> valueAt n label = []) nodes)"
      unfolding group_into_get by (simp add: mget_def)
    also have "\<dots> = filter (\<lambda>n. valueAt n label = v) nodes" unfolding filter_filter by (rule filter_cong) (use that in auto)
    finally show ?thesis .
  qed
  then show ?thesis unfolding groupsAt_def Let_def vs keys by simp
qed

text \<open>Every group of a level is made of checked nodes, and the groups by value split those that have one.\<close>

lemma filter_values_mset:
  assumes "finite A" "f ` set xs \<subseteq> A"
  shows "(\<Sum>v\<in>A. mset (filter (\<lambda>x. f x = v) xs)) = mset xs"
  using assms(2)
proof (induction xs)
  case (Cons x xs)
  have "(\<Sum>v\<in>A. mset (filter (\<lambda>y. f y = v) (x # xs))) = (\<Sum>v\<in>A. (if f x = v then {#x#} else {#}) + mset (filter (\<lambda>y. f y = v) xs))"
    by (rule sum.cong) auto
  also have "\<dots> = (\<Sum>v\<in>A. if f x = v then {#x#} else {#}) + mset xs" using Cons by (simp add: sum.distrib)
  also have "(\<Sum>v\<in>A. if f x = v then {#x#} else {#}) = {#x#}" using Cons.prems assms(1) by (simp add: sum.delta')
  finally show ?case by simp
qed simp

lemma groupsAt_nodes:
  "mset (concat (map gr_Nodes (groupsAt nodes label))) = mset (map g_Name (filter (\<lambda>n. valueAt n label \<noteq> []) nodes))"
proof -
  let ?V = "(\<lambda>n. valueAt n label) ` set nodes - {[]}" and ?ns = "filter (\<lambda>n. valueAt n label \<noteq> []) nodes"
  have "mset (concat (map gr_Nodes (groupsAt nodes label)))
      = (\<Sum>v \<leftarrow> sorted_list_of_set ?V. mset (map g_Name (filter (\<lambda>n. valueAt n label = v) nodes)))"
    by (simp add: groupsAt_eq mset_concat comp_def)
  also have "\<dots> = (\<Sum>v\<in>?V. mset (map g_Name (filter (\<lambda>n. valueAt n label = v) nodes)))"
    using sum_list_distinct_conv_sum_set [of "sorted_list_of_set ?V"] by simp
  also have "\<dots> = (\<Sum>v\<in>?V. image_mset g_Name (mset (filter (\<lambda>n. valueAt n label = v) ?ns)))"
  proof (rule sum.cong)
    fix v assume "v \<in> ?V"
    then have "filter (\<lambda>n. valueAt n label = v) nodes = filter (\<lambda>n. valueAt n label = v) ?ns"
      unfolding filter_filter by (intro filter_cong) auto
    then show "mset (map g_Name (filter (\<lambda>n. valueAt n label = v) nodes)) = image_mset g_Name (mset (filter (\<lambda>n. valueAt n label = v) ?ns))"
      by (simp only: mset_map)
  qed simp
  also have "\<dots> = image_mset g_Name (\<Sum>v\<in>?V. mset (filter (\<lambda>n. valueAt n label = v) ?ns))"
    using sum_comp_morphism [of "image_mset g_Name" "\<lambda>v. mset (filter (\<lambda>n. valueAt n label = v) ?ns)" ?V] by (simp add: comp_def)
  also have "(\<Sum>v\<in>?V. mset (filter (\<lambda>n. valueAt n label = v) ?ns)) = mset ?ns"
    by (rule filter_values_mset) auto
  finally show ?thesis by simp
qed

subsection \<open>Lemmas on levels\<close>

lemma kueueLevels_laws:
  assumes "kueueLevels nodes labels seen keys = (seen', keys')"
  shows "\<exists>new. keys' = keys @ map (\<lambda>l. plainLevel l l SourceKueue) new \<and> set seen' = set seen \<union> set new
    \<and> distinct new \<and> set new \<inter> set seen = {} \<and> set new = {l \<in> set labels. anyNodeHas nodes l} - set seen"
  using assms
proof (induction nodes labels seen keys rule: kueueLevels.induct)
  case (2 nodes label rest seen keys)
  show ?case
  proof (cases "label \<in> set seen \<or> \<not> anyNodeHas nodes label")
    case True
    then show ?thesis using 2 by (auto split: if_splits)
  next
    case False
    then obtain new where "keys' = (keys @ [plainLevel label label SourceKueue]) @ map (\<lambda>l. plainLevel l l SourceKueue) new"
      "set seen' = insert label (set seen) \<union> set new" "distinct new" "set new \<inter> insert label (set seen) = {}"
      "set new = {l \<in> set rest. anyNodeHas nodes l} - insert label (set seen)"
      using 2 by auto
    then show ?thesis using False by (intro exI [of _ "label # new"]) auto
  qed
qed auto

lemma kueue_fold_laws:
  assumes "foldl (\<lambda>(seen, keys) topo. kueueLevels nodes (rev (kt_Levels topo)) seen keys) (seen, keys) topos = (seen', keys')"
  shows "\<exists>new. keys' = keys @ map (\<lambda>l. plainLevel l l SourceKueue) new
    \<and> distinct new \<and> set new = {l. (\<exists>t \<in> set topos. l \<in> set (kt_Levels t)) \<and> anyNodeHas nodes l} - set seen"
  using assms
proof (induction topos arbitrary: seen keys)
  case (Cons t ts)
  obtain s1 k1 where one: "kueueLevels nodes (rev (kt_Levels t)) seen keys = (s1, k1)" by fastforce
  from kueueLevels_laws [OF one] obtain n1 where n1: "k1 = keys @ map (\<lambda>l. plainLevel l l SourceKueue) n1"
    "set s1 = set seen \<union> set n1" "distinct n1" "set n1 = {l \<in> set (kt_Levels t). anyNodeHas nodes l} - set seen"
    by auto
  obtain n2 where n2: "keys' = k1 @ map (\<lambda>l. plainLevel l l SourceKueue) n2" "distinct n2"
    "set n2 = {l. (\<exists>t \<in> set ts. l \<in> set (kt_Levels t)) \<and> anyNodeHas nodes l} - set s1"
    using Cons.IH [of s1 k1] Cons.prems one by auto
  show ?case using n1 n2 by (intro exI [of _ "n1 @ n2"]) auto
qed simp

lemma tierLevels_laws:
  assumes "wf_map present"
  shows "set (map lk_label (tierLevels present)) = {l \<in> fst ` set present. strings_HasPrefix l TopologyFabricPrefix}"
    "distinct (map lk_label (tierLevels present))" "sorted (map lk_tier (tierLevels present))"
    "k \<in> set (tierLevels present) \<Longrightarrow> k = tierLevel (lk_label k)"
proof -
  let ?ls = "filter (\<lambda>l. strings_HasPrefix l TopologyFabricPrefix) (map fst present)"
  have lab: "lk_label (tierLevel l) = l" for l by (simp add: tierLevel_def)
  show "set (map lk_label (tierLevels present)) = {l \<in> fst ` set present. strings_HasPrefix l TopologyFabricPrefix}"
    by (auto simp: tierLevels_def lab image_image)
  have "mset (map lk_label (tierLevels present)) = mset ?ls" by (simp add: tierLevels_def image_mset.compositionality comp_def lab)
  moreover have "distinct ?ls" using assms by (simp add: wf_map_def)
  ultimately show "distinct (map lk_label (tierLevels present))" by (metis mset_eq_imp_distinct_iff)
  have "sorted (map (\<lambda>k. (lk_tier k, lk_label k)) (tierLevels present))" by (simp add: tierLevels_def)
  then show "sorted (map lk_tier (tierLevels present))"
    by (simp add: sorted_map) (erule sorted_wrt_mono_rel [rotated], auto)
  show "k \<in> set (tierLevels present) \<Longrightarrow> k = tierLevel (lk_label k)" by (auto simp: tierLevels_def lab)
qed

lemma levelsOf_shape:
  "\<exists>kueue. levelsOf i = [plainLevel LevelNode LabelHostname SourceNode]
       @ filter (\<lambda>fixed. mhas (labelsInUse (ti_Nodes i)) (lk_label fixed)) fixedLevels @ tierLevels (labelsInUse (ti_Nodes i))
       @ map (\<lambda>l. plainLevel l l SourceKueue) kueue @ [plainLevel LevelCluster [] SourceCluster]
    \<and> distinct kueue
    \<and> set kueue = {l. (\<exists>t \<in> set (ti_Topologies i). l \<in> set (kt_Levels t)) \<and> anyNodeHas (ti_Nodes i) l}
        - set (map lk_label ([plainLevel LevelNode LabelHostname SourceNode]
            @ filter (\<lambda>fixed. mhas (labelsInUse (ti_Nodes i)) (lk_label fixed)) fixedLevels @ tierLevels (labelsInUse (ti_Nodes i))))"
proof -
  let ?keys = "[plainLevel LevelNode LabelHostname SourceNode]
       @ filter (\<lambda>fixed. mhas (labelsInUse (ti_Nodes i)) (lk_label fixed)) fixedLevels @ tierLevels (labelsInUse (ti_Nodes i))"
  obtain seen keys where f: "foldl (\<lambda>(seen, keys) topo. kueueLevels (ti_Nodes i) (rev (kt_Levels topo)) seen keys)
      (map lk_label ?keys, ?keys) (ti_Topologies i) = (seen, keys)" by fastforce
  have "levelsOf i = keys @ [plainLevel LevelCluster [] SourceCluster]"
    unfolding levelsOf_def Let_def f by simp
  then show ?thesis using kueue_fold_laws [OF f] by auto
qed

lemma fixed_tiers_distinct:
  assumes "wf_map present"
  shows "distinct (map lk_label ([plainLevel LevelNode LabelHostname SourceNode]
    @ filter (\<lambda>fixed. mhas present (lk_label fixed)) fixedLevels @ tierLevels present))"
proof -
  let ?fixed = "filter (\<lambda>fixed. mhas present (lk_label fixed)) fixedLevels"
  have fl: "map lk_label fixedLevels = [LabelClique, TopologyAcceleratorSubDomain, TopologyAcceleratorDomain]"
    by (simp add: fixedLevels_def plainLevel_def)
  then have "distinct (map lk_label fixedLevels)"
    by (simp add: LabelClique_def TopologyAcceleratorSubDomain_def TopologyAcceleratorDomain_def)
  then have "distinct (map lk_label ?fixed)" by (rule distinct_filter_map)
  moreover have sub: "set (map lk_label ?fixed) \<subseteq> set (map lk_label fixedLevels)" by auto
  moreover have "\<not> strings_HasPrefix l TopologyFabricPrefix" if "l \<in> insert LabelHostname (set (map lk_label fixedLevels))" for l
    using that unfolding fl by (auto simp: strings_HasPrefix_def LabelHostname_def LabelClique_def TopologyAcceleratorSubDomain_def
        TopologyAcceleratorDomain_def TopologyFabricPrefix_def)
  moreover have "LabelHostname \<notin> set (map lk_label fixedLevels)" unfolding fl
    by (simp add: LabelHostname_def LabelClique_def TopologyAcceleratorSubDomain_def TopologyAcceleratorDomain_def)
  moreover have "lk_label (plainLevel LevelNode LabelHostname SourceNode) = LabelHostname" by (simp add: plainLevel_def)
  ultimately show ?thesis using tierLevels_laws(1,2) [OF assms] by auto
qed

subsection \<open>Properties\<close>

text \<open>
  The levels run from one group per node to the whole cluster, and in
  between there is one level for each label in use that names one, none twice: first the NVLink
  ones, then the fabric tiers in ascending order of their number, then what the Kueue topologies
  add. Every one of them is carried by some node.
\<close>

theorem levels_of_cluster:
  assumes "\<forall>n \<in> set (ti_Nodes i). wf_map (g_Topology n)"
  shows "\<exists>nvlink tiers kueue. levelsOf i = [plainLevel LevelNode LabelHostname SourceNode] @ nvlink @ tiers
      @ map (\<lambda>l. plainLevel l l SourceKueue) kueue @ [plainLevel LevelCluster [] SourceCluster]
    \<and> subseq nvlink fixedLevels
    \<and> sorted (map lk_tier tiers) \<and> (\<forall>k \<in> set tiers. k = tierLevel (lk_label k) \<and> strings_HasPrefix (lk_label k) TopologyFabricPrefix)
    \<and> distinct (map lk_label (butlast (levelsOf i)))
    \<and> (\<forall>k \<in> set (nvlink @ tiers @ map (\<lambda>l. plainLevel l l SourceKueue) kueue). anyNodeHas (ti_Nodes i) (lk_label k))
    \<and> (\<forall>t \<in> set (ti_Topologies i). \<forall>l \<in> set (kt_Levels t). anyNodeHas (ti_Nodes i) l \<longrightarrow> l \<in> set (map lk_label (levelsOf i)))"
proof -
  let ?p = "labelsInUse (ti_Nodes i)"
  let ?fixed = "filter (\<lambda>fixed. mhas ?p (lk_label fixed)) fixedLevels"
  obtain kueue where k: "levelsOf i = [plainLevel LevelNode LabelHostname SourceNode] @ ?fixed @ tierLevels ?p
       @ map (\<lambda>l. plainLevel l l SourceKueue) kueue @ [plainLevel LevelCluster [] SourceCluster]" "distinct kueue"
    "set kueue = {l. (\<exists>t \<in> set (ti_Topologies i). l \<in> set (kt_Levels t)) \<and> anyNodeHas (ti_Nodes i) l}
        - set (map lk_label ([plainLevel LevelNode LabelHostname SourceNode] @ ?fixed @ tierLevels ?p))"
    using levelsOf_shape [of i] by blast
  note t = tierLevels_laws [OF labelsInUse_laws(1) [of "ti_Nodes i"]]
  have lab: "map lk_label (map (\<lambda>l. plainLevel l l SourceKueue) kueue) = kueue" by (simp add: plainLevel_def comp_def)
  note fixed_tiers_distinct [of ?p, OF labelsInUse_laws(1)]
  then have d: "distinct (map lk_label (butlast (levelsOf i)))"
    unfolding k(1) using k(2,3) lab by (simp add: butlast_append) blast
  have has: "anyNodeHas (ti_Nodes i) (lk_label x)" if "x \<in> set (?fixed @ tierLevels ?p @ map (\<lambda>l. plainLevel l l SourceKueue) kueue)" for x
  proof -
    have "mhas ?p (lk_label x) \<or> lk_label x \<in> set kueue"
      using that t(1) lab by (auto simp: mhas_iff plainLevel_def)
    then show ?thesis using labelsInUse_has [OF assms] k(3) by auto
  qed
  have "subseq ?fixed fixedLevels" by (rule subseq_filter_left)
  moreover have "strings_HasPrefix (lk_label x) TopologyFabricPrefix" if "x \<in> set (tierLevels ?p)" for x using that t(1) by auto
  moreover have "l \<in> set (map lk_label (levelsOf i))"
    if "anyNodeHas (ti_Nodes i) l" "t \<in> set (ti_Topologies i)" "l \<in> set (kt_Levels t)" for t l
    unfolding k(1) using k(3) that lab by auto
  ultimately show ?thesis using k(1) d has t(3,4) by (intro exI [of _ ?fixed] exI [of _ "tierLevels ?p"] exI [of _ kueue]) blast
qed

abbreviation sample_level_node :: "string \<Rightarrow> string \<Rightarrow> string gomap \<Rightarrow> GPUNode" where
  "sample_level_node name clique topology \<equiv> buildNode (sample_node name ((''nvidia.com/gpu.clique'', clique) # topology) [])
     \<lparr>nc_hinted = False, nc_sliceNames = [], nc_requested = 0, nc_requestedKnown = True, nc_operands = [], nc_withDetails = False\<rparr>"

definition sample_topology :: topology_Input where
  "sample_topology = \<lparr>ti_Nodes = [sample_level_node ''a'' ''c1'' [(''fabric.topograph.run/tier-10'', ''s''), (''fabric.topograph.run/tier-2'', ''s'')],
     sample_level_node ''b'' ''c2'' [(''rack'', ''r1'')]], ti_Kueue = \<lparr>ks_Installed = True, ks_Reason = []\<rparr>,
     ti_Topologies = [\<lparr>kt_Name = ''t'', kt_Levels = [''rack'', ''kubernetes.io/hostname'']\<rparr>]\<rparr>"

theorem levels_of_cluster_witness: "distinct (map lk_label (butlast (levelsOf sample_topology)))"
proof -
  have "\<forall>n \<in> set (ti_Nodes sample_topology). wf_map (g_Topology n)"
    by (simp add: sample_topology_def buildNode_def Let_def)
  from levels_of_cluster [OF this] show ?thesis by auto
qed

text \<open>
  What a level groups a node by is the node's own label, whichever of
  the inventory's fields that label went into.
\<close>

theorem level_reads_labels:
  assumes "wf_map (node_Labels n)"
  shows "valueAt (buildNode n ctx) label = sget (node_Labels n) label"
proof -
  let ?g = "buildNode n ctx"
  have f: "g_Clique ?g = sget (node_Labels n) LabelClique" "g_Topology ?g = topologyLabels (node_Labels n)" "g_Labels ?g = node_Labels n"
    by (simp_all add: buildNode_def Let_def)
  have "map_of (labelsOfNode ?g) label = (case map_of (g_Topology ?g) label of
      Some v \<Rightarrow> if v \<noteq> [] then Some v else if label = LabelClique \<and> g_Clique ?g \<noteq> [] then Some (g_Clique ?g) else None
    | None \<Rightarrow> if label = LabelClique \<and> g_Clique ?g \<noteq> [] then Some (g_Clique ?g) else None)"
    by (rule labelsOfNode_get) (simp add: f)
  then show ?thesis
    unfolding valueAt_def f topologyLabels_lookup [OF assms] by (auto simp: mget_def split: option.splits if_splits)
qed

theorem level_reads_labels_witness: "valueAt (sample_level_node ''a'' ''c1'' []) ''nvidia.com/gpu.clique'' = ''c1''"
  by (subst level_reads_labels) (simp_all add: sample_node_def wf_map_def mget_def)

text \<open>
  C10 (groups_partition). The groups of a level come in strictly ascending order of their value,
  none is empty, each holds exactly the nodes with its value, and together they hold every node
  that has one exactly once.
\<close>

theorem groups_partition:
  "sorted_wrt (<) (map gr_Value (groupsAt nodes label))
   \<and> (\<forall>g \<in> set (groupsAt nodes label). gr_Value g \<noteq> [] \<and> gr_Nodes g \<noteq> [] \<and> gr_NodeCount g = int (length (gr_Nodes g))
        \<and> mset (gr_Nodes g) = mset (map g_Name (filter (\<lambda>n. valueAt n label = gr_Value g) nodes)))
   \<and> mset (concat (map gr_Nodes (groupsAt nodes label))) = mset (map g_Name (filter (\<lambda>n. valueAt n label \<noteq> []) nodes))"
proof -
  let ?V = "(\<lambda>n. valueAt n label) ` set nodes - {[]}"
  have vals: "map gr_Value (groupsAt nodes label) = sorted_list_of_set ?V" by (simp add: groupsAt_eq comp_def)
  have "gr_Value g \<noteq> [] \<and> gr_Nodes g \<noteq> [] \<and> gr_NodeCount g = int (length (gr_Nodes g))
        \<and> mset (gr_Nodes g) = mset (map g_Name (filter (\<lambda>n. valueAt n label = gr_Value g) nodes))"
    if "g \<in> set (groupsAt nodes label)" for g
  proof -
    have "g \<in> (\<lambda>v. groupOf v (filter (\<lambda>n. valueAt n label = v) nodes)) ` ?V"
      using that unfolding groupsAt_eq set_map by simp
    then obtain v where v: "v \<in> ?V" "g = groupOf v (filter (\<lambda>n. valueAt n label = v) nodes)" by blast
    then have "set (gr_Nodes g) \<noteq> {}" by (auto simp: filter_empty_conv)
    then have "gr_Nodes g \<noteq> []" by (simp only: set_empty not_False_eq_True)
    then show ?thesis using v by auto
  qed
  then show ?thesis using vals groupsAt_nodes [of nodes label] by simp
qed

theorem groups_partition_witness:
  "mset (concat (map gr_Nodes (groupsAt [sample_level_node ''b'' ''c'' [], sample_level_node ''a'' ''c'' []] ''nvidia.com/gpu.clique'')))
   = {#''a'', ''b''#}"
proof -
  have "valueAt (sample_level_node x ''c'' []) ''nvidia.com/gpu.clique'' = ''c''" for x
    by (simp add: valueAt_def labelsOfNode_def buildNode_def sample_node_def Let_def mget_def LabelClique_def mput_def
        topologyLabels_def isTopologyLabel_def strings_HasPrefix_def TopologyFabricPrefix_def TopologyAcceleratorDomain_def
        TopologyAcceleratorSubDomain_def)
  moreover have "g_Name (sample_level_node x ''c'' []) = x" for x by (simp add: buildNode_def sample_node_def Let_def)
  ultimately show ?thesis
    using groups_partition [of "[sample_level_node ''b'' ''c'' [], sample_level_node ''a'' ''c'' []]" "''nvidia.com/gpu.clique''"]
    by (simp add: add_mset_commute)
qed

text \<open>
  The free GPUs of a group whose requests are all known are the sum of what
  each node has left, a node that is overdrawn counting as none rather than against its
  neighbours; so they are never fewer than the group's allocatable minus its requested, and the
  largest is the most on any one node. With one node unknown the three numbers are zero.
\<close>

theorem group_totals:
  assumes "\<forall>n \<in> set ns. int64_range (g_Allocatable n - g_Requested n)" "ns \<noteq> []"
    "int64_range (\<Sum>n \<leftarrow> ns. g_Allocatable n)" "int64_range (\<Sum>n \<leftarrow> ns. g_Requested n)"
    "int64_range (\<Sum>n \<leftarrow> ns. max 0 (g_Allocatable n - g_Requested n))"
  shows "(if list_all g_RequestedKnown ns
     then gr_Free (groupOf v ns) = (\<Sum>n \<leftarrow> ns. max 0 (g_Allocatable n - g_Requested n))
       \<and> gr_LargestFreeNode (groupOf v ns) = Max ((\<lambda>n. max 0 (g_Allocatable n - g_Requested n)) ` set ns)
       \<and> gr_Allocatable (groupOf v ns) - gr_Requested (groupOf v ns) \<le> gr_Free (groupOf v ns)
     else gr_Requested (groupOf v ns) = 0 \<and> gr_Free (groupOf v ns) = 0 \<and> gr_LargestFreeNode (groupOf v ns) = 0)"
proof (cases "list_all g_RequestedKnown ns")
  case True
  have free: "freeOn n = max 0 (g_Allocatable n - g_Requested n)" if "n \<in> set ns" for n
    using True assms(1) that by (auto simp: freeOn_def list_all_iff wrap_id Let_def)
  have fs: "map freeOn ns = map (\<lambda>n. max 0 (g_Allocatable n - g_Requested n)) ns" by (simp add: free)
  have "Max (insert 0 ((\<lambda>n. max 0 (g_Allocatable n - g_Requested n)) ` set ns))
      = Max ((\<lambda>n. max 0 (g_Allocatable n - g_Requested n)) ` set ns)"
  proof -
    have "0 \<le> Max ((\<lambda>n. max 0 (g_Allocatable n - g_Requested n)) ` set ns)"
      using assms(2) by (subst Max_ge_iff) (auto simp: ex_in_conv)
    then show ?thesis using assms(2) by simp
  qed
  moreover have "(\<Sum>n \<leftarrow> ns. g_Allocatable n) - (\<Sum>n \<leftarrow> ns. g_Requested n) \<le> (\<Sum>n \<leftarrow> ns. max 0 (g_Allocatable n - g_Requested n))"
    by (induction ns) auto
  ultimately show ?thesis
    using True assms(3-5) unfolding groupOf_sums fs foldl_max by (simp add: sum_wrap_exact)
next
  case False
  then show ?thesis by (simp add: groupOf_sums)
qed

theorem group_totals_witness:
  "gr_Free (groupOf ''c'' [(sample_level_node ''a'' ''c'' [])\<lparr>g_Allocatable := 4, g_Requested := 6\<rparr>,
     (sample_level_node ''b'' ''c'' [])\<lparr>g_Allocatable := 8, g_Requested := 3\<rparr>]) = 5"
proof -
  let ?ns = "[(sample_level_node ''a'' ''c'' [])\<lparr>g_Allocatable := 4, g_Requested := 6\<rparr>,
     (sample_level_node ''b'' ''c'' [])\<lparr>g_Allocatable := 8, g_Requested := 3\<rparr>]"
  have "list_all g_RequestedKnown ?ns" by (simp add: buildNode_def Let_def)
  then show ?thesis using group_totals [of ?ns "''c''"] by (simp add: in_range_def)
qed

end
