(* ===== verification/Topology_Fit.thy ===== *)
theory Topology_Fit
  imports Topology_Groups
begin

text \<open>
  \<^verbatim>\<open>pkg/topology\<close> beyond the groups: \<^verbatim>\<open>report.go\<close>, the report with its table and its limit,
  \<^verbatim>\<open>fit.go\<close> and \<^verbatim>\<open>job.go\<close>, which answer where a job would fit, and \<^verbatim>\<open>kueue.go\<close>, which reads the
  topologies Kueue schedules against. The deep copies are the values themselves.
\<close>

subsection \<open>Kueue topologies\<close>

text \<open>The error of the accessor library is the argument \<open>accessor\<close>; only its being one matters here.\<close>

fun levelLabels :: "goerr \<Rightarrow> string \<Rightarrow> json list \<Rightarrow> goerr + string list" where
  "levelLabels accessor name [] = Inr []"
| "levelLabels accessor name (item # rest) = (case item of
       JMap level \<Rightarrow> (case NestedString level [''nodeLabel''] of
           NestedErr \<Rightarrow> Inl (ErrFmt (''reading a nodeLabel of Topology '' @ fmt_q name @ '': '') (Some accessor))
         | found \<Rightarrow> (case levelLabels accessor name rest of Inl e \<Rightarrow> Inl e
             | Inr levels \<Rightarrow> let label = nested_or [] found in Inr (if label = [] then levels else label # levels)))
     | _ \<Rightarrow> Inl (ErrText (''the Topology '' @ fmt_q name @ '' has a level that is not an object'')))"

definition ParseTopology :: "goerr \<Rightarrow> unstructured \<Rightarrow> goerr + KueueTopology" where
  "ParseTopology accessor obj =
     (let name = GetName obj in case NestedSlice obj [''spec'', ''levels''] of
         NestedErr \<Rightarrow> Inl (ErrFmt (''reading spec.levels of Topology '' @ fmt_q name @ '': '') (Some accessor))
       | found \<Rightarrow> let raw = nested_or [] found in
           if raw = [] then Inl (ErrText (''the Topology '' @ fmt_q name @ '' declares no spec.levels''))
           else case levelLabels accessor name raw of Inl e \<Rightarrow> Inl e
             | Inr levels \<Rightarrow> if levels = []
                 then Inl (ErrText (''the Topology '' @ fmt_q name @ '' declares no level with a nodeLabel''))
                 else Inr \<lparr>kt_Name = name, kt_Levels = levels\<rparr>)"

definition ResourceFlavorTopology :: "unstructured \<Rightarrow> string" where
  "ResourceFlavorTopology obj = nested_or [] (NestedString obj [''spec'', ''topologyName''])"

fun referenced_loop :: "goerr \<Rightarrow> string list \<Rightarrow> unstructured list \<Rightarrow> KueueTopology list \<times> goerr list" where
  "referenced_loop accessor wanted [] = ([], [])"
| "referenced_loop accessor wanted (t # rest) =
     (let (out, problems) = referenced_loop accessor wanted rest in
      if GetName t \<notin> set wanted then (out, problems)
      else case ParseTopology accessor t of Inl e \<Rightarrow> (out, e # problems) | Inr parsed \<Rightarrow> (parsed # out, problems))"

definition ReferencedTopologies :: "goerr \<Rightarrow> unstructured list \<Rightarrow> unstructured list \<Rightarrow> KueueTopology list \<times> goerr option" where
  "ReferencedTopologies accessor topologies flavors =
     (let wanted = filter (\<lambda>name. name \<noteq> []) (map ResourceFlavorTopology flavors);
          (out, problems) = referenced_loop accessor wanted topologies
      in (sort_Slice kt_Name out, errors_Join problems))"

subsection \<open>The report\<close>

record LevelFit =
  lf_Level :: string
  lf_Label :: string
  lf_Groups :: "string list"

record JobFit =
  jf_Namespace :: string
  jf_Name :: string
  jf_Pods :: int
  jf_GPUsPerPod :: int
  jf_Levels :: "LevelFit list"
  jf_Smallest :: string
  jf_Excluded :: "string list"

record JobRequest =
  jr_Namespace :: string
  jr_Name :: string
  jr_Pods :: int
  jr_GPUsPerPod :: int

record TopologyReport =
  tr_Levels :: "Level list"
  tr_PartialNodes :: "PartialNode list"
  tr_Kueue :: KueueStatus
  tr_Fit :: "JobFit option"
  tr_Status :: ReportStatus

definition NewTopologyReport :: TopologyReport where
  "NewTopologyReport = \<lparr>tr_Levels = [], tr_PartialNodes = [], tr_Kueue = \<lparr>ks_Installed = False, ks_Reason = []\<rparr>, tr_Fit = None,
     tr_Status = \<lparr>rs_Findings = [], rs_Partial = False, rs_Unreachable = [], rs_RemainingItemCount = None\<rparr>\<rparr>"

definition topology_Build :: "topology_Input \<Rightarrow> TopologyReport" where
  "topology_Build i = NewTopologyReport\<lparr>tr_Kueue := ti_Kueue i,
     tr_Levels := map (\<lambda>key. \<lparr>lv_Name = lk_name key, lv_Label = lk_label key, lv_Source = lk_source key,
        lv_Groups = group key (ti_Nodes i)\<rparr>) (levelsOf i),
     tr_PartialNodes := partialNodes (ti_Nodes i)\<rparr>"

subsection \<open>Fitting a job\<close>

definition forJobPrefix :: string where "forJobPrefix = ''job/''"

definition ParseForTarget :: "string \<Rightarrow> goerr + string" where
  "ParseForTarget v = (case strings_CutPrefix v forJobPrefix of
       Some name \<Rightarrow> if name = [] \<or> CHR ''/'' \<in> set name
         then Inl (UsageError (''cannot read --for '' @ fmt_q v @ '': want job/<name>, for instance --for job/trainer'') None)
         else Inr name
     | None \<Rightarrow> Inl (UsageError (''cannot read --for '' @ fmt_q v @ '': want job/<name>, for instance --for job/trainer'') None))"

definition podsOf :: "Job \<Rightarrow> int" where
  "podsOf job =
     (let pods = (case job_Parallelism job of None \<Rightarrow> 1 | Some p \<Rightarrow> p)
      in case job_Completions job of None \<Rightarrow> pods | Some c \<Rightarrow> if c < pods then c else pods)"

definition JobRequestFrom :: "Job \<Rightarrow> goerr + JobRequest" where
  "JobRequestFrom job =
     (let req = \<lparr>jr_Namespace = job_Namespace job, jr_Name = job_Name job, jr_Pods = podsOf job,
            jr_GPUsPerPod = PodSpecGPURequest (job_TemplateSpec job)\<rparr>
      in if jr_Pods req \<le> 0
         then Inl (UsageError (''job '' @ job_Namespace job @ ''/'' @ job_Name job @ '' runs '' @ strconv_FormatInt (jr_Pods req)
                @ '' pods: there is no placement to answer about'') None)
         else if jr_GPUsPerPod req \<le> 0
         then Inl (UsageError (''job '' @ job_Namespace job @ ''/'' @ job_Name job @ '' requests no '' @ ResourceGPU
                @ '': there is no GPU topology answer to give about it'') None)
         else Inr req)"

definition placeable :: "GPUNode \<Rightarrow> bool" where
  "placeable n \<longleftrightarrow> \<not> (g_Unschedulable n \<or> \<not> g_Ready n \<or> \<not> g_RequestedKnown n)"

definition placeableNodes :: "GPUNode list \<Rightarrow> int gomap \<times> string list" where
  "placeableNodes nodes = (foldl (\<lambda>free n. if placeable n then mput free (g_Name n) (freeOn n) else free) [] nodes,
     sort_Strings (map g_Name (filter (\<lambda>n. \<not> placeable n) nodes)))"

definition freeOfGroup :: "Group \<Rightarrow> int gomap \<Rightarrow> int list" where
  "freeOfGroup g free = List.map_filter (\<lambda>name. map_of free name) (gr_Nodes g)"

fun fits_loop :: "int list \<Rightarrow> int \<Rightarrow> int \<Rightarrow> int \<Rightarrow> bool" where
  "fits_loop [] pods gpusPerPod placed = False"
| "fits_loop (available # rest) pods gpusPerPod placed =
     (let placed = wrap64 (placed + quot available gpusPerPod) in
      if placed \<ge> pods then True else fits_loop rest pods gpusPerPod placed)"

definition fits :: "int list \<Rightarrow> int \<Rightarrow> int \<Rightarrow> bool" where
  "fits free pods gpusPerPod =
     (if pods \<le> 0 \<or> gpusPerPod \<le> 0 then False
      else fits_loop (sort_Slice (\<lambda>available. - available) free) pods gpusPerPod 0)"

definition levelFit :: "int gomap \<Rightarrow> JobRequest \<Rightarrow> Level \<Rightarrow> LevelFit" where
  "levelFit free req level = \<lparr>lf_Level = lv_Name level, lf_Label = lv_Label level,
     lf_Groups = sort_Strings (map gr_Value
       (filter (\<lambda>g. fits (freeOfGroup g free) (jr_Pods req) (jr_GPUsPerPod req)) (lv_Groups level)))\<rparr>"

fun fit_levels :: "int gomap \<Rightarrow> JobRequest \<Rightarrow> Level list \<Rightarrow> JobFit \<Rightarrow> JobFit" where
  "fit_levels free req [] fit = fit"
| "fit_levels free req (level # rest) fit =
     (let at = levelFit free req level;
          fit = (if jf_Smallest fit = [] \<and> lf_Groups at \<noteq> [] then fit\<lparr>jf_Smallest := lv_Name level\<rparr> else fit)
      in fit_levels free req rest (fit\<lparr>jf_Levels := jf_Levels fit @ [at]\<rparr>))"

definition FitJob :: "TopologyReport \<Rightarrow> JobRequest \<Rightarrow> GPUNode list \<Rightarrow> JobFit" where
  "FitJob r req nodes =
     (let (free, excluded) = placeableNodes nodes
      in fit_levels free req (tr_Levels r) \<lparr>jf_Namespace = jr_Namespace req, jf_Name = jr_Name req, jf_Pods = jr_Pods req,
           jf_GPUsPerPod = jr_GPUsPerPod req, jf_Levels = [], jf_Smallest = [], jf_Excluded = excluded\<rparr>)"

subsection \<open>Table and limit\<close>

definition unknownOr :: "bool \<Rightarrow> int \<Rightarrow> string" where
  "unknownOr known v = (if \<not> known then ''<unknown>'' else strconv_FormatInt v)"

definition fitsByLevel :: "TopologyReport \<Rightarrow> string list gomap" where
  "fitsByLevel r = (case tr_Fit r of None \<Rightarrow> [] | Some fit \<Rightarrow> foldl (\<lambda>out l. mput out (lf_Level l) (lf_Groups l)) [] (jf_Levels fit))"

definition fitCell :: "TopologyReport \<Rightarrow> string list gomap \<Rightarrow> string \<Rightarrow> string \<Rightarrow> string" where
  "fitCell r fits_at level g =
     (if g \<notin> set (mget [] fits_at level) then ''no''
      else if (case tr_Fit r of None \<Rightarrow> False | Some fit \<Rightarrow> jf_Smallest fit = level) then ''yes (smallest)'' else ''yes'')"

definition TopologyReport_TableColumns :: "TopologyReport \<Rightarrow> bool \<Rightarrow> Column list" where
  "TopologyReport_TableColumns r wide =
     [OneField ''LEVEL'' ''levels.name'', OneField ''GROUP'' ''levels.groups.value'', OneField ''NODES'' ''levels.groups.nodeCount'',
      OneField ''ALLOCATABLE'' ''levels.groups.allocatable'',
      \<lparr>col_Header = ''REQUESTED'', col_Fields = [''levels.groups.requested'', ''levels.groups.requestedKnown'']\<rparr>,
      \<lparr>col_Header = ''FREE'', col_Fields = [''levels.groups.free'', ''levels.groups.requestedKnown'']\<rparr>,
      \<lparr>col_Header = ''LARGEST-FREE'', col_Fields = [''levels.groups.largestFreeNode'', ''levels.groups.requestedKnown'']\<rparr>]
     @ (if wide then [OneField ''NODE-NAMES'' ''levels.groups.nodes''] else [])
     @ (if tr_Fit r \<noteq> None then [\<lparr>col_Header = ''FITS'', col_Fields = [''fit.levels.level'', ''fit.levels.groups'']\<rparr>] else [])"

definition group_row :: "TopologyReport \<Rightarrow> bool \<Rightarrow> Level \<Rightarrow> Group \<Rightarrow> string list" where
  "group_row r wide level g =
     [lv_Name level, gr_Value g, strconv_FormatInt (gr_NodeCount g), strconv_FormatInt (gr_Allocatable g),
      unknownOr (gr_RequestedKnown g) (gr_Requested g), unknownOr (gr_RequestedKnown g) (gr_Free g),
      unknownOr (gr_RequestedKnown g) (gr_LargestFreeNode g)]
     @ (if wide then [strings_Join (gr_Nodes g) '','' ] else [])
     @ (if tr_Fit r \<noteq> None then [fitCell r (fitsByLevel r) (lv_Name level) (gr_Value g)] else [])"

definition TopologyReport_TableRows :: "TopologyReport \<Rightarrow> bool \<Rightarrow> string list list" where
  "TopologyReport_TableRows r wide = concat (map (\<lambda>level. map (group_row r wide level) (lv_Groups level)) (tr_Levels r))"

fun keep_levels :: "nat \<Rightarrow> Level list \<Rightarrow> Level list" where
  "keep_levels left [] = []"
| "keep_levels left (level # rest) =
     (if left = 0 then []
      else let level = level\<lparr>lv_Groups := take left (lv_Groups level)\<rparr>
           in if lv_Groups level = [] then keep_levels left rest
              else level # keep_levels (left - length (lv_Groups level)) rest)"

definition TopologyReport_LimitItems :: "int \<Rightarrow> TopologyReport \<Rightarrow> TopologyReport \<times> int" where
  "TopologyReport_LimitItems n r =
     (let total = int (sum_list (map (\<lambda>l. length (lv_Groups l)) (tr_Levels r)))
      in if n \<le> 0 \<or> total \<le> n then (r, total)
         else (r\<lparr>tr_Levels := keep_levels (nat n) (tr_Levels r),
                 tr_Status := (tr_Status r)\<lparr>rs_RemainingItemCount := Some (total - n)\<rparr>\<rparr>, total))"

interpretation topology_table: table_rows TopologyReport_TableColumns TopologyReport_TableRows
  by unfold_locales (auto simp: TopologyReport_TableColumns_def TopologyReport_TableRows_def group_row_def)

text \<open>What the limit bounds: the groups, each under the level it stands in.\<close>

definition report_groups :: "TopologyReport \<Rightarrow> (string \<times> string \<times> string \<times> Group) list" where
  "report_groups r = concat (map (\<lambda>l. map (\<lambda>g. (lv_Name l, lv_Label l, lv_Source l, g)) (lv_Groups l)) (tr_Levels r))"

lemma keep_levels_groups:
  "concat (map (\<lambda>l. map (\<lambda>g. (lv_Name l, lv_Label l, lv_Source l, g)) (lv_Groups l)) (keep_levels n ls))
    = take n (concat (map (\<lambda>l. map (\<lambda>g. (lv_Name l, lv_Label l, lv_Source l, g)) (lv_Groups l)) ls))"
proof (induction n ls rule: keep_levels.induct)
  case (2 left level rest)
  then show ?case by (cases "left = 0") (auto simp: Let_def take_map min_def)
qed simp

lemma report_groups_length: "length (report_groups r) = sum_list (map (\<lambda>l. length (lv_Groups l)) (tr_Levels r))"
  by (simp add: report_groups_def length_concat comp_def)

interpretation topology_limit: limitable TopologyReport_LimitItems report_groups "\<lambda>r. rs_RemainingItemCount (tr_Status r)"
proof
  fix n r
  show "snd (TopologyReport_LimitItems n r) = int (length (report_groups r))"
    by (simp add: TopologyReport_LimitItems_def report_groups_length Let_def)
  show "n \<le> 0 \<or> int (length (report_groups r)) \<le> n \<Longrightarrow> fst (TopologyReport_LimitItems n r) = r"
    by (auto simp: TopologyReport_LimitItems_def report_groups_length Let_def)
  show "0 < n \<Longrightarrow> n < int (length (report_groups r)) \<Longrightarrow>
      report_groups (fst (TopologyReport_LimitItems n r)) = take (nat n) (report_groups r)
      \<and> rs_RemainingItemCount (tr_Status (fst (TopologyReport_LimitItems n r))) = Some (int (length (report_groups r)) - n)"
    by (simp add: TopologyReport_LimitItems_def report_groups_length Let_def)
       (simp add: report_groups_def keep_levels_groups)
qed

subsection \<open>Lemmas on placement\<close>

definition room :: "int \<Rightarrow> int list \<Rightarrow> int" where
  "room gpusPerPod free = (\<Sum>available \<leftarrow> free. available div gpusPerPod)"

lemma room_nonneg: "0 < g \<Longrightarrow> \<forall>x \<in> set free. 0 \<le> x \<Longrightarrow> 0 \<le> room g free"
  unfolding room_def by (rule sum_list_nonneg) (auto simp: pos_imp_zdiv_nonneg_iff)

lemma room_mset: "mset xs = mset ys \<Longrightarrow> room g xs = room g ys"
  unfolding room_def by (metis mset_map sum_mset_sum_list)

lemma fits_loop_iff:
  assumes "0 < g" "\<forall>x \<in> set xs. 0 \<le> x" "0 \<le> placed" "placed < pods" "int64_range (placed + room g xs)"
  shows "fits_loop xs pods g placed \<longleftrightarrow> pods \<le> placed + room g xs"
  using assms(2-5)
proof (induction xs arbitrary: placed)
  case (Cons x xs)
  let ?p = "placed + x div g"
  have q: "quot x g = x div g" using Cons.prems assms(1) by (simp add: quot_nonneg)
  have r: "0 \<le> room g xs" using room_nonneg [OF assms(1)] Cons.prems by simp
  have d: "0 \<le> x div g" using Cons.prems assms(1) by (simp add: pos_imp_zdiv_nonneg_iff)
  have sum: "placed + room g (x # xs) = ?p + room g xs" by (simp add: room_def)
  have "int64_range ?p" using Cons.prems(4) Cons.prems(2) r d unfolding sum in_range_def by auto
  then have w: "wrap64 (placed + quot x g) = ?p" by (simp add: q wrap_id)
  show ?case
  proof (cases "pods \<le> ?p")
    case True
    then show ?thesis using r w sum by (simp add: Let_def)
  next
    case False
    then have "fits_loop xs pods g ?p \<longleftrightarrow> pods \<le> ?p + room g xs"
      using Cons.prems d sum by (intro Cons.IH) auto
    then show ?thesis using False w sum by (simp add: Let_def add.assoc)
  qed
qed (simp add: room_def)

lemma fits_iff_room:
  assumes "0 < pods" "0 < g" "\<forall>x \<in> set free. 0 \<le> x" "int64_range (room g free)"
  shows "fits free pods g \<longleftrightarrow> pods \<le> room g free"
proof -
  let ?s = "sort_Slice (\<lambda>available. - available) free"
  have "room g ?s = room g free" by (rule room_mset) simp
  then show ?thesis using assms fits_loop_iff [of g ?s 0 pods] by (simp add: fits_def)
qed

text \<open>A placement puts some pods on each node, no more than its free GPUs take.\<close>

definition placement :: "int \<Rightarrow> int \<Rightarrow> int list \<Rightarrow> int list \<Rightarrow> bool" where
  "placement pods gpusPerPod free counts \<longleftrightarrow>
     list_all2 (\<lambda>available count. 0 \<le> count \<and> count * gpusPerPod \<le> available) free counts \<and> sum_list counts = pods"

lemma placement_of_room:
  assumes "0 < g" "\<forall>x \<in> set free. 0 \<le> x" "0 \<le> pods" "pods \<le> room g free"
  shows "\<exists>counts. placement pods g free counts"
  using assms(2-4)
proof (induction free arbitrary: pods)
  case Nil
  then show ?case by (simp add: placement_def room_def)
next
  case (Cons x free)
  define c where "c = min pods (x div g)"
  have d: "0 \<le> x div g" using Cons.prems assms(1) by (simp add: pos_imp_zdiv_nonneg_iff)
  have "0 \<le> pods - c" "pods - c \<le> room g free"
    using Cons.prems room_nonneg [OF assms(1), of free] unfolding c_def by (auto simp: room_def)
  then obtain counts where p: "placement (pods - c) g free counts" using Cons.IH [of "pods - c"] Cons.prems by auto
  have "c * g \<le> x div g * g" using assms(1) unfolding c_def by (intro mult_right_mono) auto
  also have "\<dots> \<le> x" using assms(1) by (metis div_mult_mod_eq le_add_same_cancel1 pos_mod_sign)
  finally have "placement pods g (x # free) (c # counts)"
    using p Cons.prems d unfolding placement_def c_def by auto
  then show ?case ..
qed

lemma room_of_placement:
  assumes "0 < g" "placement pods g free counts"
  shows "pods \<le> room g free"
proof -
  have "list_all2 (\<lambda>available count. count * g \<le> available) free counts \<Longrightarrow> sum_list counts \<le> room g free"
  proof (induction rule: list_all2_induct)
    case (Cons x xs c cs)
    have "c = c * g div g" using assms(1) by simp
    also have "\<dots> \<le> x div g" using Cons(1) assms(1) by (rule zdiv_mono1)
    finally show ?case using Cons by (simp add: room_def)
  qed (simp add: room_def)
  then show ?thesis using assms(2) unfolding placement_def by (metis (mono_tags, lifting) list_all2_mono)
qed

subsection \<open>Lemmas on levels and fits\<close>

lemma fit_levels_eq:
  "fit_levels free req ls fit = fit\<lparr>jf_Levels := jf_Levels fit @ map (levelFit free req) ls,
     jf_Smallest := (if jf_Smallest fit \<noteq> [] then jf_Smallest fit
       else case find (\<lambda>l. lv_Name l \<noteq> [] \<and> lf_Groups (levelFit free req l) \<noteq> []) ls of Some l \<Rightarrow> lv_Name l | None \<Rightarrow> [])\<rparr>"
  by (induction free req ls fit rule: fit_levels.induct) (auto simp: Let_def)

lemma placeable_free:
  assumes "distinct (map g_Name nodes)"
  shows "map_of (fst (placeableNodes nodes)) name = (case find (\<lambda>n. g_Name n = name) nodes of
     None \<Rightarrow> None | Some n \<Rightarrow> if placeable n then Some (freeOn n) else None)"
proof -
  have "distinct (map g_Name ns) \<Longrightarrow> map_of (foldl (\<lambda>free n. if placeable n then mput free (g_Name n) (freeOn n) else free) m ns) name
      = (case find (\<lambda>n. g_Name n = name) ns of None \<Rightarrow> map_of m name
          | Some n \<Rightarrow> if placeable n then Some (freeOn n) else map_of m name)" for m ns
  proof (induction ns arbitrary: m)
    case (Cons n ns)
    have "g_Name n = name \<Longrightarrow> find (\<lambda>n. g_Name n = name) ns = None" using Cons.prems by (auto simp: find_None_iff rev_image_eqI)
    then show ?case using Cons by (auto simp: map_of_mput split: option.split)
  qed simp
  from this [OF assms, of "[]"] show ?thesis by (simp add: placeableNodes_def split: option.split)
qed

lemma free_of_nodes:
  assumes "distinct (map g_Name nodes)" "set ns \<subseteq> set nodes"
  shows "mset (freeOfGroup (groupOf v ns) (fst (placeableNodes nodes))) = mset (map freeOn (filter placeable ns))"
proof -
  have one: "map_of (fst (placeableNodes nodes)) (g_Name n) = (if placeable n then Some (freeOn n) else None)" if "n \<in> set nodes" for n
  proof -
    have "find (\<lambda>m. g_Name m = g_Name n) nodes = Some n"
      using that assms(1) by (induction nodes) (auto simp: image_iff)
    then show ?thesis by (simp add: placeable_free [OF assms(1)])
  qed
  have "mset (List.map_filter h xs) = image_mset (\<lambda>x. the (h x)) (filter_mset (\<lambda>x. h x \<noteq> None) (mset xs))" for h :: "string \<Rightarrow> int option" and xs
    by (simp add: List.map_filter_def comp_def)
  moreover have "mset (sort_Strings (map g_Name ns)) = mset (map g_Name ns)" by simp
  ultimately have "mset (freeOfGroup (groupOf v ns) (fst (placeableNodes nodes)))
      = mset (List.map_filter (map_of (fst (placeableNodes nodes))) (map g_Name ns))"
    unfolding freeOfGroup_def groupOf_names by simp
  also have "List.map_filter (map_of (fst (placeableNodes nodes))) (map g_Name ns) = map freeOn (filter placeable ns)"
    using assms(2) by (induction ns) (auto simp: List.map_filter_simps one)
  finally show ?thesis .
qed

lemma fits_mset: "mset xs = mset ys \<Longrightarrow> fits xs pods g = fits ys pods g"
proof -
  assume "mset xs = mset ys"
  then have "sort_Slice (\<lambda>available. - available) xs = sort_Slice (\<lambda>available. - available) ys"
    unfolding sort_Slice_def by (intro sort_key_inj_key_eq) (auto intro: inj_onI)
  then show ?thesis by (simp add: fits_def)
qed

lemma group_of_nodes:
  assumes "g \<in> set (group key nodes)"
  shows "\<exists>v ns. g = groupOf v ns \<and> mset ns \<subseteq># mset nodes"
proof -
  consider n where "n \<in> set nodes" "g = groupOf (g_Name n) [n]" | "g = groupOf LevelCluster nodes"
    | v where "g = groupOf v (filter (\<lambda>n. valueAt n (lk_label key) = v) nodes)"
    using assms by (auto simp: group_def groupsPerNode_def groupsWholeCluster_def groupsAt_eq split: if_splits)
  then show ?thesis
  proof cases
    case 1
    then show ?thesis by (intro exI [of _ "g_Name n"] exI [of _ "[n]"]) simp
  next
    case 3
    then show ?thesis by (metis mset_filter multiset_filter_subset)
  qed blast
qed

lemma room_mono:
  assumes "0 < g" "mset xs \<subseteq># mset ys" "\<forall>y \<in> set ys. 0 \<le> y"
  shows "room g xs \<le> room g ys"
proof -
  obtain zs where zs: "mset ys = mset xs + mset zs" using assms(2) by (metis ex_mset mset_subset_eq_exists_conv)
  then have "room g ys = room g (xs @ zs)" by (intro room_mset) simp
  also have "\<dots> = room g xs + room g zs" by (simp add: room_def)
  moreover have "\<forall>z \<in> set zs. 0 \<le> z" using assms(3) zs by (metis UnCI set_mset_mset set_mset_union)
  ultimately show ?thesis using room_nonneg [OF assms(1)] by simp
qed

lemma level_names:
  assumes "\<forall>t \<in> set (ti_Topologies i). [] \<notin> set (kt_Levels t)" "key \<in> set (levelsOf i)"
  shows "lk_name key \<noteq> []"
proof -
  note t = tierLevels_laws [OF labelsInUse_laws(1) [of "ti_Nodes i"]]
  have tier: "lk_name k \<noteq> []" if "k \<in> set (tierLevels (labelsInUse (ti_Nodes i)))" for k
  proof -
    have "strings_HasPrefix (lk_label k) TopologyFabricPrefix" "k = tierLevel (lk_label k)" using t(1,4) that by auto
    moreover from this(1) have "lk_label k = TopologyFabricPrefix @ drop (length TopologyFabricPrefix) (lk_label k)"
      unfolding strings_HasPrefix_def by (metis append_take_drop_id)
    then obtain rest where "lk_label k = TopologyFabricPrefix @ rest" ..
    ultimately have "lk_name k = ''tier-'' @ rest"
      by (simp add: TopologyFabricPrefix_def tierLevel_def strings_TrimPrefix_def strings_HasPrefix_def)
    then show ?thesis by simp
  qed
  obtain kueue where "levelsOf i = [plainLevel LevelNode LabelHostname SourceNode]
       @ filter (\<lambda>fixed. mhas (labelsInUse (ti_Nodes i)) (lk_label fixed)) fixedLevels @ tierLevels (labelsInUse (ti_Nodes i))
       @ map (\<lambda>l. plainLevel l l SourceKueue) kueue @ [plainLevel LevelCluster [] SourceCluster]"
    "\<forall>l \<in> set kueue. \<exists>t \<in> set (ti_Topologies i). l \<in> set (kt_Levels t)"
    using levelsOf_shape [of i] by blast
  moreover have "lk_name k \<noteq> []" if "k \<in> set fixedLevels" for k using that by (auto simp: fixedLevels_def plainLevel_def)
  ultimately show ?thesis
    using assms tier by (auto simp: plainLevel_def LevelNode_def LevelCluster_def)
qed

lemma cluster_level: "plainLevel LevelCluster [] SourceCluster \<in> set (levelsOf i)"
  using levelsOf_shape [of i] by auto

text \<open>A job fits in some group of the report exactly when it fits on all the nodes together.\<close>

lemma fits_somewhere:
  assumes "distinct (map g_Name (ti_Nodes i))" "0 < pods" "0 < gpus"
    "int64_range (room gpus (map freeOn (filter placeable (ti_Nodes i))))"
  shows "(\<exists>key \<in> set (levelsOf i). \<exists>g \<in> set (group key (ti_Nodes i)).
      fits (freeOfGroup g (fst (placeableNodes (ti_Nodes i)))) pods gpus)
    \<longleftrightarrow> fits (map freeOn (filter placeable (ti_Nodes i))) pods gpus" (is "?some \<longleftrightarrow> fits ?all pods gpus")
proof
  have nonneg: "\<forall>x \<in> set (map freeOn ns). 0 \<le> x" for ns by (simp add: freeOn_nonneg)
  assume ?some
  then obtain key g where g: "g \<in> set (group key (ti_Nodes i))"
    "fits (freeOfGroup g (fst (placeableNodes (ti_Nodes i)))) pods gpus" by blast
  from group_of_nodes [OF g(1)] obtain v ns where ns: "g = groupOf v ns" "mset ns \<subseteq># mset (ti_Nodes i)" by blast
  let ?part = "map freeOn (filter placeable ns)"
  have "set ns \<subseteq> set (ti_Nodes i)" using set_mset_mono [OF ns(2)] by simp
  from fits_mset [OF free_of_nodes [OF assms(1) this, of v]] have part: "fits ?part pods gpus" using g(2) ns(1) by blast
  have "mset ?part \<subseteq># mset ?all" using ns(2) by (simp add: image_mset_subseteq_mono multiset_filter_mono)
  then have le: "room gpus ?part \<le> room gpus ?all" using assms(3) nonneg by (intro room_mono) auto
  moreover have "0 \<le> room gpus ?part" by (rule room_nonneg [OF assms(3) nonneg])
  ultimately have "int64_range (room gpus ?part)" using assms(4) by (simp add: in_range_def)
  then show "fits ?all pods gpus"
    using fits_iff_room [OF assms(2,3) nonneg, of "filter placeable ns"]
      fits_iff_room [OF assms(2,3) nonneg, of "filter placeable (ti_Nodes i)"] part le assms(4) by simp
next
  assume all: "fits ?all pods gpus"
  then have "ti_Nodes i \<noteq> []" using assms(2,3) by (cases "ti_Nodes i") (simp_all add: fits_def sort_Slice_def)
  then have "groupOf LevelCluster (ti_Nodes i) \<in> set (group (plainLevel LevelCluster [] SourceCluster) (ti_Nodes i))"
    by (simp add: group_def plainLevel_def groupsWholeCluster_def source_names)
  moreover have "fits (freeOfGroup (groupOf LevelCluster (ti_Nodes i)) (fst (placeableNodes (ti_Nodes i)))) pods gpus"
    using fits_mset [OF free_of_nodes [OF assms(1) subset_refl, of LevelCluster]] all by blast
  ultimately show ?some using cluster_level [of i] by blast
qed

subsection \<open>Properties\<close>

text \<open>
  C8 (fits_exact). Whether a job fits on nodes with given free GPUs is decided exactly: the
  greedy pass says yes if and only if there is a way to put all the pods on the nodes, each pod
  whole on one node, without asking any node for more than it has free.
\<close>

theorem fits_exact:
  assumes "0 < pods" "0 < gpusPerPod" "\<forall>x \<in> set free. 0 \<le> x" "int64_range (\<Sum>available \<leftarrow> free. available div gpusPerPod)"
  shows "fits free pods gpusPerPod \<longleftrightarrow> (\<exists>counts. length counts = length free \<and> sum_list counts = pods
    \<and> (\<forall>k < length free. 0 \<le> counts ! k \<and> counts ! k * gpusPerPod \<le> free ! k))"
proof -
  have "(\<exists>counts. placement pods gpusPerPod free counts) \<longleftrightarrow> pods \<le> room gpusPerPod free"
    using placement_of_room [of gpusPerPod free pods] room_of_placement [of gpusPerPod pods free] assms by auto
  moreover have "placement pods gpusPerPod free counts \<longleftrightarrow> length counts = length free \<and> sum_list counts = pods
      \<and> (\<forall>k < length free. 0 \<le> counts ! k \<and> counts ! k * gpusPerPod \<le> free ! k)" for counts
    unfolding placement_def list_all2_conv_all_nth by auto
  ultimately show ?thesis using fits_iff_room [of pods gpusPerPod free] assms by (simp add: room_def)
qed

theorem fits_exact_witness: "\<not> fits [3, 3, 3] 4 2 \<and> fits [3, 3, 3] 3 2"
proof -
  have no: "sum_list counts = 4 \<Longrightarrow> length counts = length [3, 3, 3 :: int] \<Longrightarrow>
      (\<forall>k < length [3, 3, 3 :: int]. 0 \<le> counts ! k \<and> counts ! k * 2 \<le> [3, 3, 3 :: int] ! k) \<Longrightarrow> False" for counts :: "int list"
  proof -
    assume a: "sum_list counts = 4" "length counts = length [3, 3, 3 :: int]"
      "\<forall>k < length [3, 3, 3 :: int]. 0 \<le> counts ! k \<and> counts ! k * 2 \<le> [3, 3, 3 :: int] ! k"
    then obtain x y z where c: "counts = [x, y, z]" by (auto simp: length_Suc_conv)
    have "x * 2 \<le> 3" "y * 2 \<le> 3" "z * 2 \<le> 3" using a(3) unfolding c by (auto dest: spec [of _ 0] spec [of _ 1] spec [of _ 2])
    then have "x \<le> 1" "y \<le> 1" "z \<le> 1" by presburger+
    then show False using a(1) c by simp
  qed
  have yes: "length [1, 1, 1 :: int] = length [3, 3, 3 :: int] \<and> sum_list [1, 1, 1 :: int] = 3
      \<and> (\<forall>k < length [3, 3, 3 :: int]. 0 \<le> [1, 1, 1 :: int] ! k \<and> [1, 1, 1 :: int] ! k * 2 \<le> [3, 3, 3 :: int] ! k)"
    by (simp add: less_Suc_eq numeral_3_eq_3)
  have "\<not> fits [3, 3, 3] 4 2" using no by (subst fits_exact) (auto simp: in_range_def)
  moreover have "fits [3, 3, 3] 3 2" by (subst fits_exact) (use yes in \<open>auto simp: in_range_def intro: exI [of _ "[1, 1, 1]"]\<close>)
  ultimately show ?thesis ..
qed


definition sample_fit_request :: "int \<Rightarrow> JobRequest" where
  "sample_fit_request pods = \<lparr>jr_Namespace = ''ml'', jr_Name = ''trainer'', jr_Pods = pods, jr_GPUsPerPod = 4\<rparr>"

definition sample_fit_input :: topology_Input where
  "sample_fit_input = sample_topology\<lparr>ti_Nodes := map (\<lambda>n. n\<lparr>g_Allocatable := 8, g_Ready := True, g_Unschedulable := False\<rparr>)
     (ti_Nodes sample_topology)\<rparr>"


end
