(* ===== verification/Report_Kinds.thy ===== *)
theory Report_Kinds
  imports Output_Printer Health_Contract Topology_Fit
begin

text \<open>
  The two reports as kinds of the output contract: the type each declares, which is what
  \<^verbatim>\<open>--fields\<close> names paths of, and the document each marshals to. A nil slice or map is written as
  an empty one by the \<^verbatim>\<open>MarshalJSON\<close> methods, so nothing distinguishes the two here; a field with
  \<^verbatim>\<open>omitempty\<close> is left out when it has its zero value.
\<close>

subsection \<open>Types\<close>

definition own_field :: "string \<Rightarrow> string \<Rightarrow> gotype \<Rightarrow> StructField" where
  "own_field name tag t = \<lparr>sf_Name = name, sf_Tag = tag, sf_Exported = True, sf_Anonymous = False, sf_Type = t\<rparr>"

definition embedded :: "string \<Rightarrow> string \<Rightarrow> gotype \<Rightarrow> StructField" where
  "embedded name tag t = \<lparr>sf_Name = name, sf_Tag = tag, sf_Exported = True, sf_Anonymous = True, sf_Type = t\<rparr>"

definition object :: "StructField list \<Rightarrow> struct_decl" where
  "object fs = \<lparr>sd_Fields = fs, sd_scalar = False\<rparr>"

definition TypeMeta_decl :: struct_decl where
  "TypeMeta_decl = object [own_field ''Kind'' ''kind,omitempty'' GScalar, own_field ''APIVersion'' ''apiVersion,omitempty'' GScalar]"

definition Finding_decl :: struct_decl where
  "Finding_decl = object [own_field ''Code'' ''code,omitempty'' GScalar, own_field ''Severity'' ''severity,omitempty'' GScalar,
     own_field ''Node'' ''node,omitempty'' GScalar, own_field ''Component'' ''component,omitempty'' GScalar,
     own_field ''Message'' ''message,omitempty'' GScalar, own_field ''Evidence'' ''evidence'' GMap,
     own_field ''Docs'' ''docs,omitempty'' GScalar, own_field ''Next'' ''next,omitempty'' GScalar]"

definition Unreachable_decl :: struct_decl where
  "Unreachable_decl = object [own_field ''Resource'' ''resource,omitempty'' GScalar, own_field ''Node'' ''node,omitempty'' GScalar,
     own_field ''Reason'' ''reason,omitempty'' GScalar]"

definition ReportStatus_decl :: struct_decl where
  "ReportStatus_decl = object [own_field ''Findings'' ''findings'' (GSlice (GStruct ''Finding'')),
     own_field ''Partial'' ''partial,omitempty'' GScalar,
     own_field ''Unreachable'' ''unreachable,omitempty'' (GSlice (GStruct ''Unreachable'')),
     own_field ''RemainingItemCount'' ''remainingItemCount,omitempty'' (GPointer GScalar)]"

definition Summary_decl :: struct_decl where
  "Summary_decl = object [own_field ''Errors'' ''errors'' GScalar, own_field ''Warnings'' ''warnings'' GScalar,
     own_field ''Infos'' ''infos'' GScalar, own_field ''NodesChecked'' ''nodesChecked'' GScalar,
     own_field ''GPUCapacity'' ''gpuCapacity'' GScalar, own_field ''GPUAllocatable'' ''gpuAllocatable'' GScalar,
     own_field ''GPURequested'' ''gpuRequested'' GScalar, own_field ''GPURequestedKnown'' ''gpuRequestedKnown'' GScalar]"

definition HealthReport_decl :: struct_decl where
  "HealthReport_decl = object [embedded ''TypeMeta'' '',inline'' (GStruct ''TypeMeta''),
     embedded ''ObjectMeta'' ''metadata,omitzero'' (GStruct objectMeta),
     embedded ''ReportStatus'' '',inline'' (GStruct ''ReportStatus''), own_field ''Summary'' ''summary'' (GStruct ''Summary'')]"

definition Group_decl :: struct_decl where
  "Group_decl = object [own_field ''Value'' ''value'' GScalar, own_field ''Nodes'' ''nodes'' (GSlice GScalar),
     own_field ''NodeCount'' ''nodeCount'' GScalar, own_field ''Allocatable'' ''allocatable'' GScalar,
     own_field ''Requested'' ''requested'' GScalar, own_field ''Free'' ''free'' GScalar,
     own_field ''LargestFreeNode'' ''largestFreeNode'' GScalar, own_field ''RequestedKnown'' ''requestedKnown'' GScalar]"

definition Level_decl :: struct_decl where
  "Level_decl = object [own_field ''Name'' ''name'' GScalar, own_field ''Label'' ''label'' GScalar,
     own_field ''Source'' ''source'' GScalar, own_field ''Groups'' ''groups'' (GSlice (GStruct ''Group''))]"

definition PartialNode_decl :: struct_decl where
  "PartialNode_decl = object [own_field ''Name'' ''name'' GScalar, own_field ''Present'' ''present'' (GSlice GScalar),
     own_field ''Missing'' ''missing'' (GSlice GScalar)]"

definition KueueStatus_decl :: struct_decl where
  "KueueStatus_decl = object [own_field ''Installed'' ''installed'' GScalar, own_field ''Reason'' ''reason,omitempty'' GScalar]"

definition LevelFit_decl :: struct_decl where
  "LevelFit_decl = object [own_field ''Level'' ''level'' GScalar, own_field ''Label'' ''label'' GScalar,
     own_field ''Groups'' ''groups'' (GSlice GScalar)]"

definition JobFit_decl :: struct_decl where
  "JobFit_decl = object [own_field ''Namespace'' ''namespace'' GScalar, own_field ''Name'' ''name'' GScalar,
     own_field ''Pods'' ''pods'' GScalar, own_field ''GPUsPerPod'' ''gpusPerPod'' GScalar,
     own_field ''Levels'' ''levels'' (GSlice (GStruct ''LevelFit'')), own_field ''Smallest'' ''smallest'' GScalar,
     own_field ''Excluded'' ''excluded'' (GSlice GScalar)]"

definition TopologyReport_decl :: struct_decl where
  "TopologyReport_decl = object [embedded ''TypeMeta'' '',inline'' (GStruct ''TypeMeta''),
     embedded ''ObjectMeta'' ''metadata,omitzero'' (GStruct objectMeta),
     own_field ''Levels'' ''levels'' (GSlice (GStruct ''Level'')),
     own_field ''PartialNodes'' ''partialNodes'' (GSlice (GStruct ''PartialNode'')),
     own_field ''Kueue'' ''kueue'' (GStruct ''KueueStatus''), own_field ''Fit'' ''fit,omitempty'' (GPointer (GStruct ''JobFit'')),
     own_field ''Status'' ''status'' (GStruct ''ReportStatus'')]"

lemmas field_defs = own_field_def embedded_def object_def
lemmas decl_defs = TypeMeta_decl_def Finding_decl_def Unreachable_decl_def ReportStatus_decl_def Summary_decl_def HealthReport_decl_def
  Group_decl_def Level_decl_def PartialNode_decl_def KueueStatus_decl_def LevelFit_decl_def JobFit_decl_def TopologyReport_decl_def

definition report_decls :: decls where
  "report_decls = [(''TypeMeta'', TypeMeta_decl), (''Finding'', Finding_decl), (''Unreachable'', Unreachable_decl),
     (''ReportStatus'', ReportStatus_decl), (''Summary'', Summary_decl), (''HealthReport'', HealthReport_decl),
     (''Group'', Group_decl), (''Level'', Level_decl), (''PartialNode'', PartialNode_decl), (''KueueStatus'', KueueStatus_decl),
     (''LevelFit'', LevelFit_decl), (''JobFit'', JobFit_decl), (''TopologyReport'', TopologyReport_decl)]"

subsection \<open>Documents\<close>

definition APIVersion :: string where "APIVersion = ''kubectl-nv.nvidia.com/v1alpha1''"
definition KindHealthReport :: string where "KindHealthReport = ''HealthReport''"
definition KindTopologyReport :: string where "KindTopologyReport = ''TopologyReport''"

definition TypeMetaFor :: "string \<Rightarrow> json gomap" where
  "TypeMetaFor k = [(''kind'', JString k), (''apiVersion'', JString APIVersion)]"

definition nonempty :: "string \<Rightarrow> string \<Rightarrow> json gomap" where
  "nonempty key v = (if v = [] then [] else [(key, JString v)])"

definition jstrings :: "string list \<Rightarrow> json" where "jstrings xs = JList (map JString xs)"

definition Finding_MarshalJSON :: "Finding \<Rightarrow> json" where
  "Finding_MarshalJSON f = JMap (nonempty ''code'' (f_Code f) @ nonempty ''severity'' (f_Severity f) @ nonempty ''node'' (f_Node f)
     @ nonempty ''component'' (f_Component f) @ nonempty ''message'' (f_Message f)
     @ [(''evidence'', JMap (map (\<lambda>(k, v). (k, JString v)) (f_Evidence f)))]
     @ nonempty ''docs'' (f_Docs f) @ nonempty ''next'' (f_Next f))"

definition Unreachable_json :: "Unreachable \<Rightarrow> json" where
  "Unreachable_json u = JMap (nonempty ''resource'' (u_Resource u) @ nonempty ''node'' (u_Node u) @ nonempty ''reason'' (u_Reason u))"

definition ReportStatus_MarshalJSON :: "ReportStatus \<Rightarrow> json gomap" where
  "ReportStatus_MarshalJSON s = [(''findings'', JList (map Finding_MarshalJSON (rs_Findings s)))]
     @ (if rs_Partial s then [(''partial'', JBool True)] else [])
     @ (if rs_Unreachable s = [] then [] else [(''unreachable'', JList (map Unreachable_json (rs_Unreachable s)))])
     @ (case rs_RemainingItemCount s of None \<Rightarrow> [] | Some n \<Rightarrow> [(''remainingItemCount'', JInt n)])"

definition Summary_json :: "Summary \<Rightarrow> json" where
  "Summary_json s = JMap [(''errors'', JInt (s_Errors s)), (''warnings'', JInt (s_Warnings s)), (''infos'', JInt (s_Infos s)),
     (''nodesChecked'', JInt (s_NodesChecked s)), (''gpuCapacity'', JInt (s_GPUCapacity s)),
     (''gpuAllocatable'', JInt (s_GPUAllocatable s)), (''gpuRequested'', JInt (s_GPURequested s)),
     (''gpuRequestedKnown'', JBool (s_GPURequestedKnown s))]"

definition HealthReport_MarshalJSON :: "HealthReport \<Rightarrow> json gomap" where
  "HealthReport_MarshalJSON r = TypeMetaFor KindHealthReport
     @ (if hr_Name r = [] then [] else [(''metadata'', JMap [(''name'', JString (hr_Name r))])])
     @ ReportStatus_MarshalJSON (hr_Status r) @ [(''summary'', Summary_json (hr_Summary r))]"

definition Group_MarshalJSON :: "Group \<Rightarrow> json" where
  "Group_MarshalJSON g = JMap [(''value'', JString (gr_Value g)), (''nodes'', jstrings (gr_Nodes g)), (''nodeCount'', JInt (gr_NodeCount g)),
     (''allocatable'', JInt (gr_Allocatable g)), (''requested'', JInt (gr_Requested g)), (''free'', JInt (gr_Free g)),
     (''largestFreeNode'', JInt (gr_LargestFreeNode g)), (''requestedKnown'', JBool (gr_RequestedKnown g))]"

definition Level_MarshalJSON :: "Level \<Rightarrow> json" where
  "Level_MarshalJSON l = JMap [(''name'', JString (lv_Name l)), (''label'', JString (lv_Label l)), (''source'', JString (lv_Source l)),
     (''groups'', JList (map Group_MarshalJSON (lv_Groups l)))]"

definition PartialNode_MarshalJSON :: "PartialNode \<Rightarrow> json" where
  "PartialNode_MarshalJSON p = JMap [(''name'', JString (pn_Name p)), (''present'', jstrings (pn_Present p)), (''missing'', jstrings (pn_Missing p))]"

definition KueueStatus_json :: "KueueStatus \<Rightarrow> json" where
  "KueueStatus_json k = JMap ((''installed'', JBool (ks_Installed k)) # nonempty ''reason'' (ks_Reason k))"

definition LevelFit_MarshalJSON :: "LevelFit \<Rightarrow> json" where
  "LevelFit_MarshalJSON f = JMap [(''level'', JString (lf_Level f)), (''label'', JString (lf_Label f)), (''groups'', jstrings (lf_Groups f))]"

definition JobFit_MarshalJSON :: "JobFit \<Rightarrow> json" where
  "JobFit_MarshalJSON f = JMap [(''namespace'', JString (jf_Namespace f)), (''name'', JString (jf_Name f)), (''pods'', JInt (jf_Pods f)),
     (''gpusPerPod'', JInt (jf_GPUsPerPod f)), (''levels'', JList (map LevelFit_MarshalJSON (jf_Levels f))),
     (''smallest'', JString (jf_Smallest f)), (''excluded'', jstrings (jf_Excluded f))]"

text \<open>The report carries no name, so its metadata is left out.\<close>

definition TopologyReport_MarshalJSON :: "TopologyReport \<Rightarrow> json gomap" where
  "TopologyReport_MarshalJSON r = TypeMetaFor KindTopologyReport
     @ [(''levels'', JList (map Level_MarshalJSON (tr_Levels r))),
        (''partialNodes'', JList (map PartialNode_MarshalJSON (tr_PartialNodes r))),
        (''kueue'', KueueStatus_json (tr_Kueue r))]
     @ (case tr_Fit r of None \<Rightarrow> [] | Some fit \<Rightarrow> [(''fit'', JobFit_MarshalJSON fit)])
     @ [(''status'', JMap (ReportStatus_MarshalJSON (tr_Status r)))]"

subsection \<open>Kinds\<close>

definition health_kind :: "HealthReport kind" where
  "health_kind = \<lparr>k_Kind = KindHealthReport, k_GoType = ''*health.HealthReport'',
     k_Table = Some (HealthReport_TableColumns, HealthReport_TableRows), k_document = HealthReport_MarshalJSON,
     k_limiting = Limitable HealthReport_LimitItems, k_decls = report_decls, k_type = GPointer (GStruct ''HealthReport''),
     k_items = (\<lambda>_. None), k_name = hr_Name\<rparr>"

definition topology_kind :: "TopologyReport kind" where
  "topology_kind = \<lparr>k_Kind = KindTopologyReport, k_GoType = ''*topology.TopologyReport'',
     k_Table = Some (TopologyReport_TableColumns, TopologyReport_TableRows), k_document = TopologyReport_MarshalJSON,
     k_limiting = Limitable TopologyReport_LimitItems, k_decls = report_decls, k_type = GPointer (GStruct ''TopologyReport''),
     k_items = (\<lambda>_. None), k_name = (\<lambda>_. [])\<rparr>"

lemmas kind_defs = health_kind_def topology_kind_def KindHealthReport_def KindTopologyReport_def

lemma health_vocabulary:
  "set (alwaysKept @ [''findings.node'', ''findings.code'', ''findings.severity'', ''findings.component'', ''findings.message'', ''findings.next''])
     \<subseteq> set (FieldPaths report_decls (GPointer (GStruct ''HealthReport'')))"
  by code_simp

lemma topology_vocabulary:
  "set (alwaysKept @ [''levels.name'', ''levels.groups.value'', ''levels.groups.nodeCount'', ''levels.groups.allocatable'',
      ''levels.groups.requested'', ''levels.groups.requestedKnown'', ''levels.groups.free'', ''levels.groups.largestFreeNode'',
      ''levels.groups.nodes'', ''fit.levels.level'', ''fit.levels.groups''])
     \<subseteq> set (FieldPaths report_decls (GPointer (GStruct ''TopologyReport'')))"
  by code_simp

subsection \<open>Properties\<close>

text \<open>
  C37 (columns_can_be_asked_for). Every path a column of the health or the topology table renders
  is one \<^verbatim>\<open>--fields\<close> accepts for that kind, and so are the paths no projection drops: a column can
  always be asked for by name.
\<close>

theorem columns_can_be_asked_for:
  "set (alwaysKept @ concat (map col_Fields (HealthReport_TableColumns h wide))) \<subseteq> set (FieldPaths (k_decls health_kind) (k_type health_kind))
   \<and> set (alwaysKept @ concat (map col_Fields (TopologyReport_TableColumns t wide))) \<subseteq> set (FieldPaths (k_decls topology_kind) (k_type topology_kind))"
proof
  have "set (concat (map col_Fields (HealthReport_TableColumns h wide)))
      \<subseteq> {''findings.node'', ''findings.code'', ''findings.severity'', ''findings.component'', ''findings.message'', ''findings.next''}"
    by (auto simp: HealthReport_TableColumns_def OneField_def)
  then show "set (alwaysKept @ concat (map col_Fields (HealthReport_TableColumns h wide))) \<subseteq> set (FieldPaths (k_decls health_kind) (k_type health_kind))"
    using health_vocabulary by (auto simp: health_kind_def)
  have "set (concat (map col_Fields (TopologyReport_TableColumns t wide)))
      \<subseteq> {''levels.name'', ''levels.groups.value'', ''levels.groups.nodeCount'', ''levels.groups.allocatable'',
      ''levels.groups.requested'', ''levels.groups.requestedKnown'', ''levels.groups.free'', ''levels.groups.largestFreeNode'',
      ''levels.groups.nodes'', ''fit.levels.level'', ''fit.levels.groups''}"
    by (auto simp: TopologyReport_TableColumns_def OneField_def)
  then show "set (alwaysKept @ concat (map col_Fields (TopologyReport_TableColumns t wide))) \<subseteq> set (FieldPaths (k_decls topology_kind) (k_type topology_kind))"
    using topology_vocabulary by (auto simp: topology_kind_def)
qed

text \<open>
  A limited health report printed as a table shows the rows of the
  first findings and no more than the limit of them, all of them when there are fewer; and the
  error stream says how many there were exactly when some were left out.
\<close>

theorem limited_report_is_noted:
  assumes "oo_Format opts = FormatTable" "0 < oo_Limit opts" "oo_Fields opts = []"
  shows "\<exists>headers rows. PrintBounded opts health_kind r = (Inr (PTable headers rows),
      if oo_Limit opts < int (length (rs_Findings (hr_Status r)))
      then [truncation_note (oo_Limit opts) (int (length (rs_Findings (hr_Status r))))] else [])
    \<and> rows = take (nat (oo_Limit opts)) (map (map sanitizeCell) (HealthReport_TableRows r False))"
proof -
  let ?n = "oo_Limit opts" and ?fs = "rs_Findings (hr_Status r)"
  let ?l = "limitReport HealthReport_LimitItems r ?n"
  note cut = limitable.limit_report [OF health_limit.limitable_axioms assms(2), of r]
  have width: "length row = 5" if "row \<in> set (HealthReport_TableRows x False)" for x row
    using that by (auto simp: HealthReport_TableRows_def finding_row_def)
  have "map (\<lambda>i. sanitizeCell (row ! i)) [0..<5] = map sanitizeCell row" if "length row = 5" for row :: "string list"
    using that map_nth [of row] by (metis (no_types, lifting) map_map map_eq_conv comp_def)
  then have cells: "map (\<lambda>row. map (\<lambda>i. sanitizeCell (row ! i)) [0..<5]) (HealthReport_TableRows x False)
      = map (map sanitizeCell) (HealthReport_TableRows x False)" for x
    using width by (intro map_cong) auto
  have columns: "length (HealthReport_TableColumns x False) = 5" for x by (simp add: HealthReport_TableColumns_def)
  have "TablePrinter_PrintObj health_kind False [] x = (Inr (PTable (map col_Header (HealthReport_TableColumns x False))
      (map (map sanitizeCell) (HealthReport_TableRows x False))), None)" for x
  proof -
    have "map (\<lambda>i. col_Header (HealthReport_TableColumns x False ! i)) [0..<5] = map col_Header (HealthReport_TableColumns x False)"
      using columns [of x] map_nth [of "HealthReport_TableColumns x False"] by (metis (no_types, lifting) map_map map_eq_conv comp_def)
    then show ?thesis
      using first_bad_row_None [of 0 5 "HealthReport_TableRows x False"] width cells [of x]
      by (simp add: TablePrinter_PrintObj_def health_kind_def columns noteUnrendered_def Let_def)
  qed
  moreover have "HealthReport_TableRows (fst ?l) False = take (nat ?n) (HealthReport_TableRows r False)"
    using cut(1) by (simp add: HealthReport_TableRows_def take_map)
  moreover have "applyLimit health_kind r ?n = Inr (fst ?l, int (length ?fs), ?n < int (length ?fs))"
    using assms(2) cut(2) by (simp add: applyLimit_def health_kind_def) (metis prod.collapse)
  ultimately show ?thesis
    using assms by (auto simp: PrintBounded_def ParseFormat_def formats_def format_defs validateFields_def print_as_def take_map)
qed

theorem limited_report_is_noted_witness:
  "\<exists>headers rows. PrintBounded \<lparr>oo_Format = ''table'', oo_Fields = [], oo_Limit = 1\<rparr> health_kind
     (NewHealthReport\<lparr>hr_Status := \<lparr>rs_Findings = replicate 3 undefined, rs_Partial = False, rs_Unreachable = [], rs_RemainingItemCount = None\<rparr>\<rparr>)
     = (Inr (PTable headers rows), [''note: showing 1 of 3 items (--limit 1)'']) \<and> length rows = 1"
proof -
  have "truncation_note 1 3 = ''note: showing 1 of 3 items (--limit 1)''" by code_simp
  then show ?thesis
    using limited_report_is_noted [of "\<lparr>oo_Format = ''table'', oo_Fields = [], oo_Limit = 1\<rparr>" "NewHealthReport\<lparr>hr_Status :=
      \<lparr>rs_Findings = replicate 3 undefined, rs_Partial = False, rs_Unreachable = [], rs_RemainingItemCount = None\<rparr>\<rparr>"]
    by (auto simp: FormatTable_def HealthReport_TableRows_def)
qed

end
