(* ===== verification/Health_Command.thy ===== *)
theory Health_Command
  imports Health_Engine Report_Kinds
begin

text \<open>
  \<^verbatim>\<open>pkg/cmd/health/health.go\<close>: the command. It checks its flags, reads what the rules may see,
  runs the engine over it, prints the report and turns the report into the exit status. The
  clock and whether a write to the output stream fails are parameters.
\<close>

subsection \<open>The version of the operator\<close>

definition operatorSelector :: string where "operatorSelector = ''app=gpu-operator''"

text \<open>What follows the last slash, or all of a name without one.\<close>

definition after_last :: "char \<Rightarrow> string \<Rightarrow> string" where
  "after_last c s = rev (takeWhile (\<lambda>x. x \<noteq> c) (rev s))"

definition OperatorVersionFromImage :: "string \<Rightarrow> string" where
  "OperatorVersionFromImage img =
     (if img = [] then []
      else let name = after_last CHR ''/'' img;
               name = takeWhile (\<lambda>c. c \<noteq> CHR ''@'') name
        in case strings_Cut name CHR '':'' of None \<Rightarrow> []
           | Some (_, tag) \<Rightarrow> if CHR '':'' \<in> set tag then [] else tag)"

definition operatorVersion :: "Pod list \<Rightarrow> string" where
  "operatorVersion pods =
     (case find (\<lambda>v. v \<noteq> []) (map (\<lambda>c. OperatorVersionFromImage (c_Image c)) (concat (map (\<lambda>p. spec_Containers (pod_Spec p)) pods))) of
        None \<Rightarrow> [] | Some v \<Rightarrow> v)"

subsection \<open>Reading the input\<close>

definition health_build_options :: BuildOptions where
  "health_build_options = \<lparr>bo_Node = [], bo_Selector = [], bo_NoPods = False, bo_IncludeHinted = True, bo_WithDetails = True\<rparr>"

text \<open>The input, the reads that were denied and the failure that means the run did not happen.\<close>

definition empty_input :: Input where
  "empty_input = \<lparr>in_Nodes = [], in_Hinted = [], in_ClusterPolicies = [], in_ComputeDomains = [], in_ResourceSlices = [],
     in_OperatorVersion = [], in_OperatorInstalled = False, in_Events = [], in_Now = 0\<rparr>"

definition unless_err :: "'a \<Rightarrow> goerr option \<Rightarrow> 'a \<Rightarrow> 'a" where
  "unless_err zero err x = (case err of None \<Rightarrow> x | Some _ \<Rightarrow> zero)"

definition buildInput :: "selector_parser \<Rightarrow> time \<Rightarrow> 's Source \<Rightarrow> 's \<Rightarrow> (Input \<times> goerr option \<times> goerr option) \<times> 's" where
  "buildInput parse now src s =
     (let ((built, _, buildErr), s) = BuildWithHinted parse src health_build_options s
      in case built of None \<Rightarrow> ((empty_input, None, buildErr), s)
        | Some items \<Rightarrow>
            let ((policies, err1), s) = src_ClusterPolicies src s;
                policiesErr = (case err1 of None \<Rightarrow> None | Some e \<Rightarrow> if errors_Is e ErrNotInstalled then None else Some e);
                ((slices, err2), s) = src_ResourceSlices src s;
                ((operator, err3), s) = src_Pods src [] operatorSelector s;
                ((events, err4), s) = ReadNodeEvents src s;
                ((domains, err5), s) = ReadComputeDomains src s;
                partials = kept_err buildErr @ kept_err policiesErr @ kept_err err2 @ kept_err err3 @ kept_err err4 @ kept_err err5
            in ((\<lparr>in_Nodes = filter (\<lambda>n. \<not> g_Hinted n) items, in_Hinted = filter g_Hinted items,
                  in_ClusterPolicies = unless_err [] err1 policies, in_ComputeDomains = unless_err [] err5 domains,
                  in_ResourceSlices = unless_err [] err2 slices, in_OperatorVersion = operatorVersion operator,
                  in_OperatorInstalled = (operator \<noteq> []), in_Events = unless_err [] err4 events, in_Now = now\<rparr>,
                 errors_Join partials, None), s))"

subsection \<open>Printing and the exit status\<close>

record health_options =
  ho_node :: string
  ho_failOn :: string
  ho_summary :: bool
  ho_upgradeStuckAfter :: int
  ho_out :: OutputOptions

text \<open>What a run puts on its output stream: the report in the chosen format, and the summary line.\<close>

datatype shown = ShownReport printed | ShownLine string

text \<open>A write to the stream fails or not; \<open>write\<close> answers with the failure.\<close>

definition print_report :: "(printed \<Rightarrow> goerr option) \<Rightarrow> OutputOptions \<Rightarrow> HealthReport \<Rightarrow> shown list \<times> goerr option" where
  "print_report write out report = (case fst (PrintBounded out health_kind report) of
       Inl e \<Rightarrow> ([], Some (ErrFmt ''printing the health report: '' (Some e)))
     | Inr p \<Rightarrow> (case write p of Some e \<Rightarrow> ([], Some (ErrFmt ''printing the health report: '' (Some e)))
         | None \<Rightarrow> ([ShownReport p], None)))"

definition health_print :: "(printed \<Rightarrow> goerr option) \<Rightarrow> (string \<Rightarrow> goerr option) \<Rightarrow> health_options \<Rightarrow> string \<Rightarrow> HealthReport
    \<Rightarrow> shown list \<times> goerr option" where
  "health_print write writeLine opts format report =
     (if format \<noteq> FormatTable \<and> format \<noteq> FormatWide then print_report write (ho_out opts) report
      else let (out, err) = (if \<not> ho_summary opts \<and> rs_Findings (hr_Status report) \<noteq> []
                  then print_report write (ho_out opts) report else ([], None))
        in if err \<noteq> None then (out, err)
           else case writeLine (Line (hr_Summary report)) of
               Some e \<Rightarrow> (out, Some (ErrFmt ''printing the summary: '' (Some e)))
             | None \<Rightarrow> (out @ [ShownLine (Line (hr_Summary report))], None))"

definition findingsError :: "HealthReport \<Rightarrow> severity \<Rightarrow> goerr" where
  "findingsError report failOn = FindingsError (''found '' @ strconv_FormatInt (s_Errors (hr_Summary report)) @ '' errors, ''
     @ strconv_FormatInt (s_Warnings (hr_Summary report)) @ '' warnings and '' @ strconv_FormatInt (s_Infos (hr_Summary report))
     @ '' infos; --fail-on is '' @ failOn)"

definition exitFor :: "HealthReport \<Rightarrow> severity \<Rightarrow> goerr option \<Rightarrow> goerr option" where
  "exitFor report failOn inputErr =
     (let code = HealthReport_ExitCode report failOn in
      if code = ExitOK then None else if code = ExitPartial then inputErr else Some (findingsError report failOn))"

subsection \<open>The run\<close>

text \<open>
  \<^verbatim>\<open>run\<close> from the point where the source is known: the shown output and the error it returns.
\<close>

definition health_run :: "selector_parser \<Rightarrow> (printed \<Rightarrow> goerr option) \<Rightarrow> (string \<Rightarrow> goerr option) \<Rightarrow> time
    \<Rightarrow> goerr + 's Source \<Rightarrow> health_options \<Rightarrow> 's \<Rightarrow> shown list \<times> goerr option" where
  "health_run parse write writeLine now newSource opts s =
     (case ParseSeverity (ho_failOn opts) of Inl e \<Rightarrow> ([], Some e)
      | Inr failOn \<Rightarrow>
          if ho_upgradeStuckAfter opts \<le> 0
          then ([], Some (UsageError (''--upgrade-stuck-after must be positive, got '' @ duration_String (ho_upgradeStuckAfter opts)) None))
          else case OutputOptions_Validate (ho_out opts) health_kind of Some e \<Rightarrow> ([], Some e)
            | None \<Rightarrow> (case ParseFormat (oo_Format (ho_out opts)) of Inl e \<Rightarrow> ([], Some e)
                | Inr format \<Rightarrow> (case newSource of Inl e \<Rightarrow> ([], Some e)
                    | Inr src \<Rightarrow>
                        let ((i, inputErr, err), s) = buildInput parse now src s
                        in if err \<noteq> None then ([], err)
                           else case Run (map Some (AllWith (ho_upgradeStuckAfter opts))) i \<lparr>eo_Node = ho_node opts, eo_InputErr = inputErr\<rparr> of
                               Inl e \<Rightarrow> ([], Some e)
                             | Inr report \<Rightarrow>
                                 let (out, err) = health_print write writeLine opts format report
                                 in if err \<noteq> None then (out, err) else (out, exitFor report failOn inputErr))))"

definition RuleCount :: nat where
  "RuleCount = length All_rules"

subsection \<open>Lemmas\<close>

text \<open>
  What a source returns as an error exits 3 or 4, as far as the error itself says: nothing in it
  is a usage error or another of the program's errors with an exit code of its own.
\<close>

definition plain :: "goerr \<Rightarrow> bool" where
  "plain e \<longleftrightarrow> (\<forall>x \<in> set (err_tree e). err_ExitCode x \<in> {None, Some ExitPartial})"

definition plain_opt :: "goerr option \<Rightarrow> bool" where
  "plain_opt err \<longleftrightarrow> list_all plain (kept_err err)"

text \<open>A reader whose errors are plain as long as what it keeps between calls, the memo of a live reader, is.\<close>

definition plain_reader :: "('s \<Rightarrow> bool) \<Rightarrow> ('s, 'a) reader \<Rightarrow> bool" where
  "plain_reader I r \<longleftrightarrow> (\<forall>s. I s \<longrightarrow> plain_opt (snd (fst (r s))) \<and> I (snd (r s)))"

definition plain_source :: "('s \<Rightarrow> bool) \<Rightarrow> 's Source \<Rightarrow> bool" where
  "plain_source I src \<longleftrightarrow> plain_reader I (src_ClassifyNodes src) \<and> plain_reader I (src_ResourceSlices src)
     \<and> (\<forall>ns sel. plain_reader I (src_Pods src ns sel)) \<and> plain_reader I (src_ClusterPolicies src)
     \<and> plain_reader I (ReadNodeEvents src) \<and> plain_reader I (ReadComputeDomains src)"

lemma plain_read: "plain_reader I r \<Longrightarrow> I s \<Longrightarrow> r s = ((x, err), s') \<Longrightarrow> plain_opt err \<and> I s'"
  by (auto simp: plain_reader_def)

lemma plain_source_reads:
  assumes "plain_source I src" "I s"
  shows "src_ClassifyNodes src s = ((ns, err), s') \<Longrightarrow> plain_opt err \<and> I s'"
    "src_ResourceSlices src s = ((slices, err), s') \<Longrightarrow> plain_opt err \<and> I s'"
    "src_Pods src n sel s = ((pods, err), s') \<Longrightarrow> plain_opt err \<and> I s'"
    "src_ClusterPolicies src s = ((policies, err), s') \<Longrightarrow> plain_opt err \<and> I s'"
    "ReadNodeEvents src s = ((events, err), s') \<Longrightarrow> plain_opt err \<and> I s'"
    "ReadComputeDomains src s = ((domains, err), s') \<Longrightarrow> plain_opt err \<and> I s'"
  using assms by (auto simp: plain_source_def plain_reader_def) (metis fst_conv snd_conv)+

lemma plain_opt_simps [simp]: "plain_opt None" "plain_opt (Some e) = plain e"
  by (simp_all add: plain_opt_def kept_err_def)

lemma plain_simps [simp]:
  "plain (PartialError r e) = plain e" "plain (ErrFmt m (Some e)) = plain e" "plain (ErrFmt2 a b) \<longleftrightarrow> plain a \<and> plain b"
  "plain (ErrSentinel m)" "plain (ErrJoin es) \<longleftrightarrow> (\<forall>e \<in> set es. plain e)"
  by (auto simp: plain_def)

lemma plain_list: "plain_opt err \<Longrightarrow> e \<in> set (kept_err err) \<Longrightarrow> plain e"
  by (simp add: plain_opt_def list_all_iff)

lemma joinPartials_mem: "joinPartials es = Some e \<Longrightarrow> \<exists>es'. e = ErrJoin es' \<and> set es' \<subseteq> set es"
proof -
  have "set (joinPartials_loop es seen kept) \<subseteq> set kept \<union> set es" for seen kept
  proof (induction es arbitrary: seen kept)
    case (Cons e es)
    have "set (joinPartials_loop es sn (kept @ [e])) \<subseteq> insert e (set kept \<union> set es)"
      "set (joinPartials_loop es sn kept) \<subseteq> insert e (set kept \<union> set es)" for sn
      using Cons.IH [of sn "kept @ [e]"] Cons.IH [of sn kept] by auto
    then show ?case by (simp split: option.split goerr.split)
  qed simp
  then show "joinPartials es = Some e \<Longrightarrow> \<exists>es'. e = ErrJoin es' \<and> set es' \<subseteq> set es"
    by (fastforce simp: joinPartials_def errors_Join_def split: if_splits)
qed

lemma plain_build:
  assumes "plain_source I src" "I s" "BuildWithHinted parse src opts s = ((Some items, excluded, err), s')"
  shows "plain_opt err \<and> I s'"
proof (rule BuildWithHinted_Some [OF assms(3)])
  fix sel gpu hinted err1 s1 slices err2 s2 pods err3
  assume r: "src_ClassifyNodes src s = (((gpu, hinted), err1), s1)" "src_ResourceSlices src s1 = ((slices, err2), s2)"
    "(if bo_NoPods opts then (([], None), s2) else src_Pods src [] [] s2) = ((pods, err3), s')"
    and err: "err = joinPartials (kept_err err1 @ kept_err err2 @ kept_err err3)"
  have 1: "plain_opt err1 \<and> I s1" by (rule plain_source_reads(1) [OF assms(1,2) r(1)])
  have 2: "plain_opt err2 \<and> I s2" by (rule plain_source_reads(2) [OF assms(1) conjunct2 [OF 1] r(2)])
  have 3: "plain_opt err3 \<and> I s'"
  proof (cases "bo_NoPods opts")
    case False
    then have "src_Pods src [] [] s2 = ((pods, err3), s')" using r(3) by simp
    then show ?thesis by (rule plain_source_reads(3) [OF assms(1) conjunct2 [OF 2]])
  qed (use r(3) 2 in simp)
  have "plain_opt x \<Longrightarrow> e \<in> set (kept_err x) \<Longrightarrow> plain e" for x e by (cases x) (simp_all add: kept_err_def)
  then have "\<forall>e \<in> set (kept_err err1 @ kept_err err2 @ kept_err err3). plain e" using 1 2 3 by auto
  then have "plain_opt err" using err joinPartials_mem by (cases err) (simp, metis plain_opt_simps(2) plain_simps(5) subsetD)
  then show "plain_opt err \<and> I s'" using 3 by simp
qed

lemma plain_input:
  assumes src: "plain_source I src" and "I s" and b: "buildInput parse now src s = ((i, inputErr, None), s')"
  shows "plain_opt inputErr"
proof -
  obtain built excluded buildErr s0 where built: "BuildWithHinted parse src health_build_options s = ((built, excluded, buildErr), s0)" by (metis surj_pair)
  obtain policies err1 s1 where r1: "src_ClusterPolicies src s0 = ((policies, err1), s1)" by (metis surj_pair)
  obtain slices err2 s2 where r2: "src_ResourceSlices src s1 = ((slices, err2), s2)" by (metis surj_pair)
  obtain pods err3 s3 where r3: "src_Pods src [] operatorSelector s2 = ((pods, err3), s3)" by (metis surj_pair)
  obtain events err4 s4 where r4: "ReadNodeEvents src s3 = ((events, err4), s4)" by (metis surj_pair)
  obtain domains err5 s5 where r5: "ReadComputeDomains src s4 = ((domains, err5), s5)" by (metis surj_pair)
  show ?thesis
  proof (cases built)
    case None
    then show ?thesis using b built by (auto simp: buildInput_def)
  next
    case (Some items)
    let ?e1 = "case err1 of None \<Rightarrow> None | Some e \<Rightarrow> if errors_Is e ErrNotInstalled then None else Some e"
    have "inputErr = errors_Join (kept_err buildErr @ kept_err ?e1 @ kept_err err2 @ kept_err err3 @ kept_err err4 @ kept_err err5)"
      using b built r1 r2 r3 r4 r5 Some by (simp add: buildInput_def Let_def)
    moreover have p0: "plain_opt buildErr \<and> I s0" using plain_build [OF src \<open>I s\<close>] built Some by blast
    moreover have p1: "plain_opt err1 \<and> I s1" by (rule plain_source_reads(4) [OF src conjunct2 [OF p0] r1])
    moreover have p2: "plain_opt err2 \<and> I s2" by (rule plain_source_reads(2) [OF src conjunct2 [OF p1] r2])
    moreover have p3: "plain_opt err3 \<and> I s3" by (rule plain_source_reads(3) [OF src conjunct2 [OF p2] r3])
    moreover have p4: "plain_opt err4 \<and> I s4" by (rule plain_source_reads(5) [OF src conjunct2 [OF p3] r4])
    moreover have "plain_opt err5 \<and> I s5" by (rule plain_source_reads(6) [OF src conjunct2 [OF p4] r5])
    moreover have "plain_opt ?e1" using p1 by (cases err1) simp_all
    ultimately show ?thesis using plain_list by (auto simp: errors_Join_def)
  qed
qed

text \<open>The live reader: its errors are plain when those of the API client are, and so is its memo.\<close>

definition plain_api :: "api \<Rightarrow> bool" where
  "plain_api api \<longleftrightarrow> (\<forall>t e. api_Nodes (api t) = Inl e \<or> api_ResourceSlices (api t) = Inl e \<or> (\<exists>ns sel. api_Pods (api t) ns sel = Inl e)
     \<or> api_Events (api t) = Inl e \<or> (\<exists>g v r. api_Dynamic (api t) g v r = Inl e) \<or> (\<exists>g. api_Discovery (api t) g = Inl e) \<longrightarrow> plain e)"

definition plain_memo :: "Live \<Rightarrow> bool" where "plain_memo l \<longleftrightarrow> plain_opt (live_sliceErr l)"

lemma plain_memo_clock [simp]: "plain_memo (l\<lparr>live_clock := n\<rparr>) = plain_memo l"
  by (simp add: plain_memo_def)

lemma plain_apiD:
  assumes "plain_api api"
  shows "api_Nodes (api t) = Inl e \<Longrightarrow> plain e" "api_ResourceSlices (api t) = Inl e \<Longrightarrow> plain e"
    "api_Pods (api t) ns sel = Inl e \<Longrightarrow> plain e" "api_Events (api t) = Inl e \<Longrightarrow> plain e"
    "api_Dynamic (api t) g v r = Inl e \<Longrightarrow> plain e" "api_Discovery (api t) h = Inl e \<Longrightarrow> plain e"
  using assms unfolding plain_api_def by blast+

lemma live_plain_slices: "plain_api api \<Longrightarrow> plain_reader plain_memo (listResourceSlices api)"
  by (auto simp: plain_reader_def listResourceSlices_def readResourceSlices_def request_def plain_memo_def
      dest: plain_apiD split: sum.splits if_splits)

lemma live_plain:
  assumes "plain_api api"
  shows "plain_source plain_memo (live_source api)"
proof -
  note slices = plain_read [OF live_plain_slices [OF assms]]
  have "plain_reader plain_memo (Live_ClassifyNodes api)"
    unfolding plain_reader_def
  proof (intro allI impI)
    fix l assume l: "plain_memo l"
    let ?l = "l\<lparr>live_clock := live_clock l + 1\<rparr>"
    obtain ss err l2 where r: "listResourceSlices api ?l = ((ss, err), l2)" by (metis surj_pair)
    then have "plain_opt err" "plain_memo l2" using slices [OF _ r] l by simp_all
    then show "plain_opt (snd (fst (Live_ClassifyNodes api l))) \<and> plain_memo (snd (Live_ClassifyNodes api l))"
      using r l by (cases "api_Nodes (api (live_clock l))") (auto simp: Live_ClassifyNodes_def request_def dest: plain_apiD [OF assms])
  qed
  moreover have "plain_reader plain_memo (Live_ResourceSlices api)"
    using slices by (auto simp: plain_reader_def Live_ResourceSlices_def split: prod.splits option.splits) (metis plain_opt_simps(2))
  moreover have "plain_reader plain_memo (Live_Pods api ns sel)" "plain_reader plain_memo (Live_NodeEvents api)" for ns sel
    by (auto simp: plain_reader_def Live_Pods_def Live_NodeEvents_def request_def split: sum.splits dest: plain_apiD [OF assms])
  moreover have "plain_reader plain_memo (Live_ClusterPolicies api)"
    by (auto simp: plain_reader_def Live_ClusterPolicies_def ErrNotInstalled_def request_def split: sum.splits dest: plain_apiD [OF assms])
  moreover have "plain_reader plain_memo (Live_ComputeDomains api)"
    by (auto simp: plain_reader_def Live_ComputeDomains_def servesComputeDomains_def serves_def ErrComputeDomainDiscovery_def request_def
        split: sum.splits if_splits option.splits bool.splits dest: plain_apiD [OF assms])
  ultimately show ?thesis
    by (simp add: plain_source_def live_source_def ReadNodeEvents_def ReadComputeDomains_def plain_reader_def)
qed

lemma collectPartial_tree:
  "collectPartial e = Some ps \<Longrightarrow> ps \<noteq> [] \<Longrightarrow> \<exists>x \<in> set (err_tree e). is_PartialError x"
  "collectPartial_all es = Some ps \<Longrightarrow> ps \<noteq> [] \<Longrightarrow> \<exists>e \<in> set es. \<exists>x \<in> set (err_tree e). is_PartialError x"
proof (induction e and es arbitrary: ps and ps rule: collectPartial_collectPartial_all.induct)
  case (18 e es)
  then show ?case by (auto split: option.splits)
qed (auto split: option.splits)

lemma plain_partial_exit:
  assumes "plain e" "x \<in> set (err_tree e)" "is_PartialError x"
  shows "ExitCodeFor (Some e) = ExitPartial"
proof -
  have "err_ExitCode x \<noteq> None" using assms(3) by (cases x) simp_all
  then obtain y where y: "errors_As (\<lambda>x. err_ExitCode x \<noteq> None) e = Some y"
    using assms(2) errors_As_None_iff [of "\<lambda>x. err_ExitCode x \<noteq> None" e] by fastforce
  then have "err_ExitCode y \<noteq> None" "y \<in> set (err_tree e)" using errors_As_Some [OF y] by blast+
  then have "err_ExitCode y = Some ExitPartial" using assms(1) by (auto simp: plain_def)
  then show ?thesis using y by (simp add: ExitCodeFor_def)
qed

lemma run_partial:
  assumes "Run rules i \<lparr>eo_Node = node, eo_InputErr = inputErr\<rparr> = Inr r" "rs_Partial (hr_Status r)"
  obtains e ps where "inputErr = Some e" "collectPartial e = Some ps" "ps \<noteq> []"
proof -
  have "(case inputErr of None \<Rightarrow> Some [] | Some e \<Rightarrow> collectPartial e) \<noteq> None
      \<and> (case inputErr of None \<Rightarrow> Some [] | Some e \<Rightarrow> collectPartial e) \<noteq> Some []"
    using arg_cong [OF assms(1), of "map_sum (\<lambda>e. ExitCodeFor (Some e)) (\<lambda>r. rs_Partial (hr_Status r))"] assms(2)
    unfolding run_cases by (auto simp: Let_def split: if_splits)
  then show ?thesis using that by (cases inputErr) auto
qed

subsection \<open>Properties\<close>

text \<open>
  The version the rules are gated on is the tag of the operator's image,
  whatever registry, with or without a port, it was pulled from and whether or not a digest
  follows; an image pinned by digest alone has no version.
\<close>

theorem image_version:
  assumes "set name \<inter> {CHR ''/'', CHR ''@'', CHR '':''} = {}" "set tag \<inter> {CHR ''/'', CHR ''@'', CHR '':''} = {}"
    "CHR ''/'' \<notin> set digest" "pinned = [] \<or> pinned = CHR ''@'' # digest"
  shows "OperatorVersionFromImage (registry @ ''/'' @ name @ '':'' @ tag @ pinned) = tag
    \<and> OperatorVersionFromImage (registry @ ''/'' @ name @ pinned) = []"
proof -
  have after: "after_last CHR ''/'' (registry @ ''/'' @ x) = x" if "CHR ''/'' \<notin> set x" for x
  proof -
    have "takeWhile (\<lambda>c. c \<noteq> CHR ''/'') (rev x @ CHR ''/'' # rev registry) = rev x" using that by (subst takeWhile_append2) auto
    then show ?thesis by (simp add: after_last_def)
  qed
  have digest_cut: "takeWhile (\<lambda>c. c \<noteq> CHR ''@'') (x @ pinned) = x" if "CHR ''@'' \<notin> set x" for x
    using assms(4) that by (subst takeWhile_append2) auto
  have "OperatorVersionFromImage (registry @ ''/'' @ x @ pinned) = (case strings_Cut x CHR '':'' of None \<Rightarrow> []
      | Some (_, t) \<Rightarrow> if CHR '':'' \<in> set t then [] else t)" if "CHR ''/'' \<notin> set x" "CHR ''@'' \<notin> set x" for x
  proof -
    have "CHR ''/'' \<notin> set (x @ pinned)" using that(1) assms(3,4) by auto
    then show ?thesis unfolding OperatorVersionFromImage_def Let_def after [OF \<open>CHR ''/'' \<notin> set (x @ pinned)\<close>] digest_cut [OF that(2)] by simp
  qed
  note this [of "name @ '':'' @ tag"] this [of name]
  moreover have "dropWhile (\<lambda>x. x \<noteq> CHR '':'') (name @ CHR '':'' # tag) = CHR '':'' # tag"
    using assms(1) by (subst dropWhile_append2) auto
  ultimately show ?thesis using assms(1,2) by (auto simp: strings_Cut_def)
qed

theorem image_version_witness:
  "OperatorVersionFromImage ''registry:5000/nvidia/gpu-operator:v25.3.0@sha256:ab'' = ''v25.3.0''
   \<and> OperatorVersionFromImage ''registry:5000/nvidia/gpu-operator@sha256:ab'' = []"
  using image_version [of "''gpu-operator''" "''v25.3.0''" "''sha256:ab''" "''@sha256:ab''" "''registry:5000/nvidia''"] by simp

text \<open>
  C11 (health_exit_status). A run whose flags are valid, whose reads gave a report and whose
  output was written exits 1 exactly when some finding of the report is at or above
  \<^verbatim>\<open>--fail-on\<close>, else 3 exactly when the report is partial, else 0, and in a table format the
  summary line is the last thing it prints.
\<close>

theorem health_exit_status:
  assumes "plain_source I src \<and> I s" "ParseSeverity (ho_failOn opts) = Inr failOn" "0 < ho_upgradeStuckAfter opts"
    "OutputOptions_Validate (ho_out opts) health_kind = None" "buildInput parse now src s = ((i, inputErr, None), s')"
    "Run (map Some (AllWith (ho_upgradeStuckAfter opts))) i \<lparr>eo_Node = ho_node opts, eo_InputErr = inputErr\<rparr> = Inr report"
    and run: "health_run parse (\<lambda>_. None) (\<lambda>_. None) now (Inr src) opts s = (out, err)"
  shows "ExitCodeFor err = (if \<exists>f \<in> set (rs_Findings (hr_Status report)). rank failOn \<le> rank (f_Severity f) then 1
      else if rs_Partial (hr_Status report) then 3 else 0)
    \<and> (oo_Format (ho_out opts) \<in> {[], ''table'', ''wide''} \<longrightarrow> last out = ShownLine (Line (hr_Summary report)) \<and> out \<noteq> [])"
proof -
  have failOn: "failOn \<noteq> []" using ParseSeverity_Inr [OF assms(2)] by (auto simp: severities_def severity_defs)
  have table: "k_Kind health_kind \<noteq> []" "k_Table health_kind = Some (HealthReport_TableColumns, HealthReport_TableRows)"
    by (simp_all add: kind_defs)
  obtain p noted where "PrintBounded (ho_out opts) health_kind report = (Inr p, noted)"
    using printable [OF table health_table.row_width assms(4)] by blast
  then have printed: "print_report (\<lambda>_. None) (ho_out opts) report = ([ShownReport p], None)" by (simp add: print_report_def)
  obtain format where f: "ParseFormat (oo_Format (ho_out opts)) = Inr format"
    using assms(4) by (auto simp: OutputOptions_Validate_def split: sum.splits)
  have "\<exists>shown. health_print (\<lambda>_. None) (\<lambda>_. None) opts format report = (shown, None)
      \<and> (format \<in> {FormatTable, FormatWide} \<longrightarrow> shown \<noteq> [] \<and> last shown = ShownLine (Line (hr_Summary report)))"
    by (simp add: health_print_def printed)
  then obtain shown where shown: "health_print (\<lambda>_. None) (\<lambda>_. None) opts format report = (shown, None)"
    "format \<in> {FormatTable, FormatWide} \<Longrightarrow> shown \<noteq> [] \<and> last shown = ShownLine (Line (hr_Summary report))" by blast
  then have out: "out = shown" "err = exitFor report failOn inputErr"
    using run assms(2-6) f by (simp_all add: health_run_def)
  have code: "HealthReport_ExitCode report failOn = (if \<exists>f \<in> set (rs_Findings (hr_Status report)). rank failOn \<le> rank (f_Severity f) then 1
      else if rs_Partial (hr_Status report) then 3 else 0)"
    using failOn by (simp add: HealthReport_ExitCode_def ExitCode_def ExitCode_loop_iff Let_def)
  have "ExitCodeFor (exitFor report failOn inputErr) = HealthReport_ExitCode report failOn"
  proof (cases "HealthReport_ExitCode report failOn = 3")
    case True
    then have "rs_Partial (hr_Status report)" using code by (simp split: if_splits)
    from run_partial [OF assms(6) this] obtain e ps where e: "inputErr = Some e" "collectPartial e = Some ps" "ps \<noteq> []" .
    have "plain e" using plain_input [OF conjunct1 [OF assms(1)] conjunct2 [OF assms(1)] assms(5)] e(1) by simp
    then show ?thesis using collectPartial_tree(1) [OF e(2,3)] plain_partial_exit True e(1) by (auto simp: exitFor_def)
  next
    case False
    then show ?thesis using code by (auto simp: exitFor_def findingsError_def ExitCodeFor_def errors_As_self split: if_splits)
  qed
  moreover have "oo_Format (ho_out opts) \<in> {[], ''table'', ''wide''} \<Longrightarrow> format \<in> {FormatTable, FormatWide}"
    using f by (auto simp: ParseFormat_Inr formats_def format_defs)
  ultimately show ?thesis using code shown(2) out by auto
qed

definition sample_options :: health_options where
  "sample_options = \<lparr>ho_node = [], ho_failOn = ''info'', ho_summary = False, ho_upgradeStuckAfter = 1,
     ho_out = \<lparr>oo_Format = ''table'', oo_Fields = [], oo_Limit = 0\<rparr>\<rparr>"

abbreviation sample_refusal :: goerr where
  "sample_refusal \<equiv> PartialError ''resourceslices'' (ErrStatus ''Forbidden'' 403 ''denied'')"

abbreviation sample_live :: "nat \<Rightarrow> Live" where
  "sample_live n \<equiv> \<lparr>live_slices = [], live_sliceErr = Some sample_refusal, live_sliceRead = True, live_clock = n\<rparr>"

lemma sample_reads:
  "Live_ClassifyNodes sample_api NewLive = ((([], []), Some sample_refusal), sample_live 2)"
  "Live_ResourceSlices sample_api (sample_live n) = (([], Some sample_refusal), sample_live n)"
  "Live_Pods sample_api ns sel (sample_live n) = (([], None), sample_live (n + 1))"
  "Live_ClusterPolicies sample_api (sample_live n) = (([], None), sample_live (n + 1))"
  "Live_NodeEvents sample_api (sample_live n) = (([], None), sample_live (n + 1))"
  "Live_ComputeDomains sample_api (sample_live n) = (([], None), sample_live (n + 1))"
proof -
  have "\<not> context_dead (Some sample_refusal)" by (simp add: context_dead_def errors_Is_def Canceled_def DeadlineExceeded_def)
  moreover have "classifyNodes [] m = ([], [])" for m by (simp add: classifyNodes_def sortByName_def sort_Slice_def)
  ultimately show "Live_ClassifyNodes sample_api NewLive = ((([], []), Some sample_refusal), sample_live 2)"
    by (simp add: Live_ClassifyNodes_def listResourceSlices_def readResourceSlices_def request_def sample_api_def sample_denied NewLive_def)
qed (simp_all add: Live_ResourceSlices_def listResourceSlices_def Live_Pods_def Live_ClusterPolicies_def Live_NodeEvents_def
    Live_ComputeDomains_def servesComputeDomains_def serves_def request_def sample_api_def onlyNodeEvents_def)

lemma sample_input_read:
  "\<exists>i s'. buildInput (\<lambda>_. Inr (\<lambda>_. True)) 0 (live_source sample_api) NewLive = ((i, Some (ErrJoin [ErrJoin [sample_refusal], sample_refusal]), None), s')"
proof -
  have "errors_As is_PartialError sample_refusal = Some sample_refusal" by (rule errors_As_self) simp
  then have "\<not> fatal (Some sample_refusal)" "joinPartials [sample_refusal, sample_refusal] = Some (ErrJoin [sample_refusal])"
    by (simp_all add: fatal_def isPartial_def joinPartials_def errors_Join_def)
  then have "\<exists>items excluded. BuildWithHinted (\<lambda>_. Inr (\<lambda>_. True)) (live_source sample_api) health_build_options NewLive
      = ((Some items, excluded, Some (ErrJoin [sample_refusal])), sample_live 3)"
    by (simp add: BuildWithHinted_def parseSelector_def health_build_options_def live_source_def sample_reads fatal_def kept_err_def split_beta)
  then show ?thesis
    by (auto simp: buildInput_def live_source_def ReadNodeEvents_def ReadComputeDomains_def sample_reads kept_err_def errors_Join_def)
qed

theorem health_exit_status_witness:
  "ExitCodeFor (snd (health_run (\<lambda>_. Inr (\<lambda>_. True)) (\<lambda>_. None) (\<lambda>_. None) 0 (Inr (live_source sample_api)) sample_options NewLive)) \<noteq> 0"
proof -
  let ?denied = "PartialError ''resourceslices'' (ErrStatus ''Forbidden'' 403 ''denied'')"
  have plain: "plain_source plain_memo (live_source sample_api) \<and> plain_memo NewLive"
    by (auto intro!: live_plain simp: plain_api_def sample_api_def plain_def plain_memo_def NewLive_def)
  obtain i s' where build: "buildInput (\<lambda>_. Inr (\<lambda>_. True)) 0 (live_source sample_api) NewLive = ((i, Some (ErrJoin [ErrJoin [?denied], ?denied]), None), s')"
    using sample_input_read by blast
  have "map_sum (\<lambda>e. ExitCodeFor (Some e)) (\<lambda>r. rs_Partial (hr_Status r)) (Run rules i \<lparr>eo_Node = [], eo_InputErr = Some (ErrJoin [ErrJoin [?denied], ?denied])\<rparr>) = Inr True" for rules
    unfolding run_cases by (simp add: Let_def)
  moreover have "map_sum f g x = Inr True \<Longrightarrow> \<exists>r. x = Inr r \<and> g r" for f :: "goerr \<Rightarrow> int" and g and x :: "goerr + HealthReport" by (cases x) auto
  ultimately obtain report where report: "Run (map Some (AllWith 1)) i \<lparr>eo_Node = [], eo_InputErr = Some (ErrJoin [ErrJoin [?denied], ?denied])\<rparr> = Inr report"
    "rs_Partial (hr_Status report)" by blast
  have "OutputOptions_Validate (ho_out sample_options) health_kind = None"
    by (simp add: sample_options_def OutputOptions_Validate_def BoundedOptions_Validate_def ParseFormat_def formats_def format_defs validateFields_def)
  moreover have "ParseSeverity ''info'' = Inr SeverityInfo" by (simp add: ParseSeverity_def severities_def severity_defs)
  ultimately show ?thesis
    using health_exit_status [OF plain _ _ _ build _ prod.collapse [symmetric], of sample_options SeverityInfo report] report
    by (auto simp: sample_options_def)
qed

text \<open>
  Reading the slices again after the inventory did names a denied read twice: with the slices
  denied, and nothing else, the report has two entries for them.
\<close>

lemma denied_read_named_twice:
  "\<exists>i inputErr s'. buildInput (\<lambda>_. Inr (\<lambda>_. True)) 0 (live_source sample_api) NewLive = ((i, inputErr, None), s')
    \<and> (case Run rules i \<lparr>eo_Node = [], eo_InputErr = inputErr\<rparr> of Inl _ \<Rightarrow> False
        | Inr report \<Rightarrow> map u_Resource (rs_Unreachable (hr_Status report)) = [''resourceslices'', ''resourceslices''])"
proof -
  obtain i s' where "buildInput (\<lambda>_. Inr (\<lambda>_. True)) 0 (live_source sample_api) NewLive
      = ((i, Some (ErrJoin [ErrJoin [sample_refusal], sample_refusal]), None), s')" using sample_input_read by blast
  moreover have "classifyInputError (Some (ErrJoin [ErrJoin [sample_refusal], sample_refusal]))
      = Inr (replicate 2 \<lparr>u_Resource = ''resourceslices'', u_Node = [], u_Reason = reasonFor (ErrStatus ''Forbidden'' 403 ''denied'')\<rparr>)"
    by (simp add: classifyInputError_def sort_Slice_def numeral_2_eq_2)
  ultimately show ?thesis by (simp add: Run_def nodesChecked_def Let_def numeral_2_eq_2)
qed

end
