(* ===== verification/Topology_Command.thy ===== *)
theory Topology_Command
  imports Health_Command
begin

text \<open>
  \<^verbatim>\<open>pkg/cmd/topology/topology.go\<close>: the command that reads the inventory, the Kueue topologies and
  the job asked about, builds the report and prints it. Warnings go to the log, here a list of
  lines; the kubeconfig, the accessor library's error and whether a write fails are parameters.
\<close>

subsection \<open>What the command reads\<close>

record 's reader3 =
  rd_source :: "'s Source"
  rd_Topologies :: "('s, unstructured list) reader"
  rd_ResourceFlavors :: "('s, unstructured list) reader"
  rd_Job :: "string \<Rightarrow> string \<Rightarrow> ('s, Job option) reader"

definition live_reader :: "api \<Rightarrow> Live reader3" where
  "live_reader api = \<lparr>rd_source = live_source api, rd_Topologies = Live_Topologies api, rd_ResourceFlavors = Live_ResourceFlavors api,
     rd_Job = Live_Job api\<rparr>"

text \<open>The flags' namespace and what the kubeconfig answers; \<open>None\<close> when there are no flags.\<close>

definition namespaceOf :: "(string option \<times> (goerr + string)) option \<Rightarrow> string" where
  "namespaceOf flags = (case flags of None \<Rightarrow> ''default''
     | Some (named, context) \<Rightarrow>
         (case named of Some n \<Rightarrow> if n \<noteq> [] then n else (case context of Inl _ \<Rightarrow> ''default'' | Inr c \<Rightarrow> if c = [] then ''default'' else c)
          | None \<Rightarrow> (case context of Inl _ \<Rightarrow> ''default'' | Inr c \<Rightarrow> if c = [] then ''default'' else c)))"

subsection \<open>Kueue\<close>

definition kueueProblem :: "goerr option \<Rightarrow> string \<Rightarrow> KueueStatus \<times> bool" where
  "kueueProblem err what = (case err of None \<Rightarrow> (\<lparr>ks_Installed = False, ks_Reason = []\<rparr>, False)
     | Some e \<Rightarrow>
         if errors_Is e ErrKueueNotInstalled
         then (\<lparr>ks_Installed = False, ks_Reason = ''the cluster serves no kueue.x-k8s.io '' @ what\<rparr>, True)
         else if errors_Is e ErrKueueDiscovery
         then (\<lparr>ks_Installed = False, ks_Reason = ''the cluster would not say whether it serves the Kueue API: '' @ Error e\<rparr>, True)
         else if isPartial e
         then (\<lparr>ks_Installed = True, ks_Reason = ''reading the Kueue '' @ what @ '' was not allowed: '' @ Error e\<rparr>, True)
         else (\<lparr>ks_Installed = False, ks_Reason = []\<rparr>, True))"

definition passPartial :: "goerr option \<Rightarrow> goerr option" where
  "passPartial err = (case err of None \<Rightarrow> None
     | Some e \<Rightarrow> if isPartial e then Some e else if errors_Is e ErrKueueNotInstalled then None else Some e)"

definition readKueue :: "goerr \<Rightarrow> 's reader3 \<Rightarrow> 's \<Rightarrow> (KueueStatus \<times> KueueTopology list \<times> goerr option) \<times> 's" where
  "readKueue accessor rd s =
     (let ((topologies, err), s) = rd_Topologies rd s; (status, stop) = kueueProblem err ''topologies''
      in if stop then ((status, [], passPartial err), s)
         else let ((flavors, err), s) = rd_ResourceFlavors rd s; (status, stop) = kueueProblem err ''resource flavors''
           in if stop then ((status\<lparr>ks_Installed := True\<rparr>, [], passPartial err), s)
              else let (referenced, parseErr) = ReferencedTopologies accessor topologies flavors;
                       reason = (case parseErr of Some e \<Rightarrow> Error e
                         | None \<Rightarrow> if referenced = [] then ''no ResourceFlavor references a Topology'' else [])
                in ((\<lparr>ks_Installed = True, ks_Reason = reason\<rparr>, referenced, None), s))"

subsection \<open>The report\<close>

text \<open>The report with its fit, or the error, and the lines that were logged.\<close>

definition answerForJob :: "'s reader3 \<Rightarrow> string \<Rightarrow> TopologyReport \<Rightarrow> GPUNode list \<Rightarrow> string \<Rightarrow> 's
    \<Rightarrow> ((TopologyReport \<times> goerr option) \<times> string list) \<times> 's" where
  "answerForJob rd ns report nodes jobName s =
     (let ((job, err), s) = rd_Job rd ns jobName s
      in case err of
           Some e \<Rightarrow>
             if IsNotFound e
             then (((report, Some (UsageError (''no job '' @ fmt_q jobName @ '' in namespace '' @ fmt_q ns) None)), []), s)
             else (((report, Some e), if isPartial e
               then [''Cannot answer about job '' @ ns @ ''/'' @ jobName @ '': '' @ Error e] else []), s)
         | None \<Rightarrow> (case job of None \<Rightarrow> (((report, None), []), s)
             | Some j \<Rightarrow> (case JobRequestFrom j of Inl e \<Rightarrow> (((report, Some e), []), s)
                 | Inr req \<Rightarrow> (((report\<lparr>tr_Fit := Some (FitJob report req nodes)\<rparr>, None), []), s))))"

definition unreachableOf :: "goerr list \<Rightarrow> Unreachable list" where
  "unreachableOf errs = List.map_filter (\<lambda>err. case errors_As is_PartialError err of
       Some (PartialError resource cause) \<Rightarrow> Some \<lparr>u_Resource = resource, u_Node = [], u_Reason = Error cause\<rparr>
     | _ \<Rightarrow> None) errs"

definition topology_build_options :: BuildOptions where
  "topology_build_options = \<lparr>bo_Node = [], bo_Selector = [], bo_NoPods = False, bo_IncludeHinted = False, bo_WithDetails = False\<rparr>"

text \<open>The failure that means there is no report, or the report and the partial read to exit with.\<close>

definition topology_build :: "selector_parser \<Rightarrow> goerr \<Rightarrow> 's reader3 \<Rightarrow> string \<Rightarrow> string \<Rightarrow> 's
    \<Rightarrow> ((goerr + TopologyReport \<times> goerr option) \<times> string list) \<times> 's" where
  "topology_build parse accessor rd ns jobName s =
     (let ((items, err), s) = inventory_Build parse (rd_source rd) topology_build_options s
      in if fatal err then ((Inl (the err), []), s)
         else let nodes = (case items of None \<Rightarrow> [] | Some l \<Rightarrow> l);
                  ((kueue, topologies, kueueErr), s) = readKueue accessor rd s
           in if fatal kueueErr then ((Inl (the kueueErr), []), s)
              else let report = topology_Build \<lparr>ti_Nodes = nodes, ti_Kueue = kueue, ti_Topologies = topologies\<rparr>;
                       (((report, jobErr), logged), s) = (if jobName \<noteq> [] then answerForJob rd ns report nodes jobName s
                         else (((report, None), []), s))
                in if fatal jobErr then ((Inl (the jobErr), logged), s)
                   else let partials = kept_err err @ kept_err kueueErr @ kept_err jobErr;
                            unreachable = unreachableOf partials
                     in ((Inr (report\<lparr>tr_Status := (tr_Status report)\<lparr>rs_Unreachable := unreachable,
                            rs_Partial := (unreachable \<noteq> [])\<rparr>\<rparr>, errors_Join partials), logged), s))"

subsection \<open>The run\<close>

record topology_options =
  to_out :: OutputOptions
  to_forRef :: string

definition topology_run :: "selector_parser \<Rightarrow> goerr \<Rightarrow> (printed \<Rightarrow> goerr option) \<Rightarrow> (string option \<times> (goerr + string)) option
    \<Rightarrow> goerr + 's reader3 \<Rightarrow> topology_options \<Rightarrow> 's \<Rightarrow> (printed option \<times> goerr option) \<times> string list" where
  "topology_run parse accessor write flags newSource opts s =
     (case OutputOptions_Validate (to_out opts) topology_kind of Some e \<Rightarrow> ((None, Some e), [])
      | None \<Rightarrow> (case (if to_forRef opts \<noteq> [] then ParseForTarget (to_forRef opts) else Inr []) of Inl e \<Rightarrow> ((None, Some e), [])
          | Inr jobName \<Rightarrow> (case newSource of Inl e \<Rightarrow> ((None, Some e), [])
              | Inr rd \<Rightarrow>
                  let ((built, logged), s) = topology_build parse accessor rd (namespaceOf flags) jobName s
                  in case built of Inl e \<Rightarrow> ((None, Some e), logged)
                    | Inr (report, partial) \<Rightarrow>
                        let (out, notes) = PrintBounded (to_out opts) topology_kind report
                        in case out of
                             Inl e \<Rightarrow> ((None, Some (ErrFmt ''printing the topology report: '' (Some e))), logged @ notes)
                           | Inr p \<Rightarrow> (case write p of
                               Some e \<Rightarrow> ((None, Some (ErrFmt ''printing the topology report: '' (Some e))), logged @ notes)
                             | None \<Rightarrow> ((Some p, partial), logged @ notes)))))"

subsection \<open>Lemmas\<close>

definition plain_reader3 :: "('s \<Rightarrow> bool) \<Rightarrow> 's reader3 \<Rightarrow> bool" where
  "plain_reader3 I rd \<longleftrightarrow> plain_source I (rd_source rd) \<and> plain_reader I (rd_Topologies rd) \<and> plain_reader I (rd_ResourceFlavors rd)
     \<and> (\<forall>ns name. plain_reader I (rd_Job rd ns name))"

lemma plain_reader3_reads:
  assumes "plain_reader3 I rd" "I s"
  shows "rd_Topologies rd s = ((x, err), s') \<Longrightarrow> plain_opt err \<and> I s'"
    "rd_ResourceFlavors rd s = ((x, err), s') \<Longrightarrow> plain_opt err \<and> I s'"
    "rd_Job rd ns name s = ((job, err), s') \<Longrightarrow> plain_opt err \<and> I s'"
  using assms plain_read unfolding plain_reader3_def by fast+

lemma plain_passPartial: "plain_opt err \<Longrightarrow> plain_opt (passPartial err)"
  by (cases err) (simp_all add: passPartial_def)

lemma plain_readKueue:
  assumes "plain_reader3 I rd" "I s" "readKueue accessor rd s = ((k, ts, err), s')"
  shows "plain_opt err \<and> I s'"
proof -
  obtain topologies err1 s1 where r1: "rd_Topologies rd s = ((topologies, err1), s1)" by (metis surj_pair)
  obtain flavors err2 s2 where r2: "rd_ResourceFlavors rd s1 = ((flavors, err2), s2)" by (metis surj_pair)
  have 1: "plain_opt err1 \<and> I s1" by (rule plain_reader3_reads(1) [OF assms(1,2) r1])
  have 2: "plain_opt err2 \<and> I s2" by (rule plain_reader3_reads(2) [OF assms(1) conjunct2 [OF 1] r2])
  show ?thesis
    using assms(3) r1 r2 1 2 plain_passPartial by (auto simp: readKueue_def Let_def split: prod.splits if_splits)
qed

lemma fatal_wrapped: "fatal err \<Longrightarrow> fatal (Some (ErrFmt m err))"
  by (cases err) (simp_all add: fatal_def isPartial_def errors_As_def)

text \<open>Without a selector to get wrong, a build that is not fatal gave a list.\<close>

lemma build_gave_list:
  assumes "BuildWithHinted parse src topology_build_options s = ((l, excluded, err), s')" "\<not> fatal err"
  shows "l \<noteq> None"
proof
  assume "l = None"
  moreover have "parseSelector parse [] = Inr (\<lambda>_. True)" by (simp add: parseSelector_def)
  moreover have "fatal e \<Longrightarrow> e \<noteq> None" for e by (cases e) (simp_all add: fatal_def)
  ultimately show False
    using assms
    by (auto simp: BuildWithHinted_def topology_build_options_def split: prod.splits if_splits dest: fatal_wrapped)
qed

lemma plain_inventory:
  assumes "plain_source I src" "I s" "inventory_Build parse src topology_build_options s = ((items, err), s')" "\<not> fatal err"
  shows "plain_opt err \<and> I s'"
proof -
  obtain excluded where b: "BuildWithHinted parse src topology_build_options s = ((items, excluded, err), s')"
    using assms(3) by (auto simp: inventory_Build_def split: prod.splits)
  obtain l where l: "items = Some l" using build_gave_list [OF b assms(4)] by auto
  show ?thesis by (rule plain_build [OF assms(1,2) b [unfolded l]])
qed

lemma answerForJob_plain:
  assumes "plain_reader3 I rd" "I s" "answerForJob rd ns report nodes jobName s = (((report', err), logged), s')" "\<not> fatal err"
  shows "plain_opt err"
proof -
  obtain job e s1 where r: "rd_Job rd ns jobName s = ((job, e), s1)" by (metis surj_pair)
  have "plain_opt e" using plain_reader3_reads(3) [OF assms(1,2) r] by simp
  moreover have "fatal (Some (UsageError m None))" for m by (simp add: fatal_def isPartial_def errors_As_def)
  moreover have "JobRequestFrom j = Inl x \<Longrightarrow> fatal (Some x)" for j x
    by (auto simp: JobRequestFrom_def fatal_def isPartial_def errors_As_def Let_def split: if_splits)
  ultimately show ?thesis
    using assms(3,4) r by (auto simp: answerForJob_def split: option.splits sum.splits if_splits)
qed

lemma unreachableOf_length: "\<forall>e \<in> set es. isPartial e \<Longrightarrow> length (unreachableOf es) = length es"
proof (induction es)
  case (Cons e es)
  then obtain x where x: "errors_As is_PartialError e = Some x" by (auto simp: isPartial_def)
  then obtain r c where "x = PartialError r c" using errors_As_Some [OF x] by (cases x) auto
  then show ?case using Cons x by (simp add: unreachableOf_def List.map_filter_simps)
qed (simp add: unreachableOf_def List.map_filter_simps)

text \<open>A report that was built, and the reads it goes without.\<close>

lemma topology_build_Inr:
  assumes "topology_build parse accessor rd ns jobName s = ((Inr (report, partial), logged), s')"
  obtains es where "partial = errors_Join es" "\<forall>e \<in> set es. isPartial e" "rs_Unreachable (tr_Status report) = unreachableOf es"
    "rs_Partial (tr_Status report) = (unreachableOf es \<noteq> [])" "plain_reader3 I rd \<Longrightarrow> I s \<Longrightarrow> \<forall>e \<in> set es. plain e"
proof -
  obtain items err s1 where r1: "inventory_Build parse (rd_source rd) topology_build_options s = ((items, err), s1)" by (metis surj_pair)
  obtain k ts kerr s2 where r2: "readKueue accessor rd s1 = ((k, ts, kerr), s2)" by (metis surj_pair)
  define nodes where "nodes = (case items of None \<Rightarrow> [] | Some l \<Rightarrow> l)"
  define rep where "rep = topology_Build \<lparr>ti_Nodes = nodes, ti_Kueue = k, ti_Topologies = ts\<rparr>"
  obtain rep' jerr lg s3 where r3: "(if jobName \<noteq> [] then answerForJob rd ns rep nodes jobName s2 else (((rep, None), []), s2))
      = (((rep', jerr), lg), s3)" by (metis surj_pair)
  let ?es = "kept_err err @ kept_err kerr @ kept_err jerr"
  note assms [unfolded topology_build_def r1 Let_def prod.case r2 nodes_def [symmetric] rep_def [symmetric] r3]
  then have nf: "\<not> fatal err" "\<not> fatal kerr" "\<not> fatal jerr" and out: "partial = errors_Join ?es"
    "report = rep'\<lparr>tr_Status := (tr_Status rep')\<lparr>rs_Unreachable := unreachableOf ?es, rs_Partial := (unreachableOf ?es \<noteq> [])\<rparr>\<rparr>"
    by (simp_all split: if_splits)
  moreover have "\<forall>e \<in> set ?es. isPartial e" using nf fatal_kept by auto
  moreover have "\<forall>e \<in> set ?es. plain e" if rd: "plain_reader3 I rd" "I s"
  proof -
    have src: "plain_source I (rd_source rd)" using rd(1) by (simp add: plain_reader3_def)
    have 1: "plain_opt err \<and> I s1" by (rule plain_inventory [OF src rd(2) r1 nf(1)])
    have 2: "plain_opt kerr \<and> I s2" by (rule plain_readKueue [OF rd(1) conjunct2 [OF 1] r2])
    have "plain_opt jerr"
    proof (cases "jobName = []")
      case False
      then show ?thesis using answerForJob_plain [OF rd(1) conjunct2 [OF 2] _ nf(3)] r3 by (metis (full_types))
    qed (use r3 in simp)
    then show ?thesis using 1 2 plain_list by auto
  qed
  ultimately show ?thesis by (intro that [of ?es]) simp_all
qed

subsection \<open>Properties\<close>


lemma live_plain_kueue:
  assumes "plain_api api" "plain_memo l"
  shows "plain_opt (snd (fst (listKueue_loop api res vs l))) \<and> plain_memo (snd (listKueue_loop api res vs l))"
  using assms(2)
proof (induction vs arbitrary: l)
  case (Cons v vs)
  have IH: "plain_opt (snd (fst (listKueue_loop api res vs (l\<lparr>live_clock := n\<rparr>)))) \<and> plain_memo (snd (listKueue_loop api res vs (l\<lparr>live_clock := n\<rparr>)))" for n
    using Cons by simp
  show ?case
    using Cons.prems IH plain_apiD(5,6) [OF assms(1)]
    by (simp add: servesKueue_def serves_def request_def ErrKueueDiscovery_def split: sum.split option.split bool.split)
qed (simp add: ErrKueueNotInstalled_def)

lemma live_plain_reader3:
  assumes "plain_api api" "\<forall>t ns name e. api_Job (api t) ns name = Inl e \<longrightarrow> plain e"
  shows "plain_reader3 plain_memo (live_reader api)"
proof -
  have "plain_reader plain_memo (Live_Job api ns name)" for ns name
    using assms(2) by (auto simp: plain_reader_def Live_Job_def request_def split: sum.splits)
  then show ?thesis
    using live_plain [OF assms(1)] live_plain_kueue [OF assms(1)]
    by (simp add: plain_reader3_def live_reader_def Live_Topologies_def Live_ResourceFlavors_def listKueue_def plain_reader_def)
qed

text \<open>A cluster where neither slices nor pods may be read, and Kueue is not installed.\<close>

definition refusing_api :: api where
  "refusing_api t = (sample_api t)\<lparr>api_Pods := \<lambda>_ _. Inl (ErrStatus ''Forbidden'' 403 ''denied'')\<rparr>"

abbreviation sample_pods_refusal :: goerr where
  "sample_pods_refusal \<equiv> PartialError ''pods'' (ErrStatus ''Forbidden'' 403 ''denied'')"

lemma refusing_reads:
  "Live_ClassifyNodes refusing_api NewLive = ((([], []), Some sample_refusal), sample_live 2)"
  "Live_ResourceSlices refusing_api (sample_live n) = (([], Some sample_refusal), sample_live n)"
  "Live_Pods refusing_api ns sel (sample_live n) = (([], Some sample_pods_refusal), sample_live (n + 1))"
  "Live_Topologies refusing_api (sample_live n) = (([], Some ErrKueueNotInstalled), sample_live (n + 3))"
proof -
  have "\<not> context_dead (Some sample_refusal)" by (simp add: context_dead_def errors_Is_def Canceled_def DeadlineExceeded_def)
  moreover have "classifyNodes [] m = ([], [])" for m by (simp add: classifyNodes_def sortByName_def sort_Slice_def)
  ultimately show "Live_ClassifyNodes refusing_api NewLive = ((([], []), Some sample_refusal), sample_live 2)"
    by (simp add: Live_ClassifyNodes_def listResourceSlices_def readResourceSlices_def request_def refusing_api_def sample_api_def sample_denied NewLive_def)
qed (simp_all add: Live_ResourceSlices_def listResourceSlices_def Live_Pods_def Live_Topologies_def listKueue_def kueueVersions_def servesKueue_def
    serves_def request_def refusing_api_def sample_api_def sample_denied add.assoc)

lemma refusing_build:
  "\<exists>report s'. topology_build (\<lambda>_. Inr (\<lambda>_. True)) accessor (live_reader refusing_api) ns [] NewLive
     = ((Inr (report, Some (ErrJoin [ErrJoin [sample_refusal, sample_pods_refusal]])), []), s')
   \<and> map u_Resource (rs_Unreachable (tr_Status report)) = [''resourceslices'']"
proof -
  have As: "errors_As is_PartialError sample_refusal = Some sample_refusal" "errors_As is_PartialError sample_pods_refusal = Some sample_pods_refusal"
    by (rule errors_As_self, simp)+
  then have "\<not> fatal (Some sample_refusal)" "\<not> fatal (Some sample_pods_refusal)"
    "joinPartials [sample_refusal, sample_refusal, sample_pods_refusal] = Some (ErrJoin [sample_refusal, sample_pods_refusal])"
    by (simp_all add: fatal_def isPartial_def joinPartials_def errors_Join_def)
  then have "\<exists>items. inventory_Build (\<lambda>_. Inr (\<lambda>_. True)) (live_source refusing_api) topology_build_options NewLive
      = ((Some items, Some (ErrJoin [sample_refusal, sample_pods_refusal])), sample_live 3)"
    by (simp add: inventory_Build_def BuildWithHinted_def parseSelector_def topology_build_options_def live_source_def refusing_reads kept_err_def split_beta)
  moreover have "\<exists>k. readKueue accessor (live_reader refusing_api) (sample_live 3) = ((k, [], None), sample_live 6)"
    by (simp add: readKueue_def live_reader_def refusing_reads kueueProblem_def passPartial_def errors_Is_def isPartial_def errors_As_def ErrKueueNotInstalled_def)
  moreover have join: "errors_As is_PartialError (ErrJoin [sample_refusal, sample_pods_refusal]) = Some sample_refusal"
    by (simp add: errors_As_def)
  moreover have "\<not> fatal (Some (ErrJoin [sample_refusal, sample_pods_refusal]))" "\<not> fatal None"
    using join by (simp_all add: fatal_def isPartial_def)
  ultimately show ?thesis
    by (auto simp: topology_build_def live_reader_def kept_err_def errors_Join_def unreachableOf_def List.map_filter_simps Let_def)
qed


text \<open>
  The report of a run that was denied both the slices and the pods names only the slices: the
  two denials come back from the inventory as one joined error, and only the first partial error
  in it is recorded. The exit status is the same, and the other denial is on the error stream.
\<close>

lemma second_denial_not_named:
  "\<exists>report partial s'. topology_build (\<lambda>_. Inr (\<lambda>_. True)) accessor (live_reader refusing_api) ns [] NewLive = ((Inr (report, partial), []), s')
    \<and> sample_pods_refusal \<in> set (err_tree (the partial))
    \<and> ''pods'' \<notin> set (map u_Resource (rs_Unreachable (tr_Status report)))"
  using refusing_build [of accessor ns] by fastforce

end
