(* ===== verification/Go_Regexp.thy ===== *)
theory Go_Regexp
  imports Go_Utf8 "HOL-Library.Sublist"
begin

text \<open>
  The part of Go's \<^verbatim>\<open>regexp\<close> that the program uses: classes, sequences, alternatives, greedy and
  lazy repetition, capture pl_groups, the anchors \<^verbatim>\<open>^\<close> and \<^verbatim>\<open>$\<close>, word boundaries, and the searches
  \<^verbatim>\<open>MatchString\<close>, \<^verbatim>\<open>FindStringSubmatch\<close>, \<^verbatim>\<open>ReplaceAllString\<close> and \<^verbatim>\<open>ReplaceAllStringFunc\<close>.

  A text is the list of its runes, each with the bytes it was read from, so that a malformed byte
  matches as the replacement rune and is copied as it was. The matches of an expression at one
  place are listed in the order of preference, the leftmost-first order that \<^verbatim>\<open>regexp\<close> takes; a
  search takes the first match at the first place that has one.
\<close>

subsection \<open>Texts\<close>

type_synonym token = "nat \<times> string"

fun tokens_of :: "nat \<Rightarrow> string \<Rightarrow> token list" where
  "tokens_of 0 s = []"
| "tokens_of (Suc n) s = (if s = [] then []
     else let (r, w) = decode (map of_char s) in (r, take w s) # tokens_of n (drop w s))"

definition tokens :: "string \<Rightarrow> token list" where
  "tokens s = tokens_of (length s) s"

definition bytes_of :: "token list \<Rightarrow> string" where
  "bytes_of ts = concat (map snd ts)"

lemma bytes_of_simps [simp]:
  "bytes_of [] = []" "bytes_of (t # ts) = snd t @ bytes_of ts" "bytes_of (ts @ us) = bytes_of ts @ bytes_of us"
  by (simp_all add: bytes_of_def)

lemma bytes_of_tokens [simp]: "bytes_of (tokens s) = s"
proof -
  have "length s \<le> n \<Longrightarrow> bytes_of (tokens_of n s) = s" for n
  proof (induction n s rule: tokens_of.induct)
    case (2 n s)
    show ?case
    proof (cases "s = []")
      case False
      then have "0 < snd (decode (map of_char s))" by (simp add: decode_width)
      then show ?thesis using False 2(1) [OF False refl prod.collapse] 2(2) by (simp add: split_beta)
    qed simp
  qed simp
  then show ?thesis by (simp add: tokens_def)
qed

subsection \<open>Expressions and their matches\<close>

datatype regex =
    REmpty
  | RClass "nat \<Rightarrow> bool"
  | RSeq regex regex
  | RAlt regex regex
  | RStar regex
  | RLazy regex
  | RGroup nat regex
  | RBegin
  | REnd
  | RWord

text \<open>
  Where a match stands: the rune just before it, what is left of the text, and the groups set so
  far, the latest first.
\<close>

record place =
  pl_before :: "nat option"
  pl_rest :: "token list"
  pl_groups :: "(nat \<times> string) list"

definition word_rune :: "nat \<Rightarrow> bool" where
  "word_rune r \<longleftrightarrow> 48 \<le> r \<and> r \<le> 57 \<or> 65 \<le> r \<and> r \<le> 90 \<or> 97 \<le> r \<and> r \<le> 122 \<or> r = 95"

definition at_word_boundary :: "place \<Rightarrow> bool" where
  "at_word_boundary p \<longleftrightarrow>
     (case pl_before p of None \<Rightarrow> False | Some r \<Rightarrow> word_rune r)
     \<noteq> (case pl_rest p of [] \<Rightarrow> False | t # _ \<Rightarrow> word_rune (fst t))"

definition shorter :: "place \<Rightarrow> place \<Rightarrow> bool" where
  "shorter p q \<longleftrightarrow> length (pl_rest q) < length (pl_rest p)"

function greedy :: "(place \<Rightarrow> place list) \<Rightarrow> place \<Rightarrow> place list" where
  "greedy f p = concat (map (greedy f) (filter (shorter p) (f p))) @ [p]"
  by auto
termination by (relation "measure (\<lambda>(f, p). length (pl_rest p))") (auto simp: shorter_def)

function lazy :: "(place \<Rightarrow> place list) \<Rightarrow> place \<Rightarrow> place list" where
  "lazy f p = p # concat (map (lazy f) (filter (shorter p) (f p)))"
  by auto
termination by (relation "measure (\<lambda>(f, p). length (pl_rest p))") (auto simp: shorter_def)

declare greedy.simps [simp del] lazy.simps [simp del]

definition set_group :: "nat \<Rightarrow> place \<Rightarrow> place \<Rightarrow> place" where
  "set_group n p q = q\<lparr>pl_groups := (n, bytes_of (take (length (pl_rest p) - length (pl_rest q)) (pl_rest p))) # pl_groups q\<rparr>"

primrec matches :: "regex \<Rightarrow> place \<Rightarrow> place list" where
  "matches REmpty = (\<lambda>p. [p])"
| "matches (RClass c) = (\<lambda>p. case pl_rest p of [] \<Rightarrow> []
     | t # ts \<Rightarrow> if c (fst t) then [p\<lparr>pl_before := Some (fst t), pl_rest := ts\<rparr>] else [])"
| "matches (RSeq a b) = (\<lambda>p. concat (map (matches b) (matches a p)))"
| "matches (RAlt a b) = (\<lambda>p. matches a p @ matches b p)"
| "matches (RStar a) = greedy (matches a)"
| "matches (RLazy a) = lazy (matches a)"
| "matches (RGroup n a) = (\<lambda>p. map (set_group n p) (matches a p))"
| "matches RBegin = (\<lambda>p. if pl_before p = None then [p] else [])"
| "matches REnd = (\<lambda>p. if pl_rest p = [] then [p] else [])"
| "matches RWord = (\<lambda>p. if at_word_boundary p then [p] else [])"

subsection \<open>Derived expressions\<close>

definition one_of :: "string \<Rightarrow> nat \<Rightarrow> bool" where
  "one_of cs r \<longleftrightarrow> r \<in> set (map of_char cs)"

definition lit :: "char \<Rightarrow> regex" where
  "lit c = RClass (\<lambda>r. r = of_char c)"

fun seq :: "regex list \<Rightarrow> regex" where
  "seq [] = REmpty"
| "seq [a] = a"
| "seq (a # as) = RSeq a (seq as)"

fun alt :: "regex list \<Rightarrow> regex" where
  "alt [] = RClass (\<lambda>_. False)"
| "alt [a] = a"
| "alt (a # as) = RAlt a (alt as)"

definition plus_of :: "regex \<Rightarrow> regex" where "plus_of a = RSeq a (RStar a)"
definition opt_of :: "regex \<Rightarrow> regex" where "opt_of a = RAlt a REmpty"

fun times_of :: "nat \<Rightarrow> regex \<Rightarrow> regex \<Rightarrow> regex" where
  "times_of 0 a b = b"
| "times_of (Suc n) a b = RSeq a (times_of n a b)"

fun upto_of :: "nat \<Rightarrow> regex \<Rightarrow> regex" where
  "upto_of 0 a = REmpty"
| "upto_of (Suc n) a = opt_of (RSeq a (upto_of n a))"

text \<open>\<^verbatim>\<open>a{n,}\<close> and \<^verbatim>\<open>a{n,m}\<close>.\<close>

definition at_least :: "nat \<Rightarrow> regex \<Rightarrow> regex" where "at_least n a = times_of n a (RStar a)"
definition between :: "nat \<Rightarrow> nat \<Rightarrow> regex \<Rightarrow> regex" where "between n m a = times_of n a (upto_of (m - n) a)"

definition verbatim :: "string \<Rightarrow> regex" where "verbatim s = seq (map lit s)"

text \<open>
  Under \<^verbatim>\<open>(?i)\<close> a letter stands for its case orbit, which for k holds the Kelvin sign and for s
  the long s.
\<close>

definition folds_to :: "char \<Rightarrow> nat \<Rightarrow> bool" where
  "folds_to c r \<longleftrightarrow> r = of_char (lower_char c) \<or> r = of_char (upper_char c)
     \<or> (lower_char c = CHR ''k'' \<and> r = 8490) \<or> (lower_char c = CHR ''s'' \<and> r = 383)"

definition fold_lit :: "string \<Rightarrow> regex" where
  "fold_lit s = seq (map (\<lambda>c. RClass (folds_to c)) s)"

definition space_rune :: "nat \<Rightarrow> bool" where "space_rune r \<longleftrightarrow> r \<in> {9, 10, 12, 13, 32}"
definition digit_rune :: "nat \<Rightarrow> bool" where "digit_rune r \<longleftrightarrow> 48 \<le> r \<and> r \<le> 57"
definition alpha_rune :: "nat \<Rightarrow> bool" where "alpha_rune r \<longleftrightarrow> 65 \<le> r \<and> r \<le> 90 \<or> 97 \<le> r \<and> r \<le> 122"
definition alnum_rune :: "nat \<Rightarrow> bool" where "alnum_rune r \<longleftrightarrow> alpha_rune r \<or> digit_rune r"
definition hex_rune :: "nat \<Rightarrow> bool" where "hex_rune r \<longleftrightarrow> digit_rune r \<or> 65 \<le> r \<and> r \<le> 70 \<or> 97 \<le> r \<and> r \<le> 102"

definition spaces :: regex where "spaces = RStar (RClass space_rune)"
definition not_space :: regex where "not_space = RClass (\<lambda>r. \<not> space_rune r)"
definition any_rune :: regex where "any_rune = RClass (\<lambda>_. True)"
definition not_newline :: regex where "not_newline = RClass (\<lambda>r. r \<noteq> 10)"

subsection \<open>Searching\<close>

text \<open>
  A search answers the text before the match, the match, where it ended and what the groups hold.
\<close>

fun search :: "regex \<Rightarrow> nat option \<Rightarrow> token list \<Rightarrow> (token list \<times> token list \<times> place) option" where
  "search e b [] = (case matches e \<lparr>pl_before = b, pl_rest = [], pl_groups = []\<rparr> of [] \<Rightarrow> None | q # _ \<Rightarrow> Some ([], [], q))"
| "search e b (t # ts) = (case matches e \<lparr>pl_before = b, pl_rest = t # ts, pl_groups = []\<rparr> of
     q # _ \<Rightarrow> Some ([], take (length (t # ts) - length (pl_rest q)) (t # ts), q)
   | [] \<Rightarrow> (case search e (Some (fst t)) ts of None \<Rightarrow> None | Some (xs, ys, q) \<Rightarrow> Some (t # xs, ys, q)))"

definition group_text :: "(nat \<times> string) list \<Rightarrow> nat \<Rightarrow> string" where
  "group_text gs n = (case map_of gs n of None \<Rightarrow> [] | Some s \<Rightarrow> s)"

definition MatchString :: "regex \<Rightarrow> string \<Rightarrow> bool" where
  "MatchString e s \<longleftrightarrow> search e None (tokens s) \<noteq> None"

text \<open>The groups of the first match, the whole match as group 0.\<close>

definition FindStringSubmatch :: "regex \<Rightarrow> string \<Rightarrow> (nat \<Rightarrow> string) option" where
  "FindStringSubmatch e s = (case search e None (tokens s) of None \<Rightarrow> None
     | Some (_, m, q) \<Rightarrow> Some (\<lambda>n. if n = 0 then bytes_of m else group_text (pl_groups q) n))"

text \<open>
  Replacing goes on where the last match ended. The expressions replaced here never match the
  empty text; a search that found one would stop the loop.
\<close>

function replace_loop :: "regex \<Rightarrow> ((nat \<Rightarrow> string) \<Rightarrow> 's \<Rightarrow> string \<times> 's) \<Rightarrow> nat option \<Rightarrow> token list \<Rightarrow> 's \<Rightarrow> string \<times> 's" where
  "replace_loop e f b ts s = (case search e b ts of
     None \<Rightarrow> (bytes_of ts, s)
   | Some (xs, m, q) \<Rightarrow>
       if length (pl_rest q) < length ts
       then let (out, s1) = f (\<lambda>n. if n = 0 then bytes_of m else group_text (pl_groups q) n) s;
                (more, s2) = replace_loop e f (pl_before q) (pl_rest q) s1
            in (bytes_of xs @ out @ more, s2)
       else (bytes_of ts, s))"
  by auto
termination by (relation "measure (\<lambda>(e, f, b, ts, s). length ts)") auto

declare replace_loop.simps [simp del]

definition ReplaceAll :: "regex \<Rightarrow> ((nat \<Rightarrow> string) \<Rightarrow> string) \<Rightarrow> string \<Rightarrow> string" where
  "ReplaceAll e f s = fst (replace_loop e (\<lambda>m u. (f m, u)) None (tokens s) ())"

definition ReplaceAllStringFunc :: "regex \<Rightarrow> (string \<Rightarrow> 's \<Rightarrow> string \<times> 's) \<Rightarrow> string \<Rightarrow> 's \<Rightarrow> string \<times> 's" where
  "ReplaceAllStringFunc e f s = replace_loop e (\<lambda>m. f (m 0)) None (tokens s)"

subsection \<open>What a match is\<close>

text \<open>A match consumes a prefix of what was left.\<close>

definition within :: "place \<Rightarrow> place \<Rightarrow> bool" where
  "within p q \<longleftrightarrow> suffix (pl_rest q) (pl_rest p)"

lemma within_refl [simp]: "within p p" by (simp add: within_def)

lemma within_trans: "within p q \<Longrightarrow> within q r \<Longrightarrow> within p r"
  unfolding within_def by (rule suffix_order.trans)

text \<open>One turn of a repetition, which has to consume something; any number of them is a repetition.\<close>

definition turn :: "(place \<Rightarrow> place list) \<Rightarrow> place \<Rightarrow> place \<Rightarrow> bool" where
  "turn f p q \<longleftrightarrow> q \<in> set (f p) \<and> shorter p q"

lemma greedy_turns: "q \<in> set (greedy f p) \<longleftrightarrow> (turn f)\<^sup>*\<^sup>* p q"
proof (induction f p rule: greedy.induct)
  case (1 f p)
  have ih: "q \<in> set (greedy f r) \<longleftrightarrow> (turn f)\<^sup>*\<^sup>* r q" if "turn f p r" for r
    by (rule 1) (use that in \<open>simp add: turn_def\<close>)
  have "q \<in> set (greedy f p) \<longleftrightarrow> q = p \<or> (\<exists>r. turn f p r \<and> q \<in> set (greedy f r))"
    by (subst greedy.simps) (auto simp: turn_def)
  also have "\<dots> \<longleftrightarrow> q = p \<or> (\<exists>r. turn f p r \<and> (turn f)\<^sup>*\<^sup>* r q)"
    using ih by auto
  also have "\<dots> \<longleftrightarrow> (turn f)\<^sup>*\<^sup>* p q" by (metis converse_rtranclpE converse_rtranclp_into_rtranclp rtranclp.rtrancl_refl)
  finally show ?case .
qed

lemma lazy_turns: "q \<in> set (lazy f p) \<longleftrightarrow> (turn f)\<^sup>*\<^sup>* p q"
proof (induction f p rule: lazy.induct)
  case (1 f p)
  have ih: "q \<in> set (lazy f r) \<longleftrightarrow> (turn f)\<^sup>*\<^sup>* r q" if "turn f p r" for r
    by (rule 1) (use that in \<open>simp add: turn_def\<close>)
  have "q \<in> set (lazy f p) \<longleftrightarrow> q = p \<or> (\<exists>r. turn f p r \<and> q \<in> set (lazy f r))"
    by (subst lazy.simps) (auto simp: turn_def)
  also have "\<dots> \<longleftrightarrow> q = p \<or> (\<exists>r. turn f p r \<and> (turn f)\<^sup>*\<^sup>* r q)"
    using ih by auto
  also have "\<dots> \<longleftrightarrow> (turn f)\<^sup>*\<^sup>* p q" by (metis converse_rtranclpE converse_rtranclp_into_rtranclp rtranclp.rtrancl_refl)
  finally show ?case .
qed

lemma matches_within: "q \<in> set (matches e p) \<Longrightarrow> within p q"
proof (induction e arbitrary: p q)
  case (RClass c)
  then show ?case by (cases "pl_rest p") (auto simp: within_def split: if_splits intro: suffix_ConsI)
next
  case (RSeq a b)
  then show ?case by (auto dest!: RSeq.IH intro: within_trans)
next
  case (RAlt a b)
  then show ?case by auto
next
  case (RStar a)
  then have "(turn (matches a))\<^sup>*\<^sup>* p q" by (simp add: greedy_turns)
  then show ?case by induction (use RStar.IH in \<open>auto simp: turn_def intro: within_trans\<close>)
next
  case (RLazy a)
  then have "(turn (matches a))\<^sup>*\<^sup>* p q" by (simp add: lazy_turns)
  then show ?case by induction (use RLazy.IH in \<open>auto simp: turn_def intro: within_trans\<close>)
next
  case (RGroup n a)
  then show ?case by (auto simp: set_group_def within_def)
qed (auto split: if_splits)

text \<open>The least number of runes a match of an expression consumes.\<close>

primrec min_len :: "regex \<Rightarrow> nat" where
  "min_len REmpty = 0" | "min_len (RClass c) = 1" | "min_len (RSeq a b) = min_len a + min_len b"
| "min_len (RAlt a b) = min (min_len a) (min_len b)" | "min_len (RStar a) = 0" | "min_len (RLazy a) = 0"
| "min_len (RGroup n a) = min_len a" | "min_len RBegin = 0" | "min_len REnd = 0" | "min_len RWord = 0"

lemma matches_min_len: "q \<in> set (matches e p) \<Longrightarrow> length (pl_rest q) + min_len e \<le> length (pl_rest p)"
proof (induction e arbitrary: p q)
  case (RClass c)
  then show ?case by (cases "pl_rest p") (auto split: if_splits)
next
  case (RSeq a b)
  then show ?case by fastforce
next
  case (RAlt a b)
  then show ?case by (auto dest!: RAlt.IH)
next
  case (RStar a)
  then show ?case using matches_within [of q "RStar a" p] by (auto simp: within_def dest: suffix_length_le)
next
  case (RLazy a)
  then show ?case using matches_within [of q "RLazy a" p] by (auto simp: within_def dest: suffix_length_le)
qed (auto simp: set_group_def split: if_splits)

text \<open>An expression without anchors and boundaries matches what it matched wherever that stands.\<close>

primrec anchored :: "regex \<Rightarrow> bool" where
  "anchored REmpty = False" | "anchored (RClass c) = False" | "anchored (RSeq a b) = (anchored a \<or> anchored b)"
| "anchored (RAlt a b) = (anchored a \<or> anchored b)" | "anchored (RStar a) = anchored a" | "anchored (RLazy a) = anchored a"
| "anchored (RGroup n a) = anchored a" | "anchored RBegin = True" | "anchored REnd = True" | "anchored RWord = True"

definition cut_back :: "token list \<Rightarrow> place \<Rightarrow> place \<Rightarrow> bool" where
  "cut_back x p p' \<longleftrightarrow> pl_rest p = pl_rest p' @ x"

lemma turns_cut_back:
  assumes step: "\<And>p q p'. q \<in> set (f p) \<Longrightarrow> cut_back x p p' \<Longrightarrow> suffix x (pl_rest q) \<Longrightarrow> \<exists>q' \<in> set (f p'). cut_back x q q'"
    and wi: "\<And>p q. q \<in> set (f p) \<Longrightarrow> within p q"
    and run: "(turn f)\<^sup>*\<^sup>* p q" and cb: "cut_back x p p'" and sx: "suffix x (pl_rest q)"
  shows "\<exists>q'. (turn f)\<^sup>*\<^sup>* p' q' \<and> cut_back x q q'"
  using run cb
proof (induction arbitrary: p' rule: converse_rtranclp_induct)
  case (step p r)
  have "(turn f)\<^sup>*\<^sup>* r q \<Longrightarrow> within r q" by (induction rule: rtranclp_induct) (auto simp: turn_def intro: within_trans wi)
  then have "suffix x (pl_rest r)" using step.hyps(2) sx by (auto simp: within_def intro: suffix_order.trans)
  then obtain r' where r': "r' \<in> set (f p')" "cut_back x r r'"
    using assms(1) [of r p p'] step.hyps(1) step.prems by (auto simp: turn_def)
  then have "turn f p' r'" using step.hyps(1) step.prems by (auto simp: turn_def shorter_def cut_back_def)
  moreover obtain q' where "(turn f)\<^sup>*\<^sup>* r' q'" "cut_back x q q'" using step.IH [OF r'(2)] by auto
  ultimately show ?case by (meson converse_rtranclp_into_rtranclp)
qed auto

lemma matches_cut_back:
  "\<not> anchored e \<Longrightarrow> q \<in> set (matches e p) \<Longrightarrow> cut_back x p p' \<Longrightarrow> suffix x (pl_rest q)
   \<Longrightarrow> \<exists>q' \<in> set (matches e p'). cut_back x q q'"
proof (induction e arbitrary: p q p')
  case (RClass c)
  then show ?case
    by (cases "pl_rest p'"; cases "pl_rest p") (auto simp: cut_back_def split: if_splits dest!: suffix_length_le)
next
  case (RSeq a b)
  from RSeq.prems obtain r where r: "r \<in> set (matches a p)" "q \<in> set (matches b r)" by auto
  then have "suffix x (pl_rest r)" using matches_within [OF r(2)] RSeq.prems(4) by (auto simp: within_def intro: suffix_order.trans)
  then obtain r' where r': "r' \<in> set (matches a p')" "cut_back x r r'" using RSeq.IH(1) [OF _ r(1) RSeq.prems(3)] RSeq.prems(1) by auto
  then show ?case using RSeq.IH(2) [OF _ r(2) r'(2) RSeq.prems(4)] RSeq.prems(1) by auto
next
  case (RAlt a b)
  then show ?case by (auto simp: bex_Un)
next
  case (RStar a)
  then show ?case using turns_cut_back [of "matches a" x p q p'] matches_within [of _ a] by (auto simp: greedy_turns Bex_def)
next
  case (RLazy a)
  then show ?case using turns_cut_back [of "matches a" x p q p'] matches_within [of _ a] by (auto simp: lazy_turns Bex_def)
next
  case (RGroup n a)
  then obtain r where "r \<in> set (matches a p)" "q = set_group n p r" by auto
  with RGroup.IH [of r p p'] RGroup.prems show ?case by (auto simp: set_group_def cut_back_def)
qed (auto split: if_splits)

subsection \<open>What a search finds\<close>

lemma search_Some:
  assumes "search e b ts = Some (xs, m, q)"
  shows "ts = xs @ m @ pl_rest q"
    and "q \<in> set (matches e \<lparr>pl_before = (if xs = [] then b else Some (fst (last xs))), pl_rest = m @ pl_rest q, pl_groups = []\<rparr>)"
proof -
  have cut: "take (length us - length (pl_rest r)) us @ pl_rest r = us"
    if "r \<in> set (matches e \<lparr>pl_before = c, pl_rest = us, pl_groups = []\<rparr>)" for e r c us
    using matches_within [OF that] by (auto simp: within_def suffix_def)
  have "ts = xs @ m @ pl_rest q
    \<and> q \<in> set (matches e \<lparr>pl_before = (if xs = [] then b else Some (fst (last xs))), pl_rest = m @ pl_rest q, pl_groups = []\<rparr>)"
    using assms
  proof (induction e b ts arbitrary: xs rule: search.induct)
    case (1 e b)
    then show ?case using matches_within [of q e "\<lparr>pl_before = b, pl_rest = [], pl_groups = []\<rparr>"]
      by (auto simp: within_def split: list.splits)
  next
    case (2 e b t ts)
    show ?case
    proof (cases "matches e \<lparr>pl_before = b, pl_rest = t # ts, pl_groups = []\<rparr>")
      case Nil
      with 2(2) obtain ys where ys: "search e (Some (fst t)) ts = Some (ys, m, q)" "xs = t # ys" by (auto split: option.splits)
      show ?thesis using 2(1) [OF Nil ys(1)] ys(2) by auto
    next
      case (Cons r rs)
      with 2(2) have q: "xs = []" "q = r" "m = take (length (t # ts) - length (pl_rest r)) (t # ts)" by auto
      moreover have "m @ pl_rest q = t # ts" unfolding q by (rule cut [of r e b]) (simp add: Cons)
      ultimately show ?thesis using Cons by auto
    qed
  qed
  then show "ts = xs @ m @ pl_rest q"
    and "q \<in> set (matches e \<lparr>pl_before = (if xs = [] then b else Some (fst (last xs))), pl_rest = m @ pl_rest q, pl_groups = []\<rparr>)"
    by auto
qed

lemma search_consumes: "search e b ts = Some (xs, m, q) \<Longrightarrow> min_len e \<le> length m"
  using matches_min_len [OF search_Some(2)] by fastforce

lemma search_at_start: "matches e \<lparr>pl_before = b, pl_rest = ts, pl_groups = []\<rparr> \<noteq> [] \<Longrightarrow> search e b ts \<noteq> None"
  by (cases ts) (auto split: list.splits)

text \<open>A stretch of a text reads as the same runes when it is cut out.\<close>

lemma decode_cut: "decode (xs @ ys) = (r, w) \<Longrightarrow> w \<le> length xs \<Longrightarrow> xs \<noteq> [] \<Longrightarrow> decode xs = (r, w)"
proof -
  assume a: "decode (xs @ ys) = (r, w)" "w \<le> length xs" "xs \<noteq> []"
  consider b where "xs = [b]" | b c where "xs = [b, c]" | b c d where "xs = [b, c, d]" | b c d e zs where "xs = b # c # d # e # zs"
    using a(3) by (metis list.exhaust)
  then show ?thesis
  proof cases
    case 1
    with a show ?thesis by (auto split: if_splits list.splits)
  next
    case 2
    with a show ?thesis by (auto split: if_splits list.splits)
  next
    case 3
    with a show ?thesis by (auto split: if_splits list.splits)
  next
    case 4
    with a show ?thesis by (simp cong: if_cong)
  qed
qed

fun tokenised :: "token list \<Rightarrow> bool" where
  "tokenised [] = True"
| "tokenised (t # ts) = (snd t \<noteq> [] \<and> decode (map of_char (snd t @ bytes_of ts)) = (fst t, length (snd t)) \<and> tokenised ts)"

lemma tokenised_tokens_of: "length s \<le> n \<Longrightarrow> tokenised (tokens_of n s) \<and> bytes_of (tokens_of n s) = s"
proof (induction n s rule: tokens_of.induct)
  case (2 n s)
  show ?case
  proof (cases "s = []")
    case False
    define d where "d = decode (map of_char s)"
    have w: "0 < snd d" unfolding d_def using False by (simp add: decode_width)
    have le: "snd d \<le> length s"
      unfolding d_def using False by (cases s) (auto split: list.splits)
    show ?thesis using False 2(1) [OF False refl prod.collapse] 2(2) w le
      by (auto simp: split_beta d_def [symmetric] simp flip: append_assoc)
  qed simp
qed simp

lemma tokenised_tokens [simp]: "tokenised (tokens s)"
  using tokenised_tokens_of [of s "length s"] by (simp add: tokens_def)

lemma tokenised_drop: "tokenised (xs @ ys) \<Longrightarrow> tokenised ys"
  by (induction xs) auto

lemma tokenised_take: "tokenised (xs @ ys) \<Longrightarrow> tokenised xs"
proof (induction xs)
  case (Cons t xs)
  then have "decode (map of_char (snd t @ bytes_of xs) @ map of_char (bytes_of ys)) = (fst t, length (snd t))" by simp
  moreover have "snd t \<noteq> []" "tokenised xs" using Cons by auto
  ultimately show ?case using decode_cut [of "map of_char (snd t @ bytes_of xs)" "map of_char (bytes_of ys)" "fst t" "length (snd t)"]
    by (simp del: decode.simps)
qed simp

lemma tokens_bytes_of: "tokenised ts \<Longrightarrow> tokens (bytes_of ts) = ts"
proof -
  have "tokenised ts \<Longrightarrow> length (bytes_of ts) \<le> n \<Longrightarrow> tokens_of n (bytes_of ts) = ts" for n
  proof (induction ts arbitrary: n)
    case Nil
    then show ?case by (cases n) auto
  next
    case (Cons t ts)
    then show ?case by (cases n; cases "snd t"; cases t) (auto simp del: decode.simps)
  qed
  then show "tokenised ts \<Longrightarrow> ?thesis" by (simp add: tokens_def)
qed

lemma match_matches_alone:
  assumes "\<not> anchored e" "tokenised ts" "search e b ts = Some (xs, m, q)"
  shows "FindStringSubmatch e (bytes_of m) \<noteq> None"
proof -
  have "ts = xs @ m @ pl_rest q" using search_Some(1) [OF assms(3)] .
  then have "tokens (bytes_of m) = m" using assms(2) by (metis tokenised_drop tokenised_take tokens_bytes_of)
  moreover have "matches e \<lparr>pl_before = None, pl_rest = m, pl_groups = []\<rparr> \<noteq> []"
    using matches_cut_back [OF assms(1) search_Some(2) [OF assms(3)], of "pl_rest q" "\<lparr>pl_before = None, pl_rest = m, pl_groups = []\<rparr>"]
    by (auto simp: cut_back_def)
  ultimately show ?thesis using search_at_start [of e None m] by (auto simp: FindStringSubmatch_def split: option.splits)
qed

text \<open>
  A replacement whose state never shows in what it writes is a replacement without the state.
\<close>

lemma replace_loop_state:
  assumes f: "\<And>m s. I s \<Longrightarrow> I (snd (f m s)) \<and> fst (f m s) = h m"
  shows "I s \<Longrightarrow> I (snd (replace_loop e f b ts s))
    \<and> fst (replace_loop e f b ts s) = fst (replace_loop e (\<lambda>m u. (h m, u)) b ts ())"
proof (induction "length ts" arbitrary: b ts s rule: less_induct)
  case less
  show ?case
  proof (cases "search e b ts")
    case None
    then show ?thesis using less.prems by (simp add: replace_loop.simps)
  next
    case (Some r)
    then obtain xs m q where r: "search e b ts = Some (xs, m, q)" by (cases r) auto
    let ?m = "\<lambda>n. if n = 0 then bytes_of m else group_text (pl_groups q) n"
    show ?thesis
    proof (cases "length (pl_rest q) < length ts")
      case True
      note ih = less.hyps [OF True, of "snd (f ?m s)" "pl_before q"]
      show ?thesis using ih f [OF less.prems, of ?m] r True
        by (subst (1 2 3) replace_loop.simps) (simp add: split_beta cong: if_cong)
    next
      case False
      then show ?thesis using r less.prems by (subst (1 2 3) replace_loop.simps) simp
    qed
  qed
qed

end
