(* ===== verification/Go_Text.thy ===== *)
theory Go_Text
  imports Go_Regexp
begin

text \<open>
  More of Go's standard library on text: \<^verbatim>\<open>strings.Index\<close>, \<^verbatim>\<open>strings.ReplaceAll\<close>, the trims with a
  set of bytes, whether \<^verbatim>\<open>strconv.ParseFloat\<close> takes a text without an error, and whether
  \<^verbatim>\<open>net.ParseIP\<close> reads it as an address.
\<close>

subsection \<open>strings\<close>

fun strings_Index :: "string \<Rightarrow> string \<Rightarrow> nat option" where
  "strings_Index s sub = (if strings_HasPrefix s sub then Some 0
     else case s of [] \<Rightarrow> None | _ # t \<Rightarrow> map_option Suc (strings_Index t sub))"

declare strings_Index.simps [simp del]

lemma index_Some:
  "strings_Index s sub = Some i \<Longrightarrow> \<exists>a b. s = a @ sub @ b \<and> length a = i"
proof (induction s sub arbitrary: i rule: strings_Index.induct)
  case (1 s sub)
  show ?case
  proof (cases "strings_HasPrefix s sub")
    case True
    with 1(2) show ?thesis by (auto simp: strings_Index.simps [of s] elim!: hasPrefixE)
  next
    case False
    with 1(2) obtain c t j where "s = c # t" "strings_Index t sub = Some j" "i = Suc j"
      by (auto simp: strings_Index.simps [of s] split: list.splits)
    with 1(1) [OF False] obtain a b where "t = a @ sub @ b" "length a = j" by blast
    then have "s = (c # a) @ sub @ b \<and> length (c # a) = i" using \<open>s = c # t\<close> \<open>i = Suc j\<close> by simp
    then show ?thesis by blast
  qed
qed

lemma index_bound: "strings_Index s sub = Some i \<Longrightarrow> i + length sub \<le> length s"
  by (drule index_Some) auto

definition strings_Contains :: "string \<Rightarrow> string \<Rightarrow> bool" where
  "strings_Contains s sub = (strings_Index s sub \<noteq> None)"

text \<open>The first place: nothing before it is an occurrence.\<close>

lemma index_first: "strings_Index s sub = Some i \<Longrightarrow> j < i \<Longrightarrow> \<not> strings_HasPrefix (drop j s) sub"
proof (induction s sub arbitrary: i j rule: strings_Index.induct)
  case (1 s sub)
  then have n: "\<not> strings_HasPrefix s sub" by (auto simp: strings_Index.simps [of s])
  with 1(2) obtain c t k where "s = c # t" "strings_Index t sub = Some k" "i = Suc k"
    by (auto simp: strings_Index.simps [of s] split: list.splits)
  with 1 n show ?case by (cases j) auto
qed

lemma index_None: "strings_Index s sub = None \<Longrightarrow> \<not> strings_HasPrefix (drop j s) sub"
proof (induction s sub arbitrary: j rule: strings_Index.induct)
  case (1 s sub)
  then have n: "\<not> strings_HasPrefix s sub" by (auto simp: strings_Index.simps [of s] split: if_splits)
  then have "sub \<noteq> []" by (auto simp: strings_HasPrefix_def)
  show ?case
  proof (cases s)
    case Nil
    then show ?thesis using \<open>sub \<noteq> []\<close> by (simp add: strings_HasPrefix_def)
  next
    case (Cons c t)
    then have "strings_Index t sub = None" using 1(2) n by (simp add: strings_Index.simps [of "c # t"])
    then show ?thesis using 1(1) [OF n Cons] n Cons by (cases j) auto
  qed
qed

function replace_plain :: "string \<Rightarrow> string \<Rightarrow> string \<Rightarrow> string" where
  "replace_plain old new s = (case (if old = [] then None else strings_Index s old) of None \<Rightarrow> s
     | Some i \<Rightarrow> take i s @ new @ replace_plain old new (drop (i + length old) s))"
  by auto
termination
proof (relation "measure (\<lambda>(old, new, s). length s)", goal_cases)
  case (2 old new s i)
  then show ?case using index_bound [of s old i] by (cases old) (auto split: if_splits)
qed simp

declare replace_plain.simps [simp del]

text \<open>\<^verbatim>\<open>strings.ReplaceAll\<close>; the empty text stands before every rune and at the end.\<close>

definition strings_ReplaceAll :: "string \<Rightarrow> string \<Rightarrow> string \<Rightarrow> string" where
  "strings_ReplaceAll s old new = (if old = [] then new @ concat (map (\<lambda>t. snd t @ new) (tokens s))
     else replace_plain old new s)"

definition strings_Trim :: "string \<Rightarrow> string \<Rightarrow> string" where
  "strings_Trim s cs = rev (dropWhile (\<lambda>c. c \<in> set cs) (rev (dropWhile (\<lambda>c. c \<in> set cs) s)))"

definition strings_TrimRight :: "string \<Rightarrow> string \<Rightarrow> string" where
  "strings_TrimRight s cs = rev (dropWhile (\<lambda>c. c \<in> set cs) (rev s))"

definition strings_TrimLeft :: "string \<Rightarrow> string \<Rightarrow> string" where
  "strings_TrimLeft s cs = dropWhile (\<lambda>c. c \<in> set cs) s"

definition strings_ToLower :: "string \<Rightarrow> string" where
  "strings_ToLower s = map lower_char s"

subsection \<open>strconv.ParseFloat\<close>

definition hex_val :: "char \<Rightarrow> nat option" where
  "hex_val c = (let n = of_char c :: nat in if 48 \<le> n \<and> n \<le> 57 then Some (n - 48)
     else if 97 \<le> n \<and> n \<le> 102 then Some (n - 87) else if 65 \<le> n \<and> n \<le> 70 then Some (n - 55) else None)"

definition digit_in :: "bool \<Rightarrow> char \<Rightarrow> nat option" where
  "digit_in hex c = (if hex then hex_val c else digit_val c)"

text \<open>
  The digits of a mantissa: its value, how many stand after the point, whether there was any, and
  what follows.
\<close>

fun read_mantissa :: "bool \<Rightarrow> int \<Rightarrow> nat \<Rightarrow> bool \<Rightarrow> bool \<Rightarrow> string \<Rightarrow> int \<times> nat \<times> bool \<times> string" where
  "read_mantissa hex mant frac dot digits [] = (mant, frac, digits, [])"
| "read_mantissa hex mant frac dot digits (c # cs) =
     (if c = CHR ''_'' then read_mantissa hex mant frac dot digits cs
      else if c = CHR ''.'' then (if dot then (mant, frac, digits, c # cs) else read_mantissa hex mant frac True digits cs)
      else case digit_in hex c of
        Some d \<Rightarrow> read_mantissa hex ((if hex then 16 else 10) * mant + int d) (if dot then frac + 1 else frac) dot True cs
      | None \<Rightarrow> (mant, frac, digits, c # cs))"

text \<open>The digits of an exponent, which stops growing once it has passed ten thousand.\<close>

fun read_exponent :: "int \<Rightarrow> string \<Rightarrow> int \<times> string" where
  "read_exponent e [] = (e, [])"
| "read_exponent e (c # cs) = (if c = CHR ''_'' then read_exponent e cs
     else case digit_val c of None \<Rightarrow> (e, c # cs)
       | Some d \<Rightarrow> read_exponent (if e < 10000 then 10 * e + int d else e) cs)"

fun underscore_loop :: "bool \<Rightarrow> char \<Rightarrow> string \<Rightarrow> bool" where
  "underscore_loop hex saw [] = (saw \<noteq> CHR ''_'')"
| "underscore_loop hex saw (c # cs) =
     (if digit_in hex c \<noteq> None then underscore_loop hex CHR ''0'' cs
      else if c = CHR ''_'' then saw = CHR ''0'' \<and> underscore_loop hex CHR ''_'' cs
      else saw \<noteq> CHR ''_'' \<and> underscore_loop hex CHR ''!'' cs)"

definition without_sign :: "string \<Rightarrow> string" where
  "without_sign s = (case s of [] \<Rightarrow> [] | c # cs \<Rightarrow> if c = CHR ''+'' \<or> c = CHR ''-'' then cs else s)"

definition underscoreOK :: "string \<Rightarrow> bool" where
  "underscoreOK s = (let s = without_sign s in
     if 2 \<le> length s \<and> hd s = CHR ''0'' \<and> lower_char (s ! 1) \<in> set ''box''
     then underscore_loop (lower_char (s ! 1) = CHR ''x'') CHR ''0'' (drop 2 s)
     else underscore_loop False CHR ''^'' s)"

text \<open>Whether \<^verbatim>\<open>mant * base ^ x\<close> rounds past the largest float64.\<close>

definition too_large :: "int \<Rightarrow> int \<Rightarrow> int \<Rightarrow> bool" where
  "too_large base mant x = (let limit = 2 ^ 1024 - 2 ^ 970 in
     if mant = 0 then False else if x \<ge> 0 then mant * base ^ nat x \<ge> limit else mant \<ge> limit * base ^ nat (- x))"

definition ParseFloat_ok :: "string \<Rightarrow> bool" where
  "ParseFloat_ok s = (let t = without_sign s in
     if map lower_char t \<in> {''inf'', ''infinity''} \<or> map lower_char s = ''nan'' then True
     else
       let hex = (2 < length t \<and> hd t = CHR ''0'' \<and> lower_char (t ! 1) = CHR ''x'');
           (mant, frac, digits, more) = read_mantissa hex 0 0 False False (if hex then drop 2 t else t)
       in digits \<and> (CHR ''_'' \<in> set s \<longrightarrow> underscoreOK s)
         \<and> (case more of
             [] \<Rightarrow> \<not> hex \<and> \<not> too_large 10 mant (- int frac)
           | c # cs \<Rightarrow> lower_char c = (if hex then CHR ''p'' else CHR ''e'')
               \<and> (let neg = (cs \<noteq> [] \<and> hd cs = CHR ''-''); ds = without_sign cs;
                      (e, tail) = read_exponent 0 ds;
                      x = (if neg then - e else e)
                  in ds \<noteq> [] \<and> digit_val (hd ds) \<noteq> None \<and> tail = []
                    \<and> \<not> (if hex then too_large 2 mant (x - 4 * int frac) else too_large 10 mant (x - int frac)))))"

subsection \<open>net.ParseIP\<close>

definition octet_ok :: "string \<Rightarrow> bool" where
  "octet_ok f = (f \<noteq> [] \<and> (length f = 1 \<or> hd f \<noteq> CHR ''0'')
     \<and> (case digits_val 0 f of None \<Rightarrow> False | Some n \<Rightarrow> n \<le> 255))"

definition parseIPv4 :: "string \<Rightarrow> bool" where
  "parseIPv4 s = (let fs = split_at CHR ''.'' s in length fs = 4 \<and> list_all octet_ok fs)"

definition enough_fields :: "nat \<Rightarrow> bool \<Rightarrow> bool" where
  "enough_fields i ellipsis = (if i < 16 then ellipsis else \<not> ellipsis)"

function parseIPv6_loop :: "nat \<Rightarrow> bool \<Rightarrow> string \<Rightarrow> bool" where
  "parseIPv6_loop i ellipsis s =
     (if 16 \<le> i then s = [] \<and> enough_fields i ellipsis
      else
        let off = length (takeWhile (\<lambda>c. hex_val c \<noteq> None) s); t = drop off s in
        if off = 0 \<or> 4 < off then False
        else case t of
          [] \<Rightarrow> enough_fields (i + 2) ellipsis
        | c # u \<Rightarrow>
            if c = CHR ''.'' then (ellipsis \<or> i = 12) \<and> i + 4 \<le> 16 \<and> parseIPv4 s \<and> enough_fields (i + 4) ellipsis
            else if c \<noteq> CHR '':'' then False
            else case u of
              [] \<Rightarrow> False
            | d # v \<Rightarrow>
                if d = CHR '':'' then \<not> ellipsis \<and> (if v = [] then enough_fields (i + 2) True else parseIPv6_loop (i + 2) True v)
                else parseIPv6_loop (i + 2) ellipsis u)"
  by auto
termination by (relation "measure (\<lambda>(i, _, _). 16 - i)") auto

declare parseIPv6_loop.simps [simp del]

definition parseIPv6 :: "string \<Rightarrow> bool" where
  "parseIPv6 s = (if strings_HasPrefix s ''::'' then (let t = drop 2 s in t = [] \<or> parseIPv6_loop 0 True t)
     else parseIPv6_loop 0 False s)"

text \<open>The first dot or colon says which family it is; an address with a zone is refused.\<close>

definition ParseIP_ok :: "string \<Rightarrow> bool" where
  "ParseIP_ok s = (case List.find (\<lambda>c. c = CHR ''.'' \<or> c = CHR '':'' \<or> c = CHR ''%'') s of
       Some c \<Rightarrow> if c = CHR ''.'' then parseIPv4 s else if c = CHR '':'' then CHR ''%'' \<notin> set s \<and> parseIPv6 s else False
     | None \<Rightarrow> False)"

end
