(* ===== verification/Redact_Secrets.thy ===== *)
theory Redact_Secrets
  imports Go_Text
begin

text \<open>
  The secret material of a bundle, \<^verbatim>\<open>pkg/mustgather/redact.go\<close>: the shapes a credential arrives in
  as expressions of \<^verbatim>\<open>Go_Regexp\<close>, the rewrites of each shape, and the line scanner that carries
  the indentation of an open block and the name of an environment variable from line to line.
\<close>

definition redactedValue :: string where "redactedValue = ''REDACTED''"

subsection \<open>The shapes\<close>

definition credentialName :: regex where
  "credentialName = RGroup 1 (alt [fold_lit ''pass'', fold_lit ''passwd'', fold_lit ''password'', fold_lit ''secret'',
     fold_lit ''token'', fold_lit ''key'', fold_lit ''credential'', fold_lit ''cred'', fold_lit ''auth'',
     seq [fold_lit ''licen'', RClass (\<lambda>r. folds_to CHR ''c'' r \<or> folds_to CHR ''s'' r), fold_lit ''e''],
     fold_lit ''signature'', fold_lit ''session''])"

definition authHeader :: regex where
  "authHeader = seq [
     RGroup 1 (seq [fold_lit ''authorization'', spaces, lit CHR '':'', spaces]),
     RGroup 2 (alt [fold_lit ''bearer'', fold_lit ''basic'', fold_lit ''token'']),
     RGroup 3 (plus_of (RClass space_rune)),
     plus_of not_space]"

definition bearerToken :: regex where
  "bearerToken = seq [
     RGroup 1 (seq [RWord, fold_lit ''bearer'', plus_of (RClass space_rune)]),
     at_least 8 (RClass (\<lambda>r. alnum_rune r \<or> one_of ''._~+/=-'' r \<or> r = 383 \<or> r = 8490))]"

definition pemName :: regex where
  "pemName = plus_of (RClass (\<lambda>r. 65 \<le> r \<and> r \<le> 90 \<or> r = 32))"

definition pemBlock :: regex where
  "pemBlock = seq [verbatim ''-----BEGIN '', pemName, verbatim ''-----'', RLazy any_rune,
     verbatim ''-----END '', pemName, verbatim ''-----'']"

definition name_rune :: "nat \<Rightarrow> bool" where "name_rune r \<longleftrightarrow> alnum_rune r \<or> one_of ''_.-'' r"

definition bare_value :: regex where
  "bare_value = plus_of (RClass (\<lambda>r. \<not> space_rune r \<and> r \<noteq> 34 \<and> r \<noteq> 39 \<and> \<not> one_of '',;'' r))"

definition shellAssignment :: regex where
  "shellAssignment = seq [
     RGroup 1 (RSeq (RClass (\<lambda>r. alpha_rune r \<or> r = 95)) (RStar (RClass name_rune))),
     lit CHR ''='',
     RGroup 2 bare_value]"

text \<open>A double quote, escaped or not.\<close>

definition quote_mark :: regex where
  "quote_mark = RSeq (opt_of (RClass (\<lambda>r. r = 92))) (RClass (\<lambda>r. r = 34))"

definition quoted_text :: regex where
  "quoted_text = RStar (RClass (\<lambda>r. r \<noteq> 34 \<and> r \<noteq> 92))"

definition jsonString :: regex where
  "jsonString = seq [
     RGroup 1 quote_mark,
     RGroup 2 (plus_of (RClass name_rune)),
     RGroup 3 (seq [quote_mark, spaces, lit CHR '':'', spaces, quote_mark]),
     RGroup 4 quoted_text,
     RGroup 5 quote_mark]"

definition quoted_word :: "string \<Rightarrow> regex" where
  "quoted_word w = seq [quote_mark, verbatim w, quote_mark]"

definition jsonEnvPair :: regex where
  "jsonEnvPair = seq [
     RGroup 1 (seq [quoted_word ''name'', spaces, lit CHR '':'', spaces, quote_mark]),
     RGroup 2 (plus_of (RClass name_rune)),
     RGroup 3 (seq [quote_mark, spaces, lit CHR '','', spaces, quoted_word ''value'', spaces, lit CHR '':'', spaces, quote_mark]),
     RGroup 4 quoted_text,
     RGroup 5 quote_mark]"

definition commandFlag :: regex where
  "commandFlag = seq [
     RGroup 1 (seq [verbatim ''--'', RClass alnum_rune, RStar (RClass (\<lambda>r. alnum_rune r \<or> r = 45))]),
     RGroup 2 (RClass (one_of ''= '')),
     RGroup 3 bare_value]"

definition urlUserinfo :: regex where
  "urlUserinfo = seq [
     RGroup 1 (seq [RClass alpha_rune, RStar (RClass (\<lambda>r. alnum_rune r \<or> one_of ''+.-'' r)), verbatim ''://'']),
     RGroup 2 (plus_of (RClass (\<lambda>r. \<not> space_rune r \<and> \<not> one_of ''/:@'' r))),
     lit CHR '':'',
     RGroup 3 (plus_of (RClass (\<lambda>r. \<not> space_rune r \<and> \<not> one_of ''/@'' r))),
     lit CHR ''@'']"

text \<open>The start of a YAML line up to a key: indentation, and perhaps a dash.\<close>

definition line_start :: regex where
  "line_start = seq [spaces, opt_of (lit CHR ''-''), spaces]"

definition double_quote :: regex where "double_quote = RClass (\<lambda>r. r = 34)"

definition yaml_key :: regex where
  "yaml_key = seq [line_start, opt_of double_quote,
     RGroup 2 (plus_of (RClass (\<lambda>r. name_rune r \<or> r = 47))),
     opt_of double_quote, spaces, lit CHR '':'', spaces]"

definition yaml_value :: regex where
  "yaml_value = RSeq not_space (RStar not_newline)"

definition dataField :: regex where
  "dataField = seq [RBegin,
     RGroup 1 (seq [line_start, RStar (RClass name_rune), verbatim ''-data'', spaces, lit CHR '':'', spaces]),
     RGroup 2 yaml_value, REnd]"

definition keyedValue :: regex where
  "keyedValue = seq [RBegin, RGroup 1 yaml_key, RGroup 3 yaml_value, REnd]"

definition blockScalar :: regex where
  "blockScalar = seq [RBegin, RGroup 1 yaml_key,
     RGroup 3 (RSeq (RClass (one_of ''|>'')) (RStar (RClass (\<lambda>r. digit_rune r \<or> one_of ''-+'' r)))), spaces, REnd]"

definition envName :: regex where
  "envName = seq [RBegin, line_start, opt_of double_quote, verbatim ''name'', opt_of double_quote, spaces, lit CHR '':'', spaces,
     opt_of double_quote, RGroup 1 (plus_of (RClass name_rune)), opt_of double_quote, opt_of (lit CHR '',''), spaces, REnd]"

definition valueLine :: regex where
  "valueLine = seq [RBegin,
     RGroup 1 (seq [spaces, opt_of double_quote, verbatim ''value'', opt_of double_quote, spaces, lit CHR '':'', spaces]),
     RGroup 2 yaml_value, REnd]"

subsection \<open>Which values are credentials\<close>

definition notACredentialKey :: "string \<Rightarrow> bool" where
  "notACredentialKey name = strings_EqualFold name ''key''"

definition isLiteralValue :: "string \<Rightarrow> bool" where
  "isLiteralValue val = (let v = strings_Trim (strings_TrimSpace val) [char_of (34::nat), char_of (39::nat)] in
     strings_ToLower v \<in> set [''true'', ''false'', ''null'', ''~'', ''yes'', ''no'', ''on'', ''off'', ''''] \<or> ParseFloat_ok v)"

text \<open>A name that says credential.\<close>

abbreviation says_credential :: "string \<Rightarrow> bool" where
  "says_credential name \<equiv> MatchString credentialName name \<and> \<not> notACredentialKey name"

subsection \<open>The rewrites of a shape\<close>

text \<open>
  Each match is matched again on its own for its groups; \<open>with_groups\<close> is that step, and a match
  always matches again (\<open>shape_matches_again\<close>).
\<close>

definition with_groups :: "regex \<Rightarrow> ((nat \<Rightarrow> string) \<Rightarrow> string) \<Rightarrow> string \<Rightarrow> string" where
  "with_groups e f mtch = (case FindStringSubmatch e mtch of None \<Rightarrow> mtch | Some m \<Rightarrow> f m)"

definition redactShellAssignments :: "string \<Rightarrow> string" where
  "redactShellAssignments s = ReplaceAll shellAssignment (\<lambda>w. with_groups shellAssignment (\<lambda>m.
     if \<not> MatchString credentialName (m 1) \<or> notACredentialKey (m 1) \<or> isLiteralValue (m 2) then w 0
     else m 1 @ ''='' @ redactedValue) (w 0)) s"

definition redactCommandFlags :: "string \<Rightarrow> string" where
  "redactCommandFlags s = ReplaceAll commandFlag (\<lambda>w. with_groups commandFlag (\<lambda>m.
     let name = strings_TrimPrefix (m 1) ''--'' in
     if \<not> MatchString credentialName name \<or> notACredentialKey name \<or> isLiteralValue (m 3) then w 0
     else m 1 @ m 2 @ redactedValue) (w 0)) s"

definition redactJSONStrings :: "string \<Rightarrow> string" where
  "redactJSONStrings s = ReplaceAll jsonString (\<lambda>w. with_groups jsonString (\<lambda>m.
     if \<not> MatchString credentialName (m 2) \<or> notACredentialKey (m 2) then w 0
     else m 1 @ m 2 @ m 3 @ redactedValue @ m 5) (w 0)) s"

definition redactJSONEnvPairs :: "string \<Rightarrow> string" where
  "redactJSONEnvPairs s = ReplaceAll jsonEnvPair (\<lambda>w. with_groups jsonEnvPair (\<lambda>m.
     if \<not> MatchString credentialName (m 2) \<or> notACredentialKey (m 2) then w 0
     else m 1 @ m 2 @ m 3 @ redactedValue @ m 5) (w 0)) s"

subsection \<open>The line scanner\<close>

definition indentOf :: "string \<Rightarrow> nat" where
  "indentOf line = length line - length (strings_TrimLeft line '' '')"

definition dataKey :: "string \<Rightarrow> nat option" where
  "dataKey line = (let trimmed = strings_TrimSpace line in
     if trimmed \<noteq> ''data:'' \<and> trimmed \<noteq> ''stringData:'' then None else Some (indentOf line))"

definition redactKeyedValue :: "string \<Rightarrow> string" where
  "redactKeyedValue line = (case FindStringSubmatch keyedValue line of
       Some m \<Rightarrow> if \<not> isLiteralValue (m 3) then m 1 @ redactedValue else line
     | None \<Rightarrow> line)"

text \<open>
  What is carried from line to line: whether the line before named a credential in a container's
  env list, and the indentation of an open \<^verbatim>\<open>data:\<close> map and of an open block scalar, \<open>None\<close> for
  the code's -1.
\<close>

record scan_state =
  pendingEnv :: bool
  dataIndent :: "nat option"
  blockIndent :: "nat option"

definition scan_start :: scan_state where
  "scan_start = \<lparr>pendingEnv = False, dataIndent = None, blockIndent = None\<rparr>"

text \<open>Whether a line is indented further than an open block and is not blank.\<close>

definition inside :: "nat option \<Rightarrow> string \<Rightarrow> bool" where
  "inside indent line = (case indent of None \<Rightarrow> False
     | Some n \<Rightarrow> strings_TrimSpace line \<noteq> [] \<and> indentOf line > n)"

text \<open>The last three tests of the loop body, on a line in no open block.\<close>

definition scan_plain :: "scan_state \<Rightarrow> string \<Rightarrow> string \<times> scan_state" where
  "scan_plain st line =
     (case FindStringSubmatch envName line of
        Some m \<Rightarrow> (line, st\<lparr>pendingEnv := MatchString credentialName (m 1)\<rparr>)
      | None \<Rightarrow> (case FindStringSubmatch dataField line of
          Some m \<Rightarrow> if \<not> isLiteralValue (m 2) then (m 1 @ redactedValue, st)
            else (case FindStringSubmatch keyedValue line of
                Some k \<Rightarrow> if says_credential (k 2) \<and> \<not> isLiteralValue (k 3) then (k 1 @ redactedValue, st) else (line, st)
              | None \<Rightarrow> (line, st))
        | None \<Rightarrow> (case FindStringSubmatch keyedValue line of
                Some k \<Rightarrow> if says_credential (k 2) \<and> \<not> isLiteralValue (k 3) then (k 1 @ redactedValue, st) else (line, st)
              | None \<Rightarrow> (line, st))))"

definition scan_env :: "scan_state \<Rightarrow> string \<Rightarrow> string \<times> scan_state" where
  "scan_env st line =
     (if pendingEnv st then
        let st = st\<lparr>pendingEnv := False\<rparr> in
        (case FindStringSubmatch valueLine line of
           Some m \<Rightarrow> if \<not> isLiteralValue (m 2) then (m 1 @ redactedValue, st) else scan_plain st line
         | None \<Rightarrow> scan_plain st line)
      else scan_plain st line)"

definition scan_line :: "scan_state \<Rightarrow> string \<Rightarrow> string \<times> scan_state" where
  "scan_line st line =
     (if inside (blockIndent st) line then ([], st)
      else let st = st\<lparr>blockIndent := None\<rparr> in
      if inside (dataIndent st) line then (redactKeyedValue line, st)
      else let st = st\<lparr>dataIndent := None\<rparr> in
      case dataKey line of
        Some indent \<Rightarrow> (line, st\<lparr>dataIndent := Some indent\<rparr>)
      | None \<Rightarrow> (case FindStringSubmatch blockScalar line of
          Some m \<Rightarrow> if says_credential (m 2) then (m 1 @ redactedValue, st\<lparr>blockIndent := Some (indentOf line)\<rparr>) else scan_env st line
        | None \<Rightarrow> scan_env st line))"

fun scan_lines :: "scan_state \<Rightarrow> string list \<Rightarrow> string list" where
  "scan_lines st [] = []"
| "scan_lines st (line # lines) = (let (out, st') = scan_line st line in out # scan_lines st' lines)"

text \<open>The rewrites that look at the whole text, in the order of the code.\<close>

definition redactShapes :: "string \<Rightarrow> string" where
  "redactShapes s0 = (let
     s1 = ReplaceAll pemBlock (\<lambda>_. redactedValue) s0;
     s2 = ReplaceAll authHeader (\<lambda>m. m 1 @ m 2 @ m 3 @ redactedValue) s1;
     s3 = ReplaceAll bearerToken (\<lambda>m. m 1 @ redactedValue) s2;
     s4 = ReplaceAll urlUserinfo (\<lambda>m. m 1 @ redactedValue @ '':'' @ redactedValue @ ''@'') s3
   in redactCommandFlags (redactShellAssignments (redactJSONStrings (redactJSONEnvPairs s4))))"

definition redactSecrets :: "string \<Rightarrow> string" where
  "redactSecrets s = strings_Join (scan_lines scan_start (split_at (char_of (10::nat)) (redactShapes s))) [char_of (10::nat)]"

subsection \<open>What the scanner hides\<close>

text \<open>A shape is a pattern of its own: what matched in a file matches when it is cut out.\<close>

lemmas shape_defs = shellAssignment_def commandFlag_def jsonString_def jsonEnvPair_def
lemmas piece_defs = bare_value_def quote_mark_def quoted_text_def quoted_word_def verbatim_def
  spaces_def lit_def plus_of_def opt_of_def

lemma shapes_free: "e \<in> {shellAssignment, commandFlag, jsonString, jsonEnvPair} \<Longrightarrow> \<not> anchored e"
  by (auto simp: shape_defs piece_defs)

lemma shape_matches_again:
  assumes "e \<in> {shellAssignment, commandFlag, jsonString, jsonEnvPair}" "search e b ts = Some (xs, m, q)" "tokenised ts"
  shows "\<exists>g. FindStringSubmatch e (bytes_of m) = Some g"
  using match_matches_alone [OF shapes_free [OF assms(1)] assms(3,2)] by auto

lemma replaced_shapes_consume:
  "e \<in> {shellAssignment, commandFlag, jsonString, jsonEnvPair, pemBlock, authHeader, bearerToken, urlUserinfo} \<Longrightarrow> 0 < min_len e"
  by (auto simp: shape_defs piece_defs pemBlock_def pemName_def authHeader_def bearerToken_def urlUserinfo_def
      fold_lit_def at_least_def numeral_eq_Suc)

text \<open>A line that says a credential: a key that names one and a value that is a string.\<close>

definition credential_line :: "string \<Rightarrow> bool" where
  "credential_line line = (case FindStringSubmatch keyedValue line of None \<Rightarrow> False
     | Some m \<Rightarrow> says_credential (m 2) \<and> \<not> isLiteralValue (m 3))"

text \<open>
  The three things the scanner makes of a line: nothing, the text before the value with the value
  gone, or the line itself.
\<close>

definition value_gone :: "string \<Rightarrow> string \<Rightarrow> bool" where
  "value_gone line out = (\<exists>e \<in> set [keyedValue, blockScalar, dataField, valueLine].
     case FindStringSubmatch e line of None \<Rightarrow> False | Some m \<Rightarrow> out = m 1 @ redactedValue)"

definition hidden_line :: "string \<Rightarrow> string \<Rightarrow> bool" where
  "hidden_line line out = (out = [] \<or> value_gone line out
     \<or> out = line \<and> (\<not> credential_line line \<or> MatchString envName line \<or> dataKey line \<noteq> None))"

lemma find_matches: "FindStringSubmatch e s = Some m \<Longrightarrow> MatchString e s"
  by (auto simp: FindStringSubmatch_def MatchString_def split: option.splits)

lemma redactKeyedValue_hides: "hidden_line line (redactKeyedValue line)"
  by (auto simp: redactKeyedValue_def hidden_line_def value_gone_def credential_line_def split: option.splits)

lemma scan_plain_hides: "hidden_line line (fst (scan_plain st line))"
  by (auto simp: scan_plain_def hidden_line_def value_gone_def credential_line_def find_matches split: option.splits)

lemma scan_env_hides: "hidden_line line (fst (scan_env st line))"
  using scan_plain_hides [of line]
  by (auto simp: scan_env_def Let_def hidden_line_def [of line "_ @ redactedValue"] value_gone_def split: option.splits)

lemma scan_line_hides: "hidden_line line (fst (scan_line st line))"
proof -
  have "hidden_line line []" by (simp add: hidden_line_def)
  moreover have "hidden_line line line" if "dataKey line = Some n" for n using that by (simp add: hidden_line_def)
  moreover have "hidden_line line (m 1 @ redactedValue)" if "FindStringSubmatch blockScalar line = Some m" for m
    using that by (auto simp: hidden_line_def value_gone_def)
  ultimately show ?thesis using redactKeyedValue_hides [of line] scan_env_hides [of line]
    by (auto simp: scan_line_def Let_def split: option.splits)
qed

text \<open>
  C18 (scan_hides_credentials). The line scanner answers one line for each line, and what it makes
  of a line is nothing, or the text before the value with REDACTED for the value, or the line as it
  was; a line that names a credential and has a string for its value is only kept when it is the
  name of an environment variable or opens the data of a Secret.
\<close>

theorem scan_hides_credentials: "list_all2 hidden_line lines (scan_lines st lines)"
  by (induction lines arbitrary: st) (simp_all add: split_beta scan_line_hides)

text \<open>What is carried over while the lines belong to an open block.\<close>

lemma scan_block:
  "blockIndent st = Some n \<Longrightarrow> list_all (inside (Some n)) body
   \<Longrightarrow> scan_lines st (body @ rest) = replicate (length body) [] @ scan_lines st rest"
  by (induction body) (auto simp: scan_line_def)

lemma scan_data:
  "blockIndent st = None \<Longrightarrow> dataIndent st = Some n \<Longrightarrow> list_all (inside (Some n)) body
   \<Longrightarrow> scan_lines st (body @ rest) = map redactKeyedValue body @ scan_lines st rest"
proof (induction body)
  case (Cons line body)
  then have "scan_line st line = (redactKeyedValue line, st)" by (simp add: scan_line_def inside_def [of None])
  with Cons show ?case by simp
qed simp

text \<open>
  C19 (secret_blocks_hidden). A credential written as a block scalar loses its whole block: the key's
  line keeps the key and every line of the block becomes empty. Under the data of a Secret every
  line goes through the rewrite that takes out the value of a key. A block is the lines that follow,
  are not blank and are indented further than its key.
\<close>

theorem secret_blocks_hidden:
  assumes "blockIndent st = None" "dataIndent st = None" "list_all (inside (Some (indentOf line))) body"
    and "dataKey line = None \<Longrightarrow> FindStringSubmatch blockScalar line = Some m \<and> says_credential (m 2)"
  shows "take (Suc (length body)) (scan_lines st (line # body @ rest)) =
    (if dataKey line = None then (m 1 @ redactedValue) # replicate (length body) []
     else line # map redactKeyedValue body)"
proof (cases "dataKey line")
  case None
  then show ?thesis
    using assms scan_block [of "st\<lparr>dataIndent := None, blockIndent := Some (indentOf line)\<rparr>" "indentOf line" body rest]
    by (simp add: scan_line_def inside_def [of None])
next
  case (Some n)
  then have "dataKey line = Some (indentOf line)" by (auto simp: dataKey_def Let_def split: if_splits)
  then show ?thesis
    using assms scan_data [of "st\<lparr>blockIndent := None, dataIndent := Some (indentOf line)\<rparr>" "indentOf line" body rest]
    by (simp add: scan_line_def inside_def [of None])
qed

definition sample_block :: "string list" where
  "sample_block = [''    hunter2'', ''    more'']"

theorem secret_blocks_hidden_witness:
  "take 3 (scan_lines scan_start (''  password: |'' # sample_block @ [''end'']))
    = [''  password: REDACTED'', '''', '''']"
proof -
  define m where "m = the (FindStringSubmatch blockScalar ''  password: |'')"
  have m: "FindStringSubmatch blockScalar ''  password: |'' = Some m"
    unfolding m_def by (rule sym, rule option.collapse) code_simp
  have parts: "m 1 = ''  password: ''" "says_credential (m 2)" unfolding m_def by code_simp+
  have none: "dataKey ''  password: |'' = None" by code_simp
  have inside: "list_all (inside (Some (indentOf ''  password: |''))) sample_block" by code_simp
  have "length sample_block = 2" by (simp add: sample_block_def)
  then show ?thesis
    using secret_blocks_hidden [of scan_start "''  password: |''" sample_block m "[''end'']", OF _ _ inside] m parts none
    by (simp add: scan_start_def redactedValue_def numeral_eq_Suc)
qed

text \<open>
  A blank line ends the block for the scanner, although YAML goes on with it: what stands under the
  blank line of a credential's block scalar is kept.
\<close>

lemma blank_line_ends_block:
  "scan_lines scan_start [''password: |'', ''  first'', '''', ''  second''] = [''password: REDACTED'', '''', '''', ''  second'']"
  by code_simp

end
