(* ===== verification/Redact_Names.thy ===== *)
theory Redact_Names
  imports Redact_Secrets
begin

text \<open>
  The identities of a bundle, \<^verbatim>\<open>pkg/mustgather/redact.go\<close>: the redactor with its key and its cache,
  the pseudonym of a value, what the caller teaches it, the replacement of names on their
  boundaries, the addresses, and \<^verbatim>\<open>rewrite\<close>, which runs the parts in order over one text.

  HMAC-SHA256 is a parameter, a function from a key and a message to the bytes of the code; the
  results hold for every such function.
\<close>

type_synonym hmac = "string \<Rightarrow> string \<Rightarrow> string"

definition pseudonymDigits :: nat where "pseudonymDigits = 20"

record identity =
  id_literal :: string
  id_replacement :: string

record DroppedFile =
  df_Path :: string
  df_Reason :: string

record Redactor =
  r_key :: string
  r_names :: "string gomap"
  r_extra :: "identity list"
  r_dropped :: "DroppedFile list"
  r_renamed :: "string gomap"

text \<open>\<^verbatim>\<open>NewRedactor\<close> with what \<^verbatim>\<open>rand.Read\<close> answered: the key, or an error that stops it.\<close>

definition NewRedactor :: "'e + string \<Rightarrow> 'e + Redactor" where
  "NewRedactor drawn = (case drawn of Inl e \<Rightarrow> Inl e
     | Inr key \<Rightarrow> Inr \<lparr>r_key = key, r_names = [], r_extra = [], r_dropped = [], r_renamed = []\<rparr>)"

subsection \<open>Pseudonyms\<close>

definition NUL :: char where "NUL = char_of (0::nat)"

definition hex_EncodeToString :: "string \<Rightarrow> string" where
  "hex_EncodeToString bs = concat (map (\<lambda>b. [hex_char (of_char b div 16), hex_char (of_char b mod 16)]) bs)"

definition Pseudonym :: "hmac \<Rightarrow> string \<Rightarrow> string \<Rightarrow> Redactor \<Rightarrow> string \<times> Redactor" where
  "Pseudonym mac kind val r = (let cacheKey = kind @ NUL # val in
     case map_of (r_names r) cacheKey of
       Some cached \<Rightarrow> (cached, r)
     | None \<Rightarrow>
         let out = kind @ ''-'' @ take pseudonymDigits (hex_EncodeToString (mac (r_key r) (kind @ NUL # val)))
         in (out, r\<lparr>r_names := mput (r_names r) cacheKey out\<rparr>))"

definition Dropped :: "Redactor \<Rightarrow> DroppedFile list" where
  "Dropped r = sort_Slice df_Path (r_dropped r)"

fun Learn :: "hmac \<Rightarrow> string \<Rightarrow> string list \<Rightarrow> Redactor \<Rightarrow> Redactor" where
  "Learn mac kind [] r = r"
| "Learn mac kind (v # vs) r =
     (if v = [] then Learn mac kind vs r
      else let (p, r1) = Pseudonym mac kind v r
           in Learn mac kind vs (r1\<lparr>r_extra := r_extra r1 @ [\<lparr>id_literal = v, id_replacement = p\<rparr>]\<rparr>))"

definition renamedName :: "Redactor \<Rightarrow> string \<Rightarrow> string" where
  "renamedName r name = (case map_of (r_renamed r) name of Some renamed \<Rightarrow> renamed | None \<Rightarrow> name)"

subsection \<open>The order of the replacements\<close>

definition sortedKeysByLengthDesc :: "string gomap \<Rightarrow> string list" where
  "sortedKeysByLengthDesc m = sort_Slice (\<lambda>k. (- int (length k), k)) (map fst m)"

definition byLengthDesc :: "identity list \<Rightarrow> identity list" where
  "byLengthDesc out = sort_Slice (\<lambda>i. (- int (length (id_literal i)), id_literal i)) out"

definition identities :: "Redactor \<Rightarrow> identity list" where
  "identities r = byLengthDesc (r_extra r)"

subsection \<open>Names on their boundaries\<close>

definition letters_and_digits :: string where
  "letters_and_digits = ''abcdefghijklmnopqrstuvwxyzABCDEFGHIJKLMNOPQRSTUVWXYZ0123456789''"

definition nameRunesBefore :: string where "nameRunesBefore = letters_and_digits @ ''.-/''"
definition nameRunesAfter :: string where "nameRunesAfter = letters_and_digits @ ''-''"

definition boundedBefore :: "string \<Rightarrow> nat \<Rightarrow> bool" where
  "boundedBefore s i = (if i = 0 then True else s ! (i - 1) \<notin> set nameRunesBefore)"

definition boundedAfter :: "string \<Rightarrow> nat \<Rightarrow> bool" where
  "boundedAfter s stop = (if stop \<ge> length s then True else s ! stop \<notin> set nameRunesAfter)"

function boundaries_loop :: "string \<Rightarrow> string \<Rightarrow> string \<Rightarrow> string" where
  "boundaries_loop literal replacement s =
     (case (if literal = [] then None else strings_Index s literal) of
        None \<Rightarrow> s
      | Some i \<Rightarrow> (let stop = i + length literal in
          (if boundedBefore s i \<and> boundedAfter s stop then take i s @ replacement else take stop s)
          @ boundaries_loop literal replacement (drop stop s)))"
  by auto
termination
proof (relation "measure (\<lambda>(l, r, s). length s)", goal_cases)
  case (2 l r s i)
  then show ?case using index_bound [of s l i] by (cases l) (auto split: if_splits)
qed simp

declare boundaries_loop.simps [simp del]

definition replaceOnBoundaries :: "string \<Rightarrow> string \<Rightarrow> string \<Rightarrow> string" where
  "replaceOnBoundaries s literal replacement = (if literal = [] then s else boundaries_loop literal replacement s)"

fun replaceIdentities :: "string \<Rightarrow> identity list \<Rightarrow> string" where
  "replaceIdentities s [] = s"
| "replaceIdentities s (i # is) = replaceIdentities (replaceOnBoundaries s (id_literal i) (id_replacement i)) is"

fun replaceAll :: "string \<Rightarrow> identity list \<Rightarrow> string" where
  "replaceAll s [] = s"
| "replaceAll s (i # is) = replaceAll (strings_ReplaceAll s (id_literal i) (id_replacement i)) is"

subsection \<open>Addresses\<close>

definition ipv4Pattern :: regex where
  "ipv4Pattern = (let part = between 1 3 (RClass digit_rune) in
     seq [RWord, part, lit CHR ''.'', part, lit CHR ''.'', part, lit CHR ''.'', part, RWord])"

definition ipv6Pattern :: regex where
  "ipv6Pattern = (let part = between 0 4 (RClass hex_rune) in
     seq [RWord, part, between 2 7 (RSeq (lit CHR '':'') part)])"

text \<open>The address of a match, and what it ran on into.\<close>

definition address_of :: "string \<Rightarrow> string" where
  "address_of mtch = (if \<not> strings_HasSuffix mtch ''::'' then strings_TrimRight mtch '':'' else mtch)"

definition replace_address :: "hmac \<Rightarrow> string \<Rightarrow> Redactor \<Rightarrow> string \<times> Redactor" where
  "replace_address mac mtch r = (let candidate = address_of mtch in
     if \<not> ParseIP_ok candidate then (mtch, r)
     else let (p, r1) = Pseudonym mac ''ip'' candidate r in (p @ drop (length candidate) mtch, r1))"

definition redactAddresses :: "hmac \<Rightarrow> string \<Rightarrow> Redactor \<Rightarrow> string \<times> Redactor" where
  "redactAddresses mac s r = (let (s1, r1) = ReplaceAllStringFunc ipv4Pattern (replace_address mac) s r
     in ReplaceAllStringFunc ipv6Pattern (replace_address mac) s1 r1)"

subsection \<open>One text\<close>

fun rename_texts :: "string gomap \<Rightarrow> string list \<Rightarrow> string \<Rightarrow> string" where
  "rename_texts m [] s = s"
| "rename_texts m (old # olds) s = rename_texts m olds (strings_ReplaceAll s old (mget [] m old))"

definition rewrite :: "hmac \<Rightarrow> string \<Rightarrow> identity list \<Rightarrow> Redactor \<Rightarrow> string \<times> Redactor" where
  "rewrite mac s names r =
     (let out = redactSecrets s;
          out = rename_texts (r_renamed r) (sortedKeysByLengthDesc (r_renamed r)) out;
          out = replaceIdentities out names
      in redactAddresses mac out r)"

definition RedactText :: "hmac \<Rightarrow> string \<Rightarrow> Redactor \<Rightarrow> string \<times> Redactor" where
  "RedactText mac s r = rewrite mac s (identities r) r"

subsection \<open>The cache is only a cache\<close>

definition pseudonym_of :: "hmac \<Rightarrow> string \<Rightarrow> string \<Rightarrow> string \<Rightarrow> string" where
  "pseudonym_of mac key kind val = kind @ ''-'' @ take pseudonymDigits (hex_EncodeToString (mac key (kind @ NUL # val)))"

text \<open>
  Every cached pseudonym of a kind without a NUL is the one the key gives; the kinds of the code
  are the constants node, host, ip and context.
\<close>

definition coherent :: "hmac \<Rightarrow> Redactor \<Rightarrow> bool" where
  "coherent mac r \<longleftrightarrow> (\<forall>kind val p. NUL \<notin> set kind \<longrightarrow> map_of (r_names r) (kind @ NUL # val) = Some p
     \<longrightarrow> p = pseudonym_of mac (r_key r) kind val)"

lemma new_redactor_coherent: "NewRedactor drawn = Inr r \<Longrightarrow> coherent mac r"
  by (auto simp: NewRedactor_def coherent_def split: sum.splits)

text \<open>Two redactors that differ in the cache at most.\<close>

definition same_redactor :: "Redactor \<Rightarrow> Redactor \<Rightarrow> bool" where
  "same_redactor r r' \<longleftrightarrow> r' = r\<lparr>r_names := r_names r'\<rparr>"

lemma same_redactor_refl [simp]: "same_redactor r r" by (simp add: same_redactor_def)

lemma same_redactor_fields:
  "same_redactor r r' \<Longrightarrow> r_key r' = r_key r" "same_redactor r r' \<Longrightarrow> r_renamed r' = r_renamed r"
  "same_redactor r r' \<Longrightarrow> r_extra r' = r_extra r" "same_redactor r r' \<Longrightarrow> r_dropped r' = r_dropped r"
  by (cases r; cases r'; simp add: same_redactor_def)+

lemma same_redactor_trans: "same_redactor r s \<Longrightarrow> same_redactor s t \<Longrightarrow> same_redactor r t"
  by (cases r; cases s; cases t) (simp add: same_redactor_def)

lemma nul_cut: "NUL \<notin> set k \<Longrightarrow> NUL \<notin> set k' \<Longrightarrow> k @ NUL # v = k' @ NUL # v' \<Longrightarrow> k = k' \<and> v = v'"
  by (induction k arbitrary: k') (case_tac k'; auto)+

lemma Pseudonym_pure:
  assumes "coherent mac r" "NUL \<notin> set kind"
  shows "fst (Pseudonym mac kind val r) = pseudonym_of mac (r_key r) kind val"
    and "coherent mac (snd (Pseudonym mac kind val r))"
    and "same_redactor r (snd (Pseudonym mac kind val r))"
proof -
  have "coherent mac (r\<lparr>r_names := mput (r_names r) (kind @ NUL # val) (pseudonym_of mac (r_key r) kind val)\<rparr>)"
    unfolding coherent_def
  proof (intro allI impI)
    fix kind' val' p assume k: "NUL \<notin> set kind'"
      and p: "map_of (r_names (r\<lparr>r_names := mput (r_names r) (kind @ NUL # val) (pseudonym_of mac (r_key r) kind val)\<rparr>)) (kind' @ NUL # val') = Some p"
    show "p = pseudonym_of mac (r_key (r\<lparr>r_names := mput (r_names r) (kind @ NUL # val) (pseudonym_of mac (r_key r) kind val)\<rparr>)) kind' val'"
    proof (cases "kind' @ NUL # val' = kind @ NUL # val")
      case True
      then show ?thesis using nul_cut [OF k assms(2) True] p by (simp add: gomap_simps)
    next
      case False
      then show ?thesis using p assms(1) k by (simp add: gomap_simps coherent_def)
    qed
  qed
  moreover have "p = pseudonym_of mac (r_key r) kind val" if "map_of (r_names r) (kind @ NUL # val) = Some p" for p
    using assms that by (simp add: coherent_def)
  moreover have "Pseudonym mac kind val r = (case map_of (r_names r) (kind @ NUL # val) of
      Some p \<Rightarrow> (p, r)
    | None \<Rightarrow> (pseudonym_of mac (r_key r) kind val, r\<lparr>r_names := mput (r_names r) (kind @ NUL # val) (pseudonym_of mac (r_key r) kind val)\<rparr>))"
    by (simp only: Pseudonym_def pseudonym_of_def Let_def)
  ultimately show "fst (Pseudonym mac kind val r) = pseudonym_of mac (r_key r) kind val"
    "coherent mac (snd (Pseudonym mac kind val r))" "same_redactor r (snd (Pseudonym mac kind val r))"
    using assms(1) by (cases "map_of (r_names r) (kind @ NUL # val)"; simp add: same_redactor_def)+
qed

text \<open>The rewrite as a function of the key alone.\<close>

definition address_pure :: "hmac \<Rightarrow> string \<Rightarrow> string \<Rightarrow> string" where
  "address_pure mac key mtch = (let candidate = address_of mtch in
     if \<not> ParseIP_ok candidate then mtch else pseudonym_of mac key ''ip'' candidate @ drop (length candidate) mtch)"

definition addresses_pure :: "hmac \<Rightarrow> string \<Rightarrow> string \<Rightarrow> string" where
  "addresses_pure mac key s = ReplaceAll ipv6Pattern (\<lambda>m. address_pure mac key (m 0))
     (ReplaceAll ipv4Pattern (\<lambda>m. address_pure mac key (m 0)) s)"

definition rewrite_pure :: "hmac \<Rightarrow> string \<Rightarrow> string gomap \<Rightarrow> identity list \<Rightarrow> string \<Rightarrow> string" where
  "rewrite_pure mac key renamed names s = addresses_pure mac key
     (replaceIdentities (rename_texts renamed (sortedKeysByLengthDesc renamed) (redactSecrets s)) names)"

lemma replace_address_pure:
  assumes "coherent mac r"
  shows "fst (replace_address mac mtch r) = address_pure mac (r_key r) mtch"
    and "coherent mac (snd (replace_address mac mtch r))" "same_redactor r (snd (replace_address mac mtch r))"
proof -
  have "NUL \<notin> set ''ip''" by (simp add: NUL_def char_of_def)
  note p = Pseudonym_pure [OF assms this, of "address_of mtch"]
  show "fst (replace_address mac mtch r) = address_pure mac (r_key r) mtch"
    "coherent mac (snd (replace_address mac mtch r))" "same_redactor r (snd (replace_address mac mtch r))"
    using p assms by (simp_all add: replace_address_def address_pure_def Let_def split_beta)
qed

lemma replace_addresses_pure:
  assumes "coherent mac r"
  shows "fst (ReplaceAllStringFunc e (replace_address mac) s r) = ReplaceAll e (\<lambda>m. address_pure mac (r_key r) (m 0)) s"
    and "coherent mac (snd (ReplaceAllStringFunc e (replace_address mac) s r))"
    and "same_redactor r (snd (ReplaceAllStringFunc e (replace_address mac) s r))"
proof -
  define I where "I r' \<longleftrightarrow> coherent mac r' \<and> same_redactor r r'" for r'
  have step: "I (snd (replace_address mac (m 0) r')) \<and> fst (replace_address mac (m 0) r') = address_pure mac (r_key r) (m 0)"
    if "I r'" for r' and m :: "nat \<Rightarrow> string"
    using that replace_address_pure [of mac r' "m 0"] same_redactor_fields(1) [of r r']
    by (auto simp: I_def intro: same_redactor_trans)
  have "I r" using assms by (simp add: I_def)
  then have whole: "I (snd (replace_loop e (\<lambda>m. replace_address mac (m 0)) None (tokens s) r))
    \<and> fst (replace_loop e (\<lambda>m. replace_address mac (m 0)) None (tokens s) r)
      = fst (replace_loop e (\<lambda>m u. (address_pure mac (r_key r) (m 0), u)) None (tokens s) ())"
    by (rule replace_loop_state [rotated]) (rule step)
  show "fst (ReplaceAllStringFunc e (replace_address mac) s r) = ReplaceAll e (\<lambda>m. address_pure mac (r_key r) (m 0)) s"
    "coherent mac (snd (ReplaceAllStringFunc e (replace_address mac) s r))"
    "same_redactor r (snd (ReplaceAllStringFunc e (replace_address mac) s r))"
    using whole by (simp_all add: ReplaceAllStringFunc_def ReplaceAll_def I_def)
qed

lemma rewrite_is_pure:
  assumes "coherent mac r"
  shows "fst (rewrite mac s names r) = rewrite_pure mac (r_key r) (r_renamed r) names s"
    and "coherent mac (snd (rewrite mac s names r))" "same_redactor r (snd (rewrite mac s names r))"
proof -
  define t where "t = replaceIdentities (rename_texts (r_renamed r) (sortedKeysByLengthDesc (r_renamed r)) (redactSecrets s)) names"
  note a = replace_addresses_pure [OF assms, of ipv4Pattern t]
  note b = replace_addresses_pure [OF a(2), of ipv6Pattern "fst (ReplaceAllStringFunc ipv4Pattern (replace_address mac) t r)"]
  show "fst (rewrite mac s names r) = rewrite_pure mac (r_key r) (r_renamed r) names s"
    "coherent mac (snd (rewrite mac s names r))" "same_redactor r (snd (rewrite mac s names r))"
    using a b same_redactor_fields(1) [OF a(3)] same_redactor_trans [OF a(3) b(3)]
    by (simp_all add: rewrite_def rewrite_pure_def addresses_pure_def redactAddresses_def split_beta t_def [symmetric] Let_def)
qed

text \<open>
  C20 (rewrite_refines_pure). The cache of pseudonyms is only a cache: with a coherent cache the
  rewrite of a text is the rewrite that computes every pseudonym from the key, the cache stays
  coherent and nothing else of the redactor changes. So a name has one pseudonym in every file of
  a run, whatever was rewritten before.
\<close>

theorem rewrite_refines_pure:
  assumes "coherent mac r"
  shows "fst (rewrite mac s names r) = rewrite_pure mac (r_key r) (r_renamed r) names s
    \<and> coherent mac (snd (rewrite mac s names r)) \<and> snd (rewrite mac s names r) = r\<lparr>r_names := r_names (snd (rewrite mac s names r))\<rparr>"
  using rewrite_is_pure [OF assms] by (simp add: same_redactor_def)

definition sample_mac :: hmac where
  "sample_mac key msg = take 32 (msg @ key @ replicate 32 CHR ''A'')"

definition sample_redactor :: Redactor where
  "sample_redactor = \<lparr>r_key = ''k'', r_names = [(''ip'' @ NUL # ''1.2.3.4'', pseudonym_of sample_mac ''k'' ''ip'' ''1.2.3.4'')],
     r_extra = [], r_dropped = [], r_renamed = []\<rparr>"

lemma sample_redactor_coherent: "coherent sample_mac sample_redactor"
proof -
  have n: "NUL \<notin> set ''ip''" by (simp add: NUL_def char_of_def)
  show ?thesis unfolding coherent_def
  proof (intro allI impI)
    fix kind val p assume "NUL \<notin> set kind" "map_of (r_names sample_redactor) (kind @ NUL # val) = Some p"
    then show "p = pseudonym_of sample_mac (r_key sample_redactor) kind val"
      using nul_cut [OF _ n, of kind val "''1.2.3.4''"] by (simp add: sample_redactor_def split: if_splits)
  qed
qed

theorem rewrite_refines_pure_witness:
  "fst (rewrite sample_mac ''at 1.2.3.4:80'' [] sample_redactor) = rewrite_pure sample_mac ''k'' [] [] ''at 1.2.3.4:80''"
  using rewrite_refines_pure [OF sample_redactor_coherent, of "''at 1.2.3.4:80''" "[]"]
  by (simp add: sample_redactor_def)

subsection \<open>Pseudonyms of different values\<close>

lemma hex_char_inj: "m < 16 \<Longrightarrow> n < 16 \<Longrightarrow> hex_char m = hex_char n \<longleftrightarrow> m = n"
proof -
  have decoded: "n < 256 \<Longrightarrow> of_char (char_of n :: char) = n" for n :: nat by (simp only: of_char_of mod_less)
  have code: "k < 16 \<Longrightarrow> of_char (hex_char k) = (if k < 10 then 48 + k else 87 + k)" for k :: nat
    using decoded [of "48 + k"] decoded [of "87 + k"] by (auto simp: hex_char_def)
  assume "m < 16" "n < 16"
  then have "(of_char (hex_char m) :: nat) = of_char (hex_char n) \<longleftrightarrow> m = n"
    using code [of m] code [of n] by (cases "m < 10"; cases "n < 10") (simp_all only: if_True if_False, arith+)
  then show ?thesis by (simp only: of_char_eq_iff)
qed

lemma hex_take: "take (2 * n) (hex_EncodeToString bs) = hex_EncodeToString (take n bs)"
  by (induction bs arbitrary: n) (auto simp: hex_EncodeToString_def take_Cons split: nat.splits)

lemma hex_length [simp]: "length (hex_EncodeToString bs) = 2 * length bs"
  by (induction bs) (auto simp: hex_EncodeToString_def)

lemma hex_inj: "hex_EncodeToString as = hex_EncodeToString bs \<longleftrightarrow> as = bs"
proof (induction as arbitrary: bs)
  case Nil
  then show ?case by (cases bs) (auto simp: hex_EncodeToString_def)
next
  case (Cons a as)
  have lt: "(of_char c :: nat) div 16 < 16" for c by (simp add: div_less_iff_less_mult)
  have eq: "of_char c div 16 = (of_char d div 16 :: nat) \<and> of_char c mod 16 = (of_char d mod 16 :: nat) \<longleftrightarrow> c = d" for c d
    by (metis div_mult_mod_eq of_char_eq_iff)
  show ?case
  proof (cases bs)
    case (Cons b bs')
    have "hex_EncodeToString (a # as) = hex_EncodeToString bs \<longleftrightarrow> a = b \<and> hex_EncodeToString as = hex_EncodeToString bs'"
      using eq [of a b] lt [of a] lt [of b] by (auto simp: Cons hex_EncodeToString_def hex_char_inj)
    then show ?thesis using Cons.IH [of bs'] Cons by simp
  qed (auto simp: hex_EncodeToString_def)
qed

text \<open>
  Two values share a pseudonym only when they are of the same kind and the
  first ten bytes, eighty bits, of their codes are the same: a name that is both a node and an
  address has two pseudonyms, and nothing beyond those eighty bits can make two of a kind collide.
\<close>

theorem pseudonyms_separate:
  assumes "\<And>m. length (mac key m) = 32"
  shows "pseudonym_of mac key kind val = pseudonym_of mac key kind' val' \<longleftrightarrow>
    kind = kind' \<and> take 10 (mac key (kind @ NUL # val)) = take 10 (mac key (kind' @ NUL # val'))"
proof -
  have digits: "take pseudonymDigits (hex_EncodeToString bs) = hex_EncodeToString (take 10 bs)" for bs
    using hex_take [of 10 bs] by (simp add: pseudonymDigits_def)
  have "length (hex_EncodeToString (take 10 (mac key m))) = 20" for m using assms [of m] by simp
  then show ?thesis unfolding pseudonym_of_def digits by (auto simp: hex_inj)
qed

theorem pseudonyms_separate_witness:
  "pseudonym_of sample_mac ''k'' ''node'' ''a'' \<noteq> pseudonym_of sample_mac ''k'' ''host'' ''a''"
  using pseudonyms_separate [of sample_mac "''k''" "''node''" "''a''" "''host''" "''a''"]
  by (simp add: sample_mac_def)

subsection \<open>Replacing on boundaries\<close>

text \<open>
  The replacement in one pass over the text: at an occurrence of the literal, the character before
  it and the one after it decide. After an occurrence the pass has forgotten the character before.
\<close>

function bounded_scan :: "string \<Rightarrow> string \<Rightarrow> char option \<Rightarrow> string \<Rightarrow> string" where
  "bounded_scan literal replacement prev s =
     (if s = [] \<or> literal = [] then s
      else if strings_HasPrefix s literal then
        let after = drop (length literal) s in
        (if (prev = None \<or> the prev \<notin> set nameRunesBefore) \<and> (after = [] \<or> hd after \<notin> set nameRunesAfter)
         then replacement else literal) @ bounded_scan literal replacement None after
      else hd s # bounded_scan literal replacement (Some (hd s)) (tl s))"
  by auto
termination by (relation "measure (\<lambda>(l, r, p, s). length s)") auto

declare bounded_scan.simps [simp del]

lemma scan_to_index:
  assumes "l \<noteq> []"
  shows "strings_Index s l = Some i \<Longrightarrow> bounded_scan l r prev s
    = take i s @ bounded_scan l r (if i = 0 then prev else Some (s ! (i - 1))) (drop i s)"
    and "strings_Index s l = None \<Longrightarrow> bounded_scan l r prev s = s"
proof -
  have "(\<forall>i. strings_Index s l = Some i \<longrightarrow> bounded_scan l r prev s
      = take i s @ bounded_scan l r (if i = 0 then prev else Some (s ! (i - 1))) (drop i s))
    \<and> (strings_Index s l = None \<longrightarrow> bounded_scan l r prev s = s)"
  proof (induction s arbitrary: prev)
    case Nil
    then show ?case using assms
      by (simp add: bounded_scan.simps [of _ _ _ "[]"] strings_Index.simps [of "[]"] strings_HasPrefix_def)
  next
    case (Cons c s)
    show ?case
    proof (cases "strings_HasPrefix (c # s) l")
      case True
      then show ?thesis by (simp add: strings_Index.simps [of "c # s"])
    next
      case False
      then have "bounded_scan l r prev (c # s) = c # bounded_scan l r (Some c) s"
        using assms by (subst bounded_scan.simps) simp
      moreover have "strings_Index (c # s) l = map_option Suc (strings_Index s l)"
        using False by (simp add: strings_Index.simps [of "c # s"])
      moreover have "strings_Index s l = Some j \<Longrightarrow> bounded_scan l r (Some c) s
          = take j s @ bounded_scan l r (Some ((c # s) ! j)) (drop j s)" for j
        using Cons.IH [of "Some c"] by (cases j) auto
      ultimately show ?thesis using Cons.IH [of "Some c"] by (cases "strings_Index s l") (simp_all del: nth_Cons_Suc)
    qed
  qed
  then show "strings_Index s l = Some i \<Longrightarrow> bounded_scan l r prev s
      = take i s @ bounded_scan l r (if i = 0 then prev else Some (s ! (i - 1))) (drop i s)"
    and "strings_Index s l = None \<Longrightarrow> bounded_scan l r prev s = s" by auto
qed

text \<open>
  \<^verbatim>\<open>replaceOnBoundaries\<close>, which cuts the text at one occurrence after the
  other, ends on every text and does what one pass over the text does: each occurrence, from the
  left and without overlaps, becomes the replacement when neither the character before it nor the
  one after it continues a name, and stays as it is otherwise.
\<close>

theorem boundaries_one_pass: "replaceOnBoundaries s l r = bounded_scan l r None s"
proof (cases "l = []")
  case True
  then show ?thesis by (simp add: replaceOnBoundaries_def bounded_scan.simps)
next
  case False
  have "boundaries_loop l r s = bounded_scan l r None s"
  proof (induction "length s" arbitrary: s rule: less_induct)
    case less
    show ?case
    proof (cases "strings_Index s l")
      case None
      then show ?thesis using False by (simp add: scan_to_index boundaries_loop.simps)
    next
      case (Some i)
      obtain a b where ab: "s = a @ l @ b" "length a = i" using index_Some [OF Some] by auto
      have ih: "boundaries_loop l r b = bounded_scan l r None b" using less [of b] ab False by simp
      have before: "boundedBefore s i \<longleftrightarrow> (if i = 0 then True else s ! (i - 1) \<notin> set nameRunesBefore)"
        by (simp add: boundedBefore_def)
      have after: "boundedAfter s (i + length l) \<longleftrightarrow> b = [] \<or> hd b \<notin> set nameRunesAfter"
        using ab by (cases b) (auto simp: boundedAfter_def nth_append)
      have "bounded_scan l r prev (l @ b) = (if (prev = None \<or> the prev \<notin> set nameRunesBefore) \<and> (b = [] \<or> hd b \<notin> set nameRunesAfter)
          then r else l) @ bounded_scan l r None b" for prev
        using False by (subst bounded_scan.simps) simp
      then have "bounded_scan l r None s = a @ (if boundedBefore s i \<and> boundedAfter s (i + length l) then r else l) @ bounded_scan l r None b"
        using scan_to_index(1) [OF False Some, of r None] ab before after by (cases "i = 0") auto
      moreover have "boundaries_loop l r s = a @ (if boundedBefore s i \<and> boundedAfter s (i + length l) then r else l) @ boundaries_loop l r b"
        using Some ab False by (subst boundaries_loop.simps) (simp add: Let_def)
      ultimately show ?thesis using ih by simp
    qed
  qed
  then show ?thesis using False by (simp add: replaceOnBoundaries_def)
qed

text \<open>
  What the pass forgets shows when an occurrence that was passed over is followed by another: the
  second half of a longer name is replaced although a letter stands before it.
\<close>

lemma forgotten_boundary: "replaceOnBoundaries ''nvidia.com/gpugpu'' ''gpu'' ''node-1'' = ''nvidia.com/gpunode-1''"
  by code_simp

text \<open>
  A node whose name is also its host name is learned twice, and \<^verbatim>\<open>identities\<close> keeps both, so the
  order of two entries with one literal decides what the manifest calls it.
\<close>

lemma Learn_one:
  assumes "coherent mac r" "NUL \<notin> set kind" "v \<noteq> []"
  shows "Learn mac kind [v] r = (snd (Pseudonym mac kind v r))
      \<lparr>r_extra := r_extra r @ [\<lparr>id_literal = v, id_replacement = pseudonym_of mac (r_key r) kind v\<rparr>]\<rparr>"
    and "coherent mac (Learn mac kind [v] r)" "r_key (Learn mac kind [v] r) = r_key r"
proof -
  note p = Pseudonym_pure [OF assms(1,2), of v]
  show l: "Learn mac kind [v] r = (snd (Pseudonym mac kind v r))
      \<lparr>r_extra := r_extra r @ [\<lparr>id_literal = v, id_replacement = pseudonym_of mac (r_key r) kind v\<rparr>]\<rparr>"
    using p assms(3) same_redactor_fields(3) [OF p(3)] by (simp add: split_beta)
  show "coherent mac (Learn mac kind [v] r)" unfolding l using p(2) by (simp add: coherent_def)
  show "r_key (Learn mac kind [v] r) = r_key r" unfolding l using same_redactor_fields(1) [OF p(3)] by simp
qed

lemma two_replacements_for_one_literal:
  assumes "coherent mac r" "v \<noteq> []"
  shows "{\<lparr>id_literal = v, id_replacement = pseudonym_of mac (r_key r) ''node'' v\<rparr>,
          \<lparr>id_literal = v, id_replacement = pseudonym_of mac (r_key r) ''host'' v\<rparr>}
    \<subseteq> set (identities (Learn mac ''host'' [v] (Learn mac ''node'' [v] r)))"
proof -
  have "NUL \<notin> set ''node''" "NUL \<notin> set ''host''" by (simp_all add: NUL_def char_of_def)
  note node = Learn_one [OF assms(1) this(1) assms(2)] and host = Learn_one [OF Learn_one(2) [OF assms(1) this(1) assms(2)] this(2) assms(2)]
  show ?thesis unfolding identities_def byLengthDesc_def host(1) node(3) by (simp add: node(1) del: Learn.simps)
qed

end
