(* ===== verification/Redact_Bundle.thy ===== *)
theory Redact_Bundle
  imports Redact_Names Source_Bundle
begin

text \<open>
  The redaction of a bundle directory, the rest of \<^verbatim>\<open>pkg/mustgather/redact.go\<close>: what is learned from
  the files, the rewrite of each file through a temporary one, and the files that are dropped. The
  directory is a map from names to entries, and every call into \<^verbatim>\<open>os\<close> can fail: \<open>fails\<close> says which
  operation fails on which name, and with what.
\<close>

subsection \<open>A directory that is written to\<close>

datatype dirent = RegularFile nat string | Directory | SpecialFile

type_synonym dir = "dirent gomap"
type_synonym faults = "string \<Rightarrow> string \<Rightarrow> goerr option"

definition ErrNotExist :: goerr where "ErrNotExist = ErrSentinel ''file does not exist''"

definition mdel :: "'v gomap \<Rightarrow> string \<Rightarrow> 'v gomap" where
  "mdel m k = filter (\<lambda>(k', _). k' \<noteq> k) m"

lemma map_of_mdel [gomap_simps]: "map_of (mdel m k) = (map_of m)(k := None)"
  by (induction m) (auto simp: mdel_def)

lemma wf_map_mdel [simp]: "wf_map m \<Longrightarrow> wf_map (mdel m k)"
  by (induction m) (auto simp: wf_map_def mdel_def)

definition os_ReadDir :: "faults \<Rightarrow> dir \<Rightarrow> goerr + string list" where
  "os_ReadDir fails d = (case fails ''readdir'' [] of Some e \<Rightarrow> Inl e | None \<Rightarrow> Inr (sort_Strings (map fst d)))"

definition os_ReadFile :: "faults \<Rightarrow> dir \<Rightarrow> string \<Rightarrow> goerr + string" where
  "os_ReadFile fails d name = (case fails ''read'' name of Some e \<Rightarrow> Inl e
     | None \<Rightarrow> (case map_of d name of Some (RegularFile _ content) \<Rightarrow> Inr content | _ \<Rightarrow> Inl ErrNotExist))"

definition os_Remove :: "faults \<Rightarrow> string \<Rightarrow> dir \<Rightarrow> goerr option \<times> dir" where
  "os_Remove fails name d = (case fails ''remove'' name of Some e \<Rightarrow> (Some e, d)
     | None \<Rightarrow> if mhas d name then (None, mdel d name) else (Some ErrNotExist, d))"

definition os_Rename :: "faults \<Rightarrow> string \<Rightarrow> string \<Rightarrow> dir \<Rightarrow> goerr option \<times> dir" where
  "os_Rename fails old new d = (case fails ''rename'' new of Some e \<Rightarrow> (Some e, d)
     | None \<Rightarrow> (case map_of d old of None \<Rightarrow> (Some ErrNotExist, d) | Some f \<Rightarrow> (None, mput (mdel d old) new f)))"

text \<open>The mode of an entry, which \<^verbatim>\<open>entry.Info\<close> answers, for a regular file.\<close>

definition regular_mode :: "faults \<Rightarrow> dir \<Rightarrow> string \<Rightarrow> nat option" where
  "regular_mode fails d name = (case fails ''info'' name of Some e \<Rightarrow> None
     | None \<Rightarrow> (case map_of d name of Some (RegularFile mode _) \<Rightarrow> Some mode | _ \<Rightarrow> None))"

subsection \<open>Learning the identities\<close>

text \<open>What \<^verbatim>\<open>learnIdentities\<close> builds up: the literals seen, the identities and the redactor.\<close>

record learned =
  l_seen :: "string list"
  l_out :: "identity list"
  l_redactor :: Redactor

definition add :: "hmac \<Rightarrow> string \<Rightarrow> string \<Rightarrow> learned \<Rightarrow> learned" where
  "add mac kind val l =
     (if val = [] \<or> val \<in> set (l_seen l) then l
      else let (p, r) = Pseudonym mac kind val (l_redactor l)
           in \<lparr>l_seen = val # l_seen l, l_out = l_out l @ [\<lparr>id_literal = val, id_replacement = p\<rparr>], l_redactor = r\<rparr>)"

definition add_known :: "identity \<Rightarrow> learned \<Rightarrow> learned" where
  "add_known known l =
     (if id_literal known = [] \<or> id_literal known \<in> set (l_seen l) then l
      else l\<lparr>l_seen := id_literal known # l_seen l, l_out := l_out l @ [known]\<rparr>)"

text \<open>A file of the bundle decoded, nothing when it is not there or does not parse.\<close>

definition readBundleYAML :: "faults \<Rightarrow> dir \<Rightarrow> (string \<Rightarrow> 'a \<times> goerr option) \<Rightarrow> string \<Rightarrow> 'a option" where
  "readBundleYAML fails d dec name = (case os_ReadFile fails d name of Inl e \<Rightarrow> None
     | Inr raw \<Rightarrow> (case dec raw of (v, None) \<Rightarrow> Some v | (_, Some e) \<Rightarrow> None))"

definition host_types :: "string list" where
  "host_types = [''Hostname'', ''InternalDNS'', ''ExternalDNS'']"

definition names_of_node :: "Node \<Rightarrow> (string \<times> string) list" where
  "names_of_node node = (''node'', node_Name node) # (''host'', sget (node_Labels node) ''kubernetes.io/hostname'')
     # map (\<lambda>a. (''host'', addr_Address a)) (filter (\<lambda>a. addr_Type a \<in> set host_types) (node_Addresses node))"

definition learnFromNodes :: "faults \<Rightarrow> dir \<Rightarrow> codec \<Rightarrow> (string \<times> string) list" where
  "learnFromNodes fails d cd = concat (map (\<lambda>name. case readBundleYAML fails d (dec_nodes cd) name of
       None \<Rightarrow> [] | Some nodes \<Rightarrow> concat (map names_of_node nodes)) [''nodes.yaml'', ''gpu_nodes.yaml''])"

definition gpuPodsFile :: string where "gpuPodsFile = ''gpu_pods.yaml''"
definition nodeEventsFile :: string where "nodeEventsFile = ''node_events.yaml''"

definition learnFromPods :: "faults \<Rightarrow> dir \<Rightarrow> codec \<Rightarrow> (string \<times> string) list" where
  "learnFromPods fails d cd = concat (map (\<lambda>name. case readBundleYAML fails d (dec_pods cd) name of
       None \<Rightarrow> [] | Some pods \<Rightarrow> map (\<lambda>p. (''node'', spec_NodeName (pod_Spec p))) pods)
       [gpuPodsFile, ''gpu_operand_pods.yaml'', ''gpu_operator_pod.yaml''])"

definition learnFromEvents :: "faults \<Rightarrow> dir \<Rightarrow> codec \<Rightarrow> (string \<times> string) list" where
  "learnFromEvents fails d cd = (case readBundleYAML fails d (dec_events cd) nodeEventsFile of None \<Rightarrow> []
     | Some events \<Rightarrow> map (\<lambda>e. (''node'', event_ObjectName e)) (filter (\<lambda>e. event_ObjectKind e = ''Node'') events))"

definition learnFromSlices :: "faults \<Rightarrow> dir \<Rightarrow> codec \<Rightarrow> (string \<times> string) list" where
  "learnFromSlices fails d cd = (case readBundleYAML fails d (dec_slices cd) ''resourceslices.yaml'' of None \<Rightarrow> []
     | Some slices \<Rightarrow> List.map_filter (\<lambda>s. map_option (Pair ''node'') (slice_NodeName s)) slices)"

definition json_field :: "string \<Rightarrow> json \<Rightarrow> json option" where
  "json_field k v = (case v of JMap m \<Rightarrow> map_of m k | _ \<Rightarrow> None)"

definition json_string :: "json option \<Rightarrow> string list" where
  "json_string v = (case v of Some (JString s) \<Rightarrow> [s] | _ \<Rightarrow> [])"

definition machine_names :: "json \<Rightarrow> (string \<times> string) list" where
  "machine_names machine =
     map (Pair ''node'') (json_string (Option.bind (Option.bind (json_field ''status'' machine) (json_field ''nodeRef'')) (json_field ''name'')))
     @ map (Pair ''host'') (json_string (Option.bind (json_field ''metadata'' machine) (json_field ''name'')))"

text \<open>\<open>dec_map\<close> is the decoder for a document as a generic map.\<close>

definition learnFromMachines :: "faults \<Rightarrow> dir \<Rightarrow> (string \<Rightarrow> unstructured \<times> goerr option) \<Rightarrow> (string \<times> string) list" where
  "learnFromMachines fails d dec_map = (case readBundleYAML fails d dec_map ''machines.yaml'' of None \<Rightarrow> []
     | Some doc \<Rightarrow> (case map_of doc ''items'' of Some (JList items) \<Rightarrow> concat (map machine_names items) | _ \<Rightarrow> []))"

definition learnIdentities :: "hmac \<Rightarrow> faults \<Rightarrow> dir \<Rightarrow> codec \<Rightarrow> (string \<Rightarrow> unstructured \<times> goerr option) \<Rightarrow> Redactor
    \<Rightarrow> identity list \<times> Redactor" where
  "learnIdentities mac fails d cd dec_map r =
     (let l0 = \<lparr>l_seen = [], l_out = [], l_redactor = r\<rparr>;
          l1 = fold add_known (r_extra r) l0;
          l2 = fold (\<lambda>(kind, val). add mac kind val)
            (learnFromNodes fails d cd @ learnFromPods fails d cd @ learnFromEvents fails d cd
             @ learnFromSlices fails d cd @ learnFromMachines fails d dec_map) l1
      in (byLengthDesc (l_out l2), l_redactor l2))"

subsection \<open>One file\<close>

definition gzipMagic :: string where "gzipMagic = [char_of (31::nat), char_of (139::nat)]"

text \<open>Valid UTF-8 without a NUL byte: every malformed byte reads as a rune of one byte.\<close>

definition utf8_Valid :: "string \<Rightarrow> bool" where
  "utf8_Valid s = list_all (\<lambda>t. \<not> (fst t = RuneError \<and> length (snd t) = 1)) (tokens s)"

definition isText :: "string \<Rightarrow> bool" where
  "isText raw = (if NUL \<in> set raw then False else utf8_Valid raw)"

text \<open>
  The bytes of a file rewritten, or \<open>None\<close> when they cannot be; \<open>gunzip\<close> and \<open>regzip\<close> are
  \<^verbatim>\<open>compress/gzip\<close>.
\<close>

definition redactContent :: "hmac \<Rightarrow> (string \<Rightarrow> goerr + string) \<Rightarrow> (string \<Rightarrow> goerr + string) \<Rightarrow> string \<Rightarrow> identity list
    \<Rightarrow> Redactor \<Rightarrow> (goerr + string option) \<times> Redactor" where
  "redactContent mac gunzip regzip raw names r =
     (if strings_HasPrefix raw gzipMagic then
        (case gunzip raw of
           Inl e \<Rightarrow> (Inr None, r)
         | Inr plain \<Rightarrow>
             if \<not> isText plain then (Inr None, r)
             else let (out, r1) = rewrite mac plain names r
                  in (case regzip out of Inl e \<Rightarrow> (Inl e, r1) | Inr z \<Rightarrow> (Inr (Some z), r1)))
      else if \<not> isText raw then (Inr None, r)
      else let (out, r1) = rewrite mac raw names r in (Inr (Some out), r1))"

text \<open>
  The rewritten bytes go to a temporary file, whose name \<open>tmpOf\<close> chooses, which is renamed over the
  original; \<open>quietly\<close> is a removal whose failure is ignored.
\<close>

definition quietly :: "faults \<Rightarrow> string \<Rightarrow> dir \<Rightarrow> dir" where
  "quietly fails name d = snd (os_Remove fails name d)"

definition writeThenRename :: "faults \<Rightarrow> (string \<Rightarrow> string) \<Rightarrow> Redactor \<Rightarrow> string \<Rightarrow> string \<Rightarrow> nat \<Rightarrow> dir \<Rightarrow> goerr option \<times> dir" where
  "writeThenRename fails tmpOf r name data mode d =
     (let tmp = tmpOf name; final = renamedName r name in
      case fails ''create'' name of
        Some e \<Rightarrow> (Some (ErrFmt (''creating the temporary file for '' @ name @ '': '') (Some e)), d)
      | None \<Rightarrow> (let d = mput d tmp (RegularFile 384 []) in
      case fails ''write'' name of
        Some e \<Rightarrow> (Some (ErrFmt (''writing the redacted '' @ name @ '': '') (Some e)), quietly fails tmp d)
      | None \<Rightarrow> (let d = mput d tmp (RegularFile 384 data) in
      case fails ''close'' name of
        Some e \<Rightarrow> (Some (ErrFmt (''closing the redacted '' @ name @ '': '') (Some e)), quietly fails tmp d)
      | None \<Rightarrow> (case fails ''chmod'' name of
        Some e \<Rightarrow> (Some (ErrFmt (''setting the mode of the redacted '' @ name @ '': '') (Some e)), quietly fails tmp d)
      | None \<Rightarrow> (let d = mput d tmp (RegularFile mode data) in
      case os_Rename fails tmp final d of
        (Some e, d) \<Rightarrow> (Some (ErrFmt (''renaming the redacted '' @ name @ '': '') (Some e)), quietly fails tmp d)
      | (None, d) \<Rightarrow>
          if final \<noteq> name then
            (case os_Remove fails name d of
               (Some e, d) \<Rightarrow> if e \<noteq> ErrNotExist then (Some (ErrFmt (''removing the unredacted '' @ name @ '': '') (Some e)), d) else (None, d)
             | (None, d) \<Rightarrow> (None, d))
          else (None, d))))))"

definition redactFile :: "hmac \<Rightarrow> (string \<Rightarrow> goerr + string) \<Rightarrow> (string \<Rightarrow> goerr + string) \<Rightarrow> faults \<Rightarrow> (string \<Rightarrow> string)
    \<Rightarrow> identity list \<Rightarrow> string \<Rightarrow> dir \<times> Redactor \<Rightarrow> goerr option \<times> dir \<times> Redactor" where
  "redactFile mac gunzip regzip fails tmpOf names name dr =
     (let (d, r) = dr in
      case fails ''mode'' name of
        Some e \<Rightarrow> (Some (ErrFmt (''reading the mode of '' @ name @ '' to redact it: '') (Some e)), d, r)
      | None \<Rightarrow>
     (case os_ReadFile fails d name of
        Inl e \<Rightarrow> (Some (ErrFmt (''reading '' @ name @ '' to redact it: '') (Some e)), d, r)
      | Inr raw \<Rightarrow>
     (case redactContent mac gunzip regzip raw names r of
        (Inl e, r1) \<Rightarrow> (Some (ErrFmt (''redacting '' @ name @ '': '') (Some e)), d, r1)
      | (Inr None, r1) \<Rightarrow>
          (case os_Remove fails name d of
             (Some e, d) \<Rightarrow> (Some (ErrFmt (''removing the binary '' @ name @ '': '') (Some e)), d, r1)
           | (None, d) \<Rightarrow> (None, d, r1\<lparr>r_dropped := r_dropped r1 @ [\<lparr>df_Path = renamedName r1 name,
               df_Reason = ''dropped by --redact: neither text nor gzip, so it cannot be rewritten''\<rparr>]\<rparr>))
      | (Inr (Some out), r1) \<Rightarrow>
          let mode = (case map_of d name of Some (RegularFile m _) \<Rightarrow> m | _ \<Rightarrow> 0);
              (err, d) = writeThenRename fails tmpOf r1 name out mode d in (err, d, r1))))"

subsection \<open>The directory\<close>

definition ManifestFileName :: string where "ManifestFileName = ''manifest.json''"

definition redactable :: "faults \<Rightarrow> dir \<Rightarrow> string \<Rightarrow> bool" where
  "redactable fails d name = (regular_mode fails d name \<noteq> None \<and> name \<noteq> ManifestFileName)"

fun decideRenames :: "identity list \<Rightarrow> string list \<Rightarrow> Redactor \<Rightarrow> Redactor" where
  "decideRenames names [] r = r"
| "decideRenames names (f # fs) r = (let renamed = replaceAll f names in
     decideRenames names fs (if renamed \<noteq> f then r\<lparr>r_renamed := mput (r_renamed r) f renamed\<rparr> else r))"

fun redactFiles :: "(string \<Rightarrow> dir \<times> Redactor \<Rightarrow> goerr option \<times> dir \<times> Redactor) \<Rightarrow> string list
    \<Rightarrow> dir \<times> Redactor \<Rightarrow> goerr option \<times> dir \<times> Redactor" where
  "redactFiles step [] dr = (None, dr)"
| "redactFiles step (f # fs) dr = (case step f dr of (Some e, dr) \<Rightarrow> (Some e, dr) | (None, dr) \<Rightarrow> redactFiles step fs dr)"

definition RedactBundle :: "hmac \<Rightarrow> (string \<Rightarrow> goerr + string) \<Rightarrow> (string \<Rightarrow> goerr + string) \<Rightarrow> faults \<Rightarrow> (string \<Rightarrow> string)
    \<Rightarrow> codec \<Rightarrow> (string \<Rightarrow> unstructured \<times> goerr option) \<Rightarrow> dir \<times> Redactor \<Rightarrow> goerr option \<times> dir \<times> Redactor" where
  "RedactBundle mac gunzip regzip fails tmpOf cd dec_map dr =
     (let (d, r) = dr; (names, r) = learnIdentities mac fails d cd dec_map r in
      case os_ReadDir fails d of
        Inl e \<Rightarrow> (Some (ErrFmt ''reading the bundle directory to redact it: '' (Some e)), d, r)
      | Inr entries \<Rightarrow>
          let files = filter (redactable fails d) entries; r = decideRenames names files r
          in redactFiles (redactFile mac gunzip regzip fails tmpOf names) files (d, r))"

subsection \<open>What is learned\<close>

definition fair :: "learned \<Rightarrow> bool" where
  "fair l \<longleftrightarrow> distinct (map id_literal (l_out l)) \<and> set (map id_literal (l_out l)) = set (l_seen l) \<and> [] \<notin> set (l_seen l)"

lemma add_fair: "fair l \<Longrightarrow> fair (add mac kind val l)"
  by (auto simp: fair_def add_def Let_def split_beta)

lemma add_known_fair: "fair l \<Longrightarrow> fair (add_known known l)"
  by (auto simp: fair_def add_known_def)

lemma add_seen: "set (l_seen (add mac kind val l)) = set (l_seen l) \<union> ({val} - {[]})"
  by (auto simp: add_def Let_def split_beta)

lemma add_known_seen: "set (l_seen (add_known known l)) = set (l_seen l) \<union> ({id_literal known} - {[]})"
  by (auto simp: add_known_def)

lemma fold_add:
  "fair l \<Longrightarrow> fair (fold (\<lambda>(kind, val). add mac kind val) kvs l)
    \<and> set (l_seen (fold (\<lambda>(kind, val). add mac kind val) kvs l)) = set (l_seen l) \<union> (snd ` set kvs - {[]})"
proof (induction kvs arbitrary: l)
  case (Cons kv kvs)
  then show ?case using Cons.IH [OF add_fair [OF Cons.prems]] by (cases kv) (simp add: add_seen, blast)
qed simp

lemma fold_add_known:
  "fair l \<Longrightarrow> fair (fold add_known ids l) \<and> set (l_seen (fold add_known ids l)) = set (l_seen l) \<union> (id_literal ` set ids - {[]})"
  by (induction ids arbitrary: l) (auto simp: add_known_fair add_known_seen)

lemma sorted_longest: "sorted_wrt (\<lambda>a b. length (id_literal b) \<le> length (id_literal a)) (byLengthDesc ids)"
proof -
  have "sorted (map (\<lambda>i. (- int (length (id_literal i)), id_literal i)) (byLengthDesc ids))" by (simp add: byLengthDesc_def)
  then show ?thesis unfolding sorted_map by (rule sorted_wrt_mono_rel [rotated]) (auto simp: less_eq_prod_def)
qed


subsection \<open>What is left of a bundle\<close>

text \<open>The rewrite of one file's bytes as a function of the key and the renames.\<close>

definition content_pure :: "hmac \<Rightarrow> (string \<Rightarrow> goerr + string) \<Rightarrow> (string \<Rightarrow> goerr + string) \<Rightarrow> string \<Rightarrow> string gomap
    \<Rightarrow> identity list \<Rightarrow> string \<Rightarrow> goerr + string option" where
  "content_pure mac gunzip regzip key renamed names raw =
     (if strings_HasPrefix raw gzipMagic then
        (case gunzip raw of Inl e \<Rightarrow> Inr None
         | Inr plain \<Rightarrow> if \<not> isText plain then Inr None
             else (case regzip (rewrite_pure mac key renamed names plain) of Inl e \<Rightarrow> Inl e | Inr z \<Rightarrow> Inr (Some z)))
      else if \<not> isText raw then Inr None else Inr (Some (rewrite_pure mac key renamed names raw)))"

lemma redactContent_pure:
  assumes "coherent mac r"
  shows "fst (redactContent mac gunzip regzip raw names r) = content_pure mac gunzip regzip (r_key r) (r_renamed r) names raw"
    and "coherent mac (snd (redactContent mac gunzip regzip raw names r))"
    and "same_redactor r (snd (redactContent mac gunzip regzip raw names r))"
  using rewrite_is_pure [OF assms, of _ names] assms
  by (auto simp: redactContent_def content_pure_def split_beta Let_def split: sum.splits)

text \<open>
  What \<^verbatim>\<open>os\<close> promises: a removal says that a file is not there only when it is not, and a temporary
  file has a name nothing else has.
\<close>

definition honest :: "faults \<Rightarrow> bool" where
  "honest fails \<longleftrightarrow> (\<forall>n. fails ''remove'' n \<noteq> Some ErrNotExist)"

lemma writeThenRename_ok:
  assumes "writeThenRename fails tmpOf r name data mode d = (None, d')" "honest fails"
    and "map_of d (tmpOf name) = None" "tmpOf name \<noteq> renamedName r name" "map_of d name \<noteq> None"
  shows "map_of d' = (map_of d)(name := None, renamedName r name \<mapsto> RegularFile mode data)"
proof -
  define tmp final where tf: "tmp = tmpOf name" "final = renamedName r name"
  have tn: "tmp \<noteq> name" "tmp \<noteq> final" "map_of d tmp = None" using assms(3-5) by (auto simp: tf)
  define d1 where "d1 = mput (mput (mput d tmp (RegularFile 384 [])) tmp (RegularFile 384 data)) tmp (RegularFile mode data)"
  define d2 where "d2 = mput (mdel d1 tmp) final (RegularFile mode data)"
  have d1: "map_of d1 = (map_of d)(tmp \<mapsto> RegularFile mode data)" by (simp add: d1_def gomap_simps)
  then have d2: "map_of d2 = (map_of d)(final \<mapsto> RegularFile mode data)"
    using tn by (auto simp: d2_def gomap_simps)
  have "fails ''create'' name = None" "fails ''write'' name = None" "fails ''close'' name = None" "fails ''chmod'' name = None"
    "fails ''rename'' final = None"
    using assms(1) by (auto simp: writeThenRename_def tf os_Rename_def Let_def split: option.splits)
  then have ren: "os_Rename fails tmp final d1 = (None, d2)"
    by (simp add: os_Rename_def d1 d2_def)
  have "(None, d') = (if final \<noteq> name then
            (case os_Remove fails name d2 of
               (Some e, d) \<Rightarrow> if e \<noteq> ErrNotExist then (Some (ErrFmt (''removing the unredacted '' @ name @ '': '') (Some e)), d) else (None, d)
             | (None, d) \<Rightarrow> (None, d))
          else (None, d2))"
    unfolding assms(1) [symmetric] writeThenRename_def Let_def tf [symmetric] using ren
      \<open>fails ''create'' name = None\<close> \<open>fails ''write'' name = None\<close> \<open>fails ''close'' name = None\<close> \<open>fails ''chmod'' name = None\<close>
    by (simp add: d1_def)
  then show ?thesis
    using assms(2,5) d2 unfolding tf [symmetric]
    by (cases "final = name") (auto simp: os_Remove_def honest_def mhas_def gomap_simps split: option.splits if_splits)
qed

lemma redactFile_ok:
  assumes "redactFile mac gunzip regzip fails tmpOf names name (d, r) = (None, d', r')" "coherent mac r" "honest fails"
    and "map_of d (tmpOf name) = None" "tmpOf name \<noteq> renamedName r name"
  obtains mode raw where "map_of d name = Some (RegularFile mode raw)"
    and "map_of d' = (map_of d)(name := None) \<and> content_pure mac gunzip regzip (r_key r) (r_renamed r) names raw = Inr None
      \<or> (\<exists>out. map_of d' = (map_of d)(name := None, renamedName r name \<mapsto> RegularFile mode out)
           \<and> content_pure mac gunzip regzip (r_key r) (r_renamed r) names raw = Inr (Some out))"
    and "coherent mac r'" "r_key r' = r_key r" "r_renamed r' = r_renamed r"
proof -
  obtain mode raw where f: "map_of d name = Some (RegularFile mode raw)" "os_ReadFile fails d name = Inr raw"
    using assms(1) by (auto simp: redactFile_def os_ReadFile_def split: option.splits dirent.splits sum.splits)
  define c where "c = redactContent mac gunzip regzip raw names r"
  have mode: "fails ''mode'' name = None" using assms(1) by (auto simp: redactFile_def split: option.splits)
  note pure = redactContent_pure [OF assms(2), of gunzip regzip raw names, folded c_def]
  have fields: "r_key (snd c) = r_key r" "r_renamed (snd c) = r_renamed r" using same_redactor_fields [OF pure(3)] by auto
  then have ren: "renamedName (snd c) name = renamedName r name" by (simp add: renamedName_def)
  consider (err) e where "fst c = Inl e" | (drop) "fst c = Inr None" | (out) out where "fst c = Inr (Some out)"
    by (metis option.exhaust sum.exhaust)
  then show thesis
  proof cases
    case err
    then show ?thesis using assms(1) mode f by (cases c) (auto simp: redactFile_def c_def [symmetric])
  next
    case drop
    then obtain r1 where c: "c = (Inr None, r1)" by (cases c) auto
    then obtain more where d': "os_Remove fails name d = (None, d')" and r': "r' = r1\<lparr>r_dropped := more\<rparr>"
      using assms(1) mode f by (auto simp: redactFile_def c_def [symmetric] split: prod.splits option.splits)
    have "map_of d' = (map_of d)(name := None)"
      using d' by (auto simp: os_Remove_def gomap_simps split: option.splits if_splits)
    moreover have "coherent mac r'" "r_key r' = r_key r" "r_renamed r' = r_renamed r"
      using pure(2) fields c by (simp_all add: r' coherent_def)
    ultimately show ?thesis using that [OF f(1)] pure(1) drop by simp
  next
    case out
    then obtain r1 where c: "c = (Inr (Some out), r1)" by (cases c) auto
    then have w: "writeThenRename fails tmpOf r1 name out mode d = (None, d')" "r' = r1"
      using assms(1) mode f by (auto simp: redactFile_def c_def [symmetric] split: prod.splits)
    have "map_of d' = (map_of d)(name := None, renamedName r name \<mapsto> RegularFile mode out)"
      using writeThenRename_ok [OF w(1) assms(3,4)] assms(5) ren c f by simp
    moreover have "content_pure mac gunzip regzip (r_key r) (r_renamed r) names raw = Inr (Some out)" using pure(1) c by simp
    ultimately show ?thesis using that [OF f(1) disjI2, OF exI [of _ out]] pure(2) fields c w by simp
  qed
qed

text \<open>
  What is in the directory while the files are being rewritten: the files still to come as they
  were, and otherwise only rewritten files and what was never to be rewritten.
\<close>

definition rewritten_from :: "hmac \<Rightarrow> (string \<Rightarrow> goerr + string) \<Rightarrow> (string \<Rightarrow> goerr + string) \<Rightarrow> identity list \<Rightarrow> Redactor
    \<Rightarrow> dir \<Rightarrow> string \<Rightarrow> dirent \<Rightarrow> string \<Rightarrow> bool" where
  "rewritten_from mac gunzip regzip names r d m f n \<longleftrightarrow> m = renamedName r n \<and>
     (\<exists>mode raw out. map_of d n = Some (RegularFile mode raw) \<and> f = RegularFile mode out
        \<and> content_pure mac gunzip regzip (r_key r) (r_renamed r) names raw = Inr (Some out))"

lemma rewritten_from_cong:
  "r_key r = r_key r' \<Longrightarrow> r_renamed r = r_renamed r' \<Longrightarrow>
    rewritten_from mac gunzip regzip names r d m f n = rewritten_from mac gunzip regzip names r' d m f n"
  by (simp add: rewritten_from_def renamedName_def)

lemma redactFiles_ok:
  assumes "redactFiles (redactFile mac gunzip regzip fails tmpOf names) files (c, r) = (None, d', r')" "coherent mac r" "honest fails"
    and tmp: "\<And>n. n \<in> set files \<Longrightarrow> map_of c (tmpOf n) = None" "\<And>n k. n \<in> set files \<Longrightarrow> k \<in> set files \<Longrightarrow> tmpOf n \<noteq> renamedName r k"
    and "distinct files" "\<And>n. n \<in> set files \<Longrightarrow> map_of c n = map_of d n \<and> map_of d n \<noteq> None"
    and fresh: "\<And>n. n \<in> set files \<Longrightarrow> renamedName r n \<noteq> n \<Longrightarrow> map_of d (renamedName r n) = None"
    and inv: "\<And>m f. map_of c m = Some f \<Longrightarrow> (\<exists>n \<in> set gone. rewritten_from mac gunzip regzip names r d m f n) \<or> m \<notin> set gone \<and> map_of d m = Some f"
    and out: "map_of d' m = Some f"
  shows "(\<exists>n \<in> set gone \<union> set files. rewritten_from mac gunzip regzip names r' d m f n) \<or> m \<notin> set gone \<union> set files \<and> map_of d m = Some f"
  using assms
proof (induction files arbitrary: c r gone)
  case Nil
  then show ?case by simp
next
  case (Cons n files)
  obtain c1 r1 where step: "redactFile mac gunzip regzip fails tmpOf names n (c, r) = (None, c1, r1)"
    and rest: "redactFiles (redactFile mac gunzip regzip fails tmpOf names) files (c1, r1) = (None, d', r')"
    using Cons.prems(1) by (auto split: prod.splits option.splits)
  have t: "map_of c (tmpOf n) = None" "tmpOf n \<noteq> renamedName r n" using Cons.prems(4,5) by auto
  obtain mode raw where f: "map_of c n = Some (RegularFile mode raw)"
    and c1: "map_of c1 = (map_of c)(n := None) \<and> content_pure mac gunzip regzip (r_key r) (r_renamed r) names raw = Inr None
      \<or> (\<exists>out. map_of c1 = (map_of c)(n := None, renamedName r n \<mapsto> RegularFile mode out)
           \<and> content_pure mac gunzip regzip (r_key r) (r_renamed r) names raw = Inr (Some out))"
    and r1: "coherent mac r1" "r_key r1 = r_key r" "r_renamed r1 = r_renamed r"
    by (rule redactFile_ok [OF step Cons.prems(2,3) t])
  have ren: "renamedName r1 = renamedName r" by (simp add: renamedName_def r1 fun_eq_iff)
  have dn: "map_of d n = Some (RegularFile mode raw)" using Cons.prems(7) [of n] f by simp
  have notn: "renamedName r n \<noteq> k" if "k \<in> set files" for k
  proof
    assume "renamedName r n = k"
    moreover have "k \<noteq> n" using that Cons.prems(6) by auto
    ultimately have "map_of d k = None" using Cons.prems(8) [of n] by auto
    then show False using Cons.prems(7) [of k] that by simp
  qed
  have old: "map_of c1 k = map_of c k" if "k \<noteq> n" "k \<noteq> renamedName r n" for k using c1 that by auto
  show ?case
  proof (rule Cons.IH [OF rest r1(1) Cons.prems(3), of "n # gone", simplified ren, THEN disj_forward])
    fix k assume k: "k \<in> set files"
    then have "k \<noteq> n" using Cons.prems(6) by auto
    show "map_of c1 (tmpOf k) = None"
      using c1 Cons.prems(4) [of k] Cons.prems(5) [of k n] k by (auto simp: fun_upd_def)
    show "tmpOf k \<noteq> renamedName r j" if "j \<in> set files" for j using Cons.prems(5) k that by simp
    show "map_of c1 k = map_of d k \<and> map_of d k \<noteq> None" using old [OF \<open>k \<noteq> n\<close>] notn [OF k] Cons.prems(7) [of k] k by auto
    show "renamedName r k \<noteq> k \<Longrightarrow> map_of d (renamedName r k) = None" using Cons.prems(8) k by simp
  next
    show "distinct files" using Cons.prems(6) by simp
    show "map_of d' m = Some f" by (rule Cons.prems(10))
  next
    fix k g assume kg: "map_of c1 k = Some g"
    show "(\<exists>j \<in> set (n # gone). rewritten_from mac gunzip regzip names r1 d k g j) \<or> k \<notin> set (n # gone) \<and> map_of d k = Some g"
    proof (cases "k = renamedName r n \<and> (\<exists>out. g = RegularFile mode out \<and> content_pure mac gunzip regzip (r_key r) (r_renamed r) names raw = Inr (Some out))")
      case True
      then show ?thesis using dn by (auto simp: rewritten_from_def ren r1)
    next
      case False
      then have "k \<noteq> n" "map_of c k = Some g" using c1 kg by (auto split: if_splits)
      then show ?thesis using Cons.prems(9) [of k g] rewritten_from_cong [OF r1(2,3)] by auto
    qed
  qed auto
qed

lemma coherent_fields [simp]:
  "coherent mac (r\<lparr>r_dropped := ds\<rparr>) = coherent mac r" "coherent mac (r\<lparr>r_renamed := ns\<rparr>) = coherent mac r"
  "coherent mac (r\<lparr>r_extra := es\<rparr>) = coherent mac r"
  by (simp_all add: coherent_def)

definition keeps_redactor :: "hmac \<Rightarrow> Redactor \<Rightarrow> Redactor \<Rightarrow> bool" where
  "keeps_redactor mac r r' \<longleftrightarrow> coherent mac r' \<and> r_key r' = r_key r \<and> r_renamed r' = r_renamed r"

lemma redactFile_keeps:
  assumes "redactFile mac gunzip regzip fails tmpOf names name (d, r) = (err, d', r')" "coherent mac r"
  shows "keeps_redactor mac r r'"
proof -
  have "keeps_redactor mac r (snd (redactContent mac gunzip regzip raw names r))" for raw
    using redactContent_pure(2,3) [OF assms(2)] same_redactor_fields by (auto simp: keeps_redactor_def)
  moreover have "keeps_redactor mac r (q\<lparr>r_dropped := ds\<rparr>)" if "keeps_redactor mac r q" for q ds
    using that by (simp add: keeps_redactor_def)
  moreover have "keeps_redactor mac r r" using assms(2) by (simp add: keeps_redactor_def)
  ultimately show ?thesis using assms(1)
    by (auto simp: redactFile_def split: option.splits sum.splits prod.splits) (metis snd_conv)+
qed

lemma redactFiles_keeps:
  "redactFiles (redactFile mac gunzip regzip fails tmpOf names) fs (d, r) = (err, d', r') \<Longrightarrow> coherent mac r \<Longrightarrow> keeps_redactor mac r r'"
proof (induction fs arbitrary: d r)
  case (Cons f fs)
  obtain e c q where q: "redactFile mac gunzip regzip fails tmpOf names f (d, r) = (e, c, q)" by (metis prod_cases3)
  have k: "keeps_redactor mac r q" by (rule redactFile_keeps [OF q Cons.prems(2)])
  show ?case
  proof (cases e)
    case None
    then have "redactFiles (redactFile mac gunzip regzip fails tmpOf names) fs (c, q) = (err, d', r')" using Cons.prems(1) q by simp
    then show ?thesis using Cons.IH [of c q] k by (simp add: keeps_redactor_def)
  next
    case (Some x)
    then show ?thesis using Cons.prems(1) q k by simp
  qed
qed (simp add: keeps_redactor_def)

lemma decideRenames_keeps:
  "coherent mac r \<Longrightarrow> coherent mac (decideRenames names fs r)" "r_key (decideRenames names fs r) = r_key r"
  by (induction names fs r rule: decideRenames.induct) (simp_all add: Let_def)

lemma learn_coherent:
  "coherent mac (l_redactor l) \<Longrightarrow> list_all (\<lambda>(kind, _). NUL \<notin> set kind) kvs \<Longrightarrow>
    coherent mac (l_redactor (fold (\<lambda>(kind, val). add mac kind val) kvs l))"
proof (induction kvs arbitrary: l)
  case (Cons kv kvs)
  obtain kind val where kv: "kv = (kind, val)" by (cases kv)
  have "coherent mac (l_redactor (add mac kind val l))"
    using Cons.prems Pseudonym_pure(2) [of mac "l_redactor l" kind val] by (auto simp: add_def Let_def split_beta kv)
  then show ?case using Cons by (simp add: kv)
qed simp

definition plain_kind :: "string \<times> string \<Rightarrow> bool" where
  "plain_kind kv \<longleftrightarrow> fst kv = ''node'' \<or> fst kv = ''host''"

lemma learned_kinds:
  "list_all plain_kind (learnFromNodes fails d cd @ learnFromPods fails d cd
       @ learnFromEvents fails d cd @ learnFromSlices fails d cd @ learnFromMachines fails d dec_map)"
proof -
  have "list_all plain_kind (names_of_node n)" for n
    by (auto simp: names_of_node_def list_all_iff plain_kind_def)
  then have "list_all plain_kind (concat (map names_of_node ns))" for ns by (induction ns) auto
  then have nodes: "list_all plain_kind (learnFromNodes fails d cd)" by (auto simp: learnFromNodes_def split: option.splits)
  have "list_all plain_kind (machine_names m)" for m
    by (auto simp: machine_names_def list_all_iff plain_kind_def)
  then have "list_all plain_kind (concat (map machine_names ms))" for ms by (induction ms) auto
  then have machines: "list_all plain_kind (learnFromMachines fails d dec_map)"
    by (auto simp: learnFromMachines_def split: option.splits json.splits)
  have pods: "list_all plain_kind (learnFromPods fails d cd)"
    by (auto simp: learnFromPods_def list_all_iff plain_kind_def split: option.splits)
  have "list_all plain_kind (learnFromEvents fails d cd)" "list_all plain_kind (learnFromSlices fails d cd)"
    by (auto simp: learnFromEvents_def learnFromSlices_def list_all_iff List.map_filter_def plain_kind_def split: option.splits)
  then show ?thesis using nodes machines pods by simp
qed

lemma learnIdentities_coherent:
  assumes "coherent mac r"
  shows "coherent mac (snd (learnIdentities mac fails d cd dec_map r))"
proof -
  have no_nul: "NUL \<notin> set ''node''" "NUL \<notin> set ''host''" by (simp_all add: NUL_def char_of_def)
  have "list_all (\<lambda>(kind, _). NUL \<notin> set kind) (learnFromNodes fails d cd @ learnFromPods fails d cd
       @ learnFromEvents fails d cd @ learnFromSlices fails d cd @ learnFromMachines fails d dec_map)"
    by (rule list.pred_mono_strong [OF learned_kinds]) (use no_nul in \<open>auto simp: plain_kind_def simp del: list.set\<close>)
  moreover have "l_redactor (fold add_known ids l) = l_redactor l" for ids l
    by (induction ids arbitrary: l) (auto simp: add_known_def)
  ultimately show ?thesis using assms learn_coherent by (simp add: learnIdentities_def Let_def)
qed

text \<open>
  C17 (bundle_is_rewritten). When the redaction of a bundle succeeds, every file left in the directory,
  other than what is not a regular file and the manifest, is a file of the bundle under its redacted
  name, holding the rewrite of what that file held; nothing of a bundle is left as it was. This rests
  on \<^verbatim>\<open>os\<close> answering the mode of every entry, on temporary names nothing else has, and on redacted
  names that no file has yet.
\<close>

theorem bundle_is_rewritten:
  assumes "RedactBundle mac gunzip regzip fails tmpOf cd dec_map (d, r) = (None, d', r')" "coherent mac r" "honest fails" "wf_map d"
    and "\<And>n. fails ''info'' n = None" "\<And>n. map_of d (tmpOf n) = None" "\<And>n k. map_of d k \<noteq> None \<Longrightarrow> tmpOf n \<noteq> renamedName r' k"
    and "\<And>n. renamedName r' n \<noteq> n \<Longrightarrow> map_of d (renamedName r' n) = None"
    and "map_of d' m = Some (RegularFile mode out)" "m \<noteq> ManifestFileName"
  shows "\<exists>n raw. map_of d n = Some (RegularFile mode raw) \<and> m = renamedName r' n
    \<and> content_pure mac gunzip regzip (r_key r') (r_renamed r') (fst (learnIdentities mac fails d cd dec_map r)) raw = Inr (Some out)"
proof -
  define names where "names = fst (learnIdentities mac fails d cd dec_map r)"
  define r1 where "r1 = snd (learnIdentities mac fails d cd dec_map r)"
  have r1: "coherent mac r1" unfolding r1_def by (rule learnIdentities_coherent [OF assms(2)])
  obtain entries where e: "os_ReadDir fails d = Inr entries"
    using assms(1) by (auto simp: RedactBundle_def split_beta split: sum.splits)
  define files where "files = filter (redactable fails d) entries"
  define r2 where "r2 = decideRenames names files r1"
  have run: "redactFiles (redactFile mac gunzip regzip fails tmpOf names) files (d, r2) = (None, d', r')"
    using assms(1) e by (simp add: RedactBundle_def split_beta names_def r1_def files_def r2_def Let_def)
  have es: "set entries = fst ` set d" "distinct entries"
  proof -
    have "entries = sort_Strings (map fst d)" using e by (simp add: os_ReadDir_def split: option.splits)
    then show "set entries = fst ` set d" "distinct entries" using assms(4) by (simp_all add: wf_map_def)
  qed
  have in_files: "n \<in> set files" if "map_of d n = Some (RegularFile mo raw)" "n \<noteq> ManifestFileName" for n mo raw
    using that es assms(5) by (auto simp: files_def redactable_def regular_mode_def dest!: map_of_SomeD intro: rev_image_eqI)
  have r2: "coherent mac r2" using decideRenames_keeps(1) [OF r1] by (simp add: r2_def)
  have keep: "r_key r' = r_key r2" "r_renamed r' = r_renamed r2"
    using redactFiles_keeps [OF run r2] by (simp_all add: keeps_redactor_def)
  then have ren: "renamedName r' = renamedName r2" by (simp add: renamedName_def fun_eq_iff)
  have files: "map_of d n \<noteq> None" if "n \<in> set files" for n
    using that by (auto simp: files_def redactable_def regular_mode_def split: option.splits)
  have "distinct files" using es(2) by (simp add: files_def)
  then have "(\<exists>n \<in> set [] \<union> set files. rewritten_from mac gunzip regzip names r' d m (RegularFile mode out) n)
      \<or> m \<notin> set [] \<union> set files \<and> map_of d m = Some (RegularFile mode out)"
    by (intro redactFiles_ok [OF run r2 assms(3), where gone = "[]"])
      (use assms(6-9) files in \<open>auto simp: ren\<close>)
  then obtain n where "rewritten_from mac gunzip regzip names r' d m (RegularFile mode out) n"
    using in_files assms(10) by auto
  then show ?thesis by (auto simp: rewritten_from_def names_def)
qed

definition sample_tmp :: "string \<Rightarrow> string" where "sample_tmp n = ''.'' @ n @ ''.redacting-1''"
definition no_faults :: faults where "no_faults _ _ = None"
definition sample_dir :: dir where "sample_dir = [(''a.log'', RegularFile 384 ''token: abc'')]"

definition empty_codec :: codec where
  "empty_codec = \<lparr>top_keys = \<lambda>_. None, dec_nodes = \<lambda>_. ([], None), dec_slices = \<lambda>_. ([], None), dec_pods = \<lambda>_. ([], None),
     dec_events = \<lambda>_. ([], None), dec_objects = \<lambda>_. ([], None), dec_object = \<lambda>_. ([], None)\<rparr>"

definition sample_run :: "goerr option \<times> dir \<times> Redactor" where
  "sample_run = RedactBundle sample_mac Inr Inr no_faults sample_tmp empty_codec (\<lambda>_. ([], None))
     (sample_dir, sample_redactor)"

text \<open>Bytes of ASCII without a NUL are text.\<close>

lemma ascii_isText:
  assumes "list_all (\<lambda>c. 0 < (of_char c :: nat) \<and> of_char c < (128 :: nat)) s"
  shows "isText s"
proof -
  have "length s \<le> n \<Longrightarrow> list_all (\<lambda>t. \<not> (fst t = RuneError \<and> length (snd t) = 1)) (tokens_of n s)" for n
    using assms
  proof (induction n arbitrary: s)
    case (Suc n)
    then show ?case by (cases s) (auto simp: RuneError_def)
  qed simp
  moreover have "NUL \<notin> set s" using assms by (auto simp: list_all_iff NUL_def)
  ultimately show ?thesis by (simp add: isText_def utf8_Valid_def tokens_def)
qed

lemma sample_content:
  "redactContent sample_mac Inr Inr ''token: abc'' [] sample_redactor = (Inr (Some ''token: REDACTED''), sample_redactor)"
proof -
  have secrets: "redactSecrets ''token: abc'' = ''token: REDACTED''" by code_simp
  have none: "search ipv4Pattern None (tokens ''token: REDACTED'') = None" "search ipv6Pattern None (tokens ''token: REDACTED'') = None"
    by code_simp+
  have stays: "ReplaceAllStringFunc e f s st = (s, st)" if "search e None (tokens s) = None" for e s st
    and f :: "string \<Rightarrow> Redactor \<Rightarrow> string \<times> Redactor"
    unfolding ReplaceAllStringFunc_def by (subst replace_loop.simps) (simp only: that option.case bytes_of_tokens)
  have renames: "rename_texts (r_renamed sample_redactor) (sortedKeysByLengthDesc (r_renamed sample_redactor)) s = s" for s
    by (simp add: sample_redactor_def sortedKeysByLengthDesc_def sort_Slice_def)
  have "rewrite sample_mac ''token: abc'' [] sample_redactor = (''token: REDACTED'', sample_redactor)"
    unfolding rewrite_def redactAddresses_def Let_def secrets renames replaceIdentities.simps
    by (simp only: stays [OF none(1)] stays [OF none(2)] prod.case)
  moreover have "isText ''token: abc''" by (rule ascii_isText) simp
  moreover have "\<not> strings_HasPrefix ''token: abc'' gzipMagic" by code_simp
  ultimately show ?thesis by (simp add: redactContent_def)
qed

lemma sample_run_ends: "sample_run = (None, [(''a.log'', RegularFile 384 ''token: REDACTED'')], sample_redactor)"
proof -
  have names: "learnIdentities sample_mac no_faults sample_dir empty_codec (\<lambda>_. ([], None)) sample_redactor = ([], sample_redactor)"
    by (simp add: learnIdentities_def learnFromNodes_def learnFromPods_def learnFromEvents_def learnFromSlices_def learnFromMachines_def
        readBundleYAML_def os_ReadFile_def sample_dir_def no_faults_def byLengthDesc_def sort_Slice_def sample_redactor_def
        gpuPodsFile_def nodeEventsFile_def)
  have files: "os_ReadDir no_faults sample_dir = Inr [''a.log'']" "redactable no_faults sample_dir ''a.log''"
    by (simp_all add: os_ReadDir_def sample_dir_def no_faults_def sort_Strings_def redactable_def regular_mode_def ManifestFileName_def)
  have "redactFile sample_mac Inr Inr no_faults sample_tmp [] ''a.log'' (sample_dir, sample_redactor)
      = (None, [(''a.log'', RegularFile 384 ''token: REDACTED'')], sample_redactor)"
    by (simp add: redactFile_def os_ReadFile_def no_faults_def sample_dir_def sample_content writeThenRename_def Let_def os_Rename_def
        renamedName_def sample_redactor_def [THEN arg_cong [of _ _ r_renamed]] sample_tmp_def mput_def mdel_def)
  then show ?thesis using names files by (simp add: sample_run_def RedactBundle_def Let_def)
qed

theorem bundle_is_rewritten_witness:
  "\<exists>n raw. map_of sample_dir n = Some (RegularFile 384 raw) \<and> ''a.log'' = renamedName (snd (snd sample_run)) n
    \<and> content_pure sample_mac Inr Inr (r_key (snd (snd sample_run))) (r_renamed (snd (snd sample_run)))
        (fst (learnIdentities sample_mac no_faults sample_dir empty_codec (\<lambda>_. ([], None)) sample_redactor)) raw
      = Inr (Some ''token: REDACTED'')"
proof (rule bundle_is_rewritten)
  show "RedactBundle sample_mac Inr Inr no_faults sample_tmp empty_codec (\<lambda>_. ([], None)) (sample_dir, sample_redactor)
      = (None, fst (snd sample_run), snd (snd sample_run))"
    unfolding sample_run_def [symmetric] by (simp add: sample_run_ends)
  show "coherent sample_mac sample_redactor" by (rule sample_redactor_coherent)
  show "honest no_faults" by (simp add: honest_def no_faults_def)
  show "wf_map sample_dir" by (simp add: wf_map_def sample_dir_def)
  show "no_faults ''info'' n = None" for n by (simp add: no_faults_def)
  show "map_of sample_dir (sample_tmp n) = None" for n by (simp add: sample_dir_def sample_tmp_def)
  have same: "renamedName (snd (snd sample_run)) k = k" for k by (simp add: renamedName_def sample_run_ends sample_redactor_def)
  show "sample_tmp n \<noteq> renamedName (snd (snd sample_run)) k" if "map_of sample_dir k \<noteq> None" for n k
    using that by (auto simp: same sample_dir_def sample_tmp_def split: if_splits)
  show "map_of sample_dir (renamedName (snd (snd sample_run)) n) = None" if "renamedName (snd (snd sample_run)) n \<noteq> n" for n
    using that by (simp add: same)
  show "map_of (fst (snd sample_run)) ''a.log'' = Some (RegularFile 384 ''token: REDACTED'')" by (simp add: sample_run_ends)
  show "''a.log'' \<noteq> ManifestFileName" by (simp add: ManifestFileName_def)
qed

end
