(* ===== verification/Gather_Files.thy ===== *)
theory Gather_Files
  imports Redact_Bundle Inventory_Pods
begin

text \<open>
  The state of a gather and how it puts one artifact in the bundle, from
  \<^verbatim>\<open>pkg/mustgather/mustgather.go\<close>, \<^verbatim>\<open>bundle.go\<close>, \<^verbatim>\<open>flags.go\<close>, \<^verbatim>\<open>progress.go\<close> and the types of
  \<^verbatim>\<open>manifest.go\<close>: an artifact is written under a temporary name and renamed into place, and only
  then recorded against the collector that is running.
\<close>

subsection \<open>Options and state\<close>

record Options =
  o_ArtifactDir :: string
  o_Debug :: bool
  o_Node :: string
  o_Since :: int
  o_NoExec :: bool
  o_Redact :: bool
  o_ExecTimeout :: int
  o_ToolVersion :: string
  o_Context :: string

record CollectorStatus =
  cs_Collector :: string
  cs_Status :: string
  cs_Artifacts :: "string list"

text \<open>
  What the gatherer changes as it runs: the directory, the results of the collectors, whether the
  last of them is the current one, whether anything was collected, every node of the cluster, what
  was told to the user, and the redactor once there is one.
\<close>

record Gatherer =
  g_dir :: dir
  g_results :: "CollectorStatus list"
  g_current :: bool
  g_collected :: bool
  g_allNodes :: "Node list"
  g_progress :: "string list"
  g_redactor :: "Redactor option"

subsection \<open>Options that cannot be used\<close>

definition second :: int where "second = 1000000000"
definition minimumWindow :: int where "minimumWindow = second"
definition DefaultExecTimeout :: int where "DefaultExecTimeout = 120 * second"

text \<open>\<open>duration\<close> is \<^verbatim>\<open>Duration.String\<close>.\<close>

definition ValidateWindows :: "(int \<Rightarrow> string) \<Rightarrow> Options \<Rightarrow> goerr option" where
  "ValidateWindows duration opts =
     (if o_Since opts \<noteq> 0 \<and> o_Since opts < minimumWindow
      then Some (UsageError (''--since is '' @ duration (o_Since opts) @ '': a log window shorter than ''
             @ duration minimumWindow @ '' collects nothing'') None)
      else if o_ExecTimeout opts < minimumWindow
      then Some (UsageError (''--exec-timeout is '' @ duration (o_ExecTimeout opts) @ '': a deadline shorter than ''
             @ duration minimumWindow @ '' cannot finish a bug report'') None)
      else None)"

definition execTimeout :: "Options \<Rightarrow> int" where
  "execTimeout opts = (if o_ExecTimeout opts > 0 then o_ExecTimeout opts else DefaultExecTimeout)"

text \<open>What is at the path of the artifact directory: nothing yet, or a directory.\<close>

definition checkArtifactDir :: "faults \<Rightarrow> string \<Rightarrow> dir option \<Rightarrow> goerr option" where
  "checkArtifactDir fails path here = (case here of None \<Rightarrow> None
     | Some d \<Rightarrow> (case os_ReadDir fails d of
         Inl e \<Rightarrow> if e = ErrNotExist then None else Some (ErrFmt ''reading the artifact directory: '' (Some e))
       | Inr entries \<Rightarrow> if entries = [] then None
           else Some (UsageError (path @ '' is not empty: refusing to mix this bundle with what is already there'') None)))"

text \<open>\<open>subdomain\<close> is \<^verbatim>\<open>IsDNS1123Subdomain\<close> of the API machinery: the complaints about a name.\<close>

definition usableInAName :: "(string \<Rightarrow> string list) \<Rightarrow> string \<Rightarrow> bool" where
  "usableInAName subdomain name = (name \<noteq> [] \<and> subdomain name = [])"

subsection \<open>Narrowing to one node\<close>

definition wantsNode :: "Options \<Rightarrow> string \<Rightarrow> bool" where
  "wantsNode opts name = (o_Node opts = [] \<or> o_Node opts = name)"

definition podsOnNode :: "Options \<Rightarrow> Pod list \<Rightarrow> Pod list" where
  "podsOnNode opts pods = (if o_Node opts = [] then pods else filter (\<lambda>p. spec_NodeName (pod_Spec p) = o_Node opts) pods)"

definition nodesWanted :: "Options \<Rightarrow> Node list \<Rightarrow> Node list" where
  "nodesWanted opts nodes = (if o_Node opts = [] then nodes else filter (\<lambda>n. wantsNode opts (node_Name n)) nodes)"

definition dedupeNodes :: "Node list \<Rightarrow> Node list" where
  "dedupeNodes nodes = first_by node_Name nodes []"

definition containerNames :: "Pod \<Rightarrow> string list" where
  "containerNames pod = map c_Name (spec_InitContainers (pod_Spec pod)) @ map c_Name (spec_Containers (pod_Spec pod))"

subsection \<open>Progress and logs\<close>

text \<open>The gather's own two logs are files of the bundle.\<close>

definition logName :: string where "logName = ''must-gather.log''"
definition errLogName :: string where "errLogName = ''must-gather.stderr.log''"
definition gatherLogs :: "string list" where "gatherLogs = [logName, errLogName]"

definition step :: "string \<Rightarrow> Gatherer \<Rightarrow> Gatherer" where
  "step line g = g\<lparr>g_progress := g_progress g @ [''info: '' @ line]\<rparr>"

definition note_user :: "string \<Rightarrow> Gatherer \<Rightarrow> Gatherer" where
  "note_user line g = g\<lparr>g_progress := g_progress g @ [''warning: '' @ line]\<rparr>"

definition append_file :: "string \<Rightarrow> string \<Rightarrow> dir \<Rightarrow> dir" where
  "append_file name s d = (case map_of d name of
       Some (RegularFile mo content) \<Rightarrow> mput d name (RegularFile mo (content @ s)) | _ \<Rightarrow> mput d name (RegularFile 384 s))"

text \<open>A line to one of the logs, which can fail like every other write.\<close>

definition log_line :: "faults \<Rightarrow> string \<Rightarrow> string \<Rightarrow> Gatherer \<Rightarrow> goerr option \<times> Gatherer" where
  "log_line fails log line g = (case fails ''log'' log of Some e \<Rightarrow> (Some e, g)
     | None \<Rightarrow> (None, g\<lparr>g_dir := append_file log (line @ [char_of (10::nat)]) (g_dir g)\<rparr>))"

definition lost_log :: "goerr \<Rightarrow> goerr \<Rightarrow> goerr" where
  "lost_log err lerr = ErrText (Error err @ '' + error writing to stderr log file: '' @ Error lerr)"

definition logError :: "faults \<Rightarrow> string \<Rightarrow> goerr \<Rightarrow> Gatherer \<Rightarrow> goerr \<times> Gatherer" where
  "logError fails what err g = (case log_line fails errLogName (what @ '': '' @ Error err) g of
       (Some lerr, g) \<Rightarrow> (lost_log err lerr, g)
     | (None, g) \<Rightarrow> (ErrFmt (what @ '': '') (Some err), g))"

subsection \<open>One artifact\<close>

definition artifactTempSuffix :: string where "artifactTempSuffix = ''.part''"

definition indexArtifact :: "Options \<Rightarrow> string \<Rightarrow> Gatherer \<Rightarrow> Gatherer" where
  "indexArtifact opts name g =
     (let g = (if g_current g \<and> g_results g \<noteq> []
               then g\<lparr>g_results := butlast (g_results g) @ [(last (g_results g))\<lparr>cs_Artifacts := cs_Artifacts (last (g_results g)) @ [name]\<rparr>]\<rparr>
               else g)
      in if o_Debug opts then step (''Wrote '' @ name) g else g)"

definition recordArtifact :: "Options \<Rightarrow> string \<Rightarrow> Gatherer \<Rightarrow> Gatherer" where
  "recordArtifact opts name g = indexArtifact opts name (g\<lparr>g_collected := True\<rparr>)"

definition recordMarker :: "Options \<Rightarrow> string \<Rightarrow> Gatherer \<Rightarrow> Gatherer" where
  "recordMarker opts name g = indexArtifact opts name g"

definition on_dir :: "(dir \<Rightarrow> dir) \<Rightarrow> Gatherer \<Rightarrow> Gatherer" where
  "on_dir f g = g\<lparr>g_dir := f (g_dir g)\<rparr>"

definition createArtifact :: "faults \<Rightarrow> string \<Rightarrow> Gatherer \<Rightarrow> goerr option \<times> Gatherer" where
  "createArtifact fails name g = (case fails ''create'' name of Some e \<Rightarrow> (Some e, g)
     | None \<Rightarrow> (None, on_dir (\<lambda>d. mput d (name @ artifactTempSuffix) (RegularFile 384 [])) g))"

definition commit :: "faults \<Rightarrow> Options \<Rightarrow> string \<Rightarrow> Gatherer \<Rightarrow> goerr option \<times> Gatherer" where
  "commit fails opts name g =
     (let part = name @ artifactTempSuffix in
      case fails ''close'' name of
        Some e \<Rightarrow> (Some (ErrFmt (''closing '' @ name @ '': '') (Some e)), on_dir (quietly fails part) g)
      | None \<Rightarrow> (case os_Rename fails part name (g_dir g) of
          (Some e, d) \<Rightarrow> (Some (ErrFmt (''putting '' @ name @ '' in place: '') (Some e)), on_dir (quietly fails part) (g\<lparr>g_dir := d\<rparr>))
        | (None, d) \<Rightarrow> (None, recordArtifact opts name (g\<lparr>g_dir := d\<rparr>))))"

definition discard :: "faults \<Rightarrow> string \<Rightarrow> Gatherer \<Rightarrow> Gatherer" where
  "discard fails name g =
     (let part = name @ artifactTempSuffix in
      case os_Remove fails part (g_dir g) of
        (None, d) \<Rightarrow> g\<lparr>g_dir := d\<rparr>
      | (Some e, d) \<Rightarrow> if e = ErrNotExist then g\<lparr>g_dir := d\<rparr>
          else snd (log_line fails errLogName (''Error removing the unfinished artifact '' @ part @ '': '' @ Error e) (g\<lparr>g_dir := d\<rparr>)))"

text \<open>
  An artifact whose content is rendered while it is written, which may itself write to the logs: a
  rendering that fails leaves nothing. \<open>fails ''write''\<close> is a failed write as the rendering reports it.
\<close>

definition finishArtifact :: "faults \<Rightarrow> Options \<Rightarrow> string \<Rightarrow> goerr + string \<Rightarrow> Gatherer \<Rightarrow> goerr option \<times> Gatherer" where
  "finishArtifact fails opts name content g =
     (case (case content of Inl e \<Rightarrow> Inl e | Inr s \<Rightarrow> (case fails ''write'' name of Some e \<Rightarrow> Inl e | None \<Rightarrow> Inr s)) of
        Inl e \<Rightarrow> (let (err, g) = logError fails (''error writing '' @ name) e (discard fails name g) in (Some err, g))
      | Inr s \<Rightarrow>
          (case commit fails opts name (on_dir (\<lambda>d. mput d (name @ artifactTempSuffix) (RegularFile 384 s)) g) of
             (Some e, g) \<Rightarrow> (let (err, g) = logError fails (''error writing '' @ name) e g in (Some err, g))
           | (None, g) \<Rightarrow> (None, g)))"

definition writeRendered :: "faults \<Rightarrow> Options \<Rightarrow> string \<Rightarrow> (Gatherer \<Rightarrow> (goerr + string) \<times> Gatherer) \<Rightarrow> Gatherer \<Rightarrow> goerr option \<times> Gatherer" where
  "writeRendered fails opts name render g =
     (case createArtifact fails name g of
        (Some e, g) \<Rightarrow> (let (err, g) = logError fails (''error creating '' @ name) e g in (Some err, g))
      | (None, g) \<Rightarrow> (let (content, g) = render g in finishArtifact fails opts name content g))"

definition writeArtifactFile :: "faults \<Rightarrow> Options \<Rightarrow> string \<Rightarrow> goerr + string \<Rightarrow> Gatherer \<Rightarrow> goerr option \<times> Gatherer" where
  "writeArtifactFile fails opts name content = writeRendered fails opts name (Pair content)"

definition writeMarker :: "faults \<Rightarrow> Options \<Rightarrow> string \<Rightarrow> string \<Rightarrow> Gatherer \<Rightarrow> goerr option \<times> Gatherer" where
  "writeMarker fails opts name s g = (case fails ''write'' name of Some e \<Rightarrow> (Some e, g)
     | None \<Rightarrow> (None, recordMarker opts name (on_dir (\<lambda>d. mput d name (RegularFile 384 s)) g)))"

definition discardArtifact :: "faults \<Rightarrow> string \<Rightarrow> Gatherer \<Rightarrow> Gatherer" where
  "discardArtifact fails name g = (case os_Remove fails name (g_dir g) of
       (None, d) \<Rightarrow> g\<lparr>g_dir := d\<rparr>
     | (Some e, d) \<Rightarrow> if e = ErrNotExist then g\<lparr>g_dir := d\<rparr>
         else snd (log_line fails errLogName (''Error removing the partial artifact '' @ name @ '': '' @ Error e) (g\<lparr>g_dir := d\<rparr>)))"

subsection \<open>One collector\<close>

definition begin_collector :: "string \<Rightarrow> Gatherer \<Rightarrow> Gatherer" where
  "begin_collector name g = g\<lparr>g_results := g_results g @ [\<lparr>cs_Collector = name, cs_Status = [], cs_Artifacts = []\<rparr>], g_current := True\<rparr>"

definition end_collector :: "string \<Rightarrow> Gatherer \<Rightarrow> Gatherer" where
  "end_collector status g = (if g_current g
     then g\<lparr>g_results := butlast (g_results g) @ [(last (g_results g))\<lparr>cs_Status := status\<rparr>], g_current := False\<rparr> else g)"

text \<open>A failure of the gather, with whether it left anything worth looking at.\<close>

definition failed :: "Gatherer \<Rightarrow> goerr \<Rightarrow> goerr" where
  "failed g err = GatherError (g_collected g) err"

subsection \<open>An artifact is whole or not there\<close>

text \<open>The parts of the state that say what was collected.\<close>

definition same_record :: "Gatherer \<Rightarrow> Gatherer \<Rightarrow> bool" where
  "same_record g g' \<longleftrightarrow> g_results g' = g_results g \<and> g_current g' = g_current g \<and> g_collected g' = g_collected g
     \<and> g_allNodes g' = g_allNodes g \<and> g_redactor g' = g_redactor g"

lemma same_record_refl [simp]: "same_record g g" by (simp add: same_record_def)

lemma same_record_trans [trans]: "same_record a b \<Longrightarrow> same_record b c \<Longrightarrow> same_record a c"
  by (simp add: same_record_def)

lemma same_record_dir [simp]: "same_record g (g'\<lparr>g_dir := d\<rparr>) = same_record g g'" "same_record g (on_dir f g') = same_record g g'"
  "same_record (g\<lparr>g_dir := d\<rparr>) g' = same_record g g'" "same_record (on_dir f g) g' = same_record g g'"
  by (simp_all add: same_record_def on_dir_def)

lemma on_dir_dir [simp]: "g_dir (on_dir f g) = f (g_dir g)" by (simp add: on_dir_def)

lemma append_file_other: "n \<noteq> name \<Longrightarrow> map_of (append_file name s d) n = map_of d n"
  by (auto simp: append_file_def gomap_simps split: option.splits dirent.splits)

lemma log_line_keeps:
  "same_record g (snd (log_line fails log line g))" "n \<noteq> log \<Longrightarrow> map_of (g_dir (snd (log_line fails log line g))) n = map_of (g_dir g) n"
  by (auto simp: log_line_def append_file_other same_record_def split: option.splits)

lemma logError_keeps:
  "same_record g (snd (logError fails what err g))"
  "n \<noteq> errLogName \<Longrightarrow> map_of (g_dir (snd (logError fails what err g))) n = map_of (g_dir g) n"
  using log_line_keeps [where g = g and fails = fails and log = errLogName and line = "what @ '': '' @ Error err"]
  by (auto simp: logError_def split: prod.splits option.splits)

lemma quietly_other: "n \<noteq> name \<Longrightarrow> map_of (quietly fails name d) n = map_of d n"
  by (auto simp: quietly_def os_Remove_def gomap_simps split: option.splits)

lemma discard_keeps:
  "same_record g (discard fails name g)"
  "n \<noteq> errLogName \<Longrightarrow> n \<noteq> name @ artifactTempSuffix \<Longrightarrow> map_of (g_dir (discard fails name g)) n = map_of (g_dir g) n"
  using log_line_keeps [where fails = fails and log = errLogName]
  by (auto simp: discard_def os_Remove_def Let_def gomap_simps same_record_def split: prod.splits option.splits)

lemma indexArtifact_dir [simp]: "g_dir (indexArtifact opts name g) = g_dir g"
  by (simp add: indexArtifact_def step_def Let_def)

lemma part_name [simp]: "artifactTempSuffix \<noteq> []"
  by (simp add: artifactTempSuffix_def)

lemma commit_ok:
  assumes "commit fails opts name g = (None, g')" "map_of (g_dir g) (name @ artifactTempSuffix) = Some f"
  shows "map_of (g_dir g') = (map_of (g_dir g))(name @ artifactTempSuffix := None, name \<mapsto> f)"
    and "\<exists>d. g' = recordArtifact opts name (g\<lparr>g_dir := d\<rparr>)"
  using assms by (auto simp: commit_def Let_def os_Rename_def recordArtifact_def gomap_simps split: option.splits)

lemma commit_fails:
  assumes "commit fails opts name g = (Some e, g')"
  shows "same_record g g'" "n \<noteq> name @ artifactTempSuffix \<Longrightarrow> map_of (g_dir g') n = map_of (g_dir g) n"
  using assms by (auto simp: commit_def Let_def os_Rename_def quietly_other split: option.splits)

lemma writeArtifact_whole:
  "case writeArtifactFile fails opts name content g of
     (None, g') \<Rightarrow> (\<exists>s. content = Inr s \<and> map_of (g_dir g') name = Some (RegularFile 384 s))
       \<and> map_of (g_dir g') (name @ artifactTempSuffix) = None
       \<and> (\<exists>d. g' = recordArtifact opts name (g\<lparr>g_dir := d\<rparr>))
   | (Some e, g') \<Rightarrow> (name \<noteq> errLogName \<longrightarrow> map_of (g_dir g') name = map_of (g_dir g) name) \<and> same_record g g'"
proof -
  define g1 where "g1 = on_dir (\<lambda>d. mput d (name @ artifactTempSuffix) (RegularFile 384 [])) g"
  have g1: "same_record g g1" "map_of (g_dir g1) name = map_of (g_dir g) name" by (simp_all add: g1_def gomap_simps)
  have fail: "(name \<noteq> errLogName \<longrightarrow> map_of (g_dir (snd (logError fails what e h))) name = map_of (g_dir g) name)
      \<and> same_record g (snd (logError fails what e h))"
    if "same_record g h" "name \<noteq> errLogName \<longrightarrow> map_of (g_dir h) name = map_of (g_dir g) name" for what e h
    using logError_keeps [where g = h and fails = fails and what = what and err = e] that by (auto intro: same_record_trans)
  have gone: "same_record g (discard fails name g1)" by (rule same_record_trans [OF g1(1) discard_keeps(1)])
  have kept: "name \<noteq> errLogName \<longrightarrow> map_of (g_dir (discard fails name g1)) name = map_of (g_dir g) name"
    using discard_keeps(2) [of name name fails g1] g1(2) by simp
  consider (create) e where "fails ''create'' name = Some e"
    | (render) e where "fails ''create'' name = None" "content = Inl e"
    | (unwritten) s e where "fails ''create'' name = None" "content = Inr s" "fails ''write'' name = Some e"
    | (ok) s where "fails ''create'' name = None" "content = Inr s" "fails ''write'' name = None"
    by (metis not_None_eq sum.exhaust)
  then show ?thesis
  proof cases
    case create
    then show ?thesis using fail [of g] by (simp add: writeArtifactFile_def writeRendered_def finishArtifact_def createArtifact_def split_beta)
  next
    case render
    then show ?thesis using fail [OF gone kept]
      by (simp add: writeArtifactFile_def writeRendered_def finishArtifact_def createArtifact_def split_beta g1_def [symmetric])
  next
    case unwritten
    then show ?thesis using fail [OF gone kept]
      by (simp add: writeArtifactFile_def writeRendered_def finishArtifact_def createArtifact_def split_beta g1_def [symmetric])
  next
    case ok
    define g2 where "g2 = on_dir (\<lambda>d. mput d (name @ artifactTempSuffix) (RegularFile 384 s)) g1"
    have g2: "same_record g g2" "map_of (g_dir g2) name = map_of (g_dir g) name"
      "map_of (g_dir g2) (name @ artifactTempSuffix) = Some (RegularFile 384 s)"
      using g1 by (simp_all add: g2_def gomap_simps)
    have w: "writeArtifactFile fails opts name content g = (case commit fails opts name g2 of
         (Some e, g) \<Rightarrow> (let (err, g) = logError fails (''error writing '' @ name) e g in (Some err, g)) | (None, g) \<Rightarrow> (None, g))"
      using ok by (simp add: writeArtifactFile_def writeRendered_def finishArtifact_def createArtifact_def g1_def g2_def)
    obtain err g3 where c: "commit fails opts name g2 = (err, g3)" by (cases "commit fails opts name g2")
    show ?thesis
    proof (cases err)
      case None
      then obtain d where d: "g3 = recordArtifact opts name (g2\<lparr>g_dir := d\<rparr>)"
        using commit_ok(2) [of fails opts name g2 g3] c g2(3) by blast
      have "g2\<lparr>g_dir := d\<rparr> = g\<lparr>g_dir := d\<rparr>" by (simp add: g2_def g1_def on_dir_def)
      then show ?thesis using commit_ok(1) [of fails opts name g2 g3] c None g2(3) ok d w by auto
    next
      case (Some e)
      with c have "commit fails opts name g2 = (Some e, g3)" by simp
      note f = commit_fails [OF this]
      have "same_record g g3" by (rule same_record_trans [OF g2(1) f(1)])
      moreover have "map_of (g_dir g3) name = map_of (g_dir g) name" using f(2) [of name] g2(2) by simp
      ultimately show ?thesis using fail [of g3] c Some w by (simp add: split_beta)
    qed
  qed
qed

text \<open>
  C22 (artifact_is_whole). An artifact is written whole or not at all: when the write succeeds the file
  holds the whole content under its own name, the temporary name is gone and the artifact is recorded
  against the running collector; when anything fails, what was under that name before is there
  unchanged and nothing is recorded.
\<close>

theorem artifact_is_whole:
  "name \<noteq> errLogName \<Longrightarrow> case writeArtifactFile fails opts name content g of
     (None, g') \<Rightarrow> (\<exists>s. content = Inr s \<and> map_of (g_dir g') name = Some (RegularFile 384 s))
       \<and> map_of (g_dir g') (name @ artifactTempSuffix) = None
       \<and> (\<exists>d. g' = recordArtifact opts name (g\<lparr>g_dir := d\<rparr>))
   | (Some e, g') \<Rightarrow> map_of (g_dir g') name = map_of (g_dir g) name \<and> same_record g g'"
  using writeArtifact_whole [where fails = fails and opts = opts and name = name and content = content and g = g]
  by (auto split: prod.splits option.splits)

definition sample_options :: Options where
  "sample_options = \<lparr>o_ArtifactDir = ''/tmp/b'', o_Debug = False, o_Node = [], o_Since = 0, o_NoExec = False, o_Redact = False,
     o_ExecTimeout = DefaultExecTimeout, o_ToolVersion = ''v1'', o_Context = ''c''\<rparr>"

definition sample_gatherer :: Gatherer where
  "sample_gatherer = \<lparr>g_dir = [], g_results = [\<lparr>cs_Collector = ''nodes'', cs_Status = [], cs_Artifacts = []\<rparr>], g_current = True,
     g_collected = False, g_allNodes = [], g_progress = [], g_redactor = None\<rparr>"

theorem artifact_is_whole_witness:
  "map_of (g_dir (snd (writeArtifactFile no_faults sample_options ''nodes.yaml'' (Inr ''x'') sample_gatherer))) ''nodes.yaml''
    = Some (RegularFile 384 ''x'')"
proof -
  have "fst (writeArtifactFile no_faults sample_options ''nodes.yaml'' (Inr ''x'') sample_gatherer) = None"
    by (simp add: writeArtifactFile_def writeRendered_def finishArtifact_def createArtifact_def commit_def no_faults_def os_Rename_def gomap_simps Let_def)
  then show ?thesis
    using artifact_is_whole [where name = "''nodes.yaml''" and fails = no_faults and opts = sample_options and content = "Inr ''x''" and g = sample_gatherer]
    by (auto simp: errLogName_def split: prod.splits)
qed

end
