(* ===== verification/Gather_Run.thy ===== *)
theory Gather_Run
  imports Gather_Files
begin

text \<open>
  One gather from end to end, \<^verbatim>\<open>pkg/mustgather/mustgather.go\<close> and \<^verbatim>\<open>manifest.go\<close>, with the methods of
  the gatherer in \<^verbatim>\<open>redact.go\<close>: the collectors of a registry one after the other, the redaction, the
  manifest that indexes what is in the directory, and the error the command exits with.
\<close>

subsection \<open>Collectors\<close>

record driverTarget =
  dt_pod :: Pod
  dt_label :: string
  dt_container :: string

text \<open>What one collector learned and the ones after it need; \<open>None\<close> for driver pods not looked for yet.\<close>

record gatherState =
  gs_operatorNamespace :: string
  gs_operatorPod :: "Pod option"
  gs_operandPods :: "Pod list"
  gs_driverPods :: "driverTarget list option"
  gs_execDenied :: "string list"
  gs_prepared :: bool

definition fresh_state :: gatherState where
  "fresh_state = \<lparr>gs_operatorNamespace = [], gs_operatorPod = None, gs_operandPods = [], gs_driverPods = None,
     gs_execDenied = [], gs_prepared = False\<rparr>"

text \<open>How a collector ended: an error, \<^verbatim>\<open>errSkipped\<close> with its reason, or neither.\<close>

datatype outcome = Ran | Skipped string | Failed goerr

type_synonym run = "gatherState \<times> Gatherer \<Rightarrow> outcome \<times> gatherState \<times> Gatherer"

record Collector =
  clt_Name :: string
  clt_Step :: string
  clt_Artifacts :: "string list"
  clt_Run :: run

definition StatusOK :: string where "StatusOK = ''ok''"
definition statusSkipped :: string where "statusSkipped = ''skipped:''"
definition statusError :: string where "statusError = ''error:''"

definition status_of :: "outcome \<Rightarrow> string" where
  "status_of out = (case out of Ran \<Rightarrow> StatusOK | Skipped why \<Rightarrow> statusSkipped @ why | Failed e \<Rightarrow> statusError @ Error e)"

definition run_collector :: "Collector \<Rightarrow> gatherState \<times> Gatherer \<Rightarrow> outcome \<times> gatherState \<times> Gatherer" where
  "run_collector c sg =
     (let (s, g) = sg;
          g = begin_collector (clt_Name c) g;
          g = (if clt_Step c \<noteq> [] then step (clt_Step c) g else g);
          (out, s, g) = clt_Run c (s, g);
          g = end_collector (status_of out) g;
          g = (case out of Failed e \<Rightarrow> note_user (clt_Name c @ '': '' @ Error e) g | _ \<Rightarrow> g)
      in (out, s, g))"

fun collect_loop :: "Collector list \<Rightarrow> string list \<Rightarrow> gatherState \<times> Gatherer \<Rightarrow> string list \<times> gatherState \<times> Gatherer" where
  "collect_loop [] bad sg = (bad, sg)"
| "collect_loop (c # cs) bad sg =
     (let (out, sg) = run_collector c sg in
      collect_loop cs (case out of Failed _ \<Rightarrow> bad @ [clt_Name c] | _ \<Rightarrow> bad) sg)"

definition collect :: "Collector list \<Rightarrow> Gatherer \<Rightarrow> goerr option \<times> Gatherer" where
  "collect registry g =
     (let (bad, s, g) = collect_loop registry [] (fresh_state, g) in
      (if gs_execDenied s \<noteq> []
       then Some (ErrText (''not allowed to exec into the driver pods; these collectors were skipped: '' @ strings_Join (gs_execDenied s) '', ''))
       else if bad \<noteq> [] then Some (ErrText (''these collectors failed: '' @ strings_Join bad '', ''))
       else None, g))"

definition PlannedArtifacts :: "Collector list \<Rightarrow> string list" where
  "PlannedArtifacts registry = gatherLogs @ first_by id (concat (map clt_Artifacts registry)) gatherLogs"

subsection \<open>The node asked for\<close>

text \<open>\<open>get\<close> is the read of one node object.\<close>

definition checkNode :: "(string \<Rightarrow> string list) \<Rightarrow> (string \<Rightarrow> goerr option) \<Rightarrow> Options \<Rightarrow> Gatherer \<Rightarrow> goerr option \<times> Gatherer" where
  "checkNode subdomain get opts g =
     (if o_Node opts = [] then (None, g)
      else if \<not> usableInAName subdomain (o_Node opts)
      then (Some (UsageError (''--node '' @ fmt_q (o_Node opts) @ '' is not a usable node name'') None), g)
      else case get (o_Node opts) of
          None \<Rightarrow> (None, g)
        | Some e \<Rightarrow> if IsNotFound e
            then (Some (UsageError (''--node '' @ o_Node opts @ '': the cluster has no such node'') None), g)
            else (None, note_user (''could not check that node '' @ o_Node opts @ '' exists: '' @ Error e) g))"

subsection \<open>The manifest\<close>

record FileEntry =
  fe_Path :: string
  fe_Size :: int
  fe_SHA256 :: string

record ManifestFlags =
  mf_Node :: string
  mf_Since :: string
  mf_NoExec :: bool
  mf_Redact :: bool

record Manifest =
  mn_BundleSchemaVersion :: string
  mn_ToolVersion :: string
  mn_Context :: string
  mn_Timestamp :: string
  mn_Flags :: ManifestFlags
  mn_Collectors :: "CollectorStatus list"
  mn_Files :: "FileEntry list"
  mn_Dropped :: "DroppedFile list"

definition BundleSchemaVersion :: string where "BundleSchemaVersion = ''1''"

text \<open>
  What a gather is given from outside: the calls that can fail, SHA-256 and HMAC, gzip, the decoders,
  the names of temporary files, what \<^verbatim>\<open>rand.Read\<close> drew, the clock and the rendering of a manifest.
\<close>

record env =
  e_fails :: faults
  e_sha256 :: "string \<Rightarrow> string"
  e_mac :: hmac
  e_gunzip :: "string \<Rightarrow> goerr + string"
  e_regzip :: "string \<Rightarrow> goerr + string"
  e_tmpOf :: "string \<Rightarrow> string"
  e_codec :: codec
  e_dec_map :: "string \<Rightarrow> unstructured \<times> goerr option"
  e_rand :: "goerr + string"
  e_now :: string
  e_duration :: "int \<Rightarrow> string"
  e_marshal :: "Manifest \<Rightarrow> string"

text \<open>The length and the digest of a file, read in one pass.\<close>

definition hashFile :: "env \<Rightarrow> dir \<Rightarrow> string \<Rightarrow> goerr + FileEntry" where
  "hashFile env d name = (case e_fails env ''open'' name of
       Some e \<Rightarrow> Inl (ErrFmt (''opening '' @ name @ '' to index it: '') (Some e))
     | None \<Rightarrow> (case os_ReadFile (e_fails env) d name of
         Inl e \<Rightarrow> Inl (ErrFmt (''reading '' @ name @ '' to index it: '') (Some e))
       | Inr content \<Rightarrow> Inr \<lparr>fe_Path = name, fe_Size = int (length content), fe_SHA256 = e_sha256 env content\<rparr>))"

fun index_loop :: "env \<Rightarrow> dir \<Rightarrow> string list \<Rightarrow> goerr + FileEntry list" where
  "index_loop env d [] = Inr []"
| "index_loop env d (name # names) =
     (if name = ManifestFileName \<or> regular_mode (e_fails env) d name = None then index_loop env d names
      else case hashFile env d name of Inl e \<Rightarrow> Inl e
        | Inr f \<Rightarrow> (case index_loop env d names of Inl e \<Rightarrow> Inl e | Inr fs \<Rightarrow> Inr (f # fs)))"

definition indexBundle :: "env \<Rightarrow> dir \<Rightarrow> goerr + FileEntry list" where
  "indexBundle env d = (case os_ReadDir (e_fails env) d of
       Inl e \<Rightarrow> Inl (ErrFmt ''reading the bundle directory: '' (Some e))
     | Inr entries \<Rightarrow> (case index_loop env d entries of Inl e \<Rightarrow> Inl e | Inr fs \<Rightarrow> Inr (sort_Slice fe_Path fs)))"

subsection \<open>The redaction of this gather\<close>

fun learn_all :: "hmac \<Rightarrow> (string \<times> string) list \<Rightarrow> Redactor \<Rightarrow> Redactor" where
  "learn_all mac [] r = r"
| "learn_all mac ((kind, val) # kvs) r = learn_all mac kvs (Learn mac kind [val] r)"

text \<open>A directory is left where it is; the failure to remove anything else is noted.\<close>

fun discard_loop :: "faults \<Rightarrow> string list \<Rightarrow> Gatherer \<Rightarrow> Gatherer" where
  "discard_loop fails [] g = g"
| "discard_loop fails (name # names) g =
     (if map_of (g_dir g) name = Some Directory then discard_loop fails names g
      else case os_Remove fails name (g_dir g) of
          (None, d) \<Rightarrow> discard_loop fails names (g\<lparr>g_dir := d\<rparr>)
        | (Some e, d) \<Rightarrow> discard_loop fails names
            (note_user (''could not remove '' @ name @ '' from the half-redacted bundle: '' @ Error e) (g\<lparr>g_dir := d\<rparr>)))"

definition discardBundle :: "env \<Rightarrow> Options \<Rightarrow> Gatherer \<Rightarrow> Gatherer" where
  "discardBundle env opts g = (case os_ReadDir (e_fails env) (g_dir g) of
       Inl e \<Rightarrow> note_user (''could not clear the half-redacted bundle in '' @ o_ArtifactDir opts @ '': '' @ Error e) g
     | Inr entries \<Rightarrow> discard_loop (e_fails env) entries g)"

definition known_names :: "Options \<Rightarrow> Node list \<Rightarrow> (string \<times> string) list" where
  "known_names opts nodes = concat (map names_of_node nodes) @ [(''node'', o_Node opts), (''context'', o_Context opts)]"

definition redactBundle :: "env \<Rightarrow> Options \<Rightarrow> Gatherer \<Rightarrow> goerr option \<times> Gatherer" where
  "redactBundle env opts g =
     (case NewRedactor (e_rand env) of
        Inl e \<Rightarrow> (Some (ErrFmt ''drawing the redaction key: '' (Some e)), g)
      | Inr r0 \<Rightarrow>
          let r = learn_all (e_mac env) (known_names opts (g_allNodes g)) r0;
              (err, d, r) = RedactBundle (e_mac env) (e_gunzip env) (e_regzip env) (e_fails env) (e_tmpOf env)
                 (e_codec env) (e_dec_map env) (g_dir g, r);
              g = g\<lparr>g_dir := d, g_redactor := Some r\<rparr>
          in case err of
              Some e \<Rightarrow> (Some (GatherError False (ErrFmt ''redacting the bundle: '' (Some e))), discardBundle env opts g)
            | None \<Rightarrow> (None, step ''Redacted the node names, addresses and credential values out of the bundle'' g))"

text \<open>Texts rewritten one after the other, through one redactor.\<close>

fun redact_texts :: "hmac \<Rightarrow> string list \<Rightarrow> Redactor \<Rightarrow> string list \<times> Redactor" where
  "redact_texts mac [] r = ([], r)"
| "redact_texts mac (s # ss) r = (let (t, r) = RedactText mac s r; (ts, r) = redact_texts mac ss r in (t # ts, r))"

fun redact_statuses :: "hmac \<Rightarrow> CollectorStatus list \<Rightarrow> Redactor \<Rightarrow> CollectorStatus list \<times> Redactor" where
  "redact_statuses mac [] r = ([], r)"
| "redact_statuses mac (c # cs) r =
     (let (status, r) = RedactText mac (cs_Status c) r;
          (artifacts, r) = redact_texts mac (cs_Artifacts c) r;
          (rest, r) = redact_statuses mac cs r
      in (c\<lparr>cs_Status := status, cs_Artifacts := artifacts\<rparr> # rest, r))"

definition redactManifest :: "hmac \<Rightarrow> Manifest \<Rightarrow> Gatherer \<Rightarrow> Manifest \<times> Gatherer" where
  "redactManifest mac m g = (case g_redactor g of None \<Rightarrow> (m, g)
     | Some r \<Rightarrow>
         let (node, r) = RedactText mac (mf_Node (mn_Flags m)) r;
             (ctx, r) = RedactText mac (mn_Context m) r;
             (cs, r) = redact_statuses mac (mn_Collectors m) r
         in (m\<lparr>mn_Flags := (mn_Flags m)\<lparr>mf_Node := node\<rparr>, mn_Context := ctx, mn_Collectors := cs, mn_Dropped := Dropped r\<rparr>,
             g\<lparr>g_redactor := Some r, g_results := cs\<rparr>))"

definition manifest_of :: "env \<Rightarrow> Options \<Rightarrow> CollectorStatus list \<Rightarrow> FileEntry list \<Rightarrow> Manifest" where
  "manifest_of env opts results files =
     \<lparr>mn_BundleSchemaVersion = BundleSchemaVersion, mn_ToolVersion = o_ToolVersion opts, mn_Context = o_Context opts,
      mn_Timestamp = e_now env,
      mn_Flags = \<lparr>mf_Node = o_Node opts, mf_Since = (if o_Since opts > 0 then e_duration env (o_Since opts) else []),
        mf_NoExec = o_NoExec opts, mf_Redact = o_Redact opts\<rparr>,
      mn_Collectors = results, mn_Files = files, mn_Dropped = []\<rparr>"

definition writeManifest :: "env \<Rightarrow> Options \<Rightarrow> Gatherer \<Rightarrow> goerr option \<times> Gatherer" where
  "writeManifest env opts g =
     (let (err, g) = (if o_Redact opts then redactBundle env opts g else (None, g)) in
      case err of Some e \<Rightarrow> (Some e, g)
      | None \<Rightarrow> (case indexBundle env (g_dir g) of
          Inl e \<Rightarrow> (Some e, g)
        | Inr files \<Rightarrow>
            let (m, g) = redactManifest (e_mac env) (manifest_of env opts (g_results g) files) g
            in case e_fails env ''write'' ManifestFileName of
                Some e \<Rightarrow> (Some (ErrFmt (''writing '' @ ManifestFileName @ '': '') (Some e)), g)
              | None \<Rightarrow> (None, on_dir (\<lambda>d. mput d ManifestFileName (RegularFile 384 (e_marshal env m))) g)))"

subsection \<open>The whole run\<close>

fun is_GatherError :: "goerr \<Rightarrow> bool" where
  "is_GatherError (GatherError _ _) = True"
| "is_GatherError _ = False"

fun is_UsageError :: "goerr \<Rightarrow> bool" where
  "is_UsageError (UsageError _ _) = True"
| "is_UsageError _ = False"

text \<open>
  \<^verbatim>\<open>NewGatherer\<close>: the directory, the two logs and then the three clients, whose failures \<open>clients\<close>
  gives with the line each is logged with.
\<close>

fun take_clients :: "faults \<Rightarrow> (string \<times> goerr option) list \<Rightarrow> Gatherer \<Rightarrow> goerr + Gatherer" where
  "take_clients fails [] g = Inr g"
| "take_clients fails ((line, err) # others) g = (case err of None \<Rightarrow> take_clients fails others g
     | Some e \<Rightarrow> (case fst (log_line fails errLogName (line @ '': '' @ Error e) g) of
         Some lerr \<Rightarrow> Inl (lost_log e lerr) | None \<Rightarrow> Inl e))"

definition NewGatherer :: "env \<Rightarrow> Options \<Rightarrow> dir option \<Rightarrow> (string \<times> goerr option) list \<Rightarrow> goerr + Gatherer" where
  "NewGatherer env opts here clients =
     (case checkArtifactDir (e_fails env) (o_ArtifactDir opts) here of
        Some e \<Rightarrow> Inl e
      | None \<Rightarrow> (case e_fails env ''mkdir'' (o_ArtifactDir opts) of
        Some e \<Rightarrow> Inl (ErrFmt ''failed to create artifact directory: '' (Some e))
      | None \<Rightarrow> (case e_fails env ''create'' logName of
        Some e \<Rightarrow> Inl (ErrFmt ''failed to create log file: '' (Some e))
      | None \<Rightarrow> (case e_fails env ''create'' errLogName of
        Some e \<Rightarrow> Inl (ErrFmt ''failed to create error log file: '' (Some e))
      | None \<Rightarrow> take_clients (e_fails env) clients
          \<lparr>g_dir = [(logName, RegularFile 384 []), (errLogName, RegularFile 384 [])], g_results = [], g_current = False,
           g_collected = False, g_allNodes = [], g_progress = [], g_redactor = None\<rparr>))))"

text \<open>
  \<^verbatim>\<open>Run\<close>, with the deferred manifest after whatever the gather answered. The gatherer is \<open>None\<close> when
  there never was one.
\<close>

definition gather_Run :: "env \<Rightarrow> Options \<Rightarrow> dir option \<Rightarrow> (string \<times> goerr option) list \<Rightarrow> (string \<Rightarrow> string list)
    \<Rightarrow> (string \<Rightarrow> goerr option) \<Rightarrow> Collector list \<Rightarrow> goerr option \<times> Gatherer option" where
  "gather_Run env opts here clients subdomain get registry =
     (case NewGatherer env opts here clients of
        Inl e \<Rightarrow> (if errors_As is_UsageError e \<noteq> None then (Some e, None)
          else (Some (GatherError False (ErrFmt ''failed to initialize Gatherer: '' (Some e))), None))
      | Inr g \<Rightarrow>
          let (code, g) = (case checkNode subdomain get opts g of
                 (Some e, g) \<Rightarrow> (Some e, g)
               | (None, g) \<Rightarrow> (case collect registry g of
                     (Some e, g) \<Rightarrow> (Some (failed g e), g) | (None, g) \<Rightarrow> (None, g)));
              (werr, g) = writeManifest env opts g
          in case werr of
              None \<Rightarrow> (code, Some g)
            | Some w \<Rightarrow>
                let g = note_user (''could not write '' @ ManifestFileName @ '': '' @ Error w) g
                in (if errors_As is_GatherError w \<noteq> None then Some w else code, Some g))"

subsection \<open>What a collector may change\<close>

text \<open>
  A collector adds artifacts to its own entry and leaves the entries before it alone; what was
  collected stays collected.
\<close>

definition collects :: "Gatherer \<Rightarrow> Gatherer \<Rightarrow> bool" where
  "collects g g' \<longleftrightarrow> g_current g' = g_current g \<and> butlast (g_results g') = butlast (g_results g) \<and> (g_results g' = [] \<longleftrightarrow> g_results g = [])
     \<and> cs_Collector (last (g_results g')) = cs_Collector (last (g_results g)) \<and> cs_Status (last (g_results g')) = cs_Status (last (g_results g))
     \<and> prefix (cs_Artifacts (last (g_results g))) (cs_Artifacts (last (g_results g')))
     \<and> (g_collected g \<longrightarrow> g_collected g') \<and> g_redactor g' = g_redactor g"

lemma collects_refl [simp]: "collects g g" by (simp add: collects_def)

lemma collects_trans: "collects a b \<Longrightarrow> collects b c \<Longrightarrow> collects a c"
  by (auto simp: collects_def)

lemma same_record_collects: "same_record g g' \<Longrightarrow> collects g g'"
  by (simp add: same_record_def collects_def)

lemma collects_dir [simp]: "collects (g\<lparr>g_dir := d\<rparr>) g' = collects g g'" "collects g (g'\<lparr>g_dir := d\<rparr>) = collects g g'"
  "collects (on_dir f g) g' = collects g g'" "collects g (on_dir f g') = collects g g'"
  by (simp_all add: collects_def on_dir_def)

lemma collects_marks [simp]:
  "collects g (g\<lparr>g_collected := True\<rparr>)" "collects g (g\<lparr>g_allNodes := ns\<rparr>)"
  by (simp_all add: collects_def)

lemma collects_step [simp]: "collects g (step line g)" "collects g (note_user line g)"
  by (simp_all add: collects_def step_def note_user_def)

lemma indexArtifact_collects [simp]: "collects g (indexArtifact opts name g)"
  by (auto simp: indexArtifact_def Let_def collects_def step_def)

lemma recordArtifact_collects [simp]: "collects g (recordArtifact opts name g)"
  unfolding recordArtifact_def by (rule collects_trans [OF _ indexArtifact_collects]) simp

text \<open>A piece of a collector, whatever it answers.\<close>

definition behaves :: "(Gatherer \<Rightarrow> 'a \<times> Gatherer) \<Rightarrow> bool" where
  "behaves f \<longleftrightarrow> (\<forall>g. collects g (snd (f g)))"

lemma behavesD: "behaves f \<Longrightarrow> f g = (x, g') \<Longrightarrow> collects g g'"
  unfolding behaves_def by (metis snd_conv)

named_theorems behaving

lemma behaves_pure [behaving]: "behaves (Pair x)" "behaves (\<lambda>g. (x, step line g))" "behaves (\<lambda>g. (x, note_user line g))"
  by (simp_all add: behaves_def)

lemma behaves_log_line [behaving]: "behaves (log_line fails log line)"
  by (simp add: behaves_def log_line_keeps same_record_collects)

lemma behaves_logError [behaving]: "behaves (logError fails what err)"
  by (simp add: behaves_def logError_keeps same_record_collects)

lemma behaves_discardArtifact [behaving]: "behaves (\<lambda>g. (x, discardArtifact fails name g))"
proof -
  have "collects g (snd (log_line fails log line g))" for g log line
    by (rule same_record_collects) (rule log_line_keeps)
  then show ?thesis
    by (auto simp: behaves_def discardArtifact_def os_Remove_def split: option.splits prod.splits)
qed

lemma behaves_writeMarker [behaving]: "behaves (writeMarker fails opts name s)"
proof -
  have "collects g (indexArtifact opts name (on_dir f g))" for f g
    by (rule collects_dir(3) [THEN iffD1, OF indexArtifact_collects])
  then show ?thesis by (auto simp: behaves_def writeMarker_def recordMarker_def split: option.splits)
qed

lemma behaves_writeArtifactFile [behaving]: "behaves (writeArtifactFile fails opts name content)"
  unfolding behaves_def
proof
  fix g
  have "collects g (recordArtifact opts name (g\<lparr>g_dir := d\<rparr>))" for d
    by (rule collects_dir(1) [THEN iffD1, OF recordArtifact_collects])
  then show "collects g (snd (writeArtifactFile fails opts name content g))"
    using writeArtifact_whole [where fails = fails and opts = opts and name = name and content = content and g = g]
    by (auto split: prod.splits option.splits intro: same_record_collects)
qed

text \<open>Pieces one after the other: the second only when the first had no error.\<close>

definition then_do :: "(Gatherer \<Rightarrow> goerr option \<times> Gatherer) \<Rightarrow> (Gatherer \<Rightarrow> goerr option \<times> Gatherer) \<Rightarrow> Gatherer \<Rightarrow> goerr option \<times> Gatherer" where
  "then_do a b g = (case a g of (Some e, g) \<Rightarrow> (Some e, g) | (None, g) \<Rightarrow> b g)"

lemma behaves_then_do [behaving]: "behaves a \<Longrightarrow> behaves b \<Longrightarrow> behaves (then_do a b)"
  unfolding behaves_def then_do_def by (auto split: prod.splits option.splits) (metis collects_trans snd_conv)+

text \<open>The errors of a piece run on every element of a list, none of which stops the others.\<close>

fun each :: "('x \<Rightarrow> Gatherer \<Rightarrow> goerr option \<times> Gatherer) \<Rightarrow> 'x list \<Rightarrow> Gatherer \<Rightarrow> goerr list \<times> Gatherer" where
  "each f [] g = ([], g)"
| "each f (x # xs) g = (let (err, g) = f x g; (errs, g) = each f xs g in ((case err of None \<Rightarrow> [] | Some e \<Rightarrow> [e]) @ errs, g))"

lemma behaves_each [behaving]:
  assumes "\<And>x. behaves (f x)"
  shows "behaves (each f xs)"
  unfolding behaves_def
proof
  show "collects g (snd (each f xs g))" for g
  proof (induction xs arbitrary: g)
    case (Cons x xs)
    have "collects g (snd (f x g))" using assms by (simp add: behaves_def)
    then show ?case using Cons [of "snd (f x g)"] by (auto simp: split_beta Let_def intro: collects_trans)
  qed simp
qed

definition joined :: "(Gatherer \<Rightarrow> goerr list \<times> Gatherer) \<Rightarrow> Gatherer \<Rightarrow> goerr option \<times> Gatherer" where
  "joined f g = (let (errs, g) = f g in (errors_Join errs, g))"

lemma behaves_joined [behaving]: "behaves f \<Longrightarrow> behaves (joined f)"
  by (simp add: behaves_def joined_def split_beta)

lemma behaves_cases [behaving]:
  "behaves a \<Longrightarrow> (\<And>x. behaves (b x)) \<Longrightarrow> behaves (case o' of None \<Rightarrow> a | Some x \<Rightarrow> b x)"
  "(\<And>x. behaves (c x)) \<Longrightarrow> (\<And>x. behaves (d x)) \<Longrightarrow> behaves (case s of Inl x \<Rightarrow> c x | Inr x \<Rightarrow> d x)"
  "behaves a \<Longrightarrow> behaves a' \<Longrightarrow> behaves (if q then a else a')"
  by (auto split: option.splits sum.splits)

subsection \<open>The contract of a registry\<close>

text \<open>
  A registry of collectors each of which only changes what a collector may change, whatever state
  it is run in. What \<^verbatim>\<open>collect\<close> records follows from that alone.
\<close>

locale gather_registry =
  fixes registry :: "Collector list"
  assumes collector_behaves: "c \<in> set registry \<Longrightarrow> collects g (snd (snd (clt_Run c (s, g))))"
begin

lemma run_collector_records:
  assumes "c \<in> set registry" "run_collector c (s, g) = (out, s', g')"
  shows "\<exists>arts. g_results g' = g_results g @ [\<lparr>cs_Collector = clt_Name c, cs_Status = status_of out, cs_Artifacts = arts\<rparr>]"
    and "\<not> g_current g'" and "g_collected g \<longrightarrow> g_collected g'"
proof -
  define g1 where "g1 = (let g = begin_collector (clt_Name c) g in if clt_Step c \<noteq> [] then step (clt_Step c) g else g)"
  have g1: "g_results g1 = g_results g @ [\<lparr>cs_Collector = clt_Name c, cs_Status = [], cs_Artifacts = []\<rparr>]" "g_current g1"
    "g_collected g1 = g_collected g"
    by (simp_all add: g1_def begin_collector_def step_def Let_def)
  obtain o2 s2 g2 where r: "clt_Run c (s, g1) = (o2, s2, g2)" by (metis prod_cases3)
  then have co: "collects g1 g2" using collector_behaves [OF assms(1), of g1 s] by simp
  have out: "out = o2" and res: "g_results g' = g_results (end_collector (status_of o2) g2)"
    and cur: "g_current g' = g_current (end_collector (status_of o2) g2)"
    and col: "g_collected g' = g_collected g2"
    using assms(2) r by (auto simp: run_collector_def g1_def Let_def note_user_def end_collector_def split: outcome.splits if_splits)
  have ne: "g_results g2 \<noteq> []" and c2: "g_current g2" using co g1 by (auto simp: collects_def)
  have "g_results g' = g_results g @ [\<lparr>cs_Collector = clt_Name c, cs_Status = status_of o2, cs_Artifacts = cs_Artifacts (last (g_results g2))\<rparr>]"
    using co g1 c2 ne by (cases "last (g_results g2)") (auto simp: res end_collector_def collects_def)
  then show "\<exists>arts. g_results g' = g_results g @ [\<lparr>cs_Collector = clt_Name c, cs_Status = status_of out, cs_Artifacts = arts\<rparr>]"
    by (auto simp: out)
  show "\<not> g_current g'" using c2 by (simp add: cur end_collector_def)
  show "g_collected g \<longrightarrow> g_collected g'" using co g1 col by (simp add: collects_def)
qed

text \<open>How the collectors ended, in the order they ran.\<close>

lemma collect_loop_records:
  assumes "set cs \<subseteq> set registry" "collect_loop cs bad (s, g) = (bad', s', g')"
  shows "\<exists>outs. length outs = length cs \<and> bad' = bad @ map (clt_Name \<circ> fst) (filter (\<lambda>(c, out). \<exists>e. out = Failed e) (zip cs outs))
    \<and> map cs_Collector (g_results g') = map cs_Collector (g_results g) @ map clt_Name cs
    \<and> map cs_Status (g_results g') = map cs_Status (g_results g) @ map status_of outs
    \<and> (g_collected g \<longrightarrow> g_collected g')"
  using assms
proof (induction cs arbitrary: bad s g)
  case (Cons c cs)
  obtain out s1 g1 where r: "run_collector c (s, g) = (out, s1, g1)" by (metis prod_cases3)
  have c: "c \<in> set registry" using Cons.prems(1) by simp
  obtain arts where a: "g_results g1 = g_results g @ [\<lparr>cs_Collector = clt_Name c, cs_Status = status_of out, cs_Artifacts = arts\<rparr>]"
    using run_collector_records(1) [OF c r] by blast
  have "collect_loop cs (case out of Failed _ \<Rightarrow> bad @ [clt_Name c] | _ \<Rightarrow> bad) (s1, g1) = (bad', s', g')"
    using Cons.prems(2) r by simp
  then obtain outs where "length outs = length cs"
    "bad' = (case out of Failed _ \<Rightarrow> bad @ [clt_Name c] | _ \<Rightarrow> bad) @ map (clt_Name \<circ> fst) (filter (\<lambda>(c, out). \<exists>e. out = Failed e) (zip cs outs))"
    "map cs_Collector (g_results g') = map cs_Collector (g_results g1) @ map clt_Name cs"
    "map cs_Status (g_results g') = map cs_Status (g_results g1) @ map status_of outs"
    "g_collected g1 \<longrightarrow> g_collected g'"
    using Cons.IH Cons.prems(1) by (metis insert_subset list.simps(15))
  then show ?case using a run_collector_records(3) [OF c r]
    by (intro exI [of _ "out # outs"]) (auto split: outcome.splits)
qed simp

lemma collect_runs_every_collector:
  assumes "collect registry g = (err, g')" "g_results g = []"
  shows "\<exists>outs. length outs = length registry
    \<and> map cs_Collector (g_results g') = map clt_Name registry \<and> map cs_Status (g_results g') = map status_of outs
    \<and> ((\<exists>e. Failed e \<in> set outs) \<longrightarrow> err \<noteq> None)"
proof -
  obtain bad s g2 where l: "collect_loop registry [] (fresh_state, g) = (bad, s, g2)" by (metis prod_cases3)
  then obtain outs where o: "length outs = length registry"
    "bad = map (clt_Name \<circ> fst) (filter (\<lambda>(c, out). \<exists>e. out = Failed e) (zip registry outs))"
    "map cs_Collector (g_results g2) = map clt_Name registry" "map cs_Status (g_results g2) = map status_of outs"
    using collect_loop_records [of registry "[]" fresh_state g bad s g2] assms(2) by auto
  have g': "g' = g2" "err \<noteq> None \<longleftrightarrow> gs_execDenied s \<noteq> [] \<or> bad \<noteq> []" using assms(1) l by (auto simp: collect_def split: if_splits)
  have "bad \<noteq> []" if "Failed e \<in> set outs" for e
  proof -
    from that obtain i where i: "i < length outs" "outs ! i = Failed e" by (metis in_set_conv_nth)
    then have "(registry ! i, Failed e) \<in> set (zip registry outs)" using o(1) by (auto simp: set_zip)
    then show ?thesis unfolding o(2) by (force simp: filter_empty_conv)
  qed
  then show ?thesis using o g' by blast
qed

end

end
