(* ===== verification/Gather_Tables.thy ===== *)
theory Gather_Tables
  imports Gather_Files
begin

text \<open>
  The text artifacts of a bundle, \<^verbatim>\<open>pkg/mustgather/tables.go\<close> and the writers of \<^verbatim>\<open>collector.go\<close> and
  \<^verbatim>\<open>mustgather.go\<close>: the tables kubectl prints for nodes, pods and daemonsets, the labels of the nodes,
  the images of the pods, descriptions one after the other and log lines with their prefix. Columns
  are laid out by kubectl's tab writer and ages are worded by the API machinery; both are parameters.
\<close>

subsection \<open>Cells\<close>

definition notApplicable :: string where "notApplicable = ''<none>''"

definition orNone :: "string \<Rightarrow> string" where
  "orNone val = (if val = [] then notApplicable else val)"

text \<open>\<open>human\<close> is \<^verbatim>\<open>duration.HumanDuration\<close>, \<open>now\<close> the time the table is written.\<close>

definition age :: "(duration \<Rightarrow> string) \<Rightarrow> time \<Rightarrow> time \<Rightarrow> string" where
  "age human now at = (if time_IsZero at then notApplicable else human (time_Sub now at))"

text \<open>The last Ready condition decides; a node nothing was said about is Unknown.\<close>

fun nodeStatus_loop :: "NodeCondition list \<Rightarrow> string \<Rightarrow> string" where
  "nodeStatus_loop [] status = status"
| "nodeStatus_loop (c # cs) status =
     (if cond_Type c \<noteq> ''Ready'' then nodeStatus_loop cs status
      else nodeStatus_loop cs (if cond_Status c = ''True'' then ''Ready''
        else if cond_Status c = ''False'' then ''NotReady'' else ''Unknown''))"

definition nodeStatus :: "Node \<Rightarrow> string" where
  "nodeStatus node = (let status = nodeStatus_loop (node_Conditions node) ''Unknown''
     in if node_Unschedulable node then status @ '',SchedulingDisabled'' else status)"

definition role_prefix :: string where "role_prefix = ''node-role.kubernetes.io/''"

fun nodeRoles_loop :: "string gomap \<Rightarrow> string list \<Rightarrow> string list" where
  "nodeRoles_loop [] roles = roles"
| "nodeRoles_loop ((key, val) # kvs) roles = nodeRoles_loop kvs
     (if strings_HasPrefix key role_prefix
      then (let role = strings_TrimPrefix key role_prefix in if role \<noteq> [] then roles @ [role] else roles)
      else if key = ''kubernetes.io/role'' \<and> val \<noteq> [] then roles @ [val] else roles)"

definition nodeRoles :: "Node \<Rightarrow> string" where
  "nodeRoles node = (let roles = nodeRoles_loop (node_Labels node) []
     in if roles = [] then notApplicable else strings_Join (sort_Strings roles) '','')"

fun nodeAddresses_loop :: "NodeAddress list \<Rightarrow> string \<times> string \<Rightarrow> string \<times> string" where
  "nodeAddresses_loop [] ie = ie"
| "nodeAddresses_loop (a # as) ie = nodeAddresses_loop as
     (if addr_Type a = ''InternalIP'' then (addr_Address a, snd ie)
      else if addr_Type a = ''ExternalIP'' then (fst ie, addr_Address a) else ie)"

definition nodeAddresses :: "Node \<Rightarrow> string \<times> string" where
  "nodeAddresses node = nodeAddresses_loop (node_Addresses node) (notApplicable, notApplicable)"

definition podReady :: "Pod \<Rightarrow> string" where
  "podReady pod = strconv_FormatInt (int (length (filter cs_Ready (pod_ContainerStatuses pod)))) @ ''/''
     @ strconv_FormatInt (int (length (spec_Containers (pod_Spec pod))))"

fun waiting_reason :: "ContainerStatus list \<Rightarrow> string option" where
  "waiting_reason [] = None"
| "waiting_reason (s # ss) = (case state_Waiting (cs_State s) of
       Some reason \<Rightarrow> if reason \<noteq> [] then Some reason else waiting_reason ss | None \<Rightarrow> waiting_reason ss)"

definition podStatus :: "Pod \<Rightarrow> string" where
  "podStatus pod = (if pod_DeletionTimestamp pod \<noteq> None then ''Terminating''
     else if pod_Reason pod \<noteq> [] then pod_Reason pod
     else case waiting_reason (pod_ContainerStatuses pod) of Some reason \<Rightarrow> reason | None \<Rightarrow> pod_Phase pod)"

text \<open>An \<^verbatim>\<open>int32\<close> total, which wraps.\<close>

fun restarts_loop :: "ContainerStatus list \<Rightarrow> int \<Rightarrow> int" where
  "restarts_loop [] acc = acc"
| "restarts_loop (s # ss) acc = restarts_loop ss (wrap 32 (acc + cs_RestartCount s))"

definition podRestarts :: "Pod \<Rightarrow> int" where
  "podRestarts pod = restarts_loop (pod_ContainerStatuses pod) (restarts_loop (pod_InitContainerStatuses pod) 0)"

definition podReadinessGates :: "Pod \<Rightarrow> string" where
  "podReadinessGates pod = (let gates = spec_ReadinessGates (pod_Spec pod) in
     if gates = [] then notApplicable
     else strconv_FormatInt (int (length (concat (map (\<lambda>gate.
              filter (\<lambda>c. pc_Type c = gate \<and> pc_Status c = ''True'') (pod_Conditions pod)) gates))))
            @ ''/'' @ strconv_FormatInt (int (length gates)))"

subsection \<open>Tables\<close>

definition line :: "string \<Rightarrow> string" where "line s = s @ [char_of (10::nat)]"
definition tab :: string where "tab = [char_of (9::nat)]"

text \<open>\<open>tabs\<close> is what kubectl's tab writer flushes for the lines written to it.\<close>

definition writeTable :: "(string \<Rightarrow> string) \<Rightarrow> string list \<Rightarrow> string list list \<Rightarrow> string" where
  "writeTable tabs header rows = tabs (concat (map (\<lambda>row. line (strings_Join row tab)) (header # rows)))"

record wording =
  w_tabs :: "string \<Rightarrow> string"
  w_human :: "duration \<Rightarrow> string"
  w_now :: time

definition node_cells :: "wording \<Rightarrow> Node \<Rightarrow> string list" where
  "node_cells w node = (let (internal, external) = nodeAddresses node in
     [node_Name node, nodeStatus node, nodeRoles node, age (w_human w) (w_now w) (node_CreationTimestamp node),
      orNone (ni_KubeletVersion (node_Info node)), internal, external, orNone (ni_OSImage (node_Info node)),
      orNone (ni_KernelVersion (node_Info node)), orNone (ni_ContainerRuntimeVersion (node_Info node))])"

definition writeNodeTable :: "wording \<Rightarrow> Node list \<Rightarrow> string" where
  "writeNodeTable w nodes = writeTable (w_tabs w)
     [''NAME'', ''STATUS'', ''ROLES'', ''AGE'', ''VERSION'', ''INTERNAL-IP'', ''EXTERNAL-IP'', ''OS-IMAGE'', ''KERNEL-VERSION'', ''CONTAINER-RUNTIME'']
     (map (node_cells w) nodes)"

definition pod_cells :: "wording \<Rightarrow> Pod \<Rightarrow> string list" where
  "pod_cells w pod =
     [pod_Name pod, podReady pod, podStatus pod, strconv_FormatInt (podRestarts pod),
      age (w_human w) (w_now w) (pod_CreationTimestamp pod), orNone (pod_PodIP pod), orNone (spec_NodeName (pod_Spec pod)),
      orNone (pod_NominatedNodeName pod), podReadinessGates pod]"

definition writePodTable :: "wording \<Rightarrow> Pod list \<Rightarrow> string" where
  "writePodTable w pods = writeTable (w_tabs w)
     [''NAME'', ''READY'', ''STATUS'', ''RESTARTS'', ''AGE'', ''IP'', ''NODE'', ''NOMINATED NODE'', ''READINESS GATES'']
     (map (pod_cells w) pods)"

record DaemonSet =
  ds_Name :: string
  ds_Namespace :: string
  ds_CreationTimestamp :: time
  ds_NodeSelector :: "string gomap"
  ds_DesiredNumberScheduled :: int
  ds_CurrentNumberScheduled :: int
  ds_NumberReady :: int
  ds_UpdatedNumberScheduled :: int
  ds_NumberAvailable :: int

text \<open>\<^verbatim>\<open>labels.Set.String\<close>.\<close>

definition labels_String :: "string gomap \<Rightarrow> string" where
  "labels_String ls = strings_Join (sort_Strings (map (\<lambda>(k, v). k @ ''='' @ v) ls)) '',''"

definition daemonset_cells :: "wording \<Rightarrow> DaemonSet \<Rightarrow> string list" where
  "daemonset_cells w ds =
     [ds_Name ds, strconv_FormatInt (ds_DesiredNumberScheduled ds), strconv_FormatInt (ds_CurrentNumberScheduled ds),
      strconv_FormatInt (ds_NumberReady ds), strconv_FormatInt (ds_UpdatedNumberScheduled ds), strconv_FormatInt (ds_NumberAvailable ds),
      (if ds_NodeSelector ds \<noteq> [] then labels_String (ds_NodeSelector ds) else notApplicable),
      age (w_human w) (w_now w) (ds_CreationTimestamp ds)]"

definition writeDaemonSetTable :: "wording \<Rightarrow> DaemonSet list \<Rightarrow> string" where
  "writeDaemonSetTable w sets = writeTable (w_tabs w)
     [''NAME'', ''DESIRED'', ''CURRENT'', ''READY'', ''UP-TO-DATE'', ''AVAILABLE'', ''NODE SELECTOR'', ''AGE''] (map (daemonset_cells w) sets)"

subsection \<open>Other texts\<close>

definition node_labels_text :: "Node \<Rightarrow> string" where
  "node_labels_text node = line (node_Name node)
     @ concat (map (\<lambda>key. line (''- '' @ key @ ''='' @ sget (node_Labels node) key)) (sort_Strings (map fst (node_Labels node))))
     @ line []"

definition writeNodeLabels :: "Node list \<Rightarrow> string" where
  "writeNodeLabels nodes = concat (map node_labels_text nodes)"

definition writePodImages :: "Pod list \<Rightarrow> string" where
  "writePodImages pods = concat (map (\<lambda>pod. line (pod_Name pod @ '':'' @ tab
     @ strings_Join (map c_Image (spec_InitContainers (pod_Spec pod)) @ map c_Image (spec_Containers (pod_Spec pod))) '' '')) pods)"

text \<open>Descriptions with a blank line between; the first that cannot be had ends the file.\<close>

fun describe_loop :: "('a \<Rightarrow> goerr + string) \<Rightarrow> bool \<Rightarrow> 'a list \<Rightarrow> goerr + string" where
  "describe_loop render later [] = Inr []"
| "describe_loop render later (x # xs) = (case render x of Inl e \<Rightarrow> Inl e
     | Inr s \<Rightarrow> (case describe_loop render True xs of Inl e \<Rightarrow> Inl e
         | Inr rest \<Rightarrow> Inr ((if later then line (line []) else []) @ s @ rest)))"

definition describeEach :: "('a \<Rightarrow> goerr + string) \<Rightarrow> 'a list \<Rightarrow> goerr + string" where
  "describeEach render items = describe_loop render False items"

text \<open>
  Every line of a log behind the marker of its pod and container. \<open>at_start\<close> says that a line begins
  here; a last line without its newline is a line too.
\<close>

fun prefix_lines :: "string \<Rightarrow> bool \<Rightarrow> string \<Rightarrow> string" where
  "prefix_lines pre at_start [] = []"
| "prefix_lines pre at_start (c # cs) = (if at_start then pre else []) @ c # prefix_lines pre (c = char_of (10::nat)) cs"

definition writePrefixedLines :: "string \<Rightarrow> string \<Rightarrow> string \<Rightarrow> string" where
  "writePrefixedLines podName container log = prefix_lines (''[pod/'' @ podName @ ''/'' @ container @ ''] '') True log"

end
