(* ===== verification/Gather_Cluster.thy ===== *)
theory Gather_Cluster
  imports Gather_Run Gather_Tables
begin

text \<open>
  What a gather asks the cluster: the paginated lists of \<^verbatim>\<open>pkg/mustgather/mustgather.go\<close>, the
  envelopes put back on what the typed clients decoded, and the cluster itself as a record of
  answers, one field per kind of request.
\<close>

subsection \<open>Paginated lists\<close>

text \<open>
  The answers of one list request, page after page. \<open>More\<close> is a page with a continue token, \<open>Last\<close>
  one without, \<open>Refused\<close> a page that could not be had.
\<close>

datatype 'a pages = Refused goerr | Last "'a list" | More "'a list" "'a pages"

fun listAllPaginated :: "('b \<Rightarrow> 'a list \<Rightarrow> 'b) \<Rightarrow> 'b \<Rightarrow> 'a pages \<Rightarrow> goerr + 'b" where
  "listAllPaginated appendFunc all (Refused e) = Inl e"
| "listAllPaginated appendFunc all (Last page) = Inr (appendFunc all page)"
| "listAllPaginated appendFunc all (More page next) = listAllPaginated appendFunc (appendFunc all page) next"

text \<open>Every list but the resource slices' keeps whole pages.\<close>

definition list_pages :: "'a pages \<Rightarrow> goerr + 'a list" where
  "list_pages = listAllPaginated (@) []"

text \<open>
  The same loop against a server that is a function of the continue token, which may hand out tokens
  forever: \<open>None\<close> is a loop that does not end. \<open>answers listFunc tok ps\<close> says that the server hands
  out the pages \<open>ps\<close> from the token \<open>tok\<close> on.
\<close>

partial_function (option) follow :: "('b \<Rightarrow> 'a list \<Rightarrow> 'b) \<Rightarrow> (string \<Rightarrow> goerr + 'a list \<times> string) \<Rightarrow> 'b \<Rightarrow> string \<Rightarrow> (goerr + 'b) option" where
  "follow appendFunc listFunc all tok = (case listFunc tok of
       Inl e \<Rightarrow> Some (Inl e)
     | Inr (page, nxt) \<Rightarrow> if nxt = [] then Some (Inr (appendFunc all page))
         else follow appendFunc listFunc (appendFunc all page) nxt)"

inductive answers :: "(string \<Rightarrow> goerr + 'a list \<times> string) \<Rightarrow> string \<Rightarrow> 'a pages \<Rightarrow> bool" for listFunc where
  refused: "listFunc tok = Inl e \<Longrightarrow> answers listFunc tok (Refused e)"
| last: "listFunc tok = Inr (page, []) \<Longrightarrow> answers listFunc tok (Last page)"
| more: "listFunc tok = Inr (page, nxt) \<Longrightarrow> nxt \<noteq> [] \<Longrightarrow> answers listFunc nxt ps \<Longrightarrow> answers listFunc tok (More page ps)"

lemma follow_answers:
  assumes "answers listFunc tok ps"
  shows "follow appendFunc listFunc all tok = Some (listAllPaginated appendFunc all ps)"
  using assms
proof (induction arbitrary: all rule: answers.induct)
  case (refused tok e)
  then show ?case by (subst follow.simps) simp
next
  case (last tok page)
  then show ?case by (subst follow.simps) simp
next
  case (more tok page nxt ps)
  show ?case by (subst follow.simps) (simp add: more)
qed

text \<open>A result was reached through some finite sequence of pages.\<close>

lemma follow_result:
  fixes appendFunc :: "'b \<Rightarrow> 'a list \<Rightarrow> 'b"
  assumes "follow appendFunc listFunc all tok = Some r"
  shows "\<exists>ps. answers listFunc tok ps"
proof (rule follow.raw_induct [where P = "\<lambda>_ listFunc _ tok _. \<exists>ps. answers listFunc tok ps", OF _ assms])
  fix f and appendFunc :: "'b \<Rightarrow> 'a list \<Rightarrow> 'b" and listFunc all tok r
  assume step: "\<And>a l all tok r. f a l all tok = Some r \<Longrightarrow> \<exists>ps. answers l tok ps"
    "(case listFunc tok of Inl e \<Rightarrow> Some (Inl e) | Inr (page, nxt) \<Rightarrow>
        if nxt = [] then Some (Inr (appendFunc all page)) else f appendFunc listFunc (appendFunc all page) nxt) = Some r"
  show "\<exists>ps. answers listFunc tok ps"
  proof (cases "listFunc tok")
    case (Inl e)
    then show ?thesis by (blast intro: answers.refused)
  next
    case (Inr pn)
    obtain page nxt where pn: "pn = (page, nxt)" by (cases pn)
    show ?thesis
    proof (cases "nxt = []")
      case True
      then show ?thesis using Inr pn by (blast intro: answers.last)
    next
      case False
      then have "\<exists>ps. answers listFunc nxt ps" using step Inr pn by auto
      then show ?thesis using Inr pn False by (blast intro: answers.more)
    qed
  qed
qed


subsection \<open>Envelopes\<close>

text \<open>What the typed clients strip off a list and its items, put back before it is rendered.\<close>

record 'a stamped =
  st_APIVersion :: string
  st_Kind :: string
  st_Items :: "(string \<times> string \<times> 'a) list"

definition stamp_list :: "string \<Rightarrow> string \<Rightarrow> 'a list \<Rightarrow> 'a stamped" where
  "stamp_list version kind items =
     \<lparr>st_APIVersion = version, st_Kind = kind @ ''List'', st_Items = map (\<lambda>x. (version, kind, x)) items\<rparr>"

definition stampNodeList :: "Node list \<Rightarrow> Node stamped" where "stampNodeList = stamp_list ''v1'' ''Node''"
definition stampPodList :: "Pod list \<Rightarrow> Pod stamped" where "stampPodList = stamp_list ''v1'' ''Pod''"
definition stampEventList :: "Event list \<Rightarrow> Event stamped" where "stampEventList = stamp_list ''v1'' ''Event''"
definition stampDaemonSetList :: "DaemonSet list \<Rightarrow> DaemonSet stamped" where "stampDaemonSetList = stamp_list ''apps/v1'' ''DaemonSet''"

subsection \<open>The cluster\<close>

record GroupVersionResource =
  gvr_Group :: string
  gvr_Version :: string
  gvr_Resource :: string

record PodLogOptions =
  plo_Container :: string
  plo_Timestamps :: bool
  plo_Previous :: bool
  plo_SinceSeconds :: "int option"

text \<open>A list of custom resources as it arrived: the fields of the list itself, and its items.\<close>

record UnstructuredList =
  ul_Object :: unstructured
  ul_Items :: "unstructured list"

text \<open>
  What a bug report fetched out of a pod leaves behind: its error, whether its deadline had passed,
  the file at the destination, and what it wrote to the two logs.
\<close>

record fetched =
  ft_err :: "goerr option"
  ft_late :: bool
  ft_file :: "dirent option"
  ft_log :: string
  ft_errLog :: string

text \<open>
  The answers of a cluster: the OpenShift endpoints, the paginated lists (by label selector, field
  selector and namespace), the custom resources, discovery, the conversion of a beta slice, the table
  of the pods, the describers, the logs (a stream that may break off, or an error, or neither), the
  commands run in a pod with whether the deadline had passed, and the bug report.
\<close>

record cluster =
  cl_openshift :: "string option"
  cl_machines :: "goerr + string"
  cl_nodes :: "string \<Rightarrow> Node pages"
  cl_pods :: "string \<Rightarrow> string \<Rightarrow> string \<Rightarrow> Pod pages"
  cl_events :: "string \<Rightarrow> Event pages"
  cl_slices :: "ResourceSlice pages"
  cl_daemonsets :: "string \<Rightarrow> DaemonSet pages"
  cl_custom :: "GroupVersionResource \<Rightarrow> goerr + UnstructuredList"
  cl_noMatch :: "goerr \<Rightarrow> bool"
  cl_served :: "string \<Rightarrow> goerr + string list"
  cl_convert :: "unstructured \<Rightarrow> ResourceSlice option"
  cl_tableClient :: "goerr option"
  cl_table :: "string \<Rightarrow> string \<Rightarrow> goerr + string"
  cl_describe :: "string \<Rightarrow> string \<Rightarrow> string \<Rightarrow> goerr + string"
  cl_logs :: "string \<Rightarrow> string \<Rightarrow> PodLogOptions \<Rightarrow> goerr option + string \<times> goerr option"
  cl_exec :: "Pod \<Rightarrow> string \<Rightarrow> string \<Rightarrow> (goerr + string) \<times> bool"
  cl_fetch :: "Pod \<Rightarrow> string \<Rightarrow> fetched"

text \<open>
  What is the same for every collector: the calls that can fail, the options, the YAML renderer at
  each type, the reader and the printer of a table, the wording of tables and of durations, and the
  complaints about a name.
\<close>

record setting =
  x_fails :: faults
  x_opts :: Options
  x_yaml_nodes :: "Node stamped \<Rightarrow> goerr + string"
  x_yaml_pods :: "Pod stamped \<Rightarrow> goerr + string"
  x_yaml_events :: "Event stamped \<Rightarrow> goerr + string"
  x_yaml_slices :: "ResourceSlice stamped \<Rightarrow> goerr + string"
  x_yaml_daemonsets :: "DaemonSet stamped \<Rightarrow> goerr + string"
  x_yaml_list :: "UnstructuredList \<Rightarrow> goerr + string"
  x_yaml_object :: "unstructured \<Rightarrow> goerr + string"
  x_table_dec :: "string \<Rightarrow> goerr + unstructured"
  x_table_print :: "unstructured \<Rightarrow> goerr + string"
  x_words :: wording
  x_duration :: "int \<Rightarrow> string"
  x_subdomain :: "string \<Rightarrow> string list"

definition listPods :: "cluster \<Rightarrow> string \<Rightarrow> string \<Rightarrow> goerr + Pod list" where
  "listPods cl namespace selector = list_pages (cl_pods cl namespace selector [])"

definition listPodsOnNode :: "Options \<Rightarrow> cluster \<Rightarrow> goerr + Pod list" where
  "listPodsOnNode opts cl = (if o_Node opts = [] then listPods cl [] []
     else list_pages (cl_pods cl [] [] (''spec.nodeName='' @ o_Node opts)))"

definition listCustomResources :: "cluster \<Rightarrow> GroupVersionResource \<Rightarrow> goerr + UnstructuredList" where
  "listCustomResources cl gvr = cl_custom cl gvr"

definition absentCustomResource :: "cluster \<Rightarrow> goerr \<Rightarrow> bool" where
  "absentCustomResource cl e = (IsNotFound e \<or> cl_noMatch cl e)"

subsection \<open>Discovery of the DRA group\<close>

definition nvidiaDRADriver :: string where "nvidiaDRADriver = ''gpu.nvidia.com''"
definition nvidiaComputeDomainDriver :: string where "nvidiaComputeDomainDriver = ''compute-domain.nvidia.com''"
definition nvidiaDRADrivers :: "string list" where "nvidiaDRADrivers = [nvidiaDRADriver, nvidiaComputeDomainDriver]"
definition draGroup :: string where "draGroup = ''resource.k8s.io''"
definition draVersions :: "string list" where "draVersions = [''v1'', ''v1beta2'', ''v1beta1'']"

definition dra_not_found :: "string \<Rightarrow> goerr" where
  "dra_not_found resource = ErrStatus ''NotFound'' 404 (resource @ ''.'' @ draGroup @ '' '' @ fmt_q [] @ '' not found'')"

fun draVersion_loop :: "cluster \<Rightarrow> string \<Rightarrow> string list \<Rightarrow> goerr + string" where
  "draVersion_loop cl resource [] = Inl (dra_not_found resource)"
| "draVersion_loop cl resource (v # vs) = (case cl_served cl (draGroup @ ''/'' @ v) of
       Inl e \<Rightarrow> draVersion_loop cl resource vs
     | Inr names \<Rightarrow> if resource \<in> set names then Inr v else draVersion_loop cl resource vs)"

definition draVersion :: "cluster \<Rightarrow> string \<Rightarrow> goerr + string" where
  "draVersion cl resource = draVersion_loop cl resource draVersions"

definition wanted_slice :: "Options \<Rightarrow> ResourceSlice \<Rightarrow> bool" where
  "wanted_slice opts slice = (slice_Driver slice \<in> set nvidiaDRADrivers
     \<and> (case slice_NodeName slice of None \<Rightarrow> True | Some n \<Rightarrow> wantsNode opts n))"

definition resourceSlicesAtServedVersion :: "Options \<Rightarrow> cluster \<Rightarrow> goerr + ResourceSlice list" where
  "resourceSlicesAtServedVersion opts cl = (case draVersion cl ''resourceslices'' of Inl e \<Rightarrow> Inl e
     | Inr version \<Rightarrow> (case cl_custom cl \<lparr>gvr_Group = draGroup, gvr_Version = version, gvr_Resource = ''resourceslices''\<rparr> of
         Inl e \<Rightarrow> Inl e
       | Inr l \<Rightarrow> Inr (filter (wanted_slice opts) (List.map_filter (cl_convert cl) (ul_Items l)))))"

end
