(* ===== verification/Gather_Collectors.thy ===== *)
theory Gather_Collectors
  imports Gather_Cluster
begin

text \<open>
  The collectors of a gather, \<^verbatim>\<open>pkg/mustgather/collector.go\<close>, \<^verbatim>\<open>mustgather.go\<close>, \<^verbatim>\<open>complete.go\<close>,
  \<^verbatim>\<open>resourceslices.go\<close>, \<^verbatim>\<open>logs.go\<close>, \<^verbatim>\<open>driverpods.go\<close> and \<^verbatim>\<open>exec.go\<close>, in the order the registry runs
  them. Each is a function of the answers the cluster gave it, so two collectors may see a cluster
  that changed in between.
\<close>

subsection \<open>Pieces the collectors share\<close>

text \<open>An error recorded in the error log and handed on as it is, unless the record was lost.\<close>

definition logged :: "faults \<Rightarrow> string \<Rightarrow> goerr \<Rightarrow> Gatherer \<Rightarrow> goerr \<times> Gatherer" where
  "logged fails what err g = (case log_line fails errLogName (what @ Error err) g of
       (Some lerr, g) \<Rightarrow> (lost_log err lerr, g) | (None, g) \<Rightarrow> (err, g))"

text \<open>A line to the error log whose loss is an error of the collector's own.\<close>

definition told :: "faults \<Rightarrow> string \<Rightarrow> Gatherer \<Rightarrow> goerr option \<times> Gatherer" where
  "told fails msg g = (case log_line fails errLogName msg g of
       (Some lerr, g) \<Rightarrow> (Some (ErrFmt ''error writing to stderr log file: '' (Some lerr)), g) | (None, g) \<Rightarrow> (None, g))"

definition failing :: "(Gatherer \<Rightarrow> goerr \<times> Gatherer) \<Rightarrow> Gatherer \<Rightarrow> goerr option \<times> Gatherer" where
  "failing f g = (let (e, g) = f g in (Some e, g))"

definition as_outcome :: "goerr option \<Rightarrow> outcome" where
  "as_outcome err = (case err of None \<Rightarrow> Ran | Some e \<Rightarrow> Failed e)"

definition outcome_of :: "(Gatherer \<Rightarrow> goerr option \<times> Gatherer) \<Rightarrow> Gatherer \<Rightarrow> outcome \<times> Gatherer" where
  "outcome_of f g = (let (err, g) = f g in (as_outcome err, g))"

text \<open>A collector that does not look at what the others learned.\<close>

definition stateless :: "(Gatherer \<Rightarrow> outcome \<times> Gatherer) \<Rightarrow> run" where
  "stateless f = (\<lambda>(s, g). let (out, g) = f g in (out, s, g))"

text \<open>Two runs of pieces whose errors are reported together.\<close>

definition both :: "(Gatherer \<Rightarrow> goerr list \<times> Gatherer) \<Rightarrow> (Gatherer \<Rightarrow> goerr list \<times> Gatherer) \<Rightarrow> Gatherer \<Rightarrow> goerr list \<times> Gatherer" where
  "both a b g = (let (es, g) = a g; (es', g) = b g in (es @ es', g))"

lemma behaves_logged [behaving]: "behaves (logged fails what err)"
  using behaves_log_line [of fails errLogName "what @ Error err"]
  by (auto simp: behaves_def logged_def split: prod.splits option.splits) (metis snd_conv)+

lemma behaves_told [behaving]: "behaves (told fails msg)"
  using behaves_log_line [of fails errLogName msg]
  by (auto simp: behaves_def told_def split: prod.splits option.splits) (metis snd_conv)+

lemma behaves_failing [behaving]: "behaves f \<Longrightarrow> behaves (failing f)"
  by (simp add: behaves_def failing_def split_beta)

lemma behaves_outcome_of [behaving]: "behaves f \<Longrightarrow> behaves (outcome_of f)"
  by (simp add: behaves_def outcome_of_def split_beta)

lemma behaves_both [behaving]: "behaves a \<Longrightarrow> behaves b \<Longrightarrow> behaves (both a b)"
  unfolding behaves_def both_def Let_def split_beta by (auto intro: collects_trans)

lemma behaves_createArtifact [behaving]: "behaves (createArtifact fails name)"
  by (simp add: behaves_def createArtifact_def split: option.splits)

lemma behaves_discard [behaving]: "behaves (\<lambda>g. (x, discard fails name g))"
  by (simp add: behaves_def discard_keeps same_record_collects)

lemma behaves_commit [behaving]: "behaves (commit fails opts name)"
proof -
  have "collects g (recordArtifact opts name (g\<lparr>g_dir := d\<rparr>))" for g d
    by (rule collects_dir(1) [THEN iffD1, OF recordArtifact_collects])
  then show ?thesis by (auto simp: behaves_def commit_def Let_def split: option.splits prod.splits)
qed

text \<open>Two pieces, the second given what the first answered.\<close>

definition bind_do :: "(Gatherer \<Rightarrow> 'a \<times> Gatherer) \<Rightarrow> ('a \<Rightarrow> Gatherer \<Rightarrow> 'b \<times> Gatherer) \<Rightarrow> Gatherer \<Rightarrow> 'b \<times> Gatherer" where
  "bind_do a b g = (let (x, g) = a g in b x g)"

lemma behaves_bind_do [behaving]: "behaves a \<Longrightarrow> (\<And>x. behaves (b x)) \<Longrightarrow> behaves (bind_do a b)"
  unfolding behaves_def bind_do_def Let_def split_beta by (metis collects_trans)

lemma behaves_on_dir [behaving]: "behaves (\<lambda>g. (x, on_dir f g))"
  by (simp add: behaves_def)

lemma behaves_then_dir: "behaves f \<Longrightarrow> behaves (\<lambda>g. f (on_dir h g))"
  unfolding behaves_def by (metis collects_dir(3))

lemma finishArtifact_alt:
  "finishArtifact fails opts name content =
     (case (case content of Inl e \<Rightarrow> Inl e | Inr s \<Rightarrow> (case fails ''write'' name of Some e \<Rightarrow> Inl e | None \<Rightarrow> Inr s)) of
        Inl e \<Rightarrow> bind_do (\<lambda>g. ((), discard fails name g)) (\<lambda>_. failing (logError fails (''error writing '' @ name) e))
      | Inr s \<Rightarrow> bind_do (\<lambda>g. ((), on_dir (\<lambda>d. mput d (name @ artifactTempSuffix) (RegularFile 384 s)) g))
          (\<lambda>_. bind_do (commit fails opts name) (\<lambda>err. case err of None \<Rightarrow> Pair None
             | Some e \<Rightarrow> failing (logError fails (''error writing '' @ name) e))))"
  by (rule ext) (auto simp: finishArtifact_def bind_do_def failing_def split: sum.splits option.splits prod.splits)

lemma behaves_finishArtifact [behaving]: "behaves (finishArtifact fails opts name content)"
  unfolding finishArtifact_alt by (intro behaving)

lemma writeRendered_alt:
  "writeRendered fails opts name render = bind_do (createArtifact fails name) (\<lambda>err. case err of
       None \<Rightarrow> bind_do render (finishArtifact fails opts name)
     | Some e \<Rightarrow> failing (logError fails (''error creating '' @ name) e))"
  by (rule ext) (auto simp: writeRendered_def bind_do_def failing_def split: option.splits prod.splits)

lemma behaves_writeRendered [behaving]: "behaves render \<Longrightarrow> behaves (writeRendered fails opts name render)"
  unfolding writeRendered_alt by (intro behaving)

text \<open>One document rendered and written, with the two errors it can have.\<close>

definition writeYAML :: "setting \<Rightarrow> string \<Rightarrow> string \<Rightarrow> goerr + string \<Rightarrow> Gatherer \<Rightarrow> goerr option \<times> Gatherer" where
  "writeYAML x name what doc = (case doc of
       Inl e \<Rightarrow> failing (logError (x_fails x) (''error marshalling '' @ what) e)
     | Inr data \<Rightarrow> writeArtifactFile (x_fails x) (x_opts x) name (Inr data))"

lemma behaves_writeYAML [behaving]: "behaves (writeYAML x name what doc)"
  unfolding writeYAML_def by (intro behaving)

subsection \<open>Cluster resources\<close>

definition clusterPolicyGVR :: GroupVersionResource where
  "clusterPolicyGVR = \<lparr>gvr_Group = ''nvidia.com'', gvr_Version = ''v1'', gvr_Resource = ''clusterpolicies''\<rparr>"
definition nvidiaDriverGVR :: GroupVersionResource where
  "nvidiaDriverGVR = \<lparr>gvr_Group = ''nvidia.com'', gvr_Version = ''v1alpha1'', gvr_Resource = ''nvidiadrivers''\<rparr>"
definition gpuClusterGVR :: GroupVersionResource where
  "gpuClusterGVR = \<lparr>gvr_Group = ''nvidia.com'', gvr_Version = ''v1alpha1'', gvr_Resource = ''gpuclusters''\<rparr>"
definition hyperConvergedGVR :: GroupVersionResource where
  "hyperConvergedGVR = \<lparr>gvr_Group = ''hco.kubevirt.io'', gvr_Version = ''v1beta1'', gvr_Resource = ''hyperconvergeds''\<rparr>"
definition kubeVirtGVR :: GroupVersionResource where
  "kubeVirtGVR = \<lparr>gvr_Group = ''kubevirt.io'', gvr_Version = ''v1'', gvr_Resource = ''kubevirts''\<rparr>"
definition computeDomainGVR :: GroupVersionResource where
  "computeDomainGVR = \<lparr>gvr_Group = ''resource.nvidia.com'', gvr_Version = ''v1beta1'', gvr_Resource = ''computedomains''\<rparr>"

definition computeDomainsFile :: string where "computeDomainsFile = ''compute_domains.yaml''"
definition computeDomainsMissingFile :: string where "computeDomainsMissingFile = ''compute_domains.missing''"

definition writeCustomResources :: "setting \<Rightarrow> UnstructuredList \<Rightarrow> string \<Rightarrow> string \<Rightarrow> bool \<Rightarrow> Gatherer \<Rightarrow> goerr option \<times> Gatherer" where
  "writeCustomResources x l fileName what single = writeYAML x fileName what
     (if single \<and> length (ul_Items l) = 1 then x_yaml_object x (ul_Items l ! 0) else x_yaml_list x l)"

definition writeCustomResourceList :: "setting \<Rightarrow> UnstructuredList \<Rightarrow> string \<Rightarrow> string \<Rightarrow> Gatherer \<Rightarrow> goerr option \<times> Gatherer" where
  "writeCustomResourceList x l fileName what = writeCustomResources x l fileName what False"

definition noteAbsent :: "setting \<Rightarrow> string \<Rightarrow> Gatherer \<Rightarrow> outcome \<times> Gatherer" where
  "noteAbsent x reason = bind_do (log_line (x_fails x) logName reason)
     (\<lambda>err. Pair (case err of None \<Rightarrow> Skipped reason | Some e \<Rightarrow> Failed (ErrFmt ''error writing to log file: '' (Some e))))"

definition gatherOptionalCustomResource :: "setting \<Rightarrow> cluster \<Rightarrow> GroupVersionResource \<Rightarrow> string \<Rightarrow> string \<Rightarrow> Gatherer \<Rightarrow> outcome \<times> Gatherer" where
  "gatherOptionalCustomResource x cl gvr fileName what = (case listCustomResources cl gvr of
       Inr l \<Rightarrow> if ul_Items l \<noteq> [] then outcome_of (writeCustomResourceList x l fileName what)
         else noteAbsent x (what @ '' resource(s) not found in the cluster'')
     | Inl e \<Rightarrow> if absentCustomResource cl e then noteAbsent x (what @ '' resource(s) not found in the cluster'')
         else if IsForbidden e then noteAbsent x (''not allowed to read '' @ what)
         else outcome_of (failing (logError (x_fails x) (''error getting '' @ what) e)))"

definition writeMissingMarker :: "setting \<Rightarrow> string \<Rightarrow> string \<Rightarrow> Gatherer \<Rightarrow> goerr option \<times> Gatherer" where
  "writeMissingMarker x fileName reason = bind_do (writeMarker (x_fails x) (x_opts x) fileName (line reason))
     (\<lambda>err. case err of None \<Rightarrow> told (x_fails x) (fileName @ '': '' @ reason)
        | Some e \<Rightarrow> failing (logError (x_fails x) (''error writing '' @ fileName) e))"

definition gatherOrMark :: "setting \<Rightarrow> cluster \<Rightarrow> GroupVersionResource \<Rightarrow> string \<Rightarrow> string \<Rightarrow> string \<Rightarrow> bool \<Rightarrow> Gatherer \<Rightarrow> goerr option \<times> Gatherer" where
  "gatherOrMark x cl gvr fileName markerName what single = (case listCustomResources cl gvr of
       Inr l \<Rightarrow> if ul_Items l \<noteq> [] then writeCustomResources x l fileName what single
         else writeMissingMarker x markerName ''not installed''
     | Inl e \<Rightarrow> if absentCustomResource cl e then writeMissingMarker x markerName ''not installed''
         else if IsForbidden e then writeMissingMarker x markerName ''forbidden''
         else writeMissingMarker x markerName (Error e))"

definition gatherGPUCluster :: "setting \<Rightarrow> cluster \<Rightarrow> Gatherer \<Rightarrow> outcome \<times> Gatherer" where
  "gatherGPUCluster x cl = gatherOptionalCustomResource x cl gpuClusterGVR ''gpu_cluster.yaml'' ''GPUCluster''"

definition gatherHyperConverged :: "setting \<Rightarrow> cluster \<Rightarrow> Gatherer \<Rightarrow> outcome \<times> Gatherer" where
  "gatherHyperConverged x cl = gatherOptionalCustomResource x cl hyperConvergedGVR ''hyperconverged.yaml'' ''HyperConverged''"

definition gatherKubeVirt :: "setting \<Rightarrow> cluster \<Rightarrow> Gatherer \<Rightarrow> outcome \<times> Gatherer" where
  "gatherKubeVirt x cl = gatherOptionalCustomResource x cl kubeVirtGVR ''kubevirt.yaml'' ''KubeVirt''"

definition gatherClusterPolicy :: "setting \<Rightarrow> cluster \<Rightarrow> Gatherer \<Rightarrow> goerr option \<times> Gatherer" where
  "gatherClusterPolicy x cl = gatherOrMark x cl clusterPolicyGVR ''cluster_policy.yaml'' ''cluster_policy.missing'' ''ClusterPolicy'' True"

definition gatherNVIDIADrivers :: "setting \<Rightarrow> cluster \<Rightarrow> Gatherer \<Rightarrow> goerr option \<times> Gatherer" where
  "gatherNVIDIADrivers x cl = gatherOrMark x cl nvidiaDriverGVR ''nvidia_driver.yaml'' ''nvidia_driver.missing'' ''NVIDIADriver'' False"

definition gatherComputeDomains :: "setting \<Rightarrow> cluster \<Rightarrow> Gatherer \<Rightarrow> goerr option \<times> Gatherer" where
  "gatherComputeDomains x cl = gatherOrMark x cl computeDomainGVR computeDomainsFile computeDomainsMissingFile ''ComputeDomain'' False"

definition gatherDeviceClasses :: "setting \<Rightarrow> cluster \<Rightarrow> Gatherer \<Rightarrow> outcome \<times> Gatherer" where
  "gatherDeviceClasses x cl = (case draVersion cl ''deviceclasses'' of
       Inl e \<Rightarrow> noteAbsent x ''DeviceClass resource(s) not found in the cluster''
     | Inr version \<Rightarrow> gatherOptionalCustomResource x cl \<lparr>gvr_Group = draGroup, gvr_Version = version, gvr_Resource = ''deviceclasses''\<rparr>
         ''deviceclasses.yaml'' ''DeviceClass'')"

definition gatherOpenShiftVersion :: "setting \<Rightarrow> cluster \<Rightarrow> Gatherer \<Rightarrow> outcome \<times> Gatherer" where
  "gatherOpenShiftVersion x cl = (case cl_openshift cl of
       None \<Rightarrow> Pair (Skipped ''not an OpenShift cluster'')
     | Some version \<Rightarrow> outcome_of (writeArtifactFile (x_fails x) (x_opts x) ''openshift_version.yaml'' (Inr version)))"

text \<open>\<^verbatim>\<open>allNodes\<close> is every node, before \<^verbatim>\<open>--node\<close> narrows the list.\<close>

definition remember_nodes :: "Node list \<Rightarrow> Gatherer \<Rightarrow> unit \<times> Gatherer" where
  "remember_nodes nodes g = ((), g\<lparr>g_allNodes := nodes\<rparr>)"

definition gatherNodeInfo :: "setting \<Rightarrow> cluster \<Rightarrow> Gatherer \<Rightarrow> goerr option \<times> Gatherer" where
  "gatherNodeInfo x cl = (if cl_openshift cl \<noteq> None
     then (case cl_machines cl of
         Inl e \<Rightarrow> failing (logged (x_fails x) ''Error getting machines: '' e)
       | Inr machines \<Rightarrow> writeArtifactFile (x_fails x) (x_opts x) ''machines.yaml'' (Inr machines))
     else (case list_pages (cl_nodes cl []) of
         Inl e \<Rightarrow> failing (logged (x_fails x) ''Error getting nodes: '' e)
       | Inr nodes \<Rightarrow> bind_do (remember_nodes nodes)
           (\<lambda>_. writeYAML x ''nodes.yaml'' ''nodes'' (x_yaml_nodes x (stampNodeList (nodesWanted (x_opts x) nodes))))))"

definition gpuPciLabelSelectors :: "string list" where
  "gpuPciLabelSelectors = [''feature.node.kubernetes.io/pci-10de.present'', ''feature.node.kubernetes.io/pci-0302_10de.present'',
     ''feature.node.kubernetes.io/pci-0300_10de.present'']"

text \<open>The nodes under every label in turn; the first list that is refused ends it, with its label.\<close>

fun gpu_nodes_loop :: "cluster \<Rightarrow> string list \<Rightarrow> Node list \<Rightarrow> (string \<times> goerr) + Node list" where
  "gpu_nodes_loop cl [] nodes = Inr nodes"
| "gpu_nodes_loop cl (label # labels) nodes = (case list_pages (cl_nodes cl label) of
       Inl e \<Rightarrow> Inl (label, e) | Inr more_nodes \<Rightarrow> gpu_nodes_loop cl labels (nodes @ more_nodes))"

definition gatherGPUNodeText :: "setting \<Rightarrow> cluster \<Rightarrow> Node list \<Rightarrow> Gatherer \<Rightarrow> goerr option \<times> Gatherer" where
  "gatherGPUNodeText x cl nodes =
     (let file = writeArtifactFile (x_fails x) (x_opts x) in
      then_do (file ''gpu_nodes.labels'' (Inr (writeNodeLabels nodes)))
        (then_do (file ''gpu_nodes.status'' (Inr (writeNodeTable (x_words x) nodes)))
          (file ''gpu_nodes.descr'' (describeEach (\<lambda>node. cl_describe cl ''node'' [] (node_Name node)) nodes))))"

definition gatherGPUNodes :: "setting \<Rightarrow> cluster \<Rightarrow> Gatherer \<Rightarrow> outcome \<times> Gatherer" where
  "gatherGPUNodes x cl = (case gpu_nodes_loop cl gpuPciLabelSelectors [] of
       Inl (label, e) \<Rightarrow> outcome_of (failing (logged (x_fails x) (''Error getting nodes with NVIDIA PCI label '' @ [CHR 0x27] @ label @ [CHR 0x27] @ '': '') e))
     | Inr found \<Rightarrow>
         let nodes = nodesWanted (x_opts x) (dedupeNodes found) in
         if nodes = []
         then bind_do (log_line (x_fails x) errLogName ''No nodes found with NVIDIA PCI label'')
           (\<lambda>_. Pair (Skipped (if o_Node (x_opts x) \<noteq> [] then o_Node (x_opts x) @ '' carries no NVIDIA PCI label'' else ''no GPU nodes'')))
         else outcome_of (then_do (writeYAML x ''gpu_nodes.yaml'' ''gpuNodes'' (x_yaml_nodes x (stampNodeList nodes)))
           (gatherGPUNodeText x cl nodes)))"

definition stampSliceList :: "ResourceSlice list \<Rightarrow> ResourceSlice stamped" where
  "stampSliceList = stamp_list ''resource.k8s.io/v1'' ''ResourceSlice''"

definition IsMethodNotSupported :: "goerr \<Rightarrow> bool" where "IsMethodNotSupported = status_is ''MethodNotAllowed'' 405"

definition writeSlices :: "setting \<Rightarrow> ResourceSlice list \<Rightarrow> Gatherer \<Rightarrow> outcome \<times> Gatherer" where
  "writeSlices x slices = outcome_of (writeYAML x ''resourceslices.yaml'' ''resourceslices'' (x_yaml_slices x (stampSliceList slices)))"

definition gatherResourceSlices :: "setting \<Rightarrow> cluster \<Rightarrow> Gatherer \<Rightarrow> outcome \<times> Gatherer" where
  "gatherResourceSlices x cl =
     (case listAllPaginated (\<lambda>all page. all @ filter (wanted_slice (x_opts x)) page) [] (cl_slices cl) of
        Inr slices \<Rightarrow> writeSlices x slices
      | Inl e \<Rightarrow>
          if IsNotFound e \<or> IsMethodNotSupported e
          then (case resourceSlicesAtServedVersion (x_opts x) cl of
              Inr beta \<Rightarrow> writeSlices x beta
            | Inl berr \<Rightarrow> bind_do (log_line (x_fails x) errLogName (''No resourceslices: the '' @ draGroup @ '' API is not served ('' @ Error e @ '')''))
                (\<lambda>lerr. case lerr of Some l \<Rightarrow> Pair (Failed (lost_log e l)) | None \<Rightarrow> writeSlices x []))
          else if IsForbidden e
          then bind_do (log_line (x_fails x) errLogName (''Skipping resourceslices: '' @ Error e))
            (\<lambda>lerr. Pair (case lerr of Some l \<Rightarrow> Failed (lost_log e l) | None \<Rightarrow> Skipped ''forbidden''))
          else outcome_of (failing (logError (x_fails x) ''error getting resourceslices'' e)))"

subsection \<open>The two files that make a bundle answerable\<close>

definition projectGPUContainer :: "Container \<Rightarrow> Container" where
  "projectGPUContainer c = \<lparr>c_Name = c_Name c, c_Image = [], c_Requests = c_Requests c, c_Limits = c_Limits c,
     c_RestartPolicy = c_RestartPolicy c\<rparr>"

definition projectGPUContainers :: "Container list \<Rightarrow> Container list" where
  "projectGPUContainers = map projectGPUContainer"

definition projectGPUPod :: "Pod \<Rightarrow> Pod" where
  "projectGPUPod pod =
     \<lparr>pod_Name = pod_Name pod, pod_Namespace = pod_Namespace pod, pod_Labels = pod_Labels pod,
      pod_OwnerReferences = pod_OwnerReferences pod,
      pod_Spec = \<lparr>spec_NodeName = spec_NodeName (pod_Spec pod),
        spec_InitContainers = projectGPUContainers (spec_InitContainers (pod_Spec pod)),
        spec_Containers = projectGPUContainers (spec_Containers (pod_Spec pod)),
        spec_Overhead = spec_Overhead (pod_Spec pod), spec_ReadinessGates = []\<rparr>,
      pod_Phase = pod_Phase pod, pod_ContainerStatuses = [], pod_InitContainerStatuses = [], pod_UID = pod_UID pod,
      pod_Annotations = [], pod_CreationTimestamp = 0, pod_DeletionTimestamp = None, pod_Reason = [], pod_PodIP = [],
      pod_NominatedNodeName = [], pod_Conditions = []\<rparr>"

definition kept_gpu_pods :: "Options \<Rightarrow> Pod list \<Rightarrow> Pod list" where
  "kept_gpu_pods opts pods = map projectGPUPod (filter (\<lambda>p. PodSpecGPURequest (pod_Spec p) > 0) (podsOnNode opts pods))"

definition gatherGPUPods :: "setting \<Rightarrow> cluster \<Rightarrow> Gatherer \<Rightarrow> goerr option \<times> Gatherer" where
  "gatherGPUPods x cl = (case listPodsOnNode (x_opts x) cl of
       Inl e \<Rightarrow> failing (logError (x_fails x) ''error listing the pods of the cluster'' e)
     | Inr pods \<Rightarrow> writeYAML x gpuPodsFile ''the GPU pods'' (x_yaml_pods x (stampPodList (kept_gpu_pods (x_opts x) pods))))"

definition node_event_selector :: "Options \<Rightarrow> string" where
  "node_event_selector opts = ''involvedObject.kind=Node'' @ (if o_Node opts \<noteq> [] then '',involvedObject.name='' @ o_Node opts else [])"

definition kept_events :: "Options \<Rightarrow> Event list \<Rightarrow> Event list" where
  "kept_events opts events = filter (\<lambda>e. event_ObjectKind e = ''Node'' \<and> wantsNode opts (event_ObjectName e)) events"

definition gatherNodeEvents :: "setting \<Rightarrow> cluster \<Rightarrow> Gatherer \<Rightarrow> goerr option \<times> Gatherer" where
  "gatherNodeEvents x cl = (case list_pages (cl_events cl (node_event_selector (x_opts x))) of
       Inl e \<Rightarrow> failing (logError (x_fails x) ''error listing the events of the cluster'' e)
     | Inr events \<Rightarrow> writeYAML x nodeEventsFile ''the node events'' (x_yaml_events x (stampEventList (kept_events (x_opts x) events))))"

lemma behaves_remember_nodes [behaving]: "behaves (remember_nodes nodes)"
  by (simp add: behaves_def remember_nodes_def)

lemma behaves_pair_case [behaving]: "(\<And>a b. behaves (f a b)) \<Longrightarrow> behaves (case p of (a, b) \<Rightarrow> f a b)"
  by (cases p) simp

lemma behaves_custom [behaving]:
  "behaves (noteAbsent x reason)" "behaves (writeMissingMarker x name reason)" "behaves (writeCustomResources x l name what single)"
  "behaves (writeSlices x slices)"
  unfolding noteAbsent_def writeMissingMarker_def writeCustomResources_def writeSlices_def by (intro behaving)+

lemma behaves_optional [behaving]:
  "behaves (gatherOptionalCustomResource x cl gvr name what)" "behaves (gatherOrMark x cl gvr name marker what single)"
  unfolding gatherOptionalCustomResource_def gatherOrMark_def writeCustomResourceList_def by (intro behaving)+

lemma behaves_resources [behaving]:
  "behaves (gatherOpenShiftVersion x cl)" "behaves (gatherNodeInfo x cl)" "behaves (gatherClusterPolicy x cl)"
  "behaves (gatherNVIDIADrivers x cl)" "behaves (gatherGPUCluster x cl)" "behaves (gatherHyperConverged x cl)"
  "behaves (gatherKubeVirt x cl)" "behaves (gatherDeviceClasses x cl)" "behaves (gatherResourceSlices x cl)"
  "behaves (gatherComputeDomains x cl)" "behaves (gatherGPUPods x cl)" "behaves (gatherNodeEvents x cl)"
  unfolding gatherOpenShiftVersion_def gatherNodeInfo_def gatherClusterPolicy_def gatherNVIDIADrivers_def gatherGPUCluster_def
    gatherHyperConverged_def gatherKubeVirt_def gatherDeviceClasses_def gatherResourceSlices_def gatherComputeDomains_def
    gatherGPUPods_def gatherNodeEvents_def
  by (intro behaving)+

lemma behaves_gpu_nodes [behaving]: "behaves (gatherGPUNodes x cl)"
  unfolding gatherGPUNodes_def gatherGPUNodeText_def Let_def by (intro behaving)

end
