(* ===== verification/Gather_Pods.thy ===== *)
theory Gather_Pods
  imports Gather_Collectors
begin

text \<open>
  The collectors that work in the operator namespace, \<^verbatim>\<open>pkg/mustgather/collector.go\<close>, \<^verbatim>\<open>logs.go\<close>,
  \<^verbatim>\<open>driverpods.go\<close> and \<^verbatim>\<open>exec.go\<close>: the pods they share, the logs of every container, the
  descriptions, the daemonsets, and what is fetched out of the driver pods.
\<close>

subsection \<open>What the collectors of the namespace share\<close>

definition operatorPodLabel :: string where "operatorPodLabel = ''app=gpu-operator''"

text \<open>A line to the log; when it cannot be written that is recorded, and only losing both is an error.\<close>

definition log_or_record :: "faults \<Rightarrow> string \<Rightarrow> Gatherer \<Rightarrow> goerr option \<times> Gatherer" where
  "log_or_record fails msg = bind_do (log_line fails logName msg) (\<lambda>err. case err of None \<Rightarrow> Pair None
     | Some lerr \<Rightarrow> bind_do (log_line fails errLogName (''Error writing to log file: '' @ Error lerr))
         (\<lambda>err. Pair (case err of None \<Rightarrow> None | Some lerr2 \<Rightarrow> Some (lost_log lerr lerr2))))"

definition gatherOperatorNamespace :: "setting \<Rightarrow> cluster \<Rightarrow> Gatherer \<Rightarrow> (goerr + string) \<times> Gatherer" where
  "gatherOperatorNamespace x cl = (case list_pages (cl_pods cl [] operatorPodLabel []) of
       Inl e \<Rightarrow> bind_do (logged (x_fails x) ''Error getting pods: '' e) (\<lambda>e. Pair (Inl e))
     | Inr [] \<Rightarrow> bind_do (log_or_record (x_fails x) (''No pods found with label '' @ operatorPodLabel))
         (\<lambda>err. Pair (Inl (case err of Some e \<Rightarrow> e | None \<Rightarrow> ErrText (''no pods found with label '' @ operatorPodLabel))))
     | Inr (pod # pods) \<Rightarrow> bind_do (log_or_record (x_fails x) (''Operator namespace: '' @ pod_Namespace pod))
         (\<lambda>err. Pair (case err of Some e \<Rightarrow> Inl e | None \<Rightarrow> Inr (pod_Namespace pod))))"

text \<open>A namespace already known is not looked for again.\<close>

definition prepareNamespace :: "setting \<Rightarrow> cluster \<Rightarrow> gatherState \<Rightarrow> Gatherer \<Rightarrow> (goerr option \<times> gatherState) \<times> Gatherer" where
  "prepareNamespace x cl s = (if gs_operatorNamespace s \<noteq> [] then Pair (None, s)
     else bind_do (gatherOperatorNamespace x cl) (\<lambda>r. case r of Inl e \<Rightarrow> Pair (Some e, s)
        | Inr namespace \<Rightarrow> (\<lambda>g. ((None, s\<lparr>gs_operatorNamespace := namespace\<rparr>), step (''Found the GPU operator in namespace '' @ namespace) g))))"

definition preparePods :: "setting \<Rightarrow> cluster \<Rightarrow> gatherState \<Rightarrow> Gatherer \<Rightarrow> (goerr option \<times> gatherState) \<times> Gatherer" where
  "preparePods x cl s = (case listPods cl (gs_operatorNamespace s) [] of
       Inl e \<Rightarrow> bind_do (logError (x_fails x) ''error getting the pods of the operator namespace'' e) (\<lambda>e. Pair (Some e, s))
     | Inr pods \<Rightarrow> let s = s\<lparr>gs_operandPods := podsOnNode (x_opts x) pods\<rparr> in
         (case listPods cl (gs_operatorNamespace s) operatorPodLabel of
            Inl e \<Rightarrow> bind_do (logError (x_fails x) ''error getting the GPU operator pod'' e) (\<lambda>e. Pair (Some e, s))
          | Inr operators \<Rightarrow> Pair (None, (case operators of [] \<Rightarrow> s | p # _ \<Rightarrow> s\<lparr>gs_operatorPod := Some p\<rparr>)\<lparr>gs_prepared := True\<rparr>)))"

definition prepareState :: "setting \<Rightarrow> cluster \<Rightarrow> gatherState \<Rightarrow> Gatherer \<Rightarrow> (goerr option \<times> gatherState) \<times> Gatherer" where
  "prepareState x cl s = (if gs_prepared s then Pair (None, s)
     else bind_do (prepareNamespace x cl s) (\<lambda>(err, s). case err of Some e \<Rightarrow> Pair (Some e, s) | None \<Rightarrow> preparePods x cl s))"

text \<open>A collector that runs once the shared state is there.\<close>

definition prepared_by :: "(gatherState \<Rightarrow> Gatherer \<Rightarrow> (goerr option \<times> gatherState) \<times> Gatherer)
    \<Rightarrow> (gatherState \<Rightarrow> Gatherer \<Rightarrow> (outcome \<times> gatherState) \<times> Gatherer) \<Rightarrow> run" where
  "prepared_by prepare f = (\<lambda>(s, g). let ((out, s), g) = bind_do (prepare s)
     (\<lambda>(err, s). case err of Some e \<Rightarrow> Pair (Failed e, s) | None \<Rightarrow> f s) g in (out, s, g))"

definition with_state :: "gatherState \<Rightarrow> (Gatherer \<Rightarrow> outcome \<times> Gatherer) \<Rightarrow> Gatherer \<Rightarrow> (outcome \<times> gatherState) \<times> Gatherer" where
  "with_state s f = bind_do f (\<lambda>out. Pair (out, s))"

subsection \<open>Operator and operand pods\<close>

definition fetchPodTable :: "setting \<Rightarrow> cluster \<Rightarrow> string \<Rightarrow> string \<Rightarrow> goerr + unstructured" where
  "fetchPodTable x cl namespace name = (case cl_tableClient cl of
       Some e \<Rightarrow> Inl (ErrFmt ''building a client for the table request: '' (Some e))
     | None \<Rightarrow> (case cl_table cl namespace name of
         Inl e \<Rightarrow> Inl (ErrFmt (''asking for a table of the pods in '' @ namespace @ '': '') (Some e))
       | Inr raw \<Rightarrow> (case x_table_dec x raw of
           Inl e \<Rightarrow> Inl (ErrFmt (''decoding the table of the pods in '' @ namespace @ '': '') (Some e))
         | Inr table \<Rightarrow> let kind = nested_or [] (NestedString table [''kind'']) in
             if kind \<noteq> ''Table'' then Inl (ErrText (''the server answered with a '' @ fmt_q kind @ '', not a Table'')) else Inr table)))"

definition printTable :: "setting \<Rightarrow> unstructured \<Rightarrow> goerr + string" where
  "printTable x table = (case x_table_print x table of Inl e \<Rightarrow> Inl (ErrFmt ''printing the table: '' (Some e)) | Inr s \<Rightarrow> Inr s)"

definition writePodStatus :: "setting \<Rightarrow> cluster \<Rightarrow> string \<Rightarrow> string \<Rightarrow> Pod list \<Rightarrow> Gatherer \<Rightarrow> (goerr + string) \<times> Gatherer" where
  "writePodStatus x cl namespace name pods = (case fetchPodTable x cl namespace name of
       Inr table \<Rightarrow> Pair (printTable x table)
     | Inl e \<Rightarrow> bind_do (log_line (x_fails x) errLogName (''Falling back to a locally rendered table for '' @ namespace @ '': '' @ Error e))
         (\<lambda>err. Pair (case err of Some lerr \<Rightarrow> Inl (lost_log e lerr) | None \<Rightarrow> Inr (writePodTable (x_words x) pods))))"

definition gatherOperatorPod :: "setting \<Rightarrow> cluster \<Rightarrow> gatherState \<Rightarrow> Gatherer \<Rightarrow> goerr option \<times> Gatherer" where
  "gatherOperatorPod x cl s = (case gs_operatorPod s of
       None \<Rightarrow> Pair (Some (ErrText (''no pods found with label '' @ operatorPodLabel)))
     | Some pod \<Rightarrow> then_do (writeYAML x ''gpu_operator_pod.yaml'' ''the GPU operator pod'' (x_yaml_pods x (stampPodList [pod])))
         (writeRendered (x_fails x) (x_opts x) ''gpu_operator_pod.status'' (writePodStatus x cl (pod_Namespace pod) (pod_Name pod) [pod])))"

definition gatherOperandPods :: "setting \<Rightarrow> cluster \<Rightarrow> gatherState \<Rightarrow> Gatherer \<Rightarrow> goerr option \<times> Gatherer" where
  "gatherOperandPods x cl s =
     then_do (writeYAML x ''gpu_operand_pods.yaml'' ''the operand pods'' (x_yaml_pods x (stampPodList (gs_operandPods s))))
       (then_do (writeRendered (x_fails x) (x_opts x) ''gpu_operand_pods.status'' (writePodStatus x cl (gs_operatorNamespace s) [] (gs_operandPods s)))
         (writeArtifactFile (x_fails x) (x_opts x) ''gpu_operand_pod_images.txt'' (Inr (writePodImages (gs_operandPods s)))))"

text \<open>An object deleted since it was listed costs its description and nothing else.\<close>

definition describe_one :: "setting \<Rightarrow> string \<Rightarrow> string \<Rightarrow> string \<Rightarrow> goerr + string \<Rightarrow> Gatherer \<Rightarrow> goerr option \<times> Gatherer" where
  "describe_one x kind name fileName descr = bind_do (writeArtifactFile (x_fails x) (x_opts x) fileName descr)
     (\<lambda>err. case err of None \<Rightarrow> Pair None
        | Some e \<Rightarrow> if IsNotFound e
            then bind_do (\<lambda>g. ((), discardArtifact (x_fails x) fileName g))
              (\<lambda>_. told (x_fails x) (kind @ '' '' @ name @ '' went away before it could be described: '' @ Error e))
            else Pair (Some e))"

definition gatherPodDescriptions :: "setting \<Rightarrow> cluster \<Rightarrow> gatherState \<Rightarrow> Gatherer \<Rightarrow> goerr option \<times> Gatherer" where
  "gatherPodDescriptions x cl s = joined (each (\<lambda>pod. describe_one x ''Pod'' (pod_Name pod) (pod_Name pod @ ''.descr'')
     (cl_describe cl ''pod'' (pod_Namespace pod) (pod_Name pod))) (gs_operandPods s))"

definition gatherDaemonSets :: "setting \<Rightarrow> cluster \<Rightarrow> gatherState \<Rightarrow> Gatherer \<Rightarrow> goerr option \<times> Gatherer" where
  "gatherDaemonSets x cl s = (case list_pages (cl_daemonsets cl (gs_operatorNamespace s)) of
       Inl e \<Rightarrow> failing (logError (x_fails x) ''error getting daemonSets'' e)
     | Inr sets \<Rightarrow> then_do (writeYAML x ''daemonsets.yaml'' ''daemonSets'' (x_yaml_daemonsets x (stampDaemonSetList sets)))
         (then_do (writeArtifactFile (x_fails x) (x_opts x) ''gpu_operand_ds.status'' (Inr (writeDaemonSetTable (x_words x) sets)))
           (joined (each (\<lambda>ds. describe_one x ''DaemonSet'' (ds_Name ds) (''gpu_operand_ds_'' @ ds_Name ds @ ''.descr'')
              (cl_describe cl ''daemonset'' (ds_Namespace ds) (ds_Name ds))) sets))))"

subsection \<open>Logs\<close>

text \<open>The window of \<^verbatim>\<open>--since\<close> in whole seconds, on the current log only.\<close>

definition log_options :: "Options \<Rightarrow> string \<Rightarrow> bool \<Rightarrow> PodLogOptions" where
  "log_options opts container previous = \<lparr>plo_Container = container, plo_Timestamps = True, plo_Previous = previous,
     plo_SinceSeconds = (if \<not> previous \<and> o_Since opts > 0 then Some (quot (o_Since opts) second) else None)\<rparr>"

definition err_text :: "goerr option \<Rightarrow> string" where
  "err_text err = (case err of None \<Rightarrow> ''<nil>'' | Some e \<Rightarrow> Error e)"

text \<open>
  What was written to the open file when \<^verbatim>\<open>commit\<close> is called; a write that failed is reported by the
  commit that follows it, whose file stays. \<open>write_text\<close> is a write into the open file.
\<close>

definition write_text :: "faults \<Rightarrow> string \<Rightarrow> string \<Rightarrow> Gatherer \<Rightarrow> goerr option \<times> Gatherer" where
  "write_text fails name s g = (case fails ''write'' name of Some e \<Rightarrow> (Some e, g)
     | None \<Rightarrow> (None, on_dir (append_file (name @ artifactTempSuffix) s) g))"

definition commit_log :: "setting \<Rightarrow> string \<Rightarrow> goerr option \<Rightarrow> Gatherer \<Rightarrow> goerr option \<times> Gatherer" where
  "commit_log x name cause = bind_do (commit (x_fails x) (x_opts x) name) (\<lambda>err. case err of None \<Rightarrow> Pair cause
     | Some e \<Rightarrow> bind_do (failing (logError (x_fails x) (''error writing '' @ name) e)) (\<lambda>err g. (err, discard (x_fails x) name g)))"

definition no_logs :: "setting \<Rightarrow> string \<Rightarrow> Pod \<Rightarrow> string \<Rightarrow> bool \<Rightarrow> goerr option \<Rightarrow> Gatherer \<Rightarrow> goerr option \<times> Gatherer" where
  "no_logs x fileName pod container previous err =
     bind_do (log_line (x_fails x) errLogName (''Error getting '' @ (if previous then ''previous logs'' else ''logs'') @ '' for pod ''
        @ pod_Name pod @ '' container '' @ container @ '': '' @ err_text err))
       (\<lambda>lerr. case lerr of
          Some l \<Rightarrow> (\<lambda>g. (Some (ErrText (err_text err @ '' + error writing to stderr log file: '' @ Error l)), discard (x_fails x) fileName g))
        | None \<Rightarrow> bind_do (write_text (x_fails x) fileName
              (line (if previous then ''No previous logs available'' else ''No logs available: '' @ err_text err)))
            (\<lambda>werr. commit_log x fileName (map_option (\<lambda>e. ErrFmt ''error writing string to file: '' (Some e)) werr)))"

text \<open>A stream that breaks off leaves no file.\<close>

definition copy_logs :: "setting \<Rightarrow> string \<Rightarrow> Pod \<Rightarrow> string \<Rightarrow> string \<Rightarrow> goerr option \<Rightarrow> Gatherer \<Rightarrow> goerr option \<times> Gatherer" where
  "copy_logs x fileName pod container log broken =
     bind_do (write_text (x_fails x) fileName (writePrefixedLines (pod_Name pod) container log))
       (\<lambda>werr. case werr of
          Some e \<Rightarrow> bind_do (failing (logError (x_fails x) (''error writing '' @ fileName) (ErrFmt ''error writing log line: '' (Some e))))
            (\<lambda>err g. (err, discard (x_fails x) fileName g))
        | None \<Rightarrow> (case broken of
            Some e \<Rightarrow> bind_do (failing (logError (x_fails x) (''error writing '' @ fileName) (ErrFmt ''error reading log stream: '' (Some e))))
              (\<lambda>err g. (err, discard (x_fails x) fileName g))
          | None \<Rightarrow> (case x_fails x ''flush'' fileName of
              Some e \<Rightarrow> bind_do (failing (logError (x_fails x) (''error flushing '' @ fileName) e)) (\<lambda>err g. (err, discard (x_fails x) fileName g))
            | None \<Rightarrow> commit_log x fileName None)))"

definition collectContainerLogs :: "setting \<Rightarrow> cluster \<Rightarrow> string \<Rightarrow> Pod \<Rightarrow> string \<Rightarrow> string \<Rightarrow> bool \<Rightarrow> Gatherer \<Rightarrow> goerr option \<times> Gatherer" where
  "collectContainerLogs x cl namespace pod container fileName previous =
     bind_do (createArtifact (x_fails x) fileName) (\<lambda>err. case err of
         Some e \<Rightarrow> failing (logError (x_fails x) (''error creating '' @ fileName) e)
       | None \<Rightarrow> (case cl_logs cl namespace (pod_Name pod) (log_options (x_opts x) container previous) of
           Inl why \<Rightarrow> no_logs x fileName pod container previous why
         | Inr (log, broken) \<Rightarrow> copy_logs x fileName pod container log broken))"

definition log_name :: "string \<Rightarrow> string \<Rightarrow> bool \<Rightarrow> string" where
  "log_name owner container previous = owner @ ''_'' @ container @ (if previous then ''.previous.log'' else ''.log'')"

definition collectOperatorLogs :: "setting \<Rightarrow> cluster \<Rightarrow> string \<Rightarrow> Pod \<Rightarrow> bool \<Rightarrow> Gatherer \<Rightarrow> goerr option \<times> Gatherer" where
  "collectOperatorLogs x cl namespace pod previous = joined (each (\<lambda>container.
     collectContainerLogs x cl namespace pod container (log_name ''gpu_operator_logs'' container previous) previous) (containerNames pod))"

definition collectPodLogs :: "setting \<Rightarrow> cluster \<Rightarrow> string \<Rightarrow> Pod \<Rightarrow> bool \<Rightarrow> Gatherer \<Rightarrow> goerr option \<times> Gatherer" where
  "collectPodLogs x cl namespace pod previous = joined (each (\<lambda>container.
     collectContainerLogs x cl namespace pod container (log_name (pod_Name pod) container previous) previous) (containerNames pod))"

definition is_operator :: "gatherState \<Rightarrow> Pod \<Rightarrow> bool" where
  "is_operator s pod = (case gs_operatorPod s of None \<Rightarrow> False
     | Some p \<Rightarrow> pod_Name pod = pod_Name p \<and> pod_Namespace pod = pod_Namespace p)"

definition gatherPodLogs :: "setting \<Rightarrow> cluster \<Rightarrow> gatherState \<Rightarrow> Gatherer \<Rightarrow> goerr option \<times> Gatherer" where
  "gatherPodLogs x cl s = joined (both
     (case gs_operatorPod s of None \<Rightarrow> Pair []
        | Some pod \<Rightarrow> each (collectOperatorLogs x cl (gs_operatorNamespace s) pod) [False, True])
     (each (\<lambda>(pod, previous). collectPodLogs x cl (pod_Namespace pod) pod previous)
        (concat (map (\<lambda>pod. [(pod, False), (pod, True)]) (filter (\<lambda>pod. \<not> is_operator s pod) (gs_operandPods s))))))"

lemma behaves_write_text [behaving]: "behaves (write_text fails name s)"
  by (simp add: behaves_def write_text_def split: option.splits)

lemma behaves_log_or_record [behaving]: "behaves (log_or_record fails msg)"
  unfolding log_or_record_def by (intro behaving)

lemma behaves_list_case [behaving]: "behaves a \<Longrightarrow> (\<And>y ys. behaves (b y ys)) \<Longrightarrow> behaves (case xs of [] \<Rightarrow> a | y # ys \<Rightarrow> b y ys)"
  by (cases xs) auto

lemma behaves_gatherOperatorNamespace [behaving]: "behaves (gatherOperatorNamespace x cl)"
  unfolding gatherOperatorNamespace_def by (intro behaving)

lemma behaves_prepare [behaving]: "behaves (prepareNamespace x cl s)" "behaves (preparePods x cl s)"
  unfolding prepareNamespace_def preparePods_def Let_def by (intro behaving)+

lemma behaves_prepareState [behaving]: "behaves (prepareState x cl s)"
  unfolding prepareState_def by (intro behaving)

lemma behaves_writePodStatus [behaving]: "behaves (writePodStatus x cl namespace name pods)"
  unfolding writePodStatus_def by (intro behaving)

lemma behaves_describe_one [behaving]: "behaves (describe_one x kind name fileName descr)"
  unfolding describe_one_def by (intro behaving)

lemma behaves_commit_log [behaving]: "behaves (commit_log x name cause)"
  unfolding commit_log_def by (intro behaving)

lemma behaves_logs [behaving]: "behaves (no_logs x fileName pod container previous err)" "behaves (copy_logs x fileName pod container log broken)"
  unfolding no_logs_def copy_logs_def by (intro behaving)+

lemma behaves_containerLogs [behaving]: "behaves (collectContainerLogs x cl namespace pod container fileName previous)"
  unfolding collectContainerLogs_def by (intro behaving)

lemma behaves_podLogs [behaving]: "behaves (collectOperatorLogs x cl namespace pod previous)" "behaves (collectPodLogs x cl namespace pod previous)"
  unfolding collectOperatorLogs_def collectPodLogs_def by (intro behaving)+

lemma behaves_namespace [behaving]:
  "behaves (gatherOperatorPod x cl s)" "behaves (gatherOperandPods x cl s)" "behaves (gatherPodDescriptions x cl s)"
  "behaves (gatherDaemonSets x cl s)" "behaves (gatherPodLogs x cl s)"
  unfolding gatherOperatorPod_def gatherOperandPods_def gatherPodDescriptions_def gatherDaemonSets_def gatherPodLogs_def
  by (intro behaving)+

subsection \<open>Driver pods\<close>

definition defaultContainerAnnotation :: string where "defaultContainerAnnotation = ''kubectl.kubernetes.io/default-container''"

definition execContainer :: "Pod \<Rightarrow> string" where
  "execContainer pod = (let named = sget (pod_Annotations pod) defaultContainerAnnotation;
       names = map c_Name (spec_Containers (pod_Spec pod)) in
     if named \<in> set names then named else case names of [] \<Rightarrow> [] | n # _ \<Rightarrow> n)"

definition pod_key :: "Pod \<Rightarrow> string" where
  "pod_key pod = pod_Namespace pod @ ''/'' @ pod_Name pod"

text \<open>The pods of one label that were not found under an earlier one.\<close>

fun new_targets :: "string \<Rightarrow> Pod list \<Rightarrow> string list \<Rightarrow> driverTarget list \<Rightarrow> string list \<times> driverTarget list" where
  "new_targets label [] seen found = (seen, found)"
| "new_targets label (pod # pods) seen found =
     (if pod_key pod \<in> set seen then new_targets label pods seen found
      else new_targets label pods (pod_key pod # seen) (found @ [\<lparr>dt_pod = pod, dt_label = label, dt_container = execContainer pod\<rparr>]))"

fun find_loop :: "setting \<Rightarrow> cluster \<Rightarrow> string \<Rightarrow> string list \<Rightarrow> string list \<Rightarrow> driverTarget list \<Rightarrow> Gatherer \<Rightarrow> (goerr + driverTarget list) \<times> Gatherer" where
  "find_loop x cl namespace [] seen found = Pair (Inr (sort_Slice (pod_Name \<circ> dt_pod) found))"
| "find_loop x cl namespace (label # labels) seen found = (case listPods cl namespace label of
       Inl e \<Rightarrow> bind_do (logged (x_fails x) (''Error getting pods for label '' @ label @ '': '') e) (\<lambda>e. Pair (Inl e))
     | Inr pods \<Rightarrow> (case new_targets label (podsOnNode (x_opts x) pods) seen found of
         (seen, found) \<Rightarrow> find_loop x cl namespace labels seen found))"

definition findDriverPods :: "setting \<Rightarrow> cluster \<Rightarrow> string \<Rightarrow> Gatherer \<Rightarrow> (goerr + driverTarget list) \<times> Gatherer" where
  "findDriverPods x cl namespace = find_loop x cl namespace DriverSelectors [] []"

definition prepareDriverPods :: "setting \<Rightarrow> cluster \<Rightarrow> gatherState \<Rightarrow> Gatherer \<Rightarrow> (goerr option \<times> gatherState) \<times> Gatherer" where
  "prepareDriverPods x cl s = (if gs_driverPods s \<noteq> None then Pair (None, s)
     else bind_do (prepareState x cl s) (\<lambda>(err, s). case err of Some e \<Rightarrow> Pair (Some e, s)
        | None \<Rightarrow> bind_do (findDriverPods x cl (gs_operatorNamespace s))
            (\<lambda>r. Pair (case r of Inl e \<Rightarrow> (Some e, s) | Inr pods \<Rightarrow> (None, s\<lparr>gs_driverPods := Some pods\<rparr>)))))"

text \<open>Why a pod cannot answer an exec, nothing when it can.\<close>

definition collectable :: "setting \<Rightarrow> Pod \<Rightarrow> string option" where
  "collectable x pod = (let node = spec_NodeName (pod_Spec pod) in
     if node = [] then Some ''not scheduled to a node''
     else if pod_Phase pod \<noteq> ''Running'' then Some (''pod is '' @ pod_Phase pod @ '', not Running'')
     else if \<not> usableInAName (x_subdomain x) (pod_Name pod) then Some (''pod name '' @ fmt_q (pod_Name pod) @ '' is not a usable name'')
     else if \<not> usableInAName (x_subdomain x) node then Some (''node name '' @ fmt_q node @ '' is not a usable name'')
     else None)"

text \<open>A refused upgrade carries the status as text only, and is recognised by the words RBAC uses.\<close>

definition forbiddenExec :: "goerr \<Rightarrow> bool" where
  "forbiddenExec e = (IsForbidden e \<or> (case errors_As is_status e of Some (ErrStatus _ code _) \<Rightarrow> code = 403 | _ \<Rightarrow> False)
     \<or> (let message = strings_ToLower (Error e) in strings_Contains message ''forbidden''
          \<and> list_ex (strings_Contains message) [''pods/exec'', ''cannot create resource'', ''is forbidden:'']))"

definition execFailure :: "setting \<Rightarrow> bool \<Rightarrow> string \<Rightarrow> Pod \<Rightarrow> goerr \<Rightarrow> goerr" where
  "execFailure x late what pod e = (if errors_Is e DeadlineExceeded \<or> late
     then ErrText (''timeout after '' @ x_duration x (execTimeout (x_opts x)) @ '': '' @ what @ '' from pod '' @ pod_Name pod)
     else ErrFmt (what @ '' from pod '' @ pod_Name pod @ '': '') (Some e))"

text \<open>
  One ledger of names per collector: the second pod of a node gets its own name as well. \<open>taken\<close> is
  what the names before used up.
\<close>

definition dest_name :: "string \<Rightarrow> string \<Rightarrow> Pod \<Rightarrow> string list \<Rightarrow> string" where
  "dest_name stem ext pod taken = (let plain = stem @ spec_NodeName (pod_Spec pod) @ ext in
     if plain \<in> set taken then stem @ spec_NodeName (pod_Spec pod) @ ''_'' @ pod_Name pod @ ext else plain)"

text \<open>What the loop over the driver pods keeps: errors, names used, whether an exec was refused, how many were collected, pods without the tool.\<close>

record tally =
  ty_errs :: "goerr list"
  ty_taken :: "string list"
  ty_denied :: bool
  ty_collected :: nat
  ty_withoutSMI :: "string list"

definition no_tally :: tally where
  "no_tally = \<lparr>ty_errs = [], ty_taken = [], ty_denied = False, ty_collected = 0, ty_withoutSMI = []\<rparr>"

definition add_err :: "goerr option \<Rightarrow> tally \<Rightarrow> tally" where
  "add_err err t = (case err of None \<Rightarrow> t | Some e \<Rightarrow> t\<lparr>ty_errs := ty_errs t @ [e]\<rparr>)"

text \<open>A bug report fetched to its destination: what it wrote to the logs, then the file it left.\<close>

definition fetchBugReport :: "setting \<Rightarrow> cluster \<Rightarrow> Pod \<Rightarrow> string \<Rightarrow> Gatherer \<Rightarrow> (goerr option \<times> bool) \<times> Gatherer" where
  "fetchBugReport x cl pod dest g = (let f = cl_fetch cl pod dest in ((ft_err f, ft_late f),
     on_dir (\<lambda>d. (case ft_file f of None \<Rightarrow> (\<lambda>d. d) | Some content \<Rightarrow> (\<lambda>d. mput d dest content))
       (append_file errLogName (ft_errLog f) (append_file logName (ft_log f) d))) g))"

definition bug_report_failed :: "setting \<Rightarrow> driverTarget \<Rightarrow> string \<Rightarrow> bool \<Rightarrow> goerr \<Rightarrow> tally \<Rightarrow> Gatherer \<Rightarrow> tally \<times> Gatherer" where
  "bug_report_failed x driver dest late e t =
     (let failure = execFailure x late (''collecting bug report (label '' @ dt_label driver @ '')'') (dt_pod driver) e in
      bind_do (log_line (x_fails x) errLogName (Error failure))
        (\<lambda>lerr g. ((add_err (Some (case lerr of None \<Rightarrow> failure | Some l \<Rightarrow> lost_log failure l)) t)
             \<lparr>ty_denied := ty_denied t \<or> forbiddenExec e\<rparr>, discardArtifact (x_fails x) dest g)))"

definition bug_report :: "setting \<Rightarrow> cluster \<Rightarrow> driverTarget \<Rightarrow> tally \<Rightarrow> Gatherer \<Rightarrow> tally \<times> Gatherer" where
  "bug_report x cl driver t = (let pod = dt_pod driver in case collectable x pod of
       Some why \<Rightarrow> bind_do (told (x_fails x) (''Skipping pod '' @ pod_Name pod @ '' (label '' @ dt_label driver @ ''): '' @ why)) (\<lambda>err. Pair (add_err err t))
     | None \<Rightarrow>
         let dest = dest_name ''nvidia-bug-report_'' ''.log.gz'' pod (ty_taken t); t = t\<lparr>ty_taken := dest # ty_taken t\<rparr> in
         bind_do (fetchBugReport x cl pod dest) (\<lambda>(err, late). case err of
             Some e \<Rightarrow> bug_report_failed x driver dest late e t
           | None \<Rightarrow> (\<lambda>g. (t\<lparr>ty_collected := ty_collected t + 1\<rparr>, recordArtifact (x_opts x) dest g))))"

fun each_driver :: "(driverTarget \<Rightarrow> tally \<Rightarrow> Gatherer \<Rightarrow> tally \<times> Gatherer) \<Rightarrow> driverTarget list \<Rightarrow> tally \<Rightarrow> Gatherer \<Rightarrow> tally \<times> Gatherer" where
  "each_driver f [] t = Pair t"
| "each_driver f (d # ds) t = bind_do (f d t) (each_driver f ds)"

text \<open>A refused exec is remembered apart, and skips the collector whatever else it got.\<close>

definition denied_run :: "string \<Rightarrow> tally \<Rightarrow> gatherState \<Rightarrow> outcome \<times> gatherState" where
  "denied_run name t s = (Skipped (''forbidden: '' @ err_text (errors_Join (ty_errs t))), s\<lparr>gs_execDenied := gs_execDenied s @ [name]\<rparr>)"

definition driver_pods :: "gatherState \<Rightarrow> driverTarget list" where
  "driver_pods s = (case gs_driverPods s of None \<Rightarrow> [] | Some ds \<Rightarrow> ds)"

definition gatherBugReportFromDaemonSet :: "setting \<Rightarrow> cluster \<Rightarrow> gatherState \<Rightarrow> Gatherer \<Rightarrow> (outcome \<times> gatherState) \<times> Gatherer" where
  "gatherBugReportFromDaemonSet x cl s = (if o_NoExec (x_opts x) then Pair (Skipped ''--no-exec'', s)
     else if driver_pods s = []
     then (\<lambda>g. ((Skipped ''no driver pods'', s),
        note_user (''no driver pods found (labels '' @ strings_Join DriverSelectors '', '' @ ''); skipping nvidia-bug-report'') g))
     else bind_do (each_driver (bug_report x cl) (driver_pods s) no_tally) (\<lambda>t. Pair
        (if ty_denied t then denied_run ''bug-report'' t s
         else if ty_collected t = 0 \<and> ty_errs t = [] then (Skipped ''no driver pod could be reached'', s)
         else (as_outcome (errors_Join (ty_errs t)), s))))"

subsection \<open>Device usage\<close>

text \<open>The commands run on a driver pod's node, as heading and command; the third is the list of processes.\<close>

definition host_sh :: "string \<Rightarrow> string" where
  "host_sh s = ''nsenter --target 1 --mount --pid -- sh -c '' @ [CHR 0x27] @ s @ [CHR 0x27]"

definition process_script :: string where
  "process_script = ''pids=$(lsof /run/nvidia/driver/dev/nvidia* 2>/dev/null | awk '' @ [CHR 0x22] @ ''NR>1 {print '' @ [CHR 0x5C] @ ''$2}'' @ [CHR 0x22] @ '' | sort -u); ''
     @ ''if [ -n '' @ [CHR 0x22] @ ''$pids'' @ [CHR 0x22] @ '' ]; then for pid in $pids; do echo '' @ [CHR 0x22] @ ''=== Process $pid ==='' @ [CHR 0x22] @ ''; ''
     @ ''ps -p $pid -o pid,ppid,user,stat,start,etime,pcpu,pmem,vsz,rss,args 2>&1 || echo '' @ [CHR 0x22] @ ''Process $pid not found'' @ [CHR 0x22] @ ''; ''
     @ ''echo '' @ [CHR 0x22, CHR 0x22] @ ''; done; else echo '' @ [CHR 0x22] @ ''No processes found using GPU devices'' @ [CHR 0x22] @ ''; fi''"

definition deviceUsageCommands :: "(string \<times> string) list" where
  "deviceUsageCommands =
     [(''nvidia-smi'', ''nvidia-smi''),
      (''lsof /run/nvidia/driver/dev/nvidia*'', host_sh ''lsof /run/nvidia/driver/dev/nvidia* 2>&1 || true''),
      (''process details for the PIDs using GPU devices'', host_sh process_script),
      (''fuser -v /run/nvidia/driver/dev/nvidia*'', host_sh ''fuser -v /run/nvidia/driver/dev/nvidia* 2>&1 || true''),
      (''ls -la /run/nvidia/driver/dev/nvidia*'', host_sh ''ls -la /run/nvidia/driver/dev/nvidia* 2>&1 || true'')]"

definition nvidiaSMIProbe :: string where "nvidiaSMIProbe = ''command -v nvidia-smi''"

text \<open>A command that fails is recorded in the file, and the others still run.\<close>

definition usage_section :: "setting \<Rightarrow> cluster \<Rightarrow> driverTarget \<Rightarrow> string \<times> string \<Rightarrow> string" where
  "usage_section x cl driver hc =
     (let (heading, command) = hc; pod = dt_pod driver; node = spec_NodeName (pod_Spec pod);
          (r, late) = cl_exec cl pod (dt_container driver) command;
          out = (case r of Inr s \<Rightarrow> s
            | Inl e \<Rightarrow> line (''Failed to run '' @ heading @ '' on '' @ node @ '': '' @ Error (execFailure x late heading pod e)))
      in line (''# '' @ heading @ '' output from '' @ node) @ line (strings_TrimRight out [CHR 0x0A]))"

definition writeDeviceUsage :: "setting \<Rightarrow> cluster \<Rightarrow> driverTarget \<Rightarrow> string \<Rightarrow> Gatherer \<Rightarrow> goerr option \<times> Gatherer" where
  "writeDeviceUsage x cl driver fileName = bind_do (createArtifact (x_fails x) fileName) (\<lambda>err. case err of
       Some e \<Rightarrow> failing (logError (x_fails x) (''error creating '' @ fileName) e)
     | None \<Rightarrow> bind_do (write_text (x_fails x) fileName (concat (map (usage_section x cl driver) deviceUsageCommands)))
         (\<lambda>werr. case werr of
            Some e \<Rightarrow> (\<lambda>g. (Some (ErrFmt (''writing '' @ fileName @ '': '') (Some e)), discard (x_fails x) fileName g))
          | None \<Rightarrow> commit_log x fileName None))"

definition probe_failed :: "setting \<Rightarrow> bool \<Rightarrow> Pod \<Rightarrow> goerr \<Rightarrow> tally \<Rightarrow> tally" where
  "probe_failed x late pod e t =
     (if forbiddenExec e then (add_err (Some (execFailure x late ''device usage'' pod e)) t)\<lparr>ty_denied := True\<rparr>
      else if errors_Is e DeadlineExceeded then add_err (Some (execFailure x late ''nvidia-smi probe'' pod e)) t
      else t\<lparr>ty_withoutSMI := ty_withoutSMI t @ [pod_Name pod]\<rparr>)"

definition device_usage :: "setting \<Rightarrow> cluster \<Rightarrow> driverTarget \<Rightarrow> tally \<Rightarrow> Gatherer \<Rightarrow> tally \<times> Gatherer" where
  "device_usage x cl driver t = (let pod = dt_pod driver in case collectable x pod of
       Some why \<Rightarrow> bind_do (told (x_fails x) (''Skipping device usage for pod '' @ pod_Name pod @ '': '' @ why)) (\<lambda>err. Pair (add_err err t))
     | None \<Rightarrow> (case cl_exec cl pod (dt_container driver) nvidiaSMIProbe of
         (Inl e, late) \<Rightarrow> Pair (probe_failed x late pod e t)
       | (Inr _, late) \<Rightarrow>
           let fileName = dest_name ''gpu_device_usage_'' ''.log'' pod (ty_taken t); t = t\<lparr>ty_taken := fileName # ty_taken t\<rparr> in
           bind_do (writeDeviceUsage x cl driver fileName) (\<lambda>err. Pair (case err of
               Some e \<Rightarrow> add_err (Some e) t | None \<Rightarrow> t\<lparr>ty_collected := ty_collected t + 1\<rparr>))))"

definition gatherDeviceUsage :: "setting \<Rightarrow> cluster \<Rightarrow> gatherState \<Rightarrow> Gatherer \<Rightarrow> (outcome \<times> gatherState) \<times> Gatherer" where
  "gatherDeviceUsage x cl s = (if o_NoExec (x_opts x) then Pair (Skipped ''--no-exec'', s)
     else if driver_pods s = [] then Pair (Skipped ''no driver pods'', s)
     else bind_do (each_driver (device_usage x cl) (driver_pods s) no_tally) (\<lambda>t. Pair
        (if ty_denied t then denied_run ''device-usage'' t s
         else if ty_collected t = 0 \<and> ty_withoutSMI t \<noteq> [] \<and> ty_errs t = []
         then (Skipped (''no nvidia-smi in '' @ strings_Join (ty_withoutSMI t) '', ''), s)
         else if ty_collected t = 0 \<and> ty_errs t = [] then (Skipped ''no driver pod could be reached'', s)
         else (as_outcome (errors_Join (ty_errs t)), s))))"

lemma behaves_find_loop [behaving]: "behaves (find_loop x cl namespace labels seen found)"
proof (induction labels arbitrary: seen found)
  case (Cons label labels)
  show ?case by (simp only: find_loop.simps) (intro behaving Cons.IH)
qed (simp add: behaving)

lemma behaves_prepareDriverPods [behaving]: "behaves (prepareDriverPods x cl s)"
  unfolding prepareDriverPods_def findDriverPods_def by (intro behaving)

lemma behaves_fetchBugReport [behaving]: "behaves (fetchBugReport x cl pod dest)"
  by (simp add: behaves_def fetchBugReport_def Let_def)

lemma behaves_recordArtifact [behaving]: "behaves (\<lambda>g. (y, recordArtifact opts name g))"
  by (simp add: behaves_def)

lemma behaves_bug_report [behaving]: "behaves (bug_report x cl driver t)"
  unfolding bug_report_def bug_report_failed_def Let_def by (intro behaving)

lemma behaves_writeDeviceUsage [behaving]: "behaves (writeDeviceUsage x cl driver fileName)"
  unfolding writeDeviceUsage_def by (intro behaving)

lemma behaves_device_usage [behaving]: "behaves (device_usage x cl driver t)"
  unfolding device_usage_def Let_def by (intro behaving)

lemma behaves_each_driver [behaving]:
  assumes "\<And>d t. behaves (f d t)"
  shows "behaves (each_driver f ds t)"
proof (induction ds arbitrary: t)
  case (Cons d ds)
  show ?case by (simp only: each_driver.simps) (intro behaving assms Cons.IH)
qed (simp add: behaving)

lemma behaves_driver_collectors [behaving]:
  "behaves (gatherBugReportFromDaemonSet x cl s)" "behaves (gatherDeviceUsage x cl s)"
  unfolding gatherBugReportFromDaemonSet_def gatherDeviceUsage_def by (intro behaving)+

end
