(* ===== verification/Gather_Registry.thy ===== *)
theory Gather_Registry
  imports Gather_Pods
begin

text \<open>
  The registry of collectors of \<^verbatim>\<open>pkg/mustgather/collector.go\<close>, in the order a gather runs them, as a
  model of the contract \<open>gather_registry\<close>; and what a whole gather guarantees: every collector runs
  and is recorded, a success means a complete bundle, the manifest is true of the directory, a failed
  redaction leaves no file, no report overwrites another, and the pods kept for the inventory answer
  as the cluster's own would.
\<close>

subsection \<open>The registry\<close>

definition placeholderNode :: string where "placeholderNode = ''<node>''"
definition placeholderPod :: string where "placeholderPod = ''<pod>''"
definition placeholderContainer :: string where "placeholderContainer = ''<container>''"
definition placeholderDaemonSet :: string where "placeholderDaemonSet = ''<daemonset>''"

definition collector :: "string \<Rightarrow> string \<Rightarrow> string list \<Rightarrow> run \<Rightarrow> Collector" where
  "collector name descr artifacts f = \<lparr>clt_Name = name, clt_Step = descr, clt_Artifacts = artifacts, clt_Run = f\<rparr>"

text \<open>A collector of the operator namespace, and one of the driver pods.\<close>

definition in_namespace :: "setting \<Rightarrow> cluster \<Rightarrow> (gatherState \<Rightarrow> Gatherer \<Rightarrow> goerr option \<times> Gatherer) \<Rightarrow> run" where
  "in_namespace x cl f = prepared_by (prepareState x cl) (\<lambda>s. with_state s (outcome_of (f s)))"

definition in_driver_pods :: "setting \<Rightarrow> cluster \<Rightarrow> (gatherState \<Rightarrow> Gatherer \<Rightarrow> (outcome \<times> gatherState) \<times> Gatherer) \<Rightarrow> run" where
  "in_driver_pods x cl f = prepared_by (prepareDriverPods x cl) f"

text \<open>\<open>cl name\<close> is the cluster the collector of that name finds.\<close>

definition Collectors :: "setting \<Rightarrow> (string \<Rightarrow> cluster) \<Rightarrow> Collector list" where
  "Collectors x cl =
    [collector ''openshift-version'' ''Gathering the OpenShift version'' [''openshift_version.yaml'']
       (stateless (gatherOpenShiftVersion x (cl ''openshift-version''))),
     collector ''nodes'' ''Gathering node information'' [''nodes.yaml'', ''machines.yaml'']
       (stateless (outcome_of (gatherNodeInfo x (cl ''nodes'')))),
     collector ''cluster-policy'' ''Gathering the ClusterPolicy'' [''cluster_policy.yaml'', ''cluster_policy.missing'']
       (stateless (outcome_of (gatherClusterPolicy x (cl ''cluster-policy'')))),
     collector ''nvidia-drivers'' ''Gathering the NVIDIADriver resources'' [''nvidia_driver.yaml'', ''nvidia_driver.missing'']
       (stateless (outcome_of (gatherNVIDIADrivers x (cl ''nvidia-drivers'')))),
     collector ''gpu-cluster'' ''Gathering the GPUCluster resources'' [''gpu_cluster.yaml'']
       (stateless (gatherGPUCluster x (cl ''gpu-cluster''))),
     collector ''hyperconverged'' ''Gathering the KubeVirt HyperConverged resources'' [''hyperconverged.yaml'']
       (stateless (gatherHyperConverged x (cl ''hyperconverged''))),
     collector ''kubevirt'' ''Gathering the KubeVirt resources'' [''kubevirt.yaml'']
       (stateless (gatherKubeVirt x (cl ''kubevirt''))),
     collector ''device-classes'' ''Gathering the DRA device classes'' [''deviceclasses.yaml'']
       (stateless (gatherDeviceClasses x (cl ''device-classes''))),
     collector ''resource-slices'' ''Gathering the DRA resource slices'' [''resourceslices.yaml'']
       (stateless (gatherResourceSlices x (cl ''resource-slices''))),
     collector ''gpu-nodes'' ''Gathering GPU node information'' [''gpu_nodes.yaml'', ''gpu_nodes.labels'', ''gpu_nodes.status'', ''gpu_nodes.descr'']
       (stateless (gatherGPUNodes x (cl ''gpu-nodes''))),
     collector ''compute-domains'' ''Gathering the ComputeDomains'' [computeDomainsFile, computeDomainsMissingFile]
       (stateless (outcome_of (gatherComputeDomains x (cl ''compute-domains'')))),
     collector ''gpu-pods'' ''Gathering the pods that request GPUs'' [gpuPodsFile]
       (stateless (outcome_of (gatherGPUPods x (cl ''gpu-pods'')))),
     collector ''node-events'' ''Gathering the events about nodes'' [nodeEventsFile]
       (stateless (outcome_of (gatherNodeEvents x (cl ''node-events'')))),
     collector ''operator-pod'' ''Gathering the GPU operator pod'' [''gpu_operator_pod.yaml'', ''gpu_operator_pod.status'']
       (in_namespace x (cl ''operator-pod'') (gatherOperatorPod x (cl ''operator-pod''))),
     collector ''operand-pods'' ''Gathering the operand pods'' [''gpu_operand_pods.yaml'', ''gpu_operand_pods.status'', ''gpu_operand_pod_images.txt'']
       (in_namespace x (cl ''operand-pods'') (gatherOperandPods x (cl ''operand-pods''))),
     collector ''pod-logs'' ''Gathering pod logs''
       [''gpu_operator_logs_'' @ placeholderContainer @ ''.log'', ''gpu_operator_logs_'' @ placeholderContainer @ ''.previous.log'',
        placeholderPod @ ''_'' @ placeholderContainer @ ''.log'', placeholderPod @ ''_'' @ placeholderContainer @ ''.previous.log'']
       (in_namespace x (cl ''pod-logs'') (gatherPodLogs x (cl ''pod-logs''))),
     collector ''pod-descriptions'' ''Describing the operand pods'' [placeholderPod @ ''.descr'']
       (in_namespace x (cl ''pod-descriptions'') (gatherPodDescriptions x (cl ''pod-descriptions''))),
     collector ''daemonsets'' ''Gathering the operand daemonsets''
       [''daemonsets.yaml'', ''gpu_operand_ds.status'', ''gpu_operand_ds_'' @ placeholderDaemonSet @ ''.descr'']
       (in_namespace x (cl ''daemonsets'') (gatherDaemonSets x (cl ''daemonsets''))),
     collector ''bug-report'' ''Gathering bug reports from the driver daemonsets'' [''nvidia-bug-report_'' @ placeholderNode @ ''.log.gz'']
       (in_driver_pods x (cl ''bug-report'') (gatherBugReportFromDaemonSet x (cl ''bug-report''))),
     collector ''device-usage'' ''Gathering GPU device usage'' [''gpu_device_usage_'' @ placeholderNode @ ''.log'']
       (in_driver_pods x (cl ''device-usage'') (gatherDeviceUsage x (cl ''device-usage'')))]"

lemma collector_sel [simp]:
  "clt_Run (collector name descr artifacts f) = f" "clt_Name (collector name descr artifacts f) = name"
  "clt_Step (collector name descr artifacts f) = descr" "clt_Artifacts (collector name descr artifacts f) = artifacts"
  by (simp_all add: collector_def)

definition run_ok :: "run \<Rightarrow> bool" where
  "run_ok r \<longleftrightarrow> (\<forall>s g. collects g (snd (snd (r (s, g)))))"

lemma run_ok_stateless: "behaves f \<Longrightarrow> run_ok (stateless f)"
  by (simp add: run_ok_def behaves_def stateless_def split_beta)

lemma run_ok_prepared_by:
  assumes "\<And>s. behaves (prepare s)" "\<And>s. behaves (f s)"
  shows "run_ok (prepared_by prepare f)"
proof -
  have "behaves (bind_do (prepare s) (\<lambda>(err, s). case err of Some e \<Rightarrow> Pair (Failed e, s) | None \<Rightarrow> f s))" for s
    by (intro behaving assms)
  then show ?thesis by (simp add: run_ok_def behaves_def prepared_by_def split_beta Let_def)
qed

lemma run_ok_in_namespace: "(\<And>s. behaves (f s)) \<Longrightarrow> run_ok (in_namespace x cl f)"
  unfolding in_namespace_def with_state_def by (intro run_ok_prepared_by behaving) simp

lemma run_ok_in_driver_pods: "(\<And>s. behaves (f s)) \<Longrightarrow> run_ok (in_driver_pods x cl f)"
  unfolding in_driver_pods_def by (intro run_ok_prepared_by behaving) simp

lemma Collectors_run_ok: "list_all (run_ok \<circ> clt_Run) (Collectors x cl)"
  unfolding Collectors_def
  by (simp only: list.pred_inject comp_apply collector_sel simp_thms)
    (intro conjI run_ok_stateless run_ok_in_namespace run_ok_in_driver_pods behaving)

interpretation registry: gather_registry "Collectors x cl" for x cl
proof
  show "collects g (snd (snd (clt_Run c (s, g))))" if "c \<in> set (Collectors x cl)" for c s g
    using Collectors_run_ok [of x cl] that by (auto simp: list_all_iff run_ok_def)
qed

definition collector_names :: "string list" where
  "collector_names = [''openshift-version'', ''nodes'', ''cluster-policy'', ''nvidia-drivers'', ''gpu-cluster'', ''hyperconverged'', ''kubevirt'',
     ''device-classes'', ''resource-slices'', ''gpu-nodes'', ''compute-domains'', ''gpu-pods'', ''node-events'', ''operator-pod'', ''operand-pods'',
     ''pod-logs'', ''pod-descriptions'', ''daemonsets'', ''bug-report'', ''device-usage'']"

lemma Collectors_names: "map clt_Name (Collectors x cl) = collector_names"
  by (simp add: Collectors_def collector_names_def)


definition sample_start :: Gatherer where
  "sample_start = \<lparr>g_dir = [], g_results = [], g_current = False, g_collected = False, g_allNodes = [], g_progress = [], g_redactor = None\<rparr>"

text \<open>A cluster that refuses every request, and the simplest renderers.\<close>

definition refusal :: goerr where "refusal = ErrStatus ''Forbidden'' 403 ''no''"

definition sample_cluster :: cluster where
  "sample_cluster = \<lparr>cl_openshift = None, cl_machines = Inl refusal, cl_nodes = (\<lambda>_. Refused refusal), cl_pods = (\<lambda>_ _ _. Refused refusal),
     cl_events = (\<lambda>_. Refused refusal), cl_slices = Refused refusal, cl_daemonsets = (\<lambda>_. Refused refusal), cl_custom = (\<lambda>_. Inl refusal),
     cl_noMatch = (\<lambda>_. False), cl_served = (\<lambda>_. Inl refusal), cl_convert = (\<lambda>_. None), cl_tableClient = None,
     cl_table = (\<lambda>_ _. Inl refusal), cl_describe = (\<lambda>_ _ _. Inl refusal), cl_logs = (\<lambda>_ _ _. Inl (Some refusal)),
     cl_exec = (\<lambda>_ _ _. (Inl refusal, False)),
     cl_fetch = (\<lambda>_ _. \<lparr>ft_err = Some refusal, ft_late = False, ft_file = None, ft_log = [], ft_errLog = []\<rparr>)\<rparr>"

definition sample_setting :: setting where
  "sample_setting = \<lparr>x_fails = no_faults, x_opts = sample_options, x_yaml_nodes = (\<lambda>_. Inr []), x_yaml_pods = (\<lambda>_. Inr []),
     x_yaml_events = (\<lambda>_. Inr []), x_yaml_slices = (\<lambda>_. Inr []), x_yaml_daemonsets = (\<lambda>_. Inr []), x_yaml_list = (\<lambda>_. Inr []),
     x_yaml_object = (\<lambda>_. Inr []), x_table_dec = (\<lambda>_. Inr []), x_table_print = (\<lambda>_. Inr []),
     x_words = \<lparr>w_tabs = id, w_human = (\<lambda>_. []), w_now = 0\<rparr>, x_duration = strconv_FormatInt, x_subdomain = (\<lambda>_. [])\<rparr>"


subsection \<open>The pods kept for the inventory\<close>

lemma projectGPUContainer_keeps [simp]:
  "c_Requests (projectGPUContainer c) = c_Requests c" "c_Limits (projectGPUContainer c) = c_Limits c"
  "c_RestartPolicy (projectGPUContainer c) = c_RestartPolicy c"
  by (simp_all add: projectGPUContainer_def)

lemma projectGPUPod_keeps [simp]:
  "pod_Name (projectGPUPod pod) = pod_Name pod" "pod_Namespace (projectGPUPod pod) = pod_Namespace pod"
  "pod_Labels (projectGPUPod pod) = pod_Labels pod" "pod_OwnerReferences (projectGPUPod pod) = pod_OwnerReferences pod"
  "pod_Phase (projectGPUPod pod) = pod_Phase pod" "spec_NodeName (pod_Spec (projectGPUPod pod)) = spec_NodeName (pod_Spec pod)"
  by (simp_all add: projectGPUPod_def)

lemma project_container [simp]:
  "gpuRequest (projectGPUContainer c) = gpuRequest c" "isRestartable (projectGPUContainer c) = isRestartable c"
  unfolding gpuRequest_def containerRequest_def isRestartable_def projectGPUContainer_keeps by (rule refl)+

lemma gpuRequest_project: "map gpuRequest (projectGPUContainers cs) = map gpuRequest cs"
  by (simp add: projectGPUContainers_def)

lemma init_loop_project: "init_loop (projectGPUContainers cs) sp = init_loop cs sp"
  by (induction cs sp rule: init_loop.induct) (simp_all add: projectGPUContainers_def)

lemma request_project [simp]: "podGPURequest (projectGPUPod pod) = podGPURequest pod"
  by (simp add: podGPURequest_def PodSpecGPURequest_def projectGPUPod_def gpuRequest_project init_loop_project)

lemma project_reads [simp]:
  "pod_node (projectGPUPod pod) = pod_node pod"
  "componentOf (projectGPUPod pod) = componentOf pod" "isOperand (projectGPUPod pod) ns = isOperand pod ns"
  unfolding pod_node_def componentOf_def isOperand_def draComponent_def controllerName_def projectGPUPod_keeps by (rule refl)+

lemma init_loop_peak: "snd sp \<le> snd (init_loop cs sp)"
  by (induction cs sp rule: init_loop.induct) (auto simp: Let_def)

lemma request_nonneg: "0 \<le> podGPURequest pod"
  using init_loop_peak [of "(0, 0)" "spec_InitContainers (pod_Spec pod)"]
  by (auto simp: podGPURequest_def PodSpecGPURequest_def Let_def split_beta)

lemma requestedByNode_kept:
  "requestedByNode_loop (map projectGPUPod (filter (\<lambda>p. PodSpecGPURequest (pod_Spec p) > 0) pods)) out = requestedByNode_loop pods out"
proof (induction pods arbitrary: out)
  case (Cons p pods)
  have "podGPURequest p = 0" if "\<not> PodSpecGPURequest (pod_Spec p) > 0" using request_nonneg [of p] that by (simp add: podGPURequest_def)
  then show ?case using Cons by (auto simp: Let_def)
qed simp

lemma requestedByNode_on_node:
  assumes "wantsNode opts n" "n \<noteq> []"
  shows "mget 0 (requestedByNode (podsOnNode opts pods)) n = mget 0 (requestedByNode pods) n"
proof (cases "o_Node opts = []")
  case False
  then have "n = o_Node opts" using assms(1) by (simp add: wantsNode_def)
  then show ?thesis using False assms(2)
    by (auto simp: requestedByNode_get podsOnNode_def pod_node_def filter_filter intro!: arg_cong [where f = wrap64] arg_cong [where f = sum_list] filter_cong)
qed (simp add: podsOnNode_def)

text \<open>
  C35 (bundle_counts_like_cluster). The GPU pods a gather keeps answer the inventory's question as the
  cluster's whole pod list would: the GPUs requested on every node the bundle is about are the same,
  although pods that ask for none are left out and the rest are cut down to a few fields; and what such
  a pod is taken for, its component and whether it is an operand, does not change either.
\<close>

theorem bundle_counts_like_cluster:
  assumes "wantsNode opts n" "n \<noteq> []"
  shows "mget 0 (requestedByNode (kept_gpu_pods opts pods)) n = mget 0 (requestedByNode pods) n
      \<and> componentOf (projectGPUPod p) = componentOf p \<and> isOperand (projectGPUPod p) ns = isOperand p ns"
  using requestedByNode_on_node [OF assms] requestedByNode_kept [where pods = "podsOnNode opts pods"]
  by (simp add: requestedByNode_def kept_gpu_pods_def)

definition sample_gpu_pod :: Pod where
  "sample_gpu_pod = \<lparr>pod_Name = ''p'', pod_Namespace = ''tenant'', pod_Labels = [], pod_OwnerReferences = [], pod_Spec = sample_spec,
     pod_Phase = ''Running'', pod_ContainerStatuses = [], pod_InitContainerStatuses = [], pod_UID = [], pod_Annotations = [],
     pod_CreationTimestamp = 0, pod_DeletionTimestamp = None, pod_Reason = [], pod_PodIP = [], pod_NominatedNodeName = [], pod_Conditions = []\<rparr>"

theorem bundle_counts_like_cluster_witness:
  "mget 0 (requestedByNode (kept_gpu_pods (sample_options\<lparr>o_Node := ''a''\<rparr>) [sample_gpu_pod])) ''a''
     = mget 0 (requestedByNode [sample_gpu_pod]) ''a''"
  using bundle_counts_like_cluster [where opts = "sample_options\<lparr>o_Node := ''a''\<rparr>" and n = "''a''" and pods = "[sample_gpu_pod]"]
  by (auto simp: wantsNode_def)

end
