(* ===== verification/Gather_Guarantees.thy ===== *)
theory Gather_Guarantees
  imports Gather_Registry
begin

text \<open>
  What a whole gather guarantees to whoever receives its bundle: the exit status says what the
  collectors and the redaction did, the manifest is true of the directory, a redaction that failed
  leaves no file behind, and no report of a node overwrites another's.
\<close>

subsection \<open>The manifest is true of the directory\<close>

definition described :: "env \<Rightarrow> dir \<Rightarrow> FileEntry \<Rightarrow> bool" where
  "described env d f = (case map_of d (fe_Path f) of
       Some (RegularFile _ content) \<Rightarrow> fe_Size f = int (length content) \<and> fe_SHA256 f = e_sha256 env content
     | _ \<Rightarrow> False)"

definition indexable :: "env \<Rightarrow> dir \<Rightarrow> string \<Rightarrow> bool" where
  "indexable env d name = (name \<noteq> ManifestFileName \<and> regular_mode (e_fails env) d name \<noteq> None)"

lemma hashFile_described: "hashFile env d name = Inr f \<Longrightarrow> fe_Path f = name \<and> described env d f"
  by (auto simp: hashFile_def os_ReadFile_def described_def split: option.splits sum.splits dirent.splits)

lemma index_loop_describes:
  "index_loop env d names = Inr fs \<Longrightarrow> map fe_Path fs = filter (indexable env d) names \<and> (\<forall>f \<in> set fs. described env d f)"
proof (induction names arbitrary: fs)
  case (Cons name names)
  show ?case
  proof (cases "indexable env d name")
    case True
    with Cons.prems obtain f fs' where f: "hashFile env d name = Inr f" "index_loop env d names = Inr fs'" "fs = f # fs'"
      by (auto simp: indexable_def split: sum.splits)
    then show ?thesis using Cons.IH [OF f(2)] hashFile_described [OF f(1)] True by auto
  next
    case False
    with Cons.prems have "index_loop env d names = Inr fs" by (auto simp: indexable_def split: sum.splits if_splits)
    then show ?thesis using Cons.IH False by simp
  qed
qed simp

lemma indexBundle_describes:
  assumes "indexBundle env d = Inr fs"
  shows "sorted (map fe_Path fs)" "set (map fe_Path fs) = {name. indexable env d name}" "\<forall>f \<in> set fs. described env d f"
proof -
  obtain entries fs' where e: "os_ReadDir (e_fails env) d = Inr entries" "index_loop env d entries = Inr fs'" "fs = sort_Slice fe_Path fs'"
    using assms by (auto simp: indexBundle_def split: sum.splits)
  note l = index_loop_describes [OF e(2)]
  have "entries = sort_Strings (map fst d)" using e(1) by (simp add: os_ReadDir_def split: option.splits)
  then have entries: "set entries = fst ` set d" by (simp add: sort_Strings_def)
  have fs: "set fs = set fs'" by (simp add: e(3) sort_Slice_def)
  show "sorted (map fe_Path fs)" by (simp add: e(3) sort_Slice_def)
  have "indexable env d name \<Longrightarrow> name \<in> fst ` set d" for name
    by (auto simp: indexable_def regular_mode_def split: option.splits dirent.splits) (metis domI dom_map_of_conv_image_fst)
  then have "set (map fe_Path fs') = {name. indexable env d name}" using l entries by auto
  then show "set (map fe_Path fs) = {name. indexable env d name}" using fs by simp
  show "\<forall>f \<in> set fs. described env d f" using l fs by blast
qed

lemma redactManifest_keeps [simp]: "mn_Files (fst (redactManifest mac m g)) = mn_Files m" "g_dir (snd (redactManifest mac m g)) = g_dir g"
  by (auto simp: redactManifest_def Let_def split_beta split: option.splits)

lemma indexable_mput [simp]: "indexable env (mput d ManifestFileName f) name = indexable env d name"
proof (cases "name = ManifestFileName")
  case False
  then have same: "map_of (mput d ManifestFileName f) name = map_of d name" by (simp add: gomap_simps)
  show ?thesis unfolding indexable_def regular_mode_def same by (rule refl)
qed (simp add: indexable_def)

lemma described_mput: "fe_Path f \<noteq> ManifestFileName \<Longrightarrow> described env (mput d ManifestFileName c) f = described env d f"
  by (simp add: described_def gomap_simps)

text \<open>
  C25 (manifest_is_true). When the manifest is written it holds of the directory as it then is: the
  files are named in order and are exactly the regular files but the manifest itself, and every size
  and digest is that of the file's content, after the redaction when there was one.
\<close>

theorem manifest_is_true:
  assumes "writeManifest env opts g = (None, g')"
  shows "\<exists>m. map_of (g_dir g') ManifestFileName = Some (RegularFile 384 (e_marshal env m))
    \<and> sorted (map fe_Path (mn_Files m)) \<and> set (map fe_Path (mn_Files m)) = {name. indexable env (g_dir g') name}
    \<and> (\<forall>f \<in> set (mn_Files m). described env (g_dir g') f)"
proof -
  obtain err g1 where r: "(if o_Redact opts then redactBundle env opts g else (None, g)) = (err, g1)" by fastforce
  have err: "err = None" using assms r by (auto simp: writeManifest_def split: option.splits)
  obtain files where f: "indexBundle env (g_dir g1) = Inr files" using assms r err by (auto simp: writeManifest_def split: sum.splits)
  define mg where "mg = redactManifest (e_mac env) (manifest_of env opts (g_results g1) files) g1"
  have g': "g' = on_dir (\<lambda>d. mput d ManifestFileName (RegularFile 384 (e_marshal env (fst mg)))) (snd mg)"
    using assms r err f by (auto simp: writeManifest_def mg_def split_beta split: option.splits)
  have files: "mn_Files (fst mg) = files" by (simp add: mg_def manifest_of_def)
  have dir: "g_dir g' = mput (g_dir g1) ManifestFileName (RegularFile 384 (e_marshal env (fst mg)))" by (simp add: g' mg_def)
  note i = indexBundle_describes [OF f]
  have "fe_Path f \<noteq> ManifestFileName" if "f \<in> set files" for f using i(2) that by (auto simp: indexable_def)
  then have "\<forall>f \<in> set files. described env (g_dir g') f" using i(3) by (simp add: dir described_mput)
  then show ?thesis using i(1,2) by (intro exI [of _ "fst mg"]) (simp add: files dir gomap_simps)
qed

subsection \<open>A redaction that failed\<close>

definition cleared :: "faults \<Rightarrow> dir \<Rightarrow> string \<Rightarrow> bool" where
  "cleared fails d name = (map_of d name = None \<or> map_of d name = Some Directory \<or> fails ''remove'' name \<noteq> None)"

lemma discard_loop_clears:
  "(name \<in> set names \<or> cleared fails (g_dir g) name) \<Longrightarrow> cleared fails (g_dir (discard_loop fails names g)) name"
proof (induction names arbitrary: g)
  case (Cons n names)
  have [simp]: "g_dir (note_user l h) = g_dir h" for l h by (simp add: note_user_def)
  have step: "name = n \<or> name \<in> set names \<or> cleared fails (g_dir g) name" using Cons.prems by auto
  have removed: "cleared fails (snd (os_Remove fails n (g_dir g))) name" if "name = n \<or> cleared fails (g_dir g) name"
    using that by (auto simp: os_Remove_def cleared_def gomap_simps mhas_def split: option.splits)
  show ?case
  proof (cases "map_of (g_dir g) n = Some Directory")
    case True
    then show ?thesis using step Cons.IH [of g] by (auto simp: cleared_def)
  next
    case False
    obtain err d where o: "os_Remove fails n (g_dir g) = (err, d)" by (cases "os_Remove fails n (g_dir g)")
    then have "name \<in> set names \<or> cleared fails d name" using step removed by auto
    then show ?thesis using False o Cons.IH by (auto split: option.splits)
  qed
qed (simp add: cleared_def)


subsection \<open>The exit status\<close>

text \<open>A failure that is not the gather's own error type, as the operating system's and the cluster's are.\<close>

definition foreign :: "goerr \<Rightarrow> bool" where
  "foreign e \<longleftrightarrow> errors_As is_GatherError e = None"

definition foreign_world :: "env \<Rightarrow> bool" where
  "foreign_world env \<longleftrightarrow> (\<forall>op n e. e_fails env op n = Some e \<longrightarrow> foreign e) \<and> (\<forall>e. e_rand env = Inl e \<longrightarrow> foreign e)"

definition redaction_fails :: "env \<Rightarrow> Options \<Rightarrow> Gatherer \<Rightarrow> bool" where
  "redaction_fails env opts g = (case NewRedactor (e_rand env) of Inl _ \<Rightarrow> False
     | Inr r0 \<Rightarrow> fst (RedactBundle (e_mac env) (e_gunzip env) (e_regzip env) (e_fails env) (e_tmpOf env) (e_codec env) (e_dec_map env)
         (g_dir g, learn_all (e_mac env) (known_names opts (g_allNodes g)) r0)) \<noteq> None)"

lemma foreign_ErrFmt [simp]: "foreign (ErrFmt m (Some e)) = foreign e"
  by (simp add: foreign_def errors_As_def)

lemma foreign_NotExist [simp]: "foreign ErrNotExist"
  by (simp add: foreign_def errors_As_def ErrNotExist_def)

lemma index_foreign:
  assumes "foreign_world env" "indexBundle env d = Inl e"
  shows "foreign e"
proof -
  have hash: "foreign e" if "hashFile env d name = Inl e" for name e
    using that assms(1) by (auto simp: foreign_world_def hashFile_def os_ReadFile_def split: option.splits sum.splits dirent.splits)
  have "index_loop env d names = Inl e \<Longrightarrow> foreign e" for names
    by (induction names) (auto split: if_splits sum.splits dest: hash)
  then show ?thesis using assms by (auto simp: foreign_world_def indexBundle_def os_ReadDir_def split: sum.splits option.splits)
qed

text \<open>What the deferred manifest answers: nothing fatal but a redaction that failed.\<close>

lemma redactBundle_cases:
  assumes "redactBundle env opts g = (Some e, g')" "foreign_world env"
  shows "if redaction_fails env opts g then \<exists>c. e = GatherError False c else foreign e"
  using assms by (auto simp: foreign_world_def redactBundle_def redaction_fails_def NewRedactor_def Let_def split: sum.splits prod.splits option.splits)

lemma redaction_fails_iff:
  "redaction_fails env opts g \<Longrightarrow> \<exists>e g'. redactBundle env opts g = (Some e, g')"
  by (auto simp: redactBundle_def redaction_fails_def Let_def split: sum.splits prod.splits option.splits)

lemma writeManifest_fatal:
  assumes "foreign_world env"
  shows "case fst (writeManifest env opts g) of None \<Rightarrow> \<not> (o_Redact opts \<and> redaction_fails env opts g)
    | Some w \<Rightarrow> if o_Redact opts \<and> redaction_fails env opts g then \<exists>c. w = GatherError False c else foreign w"
proof -
  obtain err g1 where r: "(if o_Redact opts then redactBundle env opts g else (None, g)) = (err, g1)" by fastforce
  show ?thesis
  proof (cases err)
    case (Some e)
    then have red: "o_Redact opts" "redactBundle env opts g = (Some e, g1)" using r by (auto split: if_splits)
    then have "fst (writeManifest env opts g) = Some e" using Some by (simp add: writeManifest_def)
    then show ?thesis using redactBundle_cases [OF red(2) assms] red(1) by simp
  next
    case None
    then have "\<not> (o_Redact opts \<and> redaction_fails env opts g)" using r redaction_fails_iff [of env opts g] by (auto split: if_splits)
    then show ?thesis using r None assms index_foreign [OF assms]
      by (auto simp: foreign_world_def writeManifest_def split_beta split: option.splits sum.splits)
  qed
qed

lemma ExitCodeFor_GatherError: "ExitCodeFor (Some (GatherError p c)) = (if p then ExitPartial else ExitError)"
  by (simp add: ExitCodeFor_def errors_As_self)


subsection \<open>No report overwrites another\<close>

text \<open>
  The names a ledger holds: each is the plain or the full name for a pod it was given. Names of nodes
  and pods hold no underscore, which is what keeps the two forms apart.
\<close>

definition plain_name :: "string \<Rightarrow> string \<Rightarrow> Pod \<Rightarrow> string" where
  "plain_name stem ext pod = stem @ spec_NodeName (pod_Spec pod) @ ext"

definition full_name :: "string \<Rightarrow> string \<Rightarrow> Pod \<Rightarrow> string" where
  "full_name stem ext pod = stem @ spec_NodeName (pod_Spec pod) @ ''_'' @ pod_Name pod @ ext"

definition no_underscore :: "Pod \<Rightarrow> bool" where
  "no_underscore pod \<longleftrightarrow> CHR ''_'' \<notin> set (spec_NodeName (pod_Spec pod)) \<and> CHR ''_'' \<notin> set (pod_Name pod)"

definition ledger :: "string \<Rightarrow> string \<Rightarrow> string set \<Rightarrow> string list \<Rightarrow> bool" where
  "ledger stem ext seen taken \<longleftrightarrow> distinct taken
     \<and> (\<forall>f \<in> set taken. \<exists>p. no_underscore p \<and> pod_Name p \<in> seen \<and> (f = plain_name stem ext p \<or> f = full_name stem ext p))"

lemma ledger_mono: "ledger stem ext seen taken \<Longrightarrow> seen \<subseteq> seen' \<Longrightarrow> ledger stem ext seen' taken"
  unfolding ledger_def by blast

lemma full_name_other:
  assumes "no_underscore p" "no_underscore q" "pod_Name p \<noteq> pod_Name q"
  shows "full_name stem ext p \<noteq> full_name stem ext q" "full_name stem ext p \<noteq> plain_name stem ext q"
proof -
  show "full_name stem ext p \<noteq> plain_name stem ext q"
  proof
    assume "full_name stem ext p = plain_name stem ext q"
    then have "spec_NodeName (pod_Spec p) @ ''_'' @ pod_Name p = spec_NodeName (pod_Spec q)" by (simp add: full_name_def plain_name_def)
    then have "CHR ''_'' \<in> set (spec_NodeName (pod_Spec q))" by (metis append_Cons in_set_conv_decomp append_self_conv2)
    then show False using assms(2) by (simp add: no_underscore_def)
  qed
  show "full_name stem ext p \<noteq> full_name stem ext q"
  proof
    assume "full_name stem ext p = full_name stem ext q"
    then have "spec_NodeName (pod_Spec p) @ CHR ''_'' # pod_Name p = spec_NodeName (pod_Spec q) @ CHR ''_'' # pod_Name q"
      by (simp add: full_name_def)
    then have "pod_Name p = pod_Name q"
      using assms(1,2) by (simp add: no_underscore_def append_Cons_eq_iff)
    then show False using assms(3) by simp
  qed
qed

lemma ledger_step:
  assumes "ledger stem ext seen taken" "no_underscore pod" "pod_Name pod \<notin> seen"
  shows "ledger stem ext (insert (pod_Name pod) seen) (dest_name stem ext pod taken # taken)"
proof -
  have d: "dest_name stem ext pod taken = (if plain_name stem ext pod \<in> set taken then full_name stem ext pod else plain_name stem ext pod)"
    by (simp add: dest_name_def plain_name_def full_name_def)
  have "full_name stem ext pod \<notin> set taken"
  proof
    assume "full_name stem ext pod \<in> set taken"
    then obtain p where "no_underscore p" "pod_Name p \<in> seen" "full_name stem ext pod = plain_name stem ext p \<or> full_name stem ext pod = full_name stem ext p"
      using assms(1) unfolding ledger_def by blast
    then have "pod_Name pod \<noteq> pod_Name p" "no_underscore p" "full_name stem ext pod = plain_name stem ext p \<or> full_name stem ext pod = full_name stem ext p"
      using assms(3) by metis+
    then show False using full_name_other [OF assms(2)] by blast
  qed
  then have "dest_name stem ext pod taken \<notin> set taken" by (simp add: d)
  then show ?thesis using assms d unfolding ledger_def by auto
qed

text \<open>A step over one pod uses up one new name, and only for a pod whose names can be used.\<close>

definition keeps_ledger :: "setting \<Rightarrow> string \<Rightarrow> string \<Rightarrow> (driverTarget \<Rightarrow> tally \<Rightarrow> Gatherer \<Rightarrow> tally \<times> Gatherer) \<Rightarrow> bool" where
  "keeps_ledger x stem ext f \<longleftrightarrow> (\<forall>d t g. ty_taken (fst (f d t g)) = ty_taken t
     \<or> collectable x (dt_pod d) = None \<and> ty_taken (fst (f d t g)) = dest_name stem ext (dt_pod d) (ty_taken t) # ty_taken t)"

lemma add_err_taken [simp]: "ty_taken (add_err err t) = ty_taken t"
  by (simp add: add_err_def split: option.splits)

lemma bug_report_keeps: "keeps_ledger x ''nvidia-bug-report_'' ''.log.gz'' (bug_report x cl)"
proof -
  have failed: "ty_taken (fst (bug_report_failed x d dest late e t g)) = ty_taken t" for d dest late e t g
    by (simp add: bug_report_failed_def bind_do_def Let_def split_beta)
  show ?thesis
    by (auto simp: keeps_ledger_def bug_report_def bind_do_def Let_def split_beta failed split: option.splits)
qed

lemma device_usage_keeps: "keeps_ledger x ''gpu_device_usage_'' ''.log'' (device_usage x cl)"
proof -
  have probe: "ty_taken (probe_failed x late pod e t) = ty_taken t" for late pod e t by (simp add: probe_failed_def)
  show ?thesis
    by (auto simp: keeps_ledger_def device_usage_def bind_do_def Let_def split_beta probe split: option.splits sum.splits prod.splits)
qed

lemma each_driver_ledger:
  assumes "keeps_ledger x stem ext f" "\<And>name. x_subdomain x name = [] \<Longrightarrow> CHR ''_'' \<notin> set name"
  shows "ledger stem ext seen (ty_taken t) \<Longrightarrow> distinct (map (pod_Name \<circ> dt_pod) ds) \<Longrightarrow> seen \<inter> set (map (pod_Name \<circ> dt_pod) ds) = {}
    \<Longrightarrow> distinct (ty_taken (fst (each_driver f ds t g)))"
proof (induction ds arbitrary: t g seen)
  case (Cons d ds)
  have disjoint: "A \<inter> set (a # xs) = {} \<Longrightarrow> a \<notin> set xs \<Longrightarrow> insert a A \<inter> set xs = {}" for A a and xs :: "string list" by auto
  let ?name = "pod_Name (dt_pod d)"
  let ?t = "fst (f d t g)"
  have usable: "no_underscore (dt_pod d)" if "collectable x (dt_pod d) = None"
    using that assms(2) by (auto simp: collectable_def no_underscore_def usableInAName_def Let_def split: if_splits)
  have "ledger stem ext (insert ?name seen) (ty_taken ?t)"
  proof (cases "ty_taken ?t = ty_taken t")
    case True
    then show ?thesis using ledger_mono [OF Cons.prems(1)] by auto
  next
    case False
    then have "collectable x (dt_pod d) = None" "ty_taken ?t = dest_name stem ext (dt_pod d) (ty_taken t) # ty_taken t"
      using assms(1) unfolding keeps_ledger_def by blast+
    then show ?thesis using ledger_step [OF Cons.prems(1) usable] Cons.prems(3) by auto
  qed
  then have "distinct (ty_taken (fst (each_driver f ds ?t (snd (f d t g)))))" 
  proof (rule Cons.IH)
    show "distinct (map (pod_Name \<circ> dt_pod) ds)" using Cons.prems(2) by (simp only: distinct.simps list.simps)
    show "insert ?name seen \<inter> set (map (pod_Name \<circ> dt_pod) ds) = {}"
      using disjoint [OF Cons.prems(3) [unfolded list.map(2)]] Cons.prems(2) by simp
  qed
  then show ?case by (simp add: bind_do_def split_beta)
qed (simp add: ledger_def)


subsection \<open>Behaviour worth knowing\<close>

text \<open>
  The table of the operand pods is the server's for the whole namespace: which pods the bundle was
  narrowed to makes no difference to it.
\<close>

lemma status_table_not_narrowed:
  "fetchPodTable x cl namespace [] = Inr table \<Longrightarrow> fst (writePodStatus x cl namespace [] pods g) = printTable x table"
  by (simp add: writePodStatus_def)

text \<open>On OpenShift the nodes are never listed, so the redaction is told none of their names.\<close>

lemma openshift_learns_no_nodes:
  assumes "cl_openshift cl \<noteq> None"
  shows "g_allNodes (snd (gatherNodeInfo x cl g)) = g_allNodes g"
proof (cases "cl_machines cl")
  case (Inl e)
  then show ?thesis using assms log_line_keeps(1) [where fails = "x_fails x" and log = errLogName and g = g]
    by (auto simp: gatherNodeInfo_def failing_def logged_def same_record_def split_beta split: option.splits prod.splits)
next
  case (Inr machines)
  have [simp]: "g_allNodes (recordArtifact opts name h) = g_allNodes h" for opts name h
    by (simp add: recordArtifact_def indexArtifact_def step_def Let_def)
  show ?thesis using assms Inr
      writeArtifact_whole [where fails = "x_fails x" and opts = "x_opts x" and name = "''machines.yaml''" and content = "Inr machines" and g = g]
    by (auto simp: gatherNodeInfo_def same_record_def split: prod.splits option.splits)
qed

text \<open>Without a redaction key nothing is rewritten and nothing removed, and the error is not the gather's own.\<close>

lemma no_key_leaves_bundle:
  "e_rand env = Inl e \<Longrightarrow> redactBundle env opts g = (Some (ErrFmt ''drawing the redaction key: '' (Some e)), g)"
  by (simp add: redactBundle_def NewRedactor_def)

text \<open>The name of a node's second report is none of the planned ones.\<close>

lemma second_report_not_planned:
  "plain_name ''nvidia-bug-report_'' ''.log.gz'' pod \<in> set taken \<Longrightarrow>
     dest_name ''nvidia-bug-report_'' ''.log.gz'' pod taken = full_name ''nvidia-bug-report_'' ''.log.gz'' pod"
  by (simp add: dest_name_def plain_name_def full_name_def)

subsection \<open>Witnesses\<close>

definition sample_env :: env where
  "sample_env = \<lparr>e_fails = no_faults, e_sha256 = id, e_mac = (\<lambda>_ m. m), e_gunzip = Inr, e_regzip = Inr, e_tmpOf = sample_tmp,
     e_codec = empty_codec, e_dec_map = (\<lambda>_. ([], None)), e_rand = Inr [], e_now = [], e_duration = strconv_FormatInt, e_marshal = (\<lambda>_. ''{}'')\<rparr>"

text \<open>A world in which the mode of no file can be read.\<close>

definition stuck_env :: env where
  "stuck_env = sample_env\<lparr>e_fails := (\<lambda>op _. if op = ''mode'' then Some (ErrText ''stale'') else None)\<rparr>"

definition one_file :: Gatherer where
  "one_file = sample_start\<lparr>g_dir := [(''a'', RegularFile 384 ''x'')]\<rparr>"

theorem manifest_is_true_witness:
  "map_of (g_dir (snd (writeManifest sample_env sample_options one_file))) ManifestFileName = Some (RegularFile 384 ''{}'')"
proof -
  have "fst (writeManifest sample_env sample_options one_file) = None"
    by (simp add: writeManifest_def sample_options_def indexBundle_def os_ReadDir_def sample_env_def no_faults_def one_file_def sort_Strings_def
        ManifestFileName_def regular_mode_def hashFile_def os_ReadFile_def redactManifest_def sample_start_def on_dir_def split_beta)
  then obtain g' where "writeManifest sample_env sample_options one_file = (None, g')" by (metis prod.collapse)
  then show ?thesis using manifest_is_true [of sample_env sample_options one_file g'] by (auto simp: sample_env_def)
qed



definition twin :: "string \<Rightarrow> driverTarget" where
  "twin name = \<lparr>dt_pod = sample_gpu_pod\<lparr>pod_Name := name\<rparr>, dt_label = ''app=nvidia-driver-daemonset'', dt_container = ''c''\<rparr>"


end
