(* ===== verification/Node_Commands.thy ===== *)
theory Node_Commands
  imports Health_Command
begin

text \<open>
  The commands that print the inventory: \<^verbatim>\<open>pkg/cmd/list/list.go\<close>, \<^verbatim>\<open>pkg/cmd/info/info.go\<close> and
  \<^verbatim>\<open>pkg/cmd/info/describe.go\<close>, with the node and the node list as kinds of the output contract
  (\<^verbatim>\<open>pkg/inventory/types.go\<close>). How the Kubernetes types inside a node marshal is a parameter.
\<close>

subsection \<open>The node as a kind\<close>

definition KindGPUNode :: string where "KindGPUNode = ''GPUNode''"
definition KindGPUNodeList :: string where "KindGPUNodeList = ''GPUNodeList''"

definition Time_decl :: struct_decl where
  "Time_decl = \<lparr>sd_Fields = [], sd_scalar = True\<rparr>"

definition ListMeta_decl :: struct_decl where
  "ListMeta_decl = object [own_field ''SelfLink'' ''selfLink,omitempty'' GScalar, own_field ''ResourceVersion'' ''resourceVersion,omitempty'' GScalar,
     own_field ''Continue'' ''continue,omitempty'' GScalar, own_field ''RemainingItemCount'' ''remainingItemCount,omitempty'' (GPointer GScalar)]"

definition Taint_decl :: struct_decl where
  "Taint_decl = object [own_field ''Key'' ''key'' GScalar, own_field ''Value'' ''value,omitempty'' GScalar,
     own_field ''Effect'' ''effect'' GScalar, own_field ''TimeAdded'' ''timeAdded,omitempty'' (GPointer (GStruct ''Time''))]"

definition NodeCondition_decl :: struct_decl where
  "NodeCondition_decl = object [own_field ''Type'' ''type'' GScalar, own_field ''Status'' ''status'' GScalar,
     own_field ''LastHeartbeatTime'' ''lastHeartbeatTime,omitempty'' (GStruct ''Time''),
     own_field ''LastTransitionTime'' ''lastTransitionTime,omitempty'' (GStruct ''Time''),
     own_field ''Reason'' ''reason,omitempty'' GScalar, own_field ''Message'' ''message,omitempty'' GScalar]"

definition MIG_decl :: struct_decl where
  "MIG_decl = object [own_field ''Strategy'' ''strategy'' GScalar, own_field ''Config'' ''config'' GScalar,
     own_field ''ConfigState'' ''configState'' GScalar, own_field ''Capable'' ''capable'' GScalar, own_field ''Resources'' ''resources'' GMap]"

definition Sharing_decl :: struct_decl where
  "Sharing_decl = object [own_field ''Strategy'' ''strategy'' GScalar, own_field ''Replicas'' ''replicas'' GScalar]"

definition Termination_decl :: struct_decl where
  "Termination_decl = object [own_field ''Observed'' ''observed'' GScalar, own_field ''ExitCode'' ''exitCode'' GScalar,
     own_field ''Reason'' ''reason'' GScalar, own_field ''FinishedAt'' ''finishedAt'' GScalar]"

definition InitResult_decl :: struct_decl where
  "InitResult_decl = object [own_field ''Name'' ''name'' GScalar, own_field ''ExitCode'' ''exitCode,omitempty'' (GPointer GScalar),
     own_field ''Reason'' ''reason'' GScalar, own_field ''LastTermination'' ''lastTermination'' (GStruct ''Termination'')]"

definition OperandPod_decl :: struct_decl where
  "OperandPod_decl = object [own_field ''Name'' ''name'' GScalar, own_field ''Namespace'' ''namespace'' GScalar,
     own_field ''Component'' ''component'' GScalar, own_field ''Phase'' ''phase'' GScalar, own_field ''Restarts'' ''restarts'' GScalar,
     own_field ''Images'' ''images'' (GSlice GScalar), own_field ''Ready'' ''ready'' GScalar,
     own_field ''LastTermination'' ''lastTermination'' (GStruct ''Termination''),
     own_field ''InitContainers'' ''initContainers'' (GSlice (GStruct ''InitResult''))]"

definition GPUNode_decl :: struct_decl where
  "GPUNode_decl = object [embedded ''TypeMeta'' '',inline'' (GStruct ''TypeMeta''), embedded ''ObjectMeta'' ''metadata,omitzero'' (GStruct objectMeta),
     own_field ''Product'' ''product'' GScalar, own_field ''Count'' ''count'' GScalar, own_field ''Capacity'' ''capacity'' GScalar,
     own_field ''Allocatable'' ''allocatable'' GScalar, own_field ''Requested'' ''requested'' GScalar,
     own_field ''RequestedKnown'' ''requestedKnown'' GScalar, own_field ''DriverVersion'' ''driverVersion'' GScalar,
     own_field ''CUDAVersion'' ''cudaVersion'' GScalar, own_field ''Mode'' ''mode'' GScalar, own_field ''MIG'' ''mig'' (GStruct ''MIG''),
     own_field ''Sharing'' ''sharing'' (GStruct ''Sharing''), own_field ''UpgradeState'' ''upgradeState'' GScalar,
     own_field ''Deploy'' ''deploy'' GMap, own_field ''Clique'' ''clique'' GScalar, own_field ''Topology'' ''topology'' GMap,
     own_field ''Ready'' ''ready'' GScalar, own_field ''Unschedulable'' ''unschedulable'' GScalar,
     own_field ''Taints'' ''taints'' (GSlice (GStruct ''Taint'')), own_field ''Conditions'' ''conditions'' (GSlice (GStruct ''NodeCondition'')),
     own_field ''Operands'' ''operands'' (GSlice (GStruct ''OperandPod'')), own_field ''ResourceSlices'' ''resourceSlices'' (GSlice GScalar),
     own_field ''Hinted'' ''hinted'' GScalar]"

definition GPUNodeList_decl :: struct_decl where
  "GPUNodeList_decl = object [embedded ''TypeMeta'' '',inline'' (GStruct ''TypeMeta''), embedded ''ListMeta'' ''metadata,omitzero'' (GStruct ''ListMeta''),
     own_field ''Items'' ''items'' (GSlice (GStruct ''GPUNode''))]"

definition node_decls :: decls where
  "node_decls = [(''TypeMeta'', TypeMeta_decl), (''ListMeta'', ListMeta_decl), (''Time'', Time_decl), (''Taint'', Taint_decl),
     (''NodeCondition'', NodeCondition_decl), (''MIG'', MIG_decl), (''Sharing'', Sharing_decl), (''Termination'', Termination_decl),
     (''InitResult'', InitResult_decl), (''OperandPod'', OperandPod_decl), (''GPUNode'', GPUNode_decl), (''GPUNodeList'', GPUNodeList_decl)]"

text \<open>The library's encodings of its own types: the metadata of a node, a taint, a condition, and a taint as text.\<close>

record encoders =
  en_ObjectMeta :: "GPUNode \<Rightarrow> json gomap"
  en_Taint :: "Taint \<Rightarrow> json"
  en_Condition :: "NodeCondition \<Rightarrow> json"
  en_TaintText :: "Taint \<Rightarrow> string"

definition omitzero :: "string \<Rightarrow> json gomap \<Rightarrow> json gomap" where
  "omitzero key m = (if m = [] then [] else [(key, JMap m)])"

definition jmap_strings :: "string gomap \<Rightarrow> json" where
  "jmap_strings m = JMap (map (\<lambda>(k, v). (k, JString v)) m)"

definition MIG_MarshalJSON :: "MIG \<Rightarrow> json" where
  "MIG_MarshalJSON m = JMap [(''strategy'', JString (mig_Strategy m)), (''config'', JString (mig_Config m)),
     (''configState'', JString (mig_ConfigState m)), (''capable'', JBool (mig_Capable m)),
     (''resources'', JMap (map (\<lambda>(k, c). (k, JMap [(''capacity'', JInt (rc_Capacity c)), (''allocatable'', JInt (rc_Allocatable c))])) (mig_Resources m)))]"

definition Termination_json :: "Termination \<Rightarrow> json" where
  "Termination_json t = JMap [(''observed'', JBool (t_Observed t)), (''exitCode'', JInt (t_ExitCode t)),
     (''reason'', JString (t_Reason t)), (''finishedAt'', JString (t_FinishedAt t))]"

definition InitResult_json :: "InitResult \<Rightarrow> json" where
  "InitResult_json r = JMap ([(''name'', JString (ir_Name r))]
     @ (case ir_ExitCode r of None \<Rightarrow> [] | Some c \<Rightarrow> [(''exitCode'', JInt c)])
     @ [(''reason'', JString (ir_Reason r)), (''lastTermination'', Termination_json (ir_LastTermination r))])"

definition OperandPod_MarshalJSON :: "OperandPod \<Rightarrow> json" where
  "OperandPod_MarshalJSON p = JMap [(''name'', JString (op_Name p)), (''namespace'', JString (op_Namespace p)),
     (''component'', JString (op_Component p)), (''phase'', JString (op_Phase p)), (''restarts'', JInt (op_Restarts p)),
     (''images'', jstrings (op_Images p)), (''ready'', JBool (op_Ready p)), (''lastTermination'', Termination_json (op_LastTermination p)),
     (''initContainers'', JList (map InitResult_json (op_InitContainers p)))]"

definition GPUNode_MarshalJSON :: "encoders \<Rightarrow> GPUNode \<Rightarrow> json gomap" where
  "GPUNode_MarshalJSON en n = TypeMetaFor KindGPUNode @ omitzero ''metadata'' (en_ObjectMeta en n)
     @ [(''product'', JString (g_Product n)), (''count'', JInt (g_Count n)), (''capacity'', JInt (g_Capacity n)),
        (''allocatable'', JInt (g_Allocatable n)), (''requested'', JInt (g_Requested n)), (''requestedKnown'', JBool (g_RequestedKnown n)),
        (''driverVersion'', JString (g_DriverVersion n)), (''cudaVersion'', JString (g_CUDAVersion n)), (''mode'', JString (g_Mode n)),
        (''mig'', MIG_MarshalJSON (g_MIG n)),
        (''sharing'', JMap [(''strategy'', JString (sh_Strategy (g_Sharing n))), (''replicas'', JInt (sh_Replicas (g_Sharing n)))]),
        (''upgradeState'', JString (g_UpgradeState n)), (''deploy'', jmap_strings (g_Deploy n)), (''clique'', JString (g_Clique n)),
        (''topology'', jmap_strings (g_Topology n)), (''ready'', JBool (g_Ready n)), (''unschedulable'', JBool (g_Unschedulable n)),
        (''taints'', JList (map (en_Taint en) (g_Taints n))), (''conditions'', JList (map (en_Condition en) (g_Conditions n))),
        (''operands'', JList (map OperandPod_MarshalJSON (g_Operands n))), (''resourceSlices'', jstrings (g_ResourceSlices n)),
        (''hinted'', JBool (g_Hinted n))]"

text \<open>A list with the remainder its metadata records, once a limit has cut it.\<close>

type_synonym limited_list = "GPUNodeList \<times> int option"

definition GPUNodeList_MarshalJSON :: "encoders \<Rightarrow> limited_list \<Rightarrow> json gomap" where
  "GPUNodeList_MarshalJSON en l = TypeMetaFor KindGPUNodeList
     @ omitzero ''metadata'' (case snd l of None \<Rightarrow> [] | Some n \<Rightarrow> [(''remainingItemCount'', JInt n)])
     @ [(''items'', JList (map (\<lambda>n. JMap (GPUNode_MarshalJSON en n)) (fst l)))]"

definition node_kind :: "encoders \<Rightarrow> GPUNode kind" where
  "node_kind en = \<lparr>k_Kind = KindGPUNode, k_GoType = ''*inventory.GPUNode'', k_Table = Some (GPUNode_TableColumns, GPUNode_TableRows),
     k_document = GPUNode_MarshalJSON en, k_limiting = NotAList, k_decls = node_decls, k_type = GPointer (GStruct ''GPUNode''),
     k_items = (\<lambda>_. None), k_name = g_Name\<rparr>"

definition node_list_kind :: "encoders \<Rightarrow> limited_list kind" where
  "node_list_kind en = \<lparr>k_Kind = KindGPUNodeList, k_GoType = ''*inventory.GPUNodeList'',
     k_Table = Some (\<lambda>l. GPUNodeList_TableColumns (fst l), \<lambda>l. GPUNodeList_TableRows (fst l)),
     k_document = GPUNodeList_MarshalJSON en,
     k_limiting = ListOf (\<lambda>l. length (fst l)) (\<lambda>n remaining l. (take n (fst l), Some remaining)),
     k_decls = node_decls, k_type = GPointer (GStruct ''GPUNodeList''),
     k_items = (\<lambda>l. Some (map (\<lambda>n. (KindGPUNode, g_Name n)) (fst l))), k_name = (\<lambda>_. [])\<rparr>"

subsection \<open>The list command\<close>

record list_options =
  lo_selector :: string
  lo_node :: string
  lo_noPods :: bool
  lo_includeHinted :: bool
  lo_out :: OutputOptions

definition list_build_options :: "list_options \<Rightarrow> BuildOptions" where
  "list_build_options opts = \<lparr>bo_Node = lo_node opts, bo_Selector = lo_selector opts, bo_NoPods = lo_noPods opts,
     bo_IncludeHinted = lo_includeHinted opts, bo_WithDetails = False\<rparr>"

definition hinted_note :: "int \<Rightarrow> string list" where
  "hinted_note hinted = (if hinted > 0
     then [strconv_FormatInt hinted @ '' node(s) carry an NVIDIA label but advertise no GPUs; pass --include-hinted to list them''] else [])"

text \<open>What reaches the output stream, the lines logged, and the error.\<close>

definition list_run :: "encoders \<Rightarrow> selector_parser \<Rightarrow> (printed \<Rightarrow> goerr option) \<Rightarrow> goerr + 's Source \<Rightarrow> list_options \<Rightarrow> 's
    \<Rightarrow> printed option \<times> string list \<times> goerr option" where
  "list_run en parse write newSource opts s =
     (case OutputOptions_Validate (lo_out opts) (node_list_kind en) of Some e \<Rightarrow> (None, [], Some e)
      | None \<Rightarrow> (case newSource of Inl e \<Rightarrow> (None, [], Some e)
        | Inr src \<Rightarrow>
            let ((built, hinted, buildErr), s) = BuildWithHinted parse src (list_build_options opts) s
            in case built of None \<Rightarrow> (None, [], buildErr)
              | Some items \<Rightarrow> (case fst (PrintBounded (lo_out opts) (node_list_kind en) (items, None)) of
                  Inl e \<Rightarrow> (None, [], Some (ErrFmt ''printing the GPU nodes: '' (Some e)))
                | Inr p \<Rightarrow> (case write p of Some e \<Rightarrow> (None, [], Some (ErrFmt ''printing the GPU nodes: '' (Some e)))
                  | None \<Rightarrow> (Some p, hinted_note hinted, buildErr)))))"

subsection \<open>The description of a node\<close>

definition shown_none :: string where "shown_none = ''<none>''"

definition valueOr :: "string \<Rightarrow> string \<Rightarrow> string" where
  "valueOr v fallback = (if v = [] then fallback else v)"

text \<open>\<^verbatim>\<open>%-*s\<close> pads to a width counted in runes.\<close>

definition pad_right :: "nat \<Rightarrow> string \<Rightarrow> string" where
  "pad_right w s = s @ replicate (w - length (runes s)) CHR '' ''"

definition lf :: string where "lf = [char_of (10::nat)]"

definition printer_kv :: "nat \<Rightarrow> string \<Rightarrow> string \<Rightarrow> string" where
  "printer_kv w key val = pad_right w (sanitizeCell key @ '':'') @ '' '' @ sanitizeCell val @ lf"

definition printer_line :: "string \<Rightarrow> string" where
  "printer_line s = sanitizeCell s @ lf"

text \<open>The printer keeps the first error of its stream and writes nothing after it.\<close>

fun printer_write :: "(string \<Rightarrow> goerr option) \<Rightarrow> string list \<Rightarrow> string list \<times> goerr option" where
  "printer_write w [] = ([], None)"
| "printer_write w (l # ls) = (case w l of Some e \<Rightarrow> ([], Some e) | None \<Rightarrow> let (out, err) = printer_write w ls in (l # out, err))"

definition info_keyWidth :: nat where "info_keyWidth = 20"

abbreviation kv :: "string \<Rightarrow> string \<Rightarrow> string" where "kv \<equiv> printer_kv info_keyWidth"

definition none_or :: "string list \<Rightarrow> string list" where
  "none_or ls = (if ls = [] then [printer_line (''  '' @ shown_none)] else ls)"

definition mapSection :: "string \<Rightarrow> string gomap \<Rightarrow> string list" where
  "mapSection name m = printer_line (name @ '':'') # none_or (map (\<lambda>k. kv (''  '' @ k) (sget m k)) (sort_Strings (map fst m)))"

definition info_status :: "GPUNode \<Rightarrow> string" where
  "info_status n = (if g_Ready n then ''Ready'' else ''NotReady'') @ (if g_Unschedulable n then '',SchedulingDisabled'' else [])"

definition init_line :: "InitResult \<Rightarrow> string" where
  "init_line r = ir_Name r @ '': '' @ (case ir_ExitCode r of None \<Rightarrow> ''not finished'' | Some c \<Rightarrow> ''exit '' @ strconv_FormatInt c)
     @ (if ir_Reason r \<noteq> [] then '' ('' @ ir_Reason r @ '')'' else [])"

definition operand_lines :: "OperandPod \<Rightarrow> string list" where
  "operand_lines p = kv (''  '' @ op_Name p) (valueOr (op_Component p) shown_none @ ''  '' @ op_Phase p @ ''  ready='' @ strconv_FormatBool (op_Ready p)
        @ ''  restarts='' @ strconv_FormatInt (op_Restarts p))
     # map (\<lambda>i. printer_line (''    image: '' @ i)) (op_Images p) @ map (\<lambda>r. printer_line (''    '' @ init_line r)) (op_InitContainers p)"

definition describeTaints :: "encoders \<Rightarrow> GPUNode \<Rightarrow> string list" where
  "describeTaints en n = printer_line ''Taints:'' # none_or (map (\<lambda>t. printer_line (''  '' @ en_TaintText en t)) (g_Taints n))"

definition describeConditions :: "GPUNode \<Rightarrow> string list" where
  "describeConditions n = printer_line ''Conditions:''
     # none_or (map (\<lambda>c. kv (''  '' @ cond_Type c) (strings_TrimSpace (cond_Status c @ ''  '' @ cond_Reason c))) (g_Conditions n))"

definition describeOperands :: "GPUNode \<Rightarrow> string list" where
  "describeOperands n = printer_line ''Operands:'' # none_or (concat (map operand_lines (g_Operands n)))"

definition describeSlices :: "GPUNode \<Rightarrow> string list" where
  "describeSlices n = printer_line ''Resource slices:'' # none_or (map (\<lambda>s. printer_line (''  '' @ s)) (g_ResourceSlices n))"

definition profile_line :: "string \<Rightarrow> ResourceCount \<Rightarrow> string" where
  "profile_line name c = kv (''    '' @ name) (strconv_FormatInt (rc_Allocatable c) @ '' allocatable / ''
     @ strconv_FormatInt (rc_Capacity c) @ '' capacity'')"

definition describe_profiles :: "ResourceCount gomap \<Rightarrow> string list" where
  "describe_profiles rs = (if rs = [] then [] else printer_line ''  Profiles:''
     # map (\<lambda>name. profile_line name (mget \<lparr>rc_Capacity = 0, rc_Allocatable = 0\<rparr> rs name)) (sort_Strings (map fst rs)))"

definition requested_text :: "string \<Rightarrow> GPUNode \<Rightarrow> string" where
  "requested_text unknown n = (if g_RequestedKnown n then strconv_FormatInt (g_Requested n) else unknown)"

definition describe :: "encoders \<Rightarrow> GPUNode \<Rightarrow> string list" where
  "describe en n =
     [kv ''Name'' (g_Name n), kv ''Hinted'' (strconv_FormatBool (g_Hinted n)), kv ''Status'' (info_status n),
      kv ''Product'' (valueOr (g_Product n) shown_none), kv ''Device count'' (strconv_FormatInt (g_Count n)),
      kv ''Driver version'' (valueOr (g_DriverVersion n) shown_none), kv ''CUDA version'' (valueOr (g_CUDAVersion n) shown_none),
      kv ''Mode'' (valueOr (g_Mode n) shown_none), kv ''Clique'' (valueOr (g_Clique n) shown_none),
      kv ''Upgrade state'' (valueOr (g_UpgradeState n) shown_none),
      printer_line ''GPUs:'', kv ''  Capacity'' (strconv_FormatInt (g_Capacity n)), kv ''  Allocatable'' (strconv_FormatInt (g_Allocatable n)),
      kv ''  Requested'' (requested_text ''<not counted: the pods were not listed>'' n),
      printer_line ''MIG:'', kv ''  Strategy'' (valueOr (mig_Strategy (g_MIG n)) shown_none), kv ''  Capable'' (strconv_FormatBool (mig_Capable (g_MIG n))),
      kv ''  Config'' (valueOr (mig_Config (g_MIG n)) shown_none), kv ''  Config state'' (valueOr (mig_ConfigState (g_MIG n)) shown_none)]
     @ describe_profiles (mig_Resources (g_MIG n))
     @ [printer_line ''Sharing:'', kv ''  Strategy'' (valueOr (sh_Strategy (g_Sharing n)) shown_none),
        kv ''  Replicas'' (strconv_FormatInt (sh_Replicas (g_Sharing n)))]
     @ mapSection ''Deploy labels'' (g_Deploy n) @ mapSection ''Topology labels'' (g_Topology n) @ mapSection ''Labels'' (g_Labels n)
     @ describeTaints en n @ describeConditions n @ describeOperands n @ describeSlices n"

subsection \<open>The info command\<close>

definition refuseFieldsOnADescription :: "string \<Rightarrow> string list \<Rightarrow> string \<Rightarrow> goerr option" where
  "refuseFieldsOnADescription format fs k =
     (if fs = [] \<or> (format \<noteq> FormatTable \<and> format \<noteq> FormatWide) then None
      else Some (UsageError (''--fields cannot be used with -o '' @ format @ '' on '' @ k
        @ '', which is described rather than tabulated: ask for -o json or -o yaml'') None))"

definition NotAGPUNodeError :: "string \<Rightarrow> goerr" where
  "NotAGPUNodeError name = UsageError (''node '' @ name @ '' has no GPUs and no GPU labels'') None"

definition nodeNamed :: "GPUNodeList \<Rightarrow> string \<Rightarrow> GPUNode option" where
  "nodeNamed items name = find (\<lambda>n. g_Name n = name) items"

definition info_build_options :: "string \<Rightarrow> BuildOptions" where
  "info_build_options name = \<lparr>bo_Node = name, bo_Selector = [], bo_NoPods = False, bo_IncludeHinted = True, bo_WithDetails = True\<rparr>"

datatype shown_node = Described "string list" | PrintedNode printed

text \<open>
  \<^verbatim>\<open>run\<close>: what was put on the output stream, if anything, and the error. \<open>writeText\<close> is the stream a
  description goes to line by line, \<open>write\<close> the one a printer writes.
\<close>

definition info_run :: "encoders \<Rightarrow> selector_parser \<Rightarrow> (string \<Rightarrow> goerr option) \<Rightarrow> (printed \<Rightarrow> goerr option) \<Rightarrow> goerr + 's Source
    \<Rightarrow> OutputOptions \<Rightarrow> string \<Rightarrow> 's \<Rightarrow> shown_node option \<times> goerr option" where
  "info_run en parse writeText write newSource out name s =
     (case OutputOptions_Validate out (node_kind en) of Some e \<Rightarrow> (None, Some e)
      | None \<Rightarrow> (case ParseFormat (oo_Format out) of Inl e \<Rightarrow> (None, Some e)
      | Inr format \<Rightarrow> (case refuseFieldsOnADescription format (oo_Fields out) KindGPUNode of Some e \<Rightarrow> (None, Some e)
      | None \<Rightarrow> (case newSource of Inl e \<Rightarrow> (None, Some e)
      | Inr src \<Rightarrow>
          let ((built, buildErr), s) = inventory_Build parse src (info_build_options name) s
          in case built of None \<Rightarrow> (None, buildErr)
            | Some items \<Rightarrow> (case nodeNamed items name of
                None \<Rightarrow> (None, Some (case buildErr of Some e \<Rightarrow> e | None \<Rightarrow> NotAGPUNodeError name))
              | Some node \<Rightarrow>
                  if format = FormatTable \<or> format = FormatWide
                  then (case printer_write writeText (describe en node) of
                      (ls, Some e) \<Rightarrow> (Some (Described ls), Some (ErrFmt ''writing the node description: '' (Some e)))
                    | (ls, None) \<Rightarrow> (Some (Described ls), buildErr))
                  else (case fst (PrintBounded out (node_kind en) node) of
                      Inl e \<Rightarrow> (None, Some (ErrFmt ''printing the GPU node: '' (Some e)))
                    | Inr p \<Rightarrow> (case write p of Some e \<Rightarrow> (None, Some (ErrFmt ''printing the GPU node: '' (Some e)))
                      | None \<Rightarrow> (Some (PrintedNode p), buildErr))))))))"

subsection \<open>Lemmas\<close>

lemma decode_ascii: "b < 128 \<Longrightarrow> decode (b # bs) = (b, 1)"
  by simp

text \<open>The bytes a rune takes after its first are no ASCII.\<close>

lemma decode_tail: "decode (b # bs) = (r, w) \<Longrightarrow> x \<in> set (take (w - 1) bs) \<Longrightarrow> 128 \<le> x"
  by (auto simp: cont_def second_lo_def split: if_splits list.splits)

lemma ascii_rune: "x \<in> set bs \<Longrightarrow> x < 128 \<Longrightarrow> x \<in> set (runes_of bs)"
proof (induction bs rule: runes_of.induct)
  case (2 b bs)
  obtain r w where d: "decode (b # bs) = (r, w)" by fastforce
  then have w: "0 < w" using decode_width [of "b # bs"] by simp
  have runes: "runes_of (b # bs) = r # runes_of (drop (w - 1) bs)" using d w by (simp add: drop_Cons' del: decode.simps)
  have IH: "x \<in> set (drop (w - 1) bs) \<Longrightarrow> x \<in> set (runes_of (drop (w - 1) bs))"
    using "2.IH" [OF d [symmetric] refl] "2.prems" w by (simp add: drop_Cons')
  show ?case
  proof (cases "x = b")
    case True
    then have "r = x" using d "2.prems"(2) decode_ascii [of b bs] by (simp del: decode.simps)
    then show ?thesis by (simp add: runes del: runes_of.simps)
  next
    case False
    then have "x \<in> set bs" using "2.prems"(1) by simp
    then have "x \<in> set (take (w - 1) bs) \<or> x \<in> set (drop (w - 1) bs)" by (metis Un_iff append_take_drop_id set_append)
    then have "x \<in> set (drop (w - 1) bs)" using decode_tail [OF d, of x] "2.prems"(2) by auto
    then show ?thesis using IH by (simp add: runes del: runes_of.simps)
  qed
qed simp

definition visible :: "char \<Rightarrow> bool" where
  "visible c \<longleftrightarrow> 32 \<le> (of_char c :: nat) \<and> of_char c \<noteq> (127 :: nat)"

lemma sanitized_visible: "list_all visible (sanitizeCell s)"
proof -
  have "visible c" if c: "c \<in> set (sanitizeCell s)" for c
  proof (rule ccontr)
    let ?n = "of_char c :: nat"
    assume "\<not> visible c"
    then have ctl: "isControl ?n" "?n < 128" by (auto simp: visible_def isControl_def)
    then have "?n \<in> set (runes (sanitizeCell s))" using c unfolding runes_def by (intro ascii_rune) auto
    then show False using ctl(1) unfolding sanitizeCell_runes by (auto simp: isControl_def)
  qed
  then show ?thesis by (simp add: list_all_iff)
qed

lemma pad_visible: "list_all visible s \<Longrightarrow> list_all visible (pad_right w s)"
  by (auto simp: pad_right_def list_all_iff visible_def)

text \<open>A line of visible bytes with the line feed that ends it.\<close>

definition one_line :: "string \<Rightarrow> bool" where
  "one_line l \<longleftrightarrow> (\<exists>t. l = t @ lf \<and> list_all visible t)"

lemma one_line_printer [simp]: "one_line (printer_line s)" "one_line (printer_kv w key val)"
proof -
  show "one_line (printer_line s)" unfolding one_line_def printer_line_def using sanitized_visible [of s] by blast
  have colon: "list_all visible (sanitizeCell key @ '':'')" using sanitized_visible [of key] by (simp add: visible_def)
  have "list_all visible (pad_right w (sanitizeCell key @ '':'') @ '' '' @ sanitizeCell val)"
    using pad_visible [OF colon, of w] sanitized_visible [of val] by (simp add: visible_def)
  then show "one_line (printer_kv w key val)"
    unfolding one_line_def printer_kv_def by (intro exI [of _ "pad_right w (sanitizeCell key @ '':'') @ '' '' @ sanitizeCell val"]) simp
qed

lemma one_line_none_or [simp]: "list_all one_line (none_or ls) = list_all one_line ls"
  by (simp add: none_or_def)

lemma one_line_map [simp]: "list_all one_line (map (\<lambda>x. printer_line (f x)) xs)"
  "list_all one_line (map (\<lambda>x. printer_kv w (g x) (h x)) xs)"
  by (simp_all add: list_all_iff)

lemma one_line_describe: "list_all one_line (describe en n)"
proof -
  have "list_all one_line (operand_lines p)" for p by (simp add: operand_lines_def)
  then have ops: "list_all one_line (concat (map operand_lines ps))" for ps by (induction ps) simp_all
  have "list_all one_line (describe_profiles rs)" for rs by (simp add: describe_profiles_def profile_line_def)
  moreover have "list_all one_line (mapSection name m)" for name m by (simp add: mapSection_def)
  ultimately show ?thesis
    by (simp add: describe_def describeTaints_def describeConditions_def describeOperands_def describeSlices_def ops)
qed

lemma printer_write_ok [simp]: "printer_write (\<lambda>_. None) ls = (ls, None)"
  by (induction ls) simp_all

lemma plain_exit: "plain e \<Longrightarrow> ExitCodeFor (Some e) \<in> {ExitPartial, ExitError}"
  using errors_As_Some [of "\<lambda>x. err_ExitCode x \<noteq> None" e]
  by (fastforce simp: ExitCodeFor_def plain_def split: option.splits)

lemma build_exit:
  assumes "plain_source I src" "I s" "inventory_Build parse src (info_build_options name) s = ((built, buildErr), s')"
  shows "case built of Some items \<Rightarrow> ExitCodeFor buildErr = (if buildErr = None then 0 else 3)
    | None \<Rightarrow> ExitCodeFor buildErr \<in> {3, 4}"
proof -
  obtain excluded where b: "BuildWithHinted parse src (info_build_options name) s = ((built, excluded, buildErr), s')"
    using assms(3) by (auto simp: inventory_Build_def split: prod.splits)
  show ?thesis
  proof (cases built)
    case (Some items)
    have plain: "plain_opt buildErr" using plain_build [OF assms(1,2)] b Some by blast
    show ?thesis
    proof (cases buildErr)
      case None
      then show ?thesis using Some by (simp add: ExitCodeFor_def)
    next
      case e: (Some e)
      have "\<exists>x \<in> set (err_tree e). is_PartialError x"
      proof (rule BuildWithHinted_Some [OF b [unfolded Some e]])
        fix err1 err2 err3
        assume f: "\<not> fatal err1" "\<not> fatal err2" "\<not> fatal err3" and j: "Some e = joinPartials (kept_err err1 @ kept_err err2 @ kept_err err3)"
        then obtain es where es: "e = ErrJoin es" "set es \<subseteq> set (kept_err err1 @ kept_err err2 @ kept_err err3)" "es \<noteq> []"
          using joinPartials_mem [OF j [symmetric]] by (auto simp: joinPartials_def errors_Join_def split: if_splits)
        then obtain x where x: "x \<in> set es" "isPartial x" using f fatal_kept by (cases es) auto
        then obtain y where "errors_As is_PartialError x = Some y" by (auto simp: isPartial_def)
        then have "is_PartialError y" "y \<in> set (err_tree x)" using errors_As_Some by blast+
        then show ?thesis using x(1) by (auto simp: es(1))
      qed
      then show ?thesis using plain_partial_exit [of e] plain e Some by auto
    qed
  next
    case None
    have "\<exists>e. buildErr = Some e \<and> plain e"
    proof -
      have sel: "parseSelector parse [] = Inr (\<lambda>_. True)" by (simp add: parseSelector_def)
      obtain gpu hinted err1 s1 where c: "src_ClassifyNodes src s = (((gpu, hinted), err1), s1)" by (metis surj_pair)
      obtain slices err2 s2 where r: "src_ResourceSlices src s1 = ((slices, err2), s2)" by (metis surj_pair)
      obtain pods err3 s3 where p: "src_Pods src [] [] s2 = ((pods, err3), s3)" by (metis surj_pair)
      note 1 = plain_source_reads(1) [OF assms(1,2) c]
      note 2 = plain_source_reads(2) [OF assms(1) conjunct2 [OF 1] r]
      note 3 = plain_source_reads(3) [OF assms(1) conjunct2 [OF 2] p]
      show ?thesis using b None sel c r p 1 2 3
        by (auto simp: BuildWithHinted_def info_build_options_def fatal_def split: if_splits option.splits prod.splits)
    qed
    then show ?thesis using None plain_exit by fastforce
  qed
qed

lemma node_kind_prints:
  assumes "OutputOptions_Validate out (node_kind en) = None"
  shows "\<exists>p notes. PrintBounded out (node_kind en) n = (Inr p, notes)"
  by (rule printable [of _ GPUNode_TableColumns GPUNode_TableRows, OF _ _ node_table.row_width assms])
     (simp_all add: node_kind_def KindGPUNode_def)

lemma nodeNamed_iff: "nodeNamed items name = None \<longleftrightarrow> name \<notin> g_Name ` set items"
  by (auto simp: nodeNamed_def find_None_iff)

subsection \<open>Properties\<close>

text \<open>
  C32 (info_exit_status). With valid flags and a stream that can be written, \<^verbatim>\<open>info\<close> shows the node
  exactly when the build found one of that name, and exits 0, or 3 when a read was denied. A node it did
  not find is the user's mistake, exit 2, only after a complete read; after a partial one the
  exit is 3, and a build that failed exits 3 or 4, never 2.
\<close>

theorem info_exit_status:
  assumes "plain_source I src \<and> I s" "OutputOptions_Validate out (node_kind en) = None" "oo_Fields out = []"
    and "inventory_Build parse src (info_build_options name) s = ((built, buildErr), s')"
    and "info_run en parse (\<lambda>_. None) (\<lambda>_. None) (Inr src) out name s = (shown, err)"
  shows "case built of None \<Rightarrow> shown = None \<and> ExitCodeFor err \<in> {3, 4}
    | Some items \<Rightarrow> if name \<in> g_Name ` set items
        then shown \<noteq> None \<and> err = buildErr \<and> ExitCodeFor err = (if buildErr = None then 0 else 3)
        else shown = None \<and> ExitCodeFor err = (if buildErr = None then 2 else 3)"
proof -
  obtain format where f: "ParseFormat (oo_Format out) = Inr format"
    using assms(2) by (auto simp: OutputOptions_Validate_def split: sum.splits)
  have usage: "ExitCodeFor (Some (NotAGPUNodeError name)) = 2" by (simp add: NotAGPUNodeError_def usage_exit)
  note exit = build_exit [OF conjunct1 [OF assms(1)] conjunct2 [OF assms(1)] assms(4)]
  show ?thesis
  proof (cases built)
    case None
    then show ?thesis using assms(2-5) f exit by (simp add: info_run_def refuseFieldsOnADescription_def)
  next
    case (Some items)
    show ?thesis
    proof (cases "nodeNamed items name")
      case None
      then show ?thesis using assms(2-5) f exit Some usage nodeNamed_iff [of items name]
        by (auto simp: info_run_def refuseFieldsOnADescription_def split: option.splits)
    next
      case found: (Some n)
      then have "name \<in> g_Name ` set items" using nodeNamed_iff [of items name] by auto
      moreover obtain p noted where "PrintBounded out (node_kind en) n = (Inr p, noted)" using node_kind_prints [OF assms(2)] by blast
      ultimately show ?thesis using assms(2-5) f exit Some found
        by (auto simp: info_run_def refuseFieldsOnADescription_def split: if_splits)
    qed
  qed
qed

definition sample_encoders :: encoders where
  "sample_encoders = \<lparr>en_ObjectMeta = (\<lambda>n. [(''name'', JString (g_Name n))]), en_Taint = (\<lambda>_. JMap []), en_Condition = (\<lambda>_. JMap []),
     en_TaintText = taint_Key\<rparr>"

lemma sample_build:
  "inventory_Build (\<lambda>_. Inr (\<lambda>_. True)) (live_source sample_api) (info_build_options name) NewLive
     = ((Some [], Some (ErrJoin [sample_refusal])), sample_live 3)"
proof -
  have "errors_As is_PartialError sample_refusal = Some sample_refusal" by (rule errors_As_self) simp
  then have "\<not> fatal (Some sample_refusal)" "joinPartials [sample_refusal, sample_refusal] = Some (ErrJoin [sample_refusal])"
    by (simp_all add: fatal_def isPartial_def joinPartials_def errors_Join_def)
  then show ?thesis
    by (simp add: inventory_Build_def BuildWithHinted_def parseSelector_def info_build_options_def live_source_def sample_reads fatal_def
        kept_err_def split_beta assemble_def filterNodes_def sort_Slice_def Let_def)
qed

theorem info_exit_status_witness:
  "ExitCodeFor (snd (info_run sample_encoders (\<lambda>_. Inr (\<lambda>_. True)) (\<lambda>_. None) (\<lambda>_. None) (Inr (live_source sample_api))
     \<lparr>oo_Format = ''wide'', oo_Fields = [], oo_Limit = 0\<rparr> ''gpu-1'' NewLive)) = 3"
proof -
  let ?out = "\<lparr>oo_Format = ''wide'', oo_Fields = [], oo_Limit = 0\<rparr>"
  have plain: "plain_source plain_memo (live_source sample_api) \<and> plain_memo NewLive"
    by (auto intro!: live_plain simp: plain_api_def sample_api_def plain_def plain_memo_def NewLive_def)
  have "OutputOptions_Validate ?out (node_kind sample_encoders) = None"
    by (simp add: OutputOptions_Validate_def BoundedOptions_Validate_def ParseFormat_def formats_def format_defs validateFields_def)
  then show ?thesis using info_exit_status [OF plain _ _ sample_build prod.collapse [symmetric], of ?out sample_encoders "''gpu-1''"] by simp
qed

text \<open>\<^verbatim>\<open>info\<close> refuses a limit: the node is no list.\<close>

lemma info_refuses_limit:
  assumes "ParseFormat (oo_Format out) = Inr format" "0 < oo_Limit out"
  shows "\<exists>e. info_run en parse writeText write newSource out name s = (None, Some e) \<and> ExitCodeFor (Some e) = ExitUsage"
  using assms
  by (simp add: info_run_def OutputOptions_Validate_def BoundedOptions_Validate_def isLimitable_def node_kind_def not_a_list_def usage_exit)

text \<open>
  The list printed is the one built, with the note about hinted nodes, and the error of the build
  is the error of the command; names of a table or a name list are those of the build.
\<close>

lemma list_kind_prints:
  assumes "OutputOptions_Validate out (node_list_kind en) = None"
  shows "\<exists>p notes. PrintBounded out (node_list_kind en) l = (Inr p, notes)"
  by (rule printable [of _ "\<lambda>l. GPUNodeList_TableColumns (fst l)" "\<lambda>l. GPUNodeList_TableRows (fst l)", OF _ _ node_list_table.row_width assms])
     (simp_all add: node_list_kind_def KindGPUNodeList_def)

lemma list_prints:
  assumes "OutputOptions_Validate (lo_out opts) (node_list_kind en) = None"
    and "BuildWithHinted parse src (list_build_options opts) s = ((Some items, hinted, buildErr), s')"
  shows "\<exists>p. list_run en parse (\<lambda>_. None) (Inr src) opts s = (Some p, hinted_note hinted, buildErr)
    \<and> fst (PrintBounded (lo_out opts) (node_list_kind en) (items, None)) = Inr p"
proof -
  obtain p noted where "PrintBounded (lo_out opts) (node_list_kind en) (items, None) = (Inr p, noted)" using list_kind_prints [OF assms(1)] by blast
  then show ?thesis using assms by (simp add: list_run_def)
qed

lemma list_names:
  assumes "oo_Format out = FormatName" "oo_Fields out = []" "0 \<le> oo_Limit out"
  shows "fst (PrintBounded out (node_list_kind en) (items, None))
    = Inr (PNames (map (\<lambda>n. printOne KindGPUNode (g_Name n)) (if oo_Limit out = 0 then items else take (nat (oo_Limit out)) items)))"
  using assms by (auto simp: PrintBounded_def ParseFormat_def formats_def format_defs validateFields_def applyLimit_def node_list_kind_def
      print_as_def namePrinter_PrintObj_def KindGPUNodeList_def KindGPUNode_def Let_def)

end
