(* ===== verification/Gather_Copy.thy ===== *)
theory Gather_Copy
  imports Gather_Pods
begin

text \<open>
  The copy of a file out of a pod, \<^verbatim>\<open>pkg/mustgather/cp.go\<close>: the paths on either side, the file specs, and
  the extraction of the tar stream a pod answers with, which may name any path at all. Paths are
  those of a Unix client. What is extracted is the list of the calls made on the file system.
\<close>

subsection \<open>Clean, Join, Dir and Rel\<close>

text \<open>The elements kept so far, the last first: a dot-dot takes the last one back, or is kept when there is none and the path is relative.\<close>

fun clean_loop :: "bool \<Rightarrow> string list \<Rightarrow> string list \<Rightarrow> string list" where
  "clean_loop rooted [] out = rev out"
| "clean_loop rooted (e # es) out =
     (if e = [] \<or> e = ''.'' then clean_loop rooted es out
      else if e = ''..''
      then (case out of x # xs \<Rightarrow> if x \<noteq> ''..'' then clean_loop rooted es xs else clean_loop rooted es (e # out)
          | [] \<Rightarrow> if rooted then clean_loop rooted es [] else clean_loop rooted es [e])
      else clean_loop rooted es (e # out))"

definition rooted :: "string \<Rightarrow> bool" where
  "rooted p = (case p of c # _ \<Rightarrow> c = CHR ''/'' | [] \<Rightarrow> False)"

definition path_elems :: "string \<Rightarrow> string list" where
  "path_elems p = clean_loop (rooted p) (split_at (CHR ''/'') p) []"

definition path_Clean :: "string \<Rightarrow> string" where
  "path_Clean p = (let s = (if rooted p then ''/'' else []) @ strings_Join (path_elems p) ''/'' in if s = [] then ''.'' else s)"

definition path_Join :: "string \<Rightarrow> string \<Rightarrow> string" where
  "path_Join a b = (if a \<noteq> [] then path_Clean (a @ ''/'' @ b) else if b \<noteq> [] then path_Clean b else [])"

definition path_Dir :: "string \<Rightarrow> string" where
  "path_Dir p = path_Clean (rev (dropWhile (\<lambda>c. c \<noteq> CHR ''/'') (rev p)))"

fun strip_common :: "string list \<Rightarrow> string list \<Rightarrow> string list \<times> string list" where
  "strip_common (b # bs) (t # ts) = (if b = t then strip_common bs ts else (b # bs, t # ts))"
| "strip_common bs ts = (bs, ts)"

text \<open>
  \<^verbatim>\<open>filepath.Rel\<close> over the elements of the two cleaned paths: \<open>None\<close> is its error. A target that
  cleans to the current directory has the one element dot.
\<close>

definition path_Rel :: "string \<Rightarrow> string \<Rightarrow> string option" where
  "path_Rel base targ =
     (if path_Clean targ = path_Clean base then Some ''.''
      else if rooted base \<noteq> rooted targ then None
      else let ts = (if path_Clean targ = ''.'' then [''.''] else path_elems targ);
               (bs', ts') = strip_common (path_elems base) ts in
        if bs' \<noteq> [] \<and> ts' \<noteq> [] \<and> hd bs' = ''..'' then None
        else Some (strings_Join (map (\<lambda>_. ''..'') bs' @ ts') ''/''))"

subsection \<open>Local and remote paths\<close>

definition stripTrailingSlash :: "string \<Rightarrow> string" where
  "stripTrailingSlash file = (if file = [] then file
     else if file \<noteq> ''/'' \<and> last file = CHR ''/'' then butlast file else file)"

definition stripLeadingSlash :: "string \<Rightarrow> string" where
  "stripLeadingSlash file = strings_TrimLeft file [CHR ''/'', CHR 0x5C]"

function strip_dotdots :: "string \<Rightarrow> string" where
  "strip_dotdots p = (if strings_HasPrefix p ''../'' then strip_dotdots (drop 3 p) else p)"
  by auto
termination
proof (relation "measure length", goal_cases)
  case (2 p)
  then show ?case by (cases p) (auto elim!: hasPrefixE)
qed simp

declare strip_dotdots.simps [simp del]

definition stripPathShortcuts :: "string \<Rightarrow> string" where
  "stripPathShortcuts p = (let q = strip_dotdots p; q = (if q = ''.'' \<or> q = ''..'' then [] else q)
     in if rooted q then tl q else q)"

datatype pathSpec = LocalPath string | RemotePath string

definition newLocalPath :: "string \<Rightarrow> string" where
  "newLocalPath fileName = stripTrailingSlash fileName"

definition newRemotePath :: "string \<Rightarrow> string" where
  "newRemotePath fileName = map (\<lambda>c. if c = CHR 0x5C then CHR ''/'' else c) (stripTrailingSlash fileName)"

definition localPath_Dir :: "string \<Rightarrow> string" where
  "localPath_Dir p = newLocalPath (path_Dir p)"

definition localPath_Join :: "string \<Rightarrow> string \<Rightarrow> string" where
  "localPath_Join p e = newLocalPath (path_Join p e)"

definition remotePath_Clean :: "string \<Rightarrow> string" where
  "remotePath_Clean p = newRemotePath (path_Clean p)"

definition remotePath_StripSlashes :: "string \<Rightarrow> string" where
  "remotePath_StripSlashes p = newRemotePath (stripLeadingSlash p)"

definition isRelative :: "string \<Rightarrow> string \<Rightarrow> bool" where
  "isRelative base target = (case path_Rel base target of None \<Rightarrow> False
     | Some relative \<Rightarrow> relative = ''.'' \<or> relative = stripPathShortcuts relative)"

subsection \<open>File specs\<close>

record fileSpec =
  fs_PodName :: string
  fs_PodNamespace :: string
  fs_File :: pathSpec

definition errFileSpecDoesntMatchFormat :: goerr where
  "errFileSpecDoesntMatchFormat = ErrSentinel ''filespec must match the canonical format: [[namespace/]pod:]file/path''"

definition extractFileSpec :: "string \<Rightarrow> goerr + fileSpec" where
  "extractFileSpec arg = (case strings_Index arg '':'' of
       None \<Rightarrow> Inr \<lparr>fs_PodName = [], fs_PodNamespace = [], fs_File = LocalPath (newLocalPath arg)\<rparr>
     | Some i \<Rightarrow> if i = 0 then Inl errFileSpecDoesntMatchFormat
         else let file = RemotePath (newRemotePath (drop (i + 1) arg)) in
           (case split_at (CHR ''/'') (take i arg) of
              [pod] \<Rightarrow> Inr \<lparr>fs_PodName = pod, fs_PodNamespace = [], fs_File = file\<rparr>
            | [namespace, pod] \<Rightarrow> Inr \<lparr>fs_PodName = pod, fs_PodNamespace = namespace, fs_File = file\<rparr>
            | _ \<Rightarrow> Inl errFileSpecDoesntMatchFormat))"

subsection \<open>Extraction\<close>

text \<open>One entry of the stream, and what its content read as.\<close>

record tar_entry =
  te_Name :: string
  te_isDir :: bool
  te_isSymlink :: bool
  te_content :: "goerr + string"

text \<open>What was done: a directory made, a file created with its content, an entry passed over with a warning.\<close>

datatype action = MadeDir string | Wrote string string | Passed string

text \<open>
  The entries one by one, and how the stream ended after them. \<open>fails\<close> is the call that can fail; a file
  whose content cannot be read has been created by then.
\<close>

fun untar_loop :: "faults \<Rightarrow> string \<Rightarrow> string \<Rightarrow> goerr option \<Rightarrow> tar_entry list \<Rightarrow> goerr option \<times> action list" where
  "untar_loop fails pre dest ending [] = (ending, [])"
| "untar_loop fails pre dest ending (e # es) =
     (if \<not> strings_HasPrefix (te_Name e) pre then (Some (ErrText ''tar contents corrupted''), [])
      else let file = localPath_Join dest (newRemotePath (drop (length pre) (te_Name e)));
               rest = (\<lambda>acts. let (err, acts') = untar_loop fails pre dest ending es in (err, acts @ acts'));
               parent = MadeDir (localPath_Dir file) in
        if \<not> isRelative dest file then rest [Passed file]
        else case fails ''mkdir'' (localPath_Dir file) of Some err \<Rightarrow> (Some err, [])
          | None \<Rightarrow>
            if te_isDir e
            then (case fails ''mkdir'' file of Some err \<Rightarrow> (Some err, [parent]) | None \<Rightarrow> rest [parent, MadeDir file])
            else if te_isSymlink e then rest [parent, Passed file]
            else (case fails ''create'' file of Some err \<Rightarrow> (Some err, [parent])
              | None \<Rightarrow> (case te_content e of Inl err \<Rightarrow> (Some err, [parent, Wrote file []])
                | Inr content \<Rightarrow> (case fails ''write'' file of Some err \<Rightarrow> (Some err, [parent, Wrote file []])
                  | None \<Rightarrow> (case fails ''close'' file of Some err \<Rightarrow> (Some err, [parent, Wrote file content])
                    | None \<Rightarrow> rest [parent, Wrote file content])))))"

text \<open>\<open>None\<close> is the panic of a type assertion: the source is not a remote path, or the destination not a local one.\<close>

definition copyFromPod :: "faults \<Rightarrow> goerr option \<Rightarrow> tar_entry list \<Rightarrow> fileSpec \<Rightarrow> fileSpec \<Rightarrow> (goerr option \<times> action list) option" where
  "copyFromPod fails ending entries src dest = (case (fs_File src, fs_File dest) of
       (RemotePath srcFile, LocalPath destFile) \<Rightarrow>
         Some (untar_loop fails (stripPathShortcuts (remotePath_Clean (remotePath_StripSlashes srcFile))) destFile ending entries)
     | _ \<Rightarrow> None)"

subsection \<open>Nothing is written outside the destination\<close>

text \<open>A path inside another: the same elements first, and no way back up after them.\<close>

definition inside :: "string \<Rightarrow> string \<Rightarrow> bool" where
  "inside base p \<longleftrightarrow> rooted p = rooted base \<and> (\<exists>rest. path_elems p = path_elems base @ rest \<and> ''..'' \<notin> set rest)"

definition good_elem :: "string \<Rightarrow> bool" where
  "good_elem e \<longleftrightarrow> e \<noteq> [] \<and> e \<noteq> ''.'' \<and> CHR ''/'' \<notin> set e"

definition cleaned :: "string list \<Rightarrow> bool" where
  "cleaned es \<longleftrightarrow> (\<forall>e \<in> set es. good_elem e) \<and> (\<exists>n rest. es = replicate n ''..'' @ rest \<and> ''..'' \<notin> set rest)"

lemma split_at_elems: "e \<in> set (split_at c s) \<Longrightarrow> c \<notin> set e"
proof (induction s arbitrary: e)
  case (Cons x s)
  then show ?case by (cases "split_at c s") (auto split: if_splits)
qed simp

lemma cleaned_push: "cleaned (rev out) \<Longrightarrow> good_elem e \<Longrightarrow> e \<noteq> ''..'' \<Longrightarrow> cleaned (rev (e # out))"
  unfolding cleaned_def by (auto intro: exI [of _ "_ @ [e]"]) (metis append.assoc Un_iff empty_iff empty_set set_ConsD set_append)

lemma cleaned_dotdot: "cleaned (rev out) \<Longrightarrow> (out = [] \<or> hd out = ''..'') \<Longrightarrow> cleaned (rev (''..'' # out))"
proof -
  assume c: "cleaned (rev out)" and top: "out = [] \<or> hd out = ''..''"
  then obtain n rest where r: "rev out = replicate n ''..'' @ rest" "''..'' \<notin> set rest" "\<forall>e \<in> set out. good_elem e" unfolding cleaned_def by auto
  have "rest = []"
  proof (rule ccontr)
    assume ne: "rest \<noteq> []"
    then have "out \<noteq> []" "last (rev out) = last rest" using r(1) by auto
    then show False using top r(2) ne by (metis hd_rev last_in_set rev_rev_ident)
  qed
  then have "rev (''..'' # out) = replicate (Suc n) ''..'' @ []" using r(1) by (simp add: replicate_append_same)
  then show ?thesis using r(3) unfolding cleaned_def by (intro conjI exI [of _ "Suc n"] exI [of _ "[]"]) (auto simp: good_elem_def)
qed

lemma cleaned_pop: "cleaned (rev (x # out)) \<Longrightarrow> x \<noteq> ''..'' \<Longrightarrow> cleaned (rev out)"
proof -
  assume c: "cleaned (rev (x # out))" and x: "x \<noteq> ''..''"
  then obtain n rest where r: "rev out @ [x] = replicate n ''..'' @ rest" "''..'' \<notin> set rest" "\<forall>e \<in> set out. good_elem e" unfolding cleaned_def by auto
  have "rest \<noteq> []" using r(1) x by (metis append_Nil2 in_set_conv_decomp in_set_replicate)
  then have "rev out = replicate n ''..'' @ butlast rest" using r(1) by (metis butlast_append butlast_snoc)
  moreover have "''..'' \<notin> set (butlast rest)" using r(2) by (meson in_set_butlastD)
  moreover have "\<forall>e \<in> set (rev out). good_elem e" using r(3) by simp
  ultimately show ?thesis unfolding cleaned_def by blast
qed

lemma clean_loop_cleaned: "(\<forall>e \<in> set es. CHR ''/'' \<notin> set e) \<Longrightarrow> cleaned (rev out) \<Longrightarrow> cleaned (clean_loop r es out)"
proof (induction r es out rule: clean_loop.induct)
  case (2 r e es out)
  show ?case
  proof (cases "e = [] \<or> e = ''.''")
    case True
    then show ?thesis using 2 by simp
  next
    case False
    then have good: "good_elem e" using 2 by (simp add: good_elem_def)
    show ?thesis
    proof (cases "e = ''..''")
      case True
      have nil: "cleaned (rev [])" by (simp add: cleaned_def)
      show ?thesis
      proof (cases out)
        case Nil
        then show ?thesis using 2 True False nil cleaned_dotdot [of "[]"] by auto
      next
        case (Cons x xs)
        then show ?thesis using 2 True False cleaned_pop [of x xs] cleaned_dotdot [of out] by auto
      qed
    next
      case ne: False
      then show ?thesis using 2 False cleaned_push [of out e] good by auto
    qed
  qed
qed simp

lemma path_elems_cleaned: "cleaned (path_elems p)"
  unfolding path_elems_def by (rule clean_loop_cleaned) (auto dest: split_at_elems simp: cleaned_def)

lemma join_starts: "strings_Join (e # es) sep = e @ (if es = [] then [] else sep @ strings_Join es sep)"
  by (cases es) auto

lemma split_join: "es \<noteq> [] \<Longrightarrow> \<forall>e \<in> set es. CHR ''/'' \<notin> set e \<Longrightarrow> split_at (CHR ''/'') (strings_Join es ''/'') = es"
  by (induction es) (auto simp: join_starts split_at_none split_at_append)

lemma join_elems_inj:
  assumes "cleaned es" "cleaned es'" "strings_Join es ''/'' = strings_Join es' ''/''"
  shows "es = es'"
proof -
  have nil: "xs = []" if "cleaned xs" "strings_Join xs ''/'' = []" for xs
    using that by (auto simp: cleaned_def good_elem_def join_eq_Nil)
  show ?thesis
  proof (cases "es = [] \<or> es' = []")
    case True
    then show ?thesis using nil [OF assms(1)] nil [OF assms(2)] assms(3) by auto
  next
    case False
    have plain: "\<forall>e \<in> set xs. CHR ''/'' \<notin> set e" if "cleaned xs" for xs using that by (simp add: cleaned_def good_elem_def)
    have "es = split_at (CHR ''/'') (strings_Join es ''/'')" using False split_join [OF _ plain [OF assms(1)]] by simp
    also have "\<dots> = split_at (CHR ''/'') (strings_Join es' ''/'')" unfolding assms(3) by (rule refl)
    also have "\<dots> = es'" using False split_join [OF _ plain [OF assms(2)]] by simp
    finally show ?thesis .
  qed
qed

lemma join_not_rooted: "cleaned es \<Longrightarrow> \<not> rooted (strings_Join es ''/'')"
  by (cases es) (auto simp: cleaned_def good_elem_def join_starts rooted_def split: list.splits)

lemma join_not_dot: "cleaned es \<Longrightarrow> strings_Join es ''/'' \<noteq> ''.''"
proof
  assume c: "cleaned es" and dot: "strings_Join es ''/'' = ''.''"
  then have "es \<noteq> []" by auto
  then have "es = split_at (CHR ''/'') ''.''" using split_join [of es] c dot by (simp add: cleaned_def good_elem_def)
  then show False using c by (simp add: cleaned_def good_elem_def)
qed

definition joined_elems :: "string \<Rightarrow> string" where
  "joined_elems p = strings_Join (path_elems p) ''/''"

lemma path_Clean_cases:
  "path_Clean p = (if rooted p then CHR ''/'' # joined_elems p else if joined_elems p = [] then ''.'' else joined_elems p)"
  by (simp add: path_Clean_def joined_elems_def Let_def)

lemma path_Clean_inj:
  assumes "path_Clean p = path_Clean q"
  shows "rooted p = rooted q" "path_elems p = path_elems q"
proof -
  note c = path_elems_cleaned [of p] path_elems_cleaned [of q]
  have nr: "\<not> rooted (joined_elems x)" and nd: "joined_elems x \<noteq> ''.''" for x
    using join_not_rooted [OF path_elems_cleaned [of x]] join_not_dot [OF path_elems_cleaned [of x]] by (simp_all add: joined_elems_def)
  have r: "rooted (path_Clean x) = rooted x" for x
  proof (cases "rooted x")
    case False
    have "\<not> rooted ''.''" by (simp add: rooted_def)
    then show ?thesis using False nr [of x] by (simp add: path_Clean_cases)
  qed (simp add: path_Clean_cases rooted_def)
  then show same: "rooted p = rooted q" using assms by metis
  have "joined_elems p = joined_elems q"
  proof (cases "rooted p")
    case True
    then show ?thesis using assms same by (simp add: path_Clean_cases)
  next
    case False
    then show ?thesis using assms same nd [of p] nd [of q] by (simp add: path_Clean_cases split: if_splits)
  qed
  then show "path_elems p = path_elems q" unfolding joined_elems_def by (rule join_elems_inj [OF c])
qed

lemma strip_dotdots_length: "length (strip_dotdots p) \<le> length p"
proof (induction p rule: strip_dotdots.induct)
  case (1 p)
  show ?case
  proof (cases "strings_HasPrefix p ''../''")
    case True
    then have "length (strip_dotdots (drop 3 p)) \<le> length (drop 3 p)" using 1 by simp
    then show ?thesis using True by (subst strip_dotdots.simps) simp
  next
    case False
    then show ?thesis by (subst strip_dotdots.simps) simp
  qed
qed

text \<open>A relative path the shortcuts are stripped off unchanged does not start by going up.\<close>

lemma kept_by_strip:
  assumes "r = stripPathShortcuts r"
  shows "r \<noteq> ''..''" "\<not> strings_HasPrefix r ''../''"
proof -
  have len: "length (stripPathShortcuts x) \<le> length (strip_dotdots x)" for x by (simp add: stripPathShortcuts_def Let_def)
  show "\<not> strings_HasPrefix r ''../''"
  proof
    assume p: "strings_HasPrefix r ''../''"
    then obtain t where t: "r = ''../'' @ t" by (rule hasPrefixE)
    have "strip_dotdots r = strip_dotdots t" by (subst strip_dotdots.simps) (use p t in simp)
    then have "length r \<le> length t" using assms len [of r] strip_dotdots_length [of t] by simp
    then show False using t by simp
  qed
  show "r \<noteq> ''..''"
  proof
    assume "r = ''..''"
    moreover have "strip_dotdots ''..'' = ''..''" by (subst strip_dotdots.simps) (simp add: strings_HasPrefix_def)
    ultimately have "r = []" using assms by (simp add: stripPathShortcuts_def Let_def rooted_def)
    then show False using \<open>r = ''..''\<close> by simp
  qed
qed

lemma up_first: "strings_Join (''..'' # es) ''/'' = ''..'' \<or> strings_HasPrefix (strings_Join (''..'' # es) ''/'') ''../''"
  by (cases es) (auto simp: strings_HasPrefix_def)

lemma strip_common_spec:
  "strip_common bs ts = (bs', ts') \<Longrightarrow> \<exists>common. bs = common @ bs' \<and> ts = common @ ts'"
proof (induction bs ts rule: strip_common.induct)
  case (1 b bs t ts)
  show ?case
  proof (cases "b = t")
    case True
    then obtain common where "bs = common @ bs'" "ts = common @ ts'" using 1 by auto
    then show ?thesis using True by (intro exI [of _ "b # common"]) simp
  qed (use 1 in auto)
qed auto

lemma isRelative_inside:
  assumes "isRelative base p"
  shows "inside base p"
proof (cases "path_Clean p = path_Clean base")
  case True
  from path_Clean_inj [OF this] show ?thesis by (simp add: inside_def)
next
  case False
  define ts where "ts = (if path_Clean p = ''.'' then [''.''] else path_elems p)"
  obtain bs' ts' where sc: "strip_common (path_elems base) ts = (bs', ts')" by (cases "strip_common (path_elems base) ts")
  define r where "r = strings_Join (map (\<lambda>_. ''..'') bs' @ ts') ''/''"
  have roots: "rooted base = rooted p" and kept: "r = ''.'' \<or> r = stripPathShortcuts r"
    using assms False sc by (auto simp: isRelative_def path_Rel_def Let_def ts_def r_def split: if_splits)
  have no_up: "r \<noteq> ''..'' \<and> \<not> strings_HasPrefix r ''../''"
    using kept kept_by_strip [of r] by (auto simp: strings_HasPrefix_def)
  have bs': "bs' = []"
  proof (rule ccontr)
    assume "bs' \<noteq> []"
    then obtain b bs where "bs' = b # bs" by (cases bs') auto
    then show False using no_up up_first [of "map (\<lambda>_. ''..'') bs @ ts'"] by (simp add: r_def)
  qed
  obtain common where c: "path_elems base = common" "ts = common @ ts'" using strip_common_spec [OF sc] bs' by auto
  have r: "r = strings_Join ts' ''/''" by (simp add: r_def bs')
  have ts: "ts = path_elems p"
  proof (rule ccontr)
    assume "ts \<noteq> path_elems p"
    then have dot: "ts = [''.'']" "path_Clean p = ''.''" by (auto simp: ts_def split: if_splits)
    have "common = []" using c dot(1) path_elems_cleaned [of base] by (cases common) (auto simp: cleaned_def good_elem_def)
    moreover have "\<not> rooted base" using dot(2) roots by (auto simp: path_Clean_cases split: if_splits)
    ultimately have "path_Clean base = ''.''" using c(1) by (simp add: path_Clean_cases joined_elems_def)
    then show False using False dot(2) by simp
  qed
  have "''..'' \<notin> set ts'"
  proof
    assume up: "''..'' \<in> set ts'"
    obtain n rest where e: "path_elems p = replicate n ''..'' @ rest" "''..'' \<notin> set rest" using path_elems_cleaned [of p] unfolding cleaned_def by blast
    have "ts' = drop (length common) (path_elems p)" using c(2) ts by (metis append_eq_conv_conj)
    then have d: "ts' = replicate (n - length common) ''..'' @ drop (length common - n) rest" by (simp add: e(1))
    have "n - length common \<noteq> 0"
    proof
      assume "n - length common = 0"
      then have "ts' = drop (length common - n) rest" using d by simp
      then show False using up e(2) by (meson in_set_dropD)
    qed
    then obtain m where "n - length common = Suc m" by (metis not0_implies_Suc)
    then obtain es where "ts' = ''..'' # es" using d by simp
    then show False using no_up up_first [of es] by (simp add: r)
  qed
  then show ?thesis using c ts roots by (auto simp: inside_def)
qed

text \<open>What may be done: a file inside the destination, a directory inside it or the parent of a path inside it.\<close>

definition allowed :: "string \<Rightarrow> action \<Rightarrow> bool" where
  "allowed dest act = (case act of
       Wrote p _ \<Rightarrow> inside dest p
     | MadeDir p \<Rightarrow> inside dest p \<or> (\<exists>f. inside dest f \<and> p = localPath_Dir f)
     | Passed _ \<Rightarrow> True)"

lemma untar_loop_allowed:
  "untar_loop fails pre dest ending entries = (err, acts) \<Longrightarrow> list_all (allowed dest) acts"
proof (induction entries arbitrary: err acts)
  case (Cons e es)
  define target where "target = localPath_Join dest (newRemotePath (drop (length pre) (te_Name e)))"
  obtain err' acts' where rest: "untar_loop fails pre dest ending es = (err', acts')" by (cases "untar_loop fails pre dest ending es")
  have later: "list_all (allowed dest) acts'" by (rule Cons.IH [OF rest])
  show ?case
  proof (cases "isRelative dest target")
    case True
    then have "allowed dest (MadeDir (localPath_Dir target))" "\<And>c. allowed dest (Wrote target c)" "allowed dest (MadeDir target)" "allowed dest (Passed target)"
      using isRelative_inside [OF True] by (auto simp: allowed_def)
    then show ?thesis using Cons.prems True later
      by (auto simp: target_def [symmetric] rest Let_def split: if_splits option.splits sum.splits)
  next
    case False
    moreover have "allowed dest (Passed target)" by (simp add: allowed_def)
    ultimately show ?thesis using Cons.prems later by (auto simp: target_def [symmetric] rest Let_def split: if_splits)
  qed
qed simp

text \<open>
  C33 (copy_stays_inside). Whatever paths the tar stream of a pod names, a copy out of it writes no file
  outside its destination and makes no directory outside it but the destination's own parent: every
  path it writes continues the destination's, element by element, without a step back up.
\<close>

theorem copy_stays_inside:
  assumes "copyFromPod fails ending entries src dest = Some (err, acts)"
  shows "\<exists>d. fs_File dest = LocalPath d \<and> list_all (allowed d) acts"
  using assms untar_loop_allowed by (auto simp: copyFromPod_def split: pathSpec.splits)

definition bug_report_path :: string where "bug_report_path = ''/tmp/nvidia-bug-report.log.gz''"

definition sample_src :: fileSpec where
  "sample_src = \<lparr>fs_PodName = ''p'', fs_PodNamespace = ''n'', fs_File = RemotePath bug_report_path\<rparr>"

definition sample_dest :: fileSpec where
  "sample_dest = \<lparr>fs_PodName = [], fs_PodNamespace = [], fs_File = LocalPath ''/b/r.gz''\<rparr>"

text \<open>The report itself, then a path that climbs out of the destination.\<close>

definition sample_entries :: "tar_entry list" where
  "sample_entries =
     [\<lparr>te_Name = ''tmp/nvidia-bug-report.log.gz'', te_isDir = False, te_isSymlink = False, te_content = Inr ''x''\<rparr>,
      \<lparr>te_Name = ''tmp/nvidia-bug-report.log.gz/../../etc/cron.d/x'', te_isDir = False, te_isSymlink = False, te_content = Inr ''y''\<rparr>]"

lemma sample_copy:
  "copyFromPod (\<lambda>_ _. None) None sample_entries sample_src sample_dest
     = Some (None, [MadeDir ''/b'', Wrote ''/b/r.gz'' ''x'', Passed ''/etc/cron.d/x''])"
  by code_simp

theorem copy_stays_inside_witness: "inside ''/b/r.gz'' ''/b/r.gz''"
  using copy_stays_inside [OF sample_copy] by (auto simp: sample_dest_def allowed_def)

subsection \<open>File specs of a bug report\<close>

text \<open>The spec of a pod's file reads back as its namespace, its name and its path.\<close>

lemma extractFileSpec_pod:
  assumes "CHR '':'' \<notin> set (ns @ ''/'' @ pod)" "CHR ''/'' \<notin> set ns" "CHR ''/'' \<notin> set pod"
  shows "extractFileSpec (ns @ ''/'' @ pod @ '':'' @ path)
    = Inr \<lparr>fs_PodName = pod, fs_PodNamespace = ns, fs_File = RemotePath (newRemotePath path)\<rparr>"
proof -
  have colon: "CHR '':'' \<notin> set s \<Longrightarrow> strings_Index (s @ '':'' @ t) '':'' = Some (length s)" for s t
  proof (induction s)
    case Nil
    show ?case by (subst strings_Index.simps) (simp add: strings_HasPrefix_def)
  next
    case (Cons a s)
    then show ?case by (subst strings_Index.simps) (auto simp: strings_HasPrefix_def)
  qed
  have "strings_Index (ns @ ''/'' @ pod @ '':'' @ path) '':'' = Some (length (ns @ ''/'' @ pod))"
    using colon [of "ns @ ''/'' @ pod" path] assms(1) by simp
  moreover have "split_at (CHR ''/'') (ns @ ''/'' @ pod) = [ns, pod]"
    using split_at_append [OF assms(2), of pod] assms(3) by (simp add: split_at_none)
  moreover have "take (length (ns @ ''/'' @ pod)) (ns @ ''/'' @ pod @ '':'' @ path) = ns @ ''/'' @ pod"
    "drop (length (ns @ ''/'' @ pod) + 1) (ns @ ''/'' @ pod @ '':'' @ path) = path" by simp_all
  ultimately show ?thesis by (simp add: extractFileSpec_def Let_def)
qed

text \<open>
  A destination with a colon before its first slash is read as the file of a pod, and the copy into it
  is a failed type assertion.
\<close>

lemma colon_in_destination:
  "extractFileSpec ''run:1/nvidia-bug-report_a.log.gz''
     = Inr \<lparr>fs_PodName = ''run'', fs_PodNamespace = [], fs_File = RemotePath ''1/nvidia-bug-report_a.log.gz''\<rparr>"
  by code_simp

lemma colon_panics: "fs_File dest = RemotePath p \<Longrightarrow> copyFromPod fails ending entries src dest = None"
  by (simp add: copyFromPod_def split: pathSpec.splits)

end
