(* ===== verification/Debug_Command.thy ===== *)
theory Debug_Command
  imports Node_Commands Gather_Run Gather_Copy
begin

text \<open>
  \<^verbatim>\<open>kubectl nv debug\<close>: the report of \<^verbatim>\<open>pkg/debug/report.go\<close>, the command of
  \<^verbatim>\<open>pkg/cmd/debug/debug.go\<close> and the screen of \<^verbatim>\<open>pkg/cmd/debug/summary.go\<close>. It reads one node, runs a
  gather narrowed to it and says what the gather could collect. The gather is a parameter, as it is
  in the command: what it returned and the directory it left.
\<close>

subsection \<open>The report\<close>

record CollectorCounts =
  cc_OK :: int
  cc_Skipped :: int
  cc_Error :: int

record CollectorOutcome =
  co_Name :: string
  co_Reason :: string

record DebugBundle =
  db_Directory :: string
  db_Manifest :: string
  db_Collectors :: CollectorCounts
  db_Skipped :: "CollectorOutcome list"
  db_Errored :: "CollectorOutcome list"
  db_Files :: int
  db_Bytes :: int

record DebugReport =
  dr_Name :: string
  dr_Node :: GPUNode
  dr_Bundle :: DebugBundle
  dr_Status :: ReportStatus

definition no_counts :: CollectorCounts where
  "no_counts = \<lparr>cc_OK = 0, cc_Skipped = 0, cc_Error = 0\<rparr>"

definition report_statusSkipped :: string where "report_statusSkipped = ''skipped:''"
definition report_statusError :: string where "report_statusError = ''error:''"

fun summarise_loop :: "CollectorStatus list \<Rightarrow> DebugBundle \<Rightarrow> DebugBundle" where
  "summarise_loop [] out = out"
| "summarise_loop (c # cs) out = (let n = db_Collectors out in
     if cs_Status c = StatusOK then summarise_loop cs (out\<lparr>db_Collectors := n\<lparr>cc_OK := cc_OK n + 1\<rparr>\<rparr>)
     else if strings_HasPrefix (cs_Status c) report_statusSkipped
     then summarise_loop cs (out\<lparr>db_Collectors := n\<lparr>cc_Skipped := cc_Skipped n + 1\<rparr>,
       db_Skipped := db_Skipped out @ [\<lparr>co_Name = cs_Collector c, co_Reason = strings_TrimPrefix (cs_Status c) report_statusSkipped\<rparr>]\<rparr>)
     else summarise_loop cs (out\<lparr>db_Collectors := n\<lparr>cc_Error := cc_Error n + 1\<rparr>,
       db_Errored := db_Errored out @ [\<lparr>co_Name = cs_Collector c, co_Reason = strings_TrimPrefix (cs_Status c) report_statusError\<rparr>]\<rparr>))"

definition SummariseBundle :: "string \<Rightarrow> Manifest option \<Rightarrow> DebugBundle" where
  "SummariseBundle dir mf =
     (let out = \<lparr>db_Directory = dir, db_Manifest = [], db_Collectors = no_counts, db_Skipped = [], db_Errored = [], db_Files = 0, db_Bytes = 0\<rparr>
      in case mf of None \<Rightarrow> out
       | Some m \<Rightarrow> (summarise_loop (mn_Collectors m) (out\<lparr>db_Manifest := path_Join dir ManifestFileName\<rparr>))
           \<lparr>db_Files := int (length (mn_Files m)), db_Bytes := fold (\<lambda>f n. wrap64 (n + fe_Size f)) (mn_Files m) 0\<rparr>)"

definition KindDebugReport :: string where "KindDebugReport = ''DebugReport''"

definition CollectorCounts_decl :: struct_decl where
  "CollectorCounts_decl = object [own_field ''OK'' ''ok'' GScalar, own_field ''Skipped'' ''skipped'' GScalar, own_field ''Error'' ''error'' GScalar]"

definition CollectorOutcome_decl :: struct_decl where
  "CollectorOutcome_decl = object [own_field ''Name'' ''name'' GScalar, own_field ''Reason'' ''reason'' GScalar]"

definition DebugBundle_decl :: struct_decl where
  "DebugBundle_decl = object [own_field ''Directory'' ''directory'' GScalar, own_field ''Manifest'' ''manifest'' GScalar,
     own_field ''Collectors'' ''collectors'' (GStruct ''CollectorCounts''), own_field ''Skipped'' ''skipped'' (GSlice (GStruct ''CollectorOutcome'')),
     own_field ''Errored'' ''errored'' (GSlice (GStruct ''CollectorOutcome'')), own_field ''Files'' ''files'' GScalar, own_field ''Bytes'' ''bytes'' GScalar]"

definition DebugReport_decl :: struct_decl where
  "DebugReport_decl = object [embedded ''TypeMeta'' '',inline'' (GStruct ''TypeMeta''), embedded ''ObjectMeta'' ''metadata,omitzero'' (GStruct objectMeta),
     own_field ''Node'' ''node'' (GStruct ''GPUNode''), own_field ''Bundle'' ''bundle'' (GStruct ''Bundle''),
     own_field ''Status'' ''status'' (GStruct ''ReportStatus'')]"

definition debug_decls :: decls where
  "debug_decls = node_decls @ [(''Finding'', Finding_decl), (''Unreachable'', Unreachable_decl), (''ReportStatus'', ReportStatus_decl),
     (''CollectorCounts'', CollectorCounts_decl), (''CollectorOutcome'', CollectorOutcome_decl), (''Bundle'', DebugBundle_decl),
     (''DebugReport'', DebugReport_decl)]"

definition CollectorOutcome_json :: "CollectorOutcome \<Rightarrow> json" where
  "CollectorOutcome_json c = JMap [(''name'', JString (co_Name c)), (''reason'', JString (co_Reason c))]"

definition DebugBundle_MarshalJSON :: "DebugBundle \<Rightarrow> json" where
  "DebugBundle_MarshalJSON b = JMap [(''directory'', JString (db_Directory b)), (''manifest'', JString (db_Manifest b)),
     (''collectors'', JMap [(''ok'', JInt (cc_OK (db_Collectors b))), (''skipped'', JInt (cc_Skipped (db_Collectors b))),
        (''error'', JInt (cc_Error (db_Collectors b)))]),
     (''skipped'', JList (map CollectorOutcome_json (db_Skipped b))), (''errored'', JList (map CollectorOutcome_json (db_Errored b))),
     (''files'', JInt (db_Files b)), (''bytes'', JInt (db_Bytes b))]"

text \<open>The status as this kind publishes it, without the remainder of a limit.\<close>

definition debug_status :: "ReportStatus \<Rightarrow> json gomap" where
  "debug_status st = ReportStatus_MarshalJSON (st\<lparr>rs_RemainingItemCount := None\<rparr>)"

definition DebugReport_MarshalJSON :: "encoders \<Rightarrow> DebugReport \<Rightarrow> json gomap" where
  "DebugReport_MarshalJSON en r = TypeMetaFor KindDebugReport
     @ omitzero ''metadata'' (if dr_Name r = [] then [] else [(''name'', JString (dr_Name r))])
     @ [(''node'', JMap (GPUNode_MarshalJSON en (dr_Node r))), (''bundle'', DebugBundle_MarshalJSON (dr_Bundle r)),
        (''status'', JMap (debug_status (dr_Status r)))]"

definition debug_kind :: "encoders \<Rightarrow> DebugReport kind" where
  "debug_kind en = \<lparr>k_Kind = KindDebugReport, k_GoType = ''*debug.Report'', k_Table = None, k_document = DebugReport_MarshalJSON en,
     k_limiting = NotAList, k_decls = debug_decls, k_type = GPointer (GStruct ''DebugReport''), k_items = (\<lambda>_. None), k_name = dr_Name\<rparr>"

subsection \<open>Reading what the gather left\<close>

text \<open>\<open>here\<close> is the directory, if it exists, and \<open>dec\<close> the JSON decoder. \<open>None\<close> is an index that was never written.\<close>

definition readManifest :: "(string \<Rightarrow> goerr + Manifest) \<Rightarrow> faults \<Rightarrow> dir option \<Rightarrow> Manifest option \<times> goerr option" where
  "readManifest dec fails here = (case os_ReadFile fails (case here of None \<Rightarrow> [] | Some d \<Rightarrow> d) ManifestFileName of
       Inl e \<Rightarrow> if e = ErrNotExist then (None, None) else (None, Some (ErrFmt (''reading '' @ ManifestFileName @ '': '') (Some e)))
     | Inr raw \<Rightarrow> (case dec raw of Inl e \<Rightarrow> (None, Some (ErrFmt (''parsing '' @ ManifestFileName @ '': '') (Some e)))
       | Inr m \<Rightarrow> (Some m, None)))"

definition inventory_unreachable :: "string \<Rightarrow> goerr \<Rightarrow> Unreachable" where
  "inventory_unreachable name e = (case errors_As is_PartialError e of
       Some (PartialError resource cause) \<Rightarrow> \<lparr>u_Resource = resource, u_Node = [], u_Reason = Error cause\<rparr>
     | _ \<Rightarrow> \<lparr>u_Resource = ''inventory'', u_Node = name, u_Reason = Error e\<rparr>)"

definition buildReport :: "string \<Rightarrow> GPUNode \<Rightarrow> string \<Rightarrow> Manifest option \<times> goerr option \<Rightarrow> goerr option \<Rightarrow> goerr option \<Rightarrow> DebugReport" where
  "buildReport name node dir read inventoryErr gatherErr =
     (let (mf, manifestErr) = read;
          unreachable = (case inventoryErr of None \<Rightarrow> [] | Some e \<Rightarrow> [inventory_unreachable name e])
            @ (case gatherErr of None \<Rightarrow> [] | Some e \<Rightarrow> [\<lparr>u_Resource = ''must-gather'', u_Node = name, u_Reason = Error e\<rparr>])
            @ (case manifestErr of None \<Rightarrow> [] | Some e \<Rightarrow> [\<lparr>u_Resource = ManifestFileName, u_Node = name, u_Reason = Error e\<rparr>])
      in \<lparr>dr_Name = name, dr_Node = node, dr_Bundle = SummariseBundle dir mf,
          dr_Status = \<lparr>rs_Findings = [], rs_Partial = (inventoryErr \<noteq> None \<or> gatherErr \<noteq> None \<or> manifestErr \<noteq> None),
            rs_Unreachable = unreachable, rs_RemainingItemCount = None\<rparr>\<rparr>)"

subsection \<open>The screen\<close>

definition keyWidth :: nat where "keyWidth = 16"
definition summaryLineBudget :: nat where "summaryLineBudget = 30"
definition maxOperandLines :: nat where "maxOperandLines = 8"
definition maxOutcomeLines :: nat where "maxOutcomeLines = 8"
definition maxLineWidth :: nat where "maxLineWidth = 96"
definition maxReasonWidth :: nat where "maxReasonWidth = 60"
definition operandColumn :: nat where "operandColumn = 34"
definition foldedSkipLabel :: string where "foldedSkipLabel = ''  skipped (nothing to collect): ''"
definition ellipsis :: string where "ellipsis = ''...''"

definition gpuCounts :: "GPUNode \<Rightarrow> string" where
  "gpuCounts n = requested_text ''?'' n @ ''/'' @ strconv_FormatInt (g_Allocatable n) @ ''/'' @ strconv_FormatInt (g_Capacity n)
     @ ''  (requested/allocatable/capacity)''"

definition driverLine :: "GPUNode \<Rightarrow> string" where
  "driverLine n = valueOr (g_DriverVersion n) shown_none @ ''  (CUDA '' @ valueOr (g_CUDAVersion n) shown_none @ '')''"

definition migLine :: "GPUNode \<Rightarrow> string" where
  "migLine n = valueOr (mig_Strategy (g_MIG n)) shown_none
     @ (if mig_Config (g_MIG n) \<noteq> [] then ''  config='' @ mig_Config (g_MIG n) else [])
     @ (if mig_ConfigState (g_MIG n) \<noteq> [] then '' ('' @ mig_ConfigState (g_MIG n) @ '')'' else [])"

definition summary_status :: "DebugReport \<Rightarrow> string" where
  "summary_status r = info_status (dr_Node r)
     @ (if rs_Partial (dr_Status r) then ''  (partial: see status.unreachable at -o json)'' else [])"

definition truncate_text :: "string \<Rightarrow> nat \<Rightarrow> string" where
  "truncate_text val width = (if length val \<le> width then val else take (width - length ellipsis) val @ ellipsis)"

definition truncateLine :: "string \<Rightarrow> string" where
  "truncateLine l = truncate_text l maxLineWidth"

definition bounded :: "string list \<Rightarrow> nat \<Rightarrow> string \<Rightarrow> string list" where
  "bounded ls limit what = (if length ls \<le> limit then ls
     else take (limit - 1) ls @ [''  '' @ strconv_FormatInt (int (length ls) - (int limit - 1)) @ '' more''
       @ (if what \<noteq> [] then '' '' @ what else []) @ '', see -o json''])"

definition operand_line :: "OperandPod \<Rightarrow> string" where
  "operand_line p = ''  '' @ pad_right operandColumn (valueOr (op_Component p) shown_none) @ '' '' @ pad_right 9 (op_Phase p)
     @ '' ready='' @ pad_right 5 (strconv_FormatBool (op_Ready p)) @ '' restarts='' @ strconv_FormatInt (op_Restarts p)"

definition operand_texts :: "GPUNode \<Rightarrow> string list" where
  "operand_texts n = ''Operands:'' # (if g_Operands n = [] then [''  '' @ shown_none]
     else bounded (map operand_line (g_Operands n)) maxOperandLines ''operands'')"

text \<open>From all the names but one down to one, the first line that fits.\<close>

fun folded_fit :: "string list \<Rightarrow> nat \<Rightarrow> string option" where
  "folded_fit names 0 = None"
| "folded_fit names (Suc kept) =
     (let l = foldedSkipLabel @ strings_Join (take (Suc kept) names) '', '' @ '' (+'' @ strconv_FormatInt (int (length names) - int (Suc kept)) @ '' more)''
      in if length l \<le> maxLineWidth then Some l else folded_fit names kept)"

definition foldedLine :: "string list \<Rightarrow> string" where
  "foldedLine names = (let l = foldedSkipLabel @ strings_Join names '', '' in
     if length l \<le> maxLineWidth then l
     else case folded_fit names (length names - 1) of Some l \<Rightarrow> l
       | None \<Rightarrow> truncateLine (foldedSkipLabel @ strconv_FormatInt (int (length names)) @ '' collectors''))"

definition outcomeLine :: "string \<Rightarrow> CollectorOutcome \<Rightarrow> string" where
  "outcomeLine what c = truncateLine (''  '' @ what @ '' '' @ co_Name c @ '': '' @ truncate_text (co_Reason c) maxReasonWidth)"

definition actionable :: "string \<Rightarrow> bool" where
  "actionable reason \<longleftrightarrow> strings_HasPrefix reason ''forbidden'' \<or> strings_Contains reason ''timeout''"

definition named_outcomes :: "DebugBundle \<Rightarrow> string list" where
  "named_outcomes b = map (outcomeLine ''error  '') (db_Errored b)
     @ map (outcomeLine ''skipped'') (filter (\<lambda>c. actionable (co_Reason c)) (db_Skipped b))"

definition folded_names :: "DebugBundle \<Rightarrow> string list" where
  "folded_names b = map co_Name (filter (\<lambda>c. \<not> actionable (co_Reason c)) (db_Skipped b))"

definition outcome_texts :: "DebugBundle \<Rightarrow> string list" where
  "outcome_texts b = (if folded_names b = [] then bounded (named_outcomes b) maxOutcomeLines []
     else bounded (named_outcomes b) (maxOutcomeLines - 1) [] @ [foldedLine (folded_names b)])"

text \<open>
  \<^verbatim>\<open>float64(n)\<close> keeps 53 bits and the division by a power of two is exact; \<^verbatim>\<open>%.1f\<close> rounds to a tenth, ties to even.
\<close>

definition half_even :: "int \<Rightarrow> int \<Rightarrow> int" where
  "half_even num den = (let q = num div den; r = num mod den in
     if 2 * r < den then q else if 2 * r > den then q + 1 else if even q then q else q + 1)"

fun ulp :: "nat \<Rightarrow> nat" where
  "ulp n = (if n < 2 ^ 53 then 1 else 2 * ulp (n div 2))"

declare ulp.simps [simp del]

definition float64_int :: "int \<Rightarrow> int" where
  "float64_int n = (let u = int (ulp (nat n)) in half_even n u * u)"

text \<open>The loop divides what is left by 1024 and multiplies the divisor by it.\<close>

function human_loop :: "int \<Rightarrow> int \<Rightarrow> nat \<Rightarrow> int \<times> nat" where
  "human_loop sz d ex = (if sz \<ge> 1024 then human_loop (sz div 1024) (d * 1024) (Suc ex) else (d, ex))"
  by auto
termination by (relation "measure (\<lambda>(sz, _, _). nat sz)") auto

declare human_loop.simps [simp del]

definition humanBytes :: "int \<Rightarrow> string" where
  "humanBytes n = (if n < 1024 then strconv_FormatInt n @ '' B''
     else let (d, ex) = human_loop (n div 1024) 1024 0; tenths = half_even (10 * float64_int n) d
       in strconv_FormatInt (tenths div 10) @ ''.'' @ strconv_FormatInt (tenths mod 10) @ '' '' @ [''KMGTPE'' ! ex] @ ''iB'')"

definition collectors_text :: "DebugBundle \<Rightarrow> string" where
  "collectors_text b = strconv_FormatInt (cc_OK (db_Collectors b)) @ '' ok, '' @ strconv_FormatInt (cc_Skipped (db_Collectors b)) @ '' skipped, ''
     @ strconv_FormatInt (cc_Error (db_Collectors b)) @ '' error  ('' @ strconv_FormatInt (db_Files b) @ '' files, '' @ humanBytes (db_Bytes b) @ '')''"

definition next_texts :: "string \<Rightarrow> DebugBundle \<Rightarrow> string list" where
  "next_texts node b = [''Next:'', ''  kubectl nv health --node '' @ node]
     @ (if db_Manifest b \<noteq> [] then [''  kubectl nv health --from-bundle '' @ db_Directory b] else [])"

abbreviation summary_kv :: "string \<Rightarrow> string \<Rightarrow> string" where "summary_kv \<equiv> printer_kv keyWidth"

definition summarise :: "DebugReport \<Rightarrow> string list" where
  "summarise r = (let n = dr_Node r; b = dr_Bundle r in
     [summary_kv ''Node'' (g_Name n), summary_kv ''Product'' (valueOr (g_Product n) shown_none), summary_kv ''GPUs'' (gpuCounts n),
      summary_kv ''Driver'' (driverLine n), summary_kv ''Mode'' (valueOr (g_Mode n) shown_none), summary_kv ''MIG'' (migLine n),
      summary_kv ''Upgrade state'' (valueOr (g_UpgradeState n) shown_none), summary_kv ''Status'' (summary_status r)]
     @ map printer_line (operand_texts n)
     @ [summary_kv ''Bundle'' (db_Directory b), summary_kv ''Collectors'' (collectors_text b)]
     @ map printer_line (outcome_texts b)
     @ map printer_line (next_texts (g_Name n) b))"

subsection \<open>The command\<close>

text \<open>
  What a run is given from outside: the gather, which answers with its error and the directory as it
  left it, what else \<^verbatim>\<open>prepare\<close> fills in, and the streams.
\<close>

record debug_env =
  de_gather :: "Options \<Rightarrow> goerr option \<times> dir option"
  de_fails :: faults
  de_decode :: "string \<Rightarrow> goerr + Manifest"
  de_duration :: "int \<Rightarrow> string"
  de_debug :: bool
  de_defaultDir :: string
  de_version :: string
  de_context :: string
  de_kubeconfig :: string
  de_writeText :: "string \<Rightarrow> goerr option"
  de_write :: "printed \<Rightarrow> goerr option"

definition prepare :: "debug_env \<Rightarrow> string \<Rightarrow> Options \<Rightarrow> Options" where
  "prepare env name opts = opts\<lparr>o_Node := name, o_Debug := de_debug env,
     o_ArtifactDir := (if o_ArtifactDir opts = [] then de_defaultDir env else o_ArtifactDir opts),
     o_ToolVersion := de_version env, o_Context := de_context env\<rparr>"

definition readNode :: "selector_parser \<Rightarrow> goerr + 's Source \<Rightarrow> string \<Rightarrow> 's \<Rightarrow> goerr option + GPUNode \<times> goerr option" where
  "readNode parse newSource name s = (case newSource of Inl e \<Rightarrow> Inl (Some e)
     | Inr src \<Rightarrow> let ((built, buildErr), s) = inventory_Build parse src (info_build_options name) s
       in case built of None \<Rightarrow> Inl buildErr
         | Some items \<Rightarrow> (case nodeNamed items name of Some node \<Rightarrow> Inr (node, buildErr)
           | None \<Rightarrow> Inl (Some (case buildErr of Some e \<Rightarrow> e | None \<Rightarrow> NotAGPUNodeError name))))"

datatype shown_debug = Screen "string list" | PrintedDebug printed

definition printReport :: "encoders \<Rightarrow> debug_env \<Rightarrow> OutputOptions \<Rightarrow> string \<Rightarrow> DebugReport \<Rightarrow> shown_debug option \<times> goerr option" where
  "printReport en env out format report =
     (if format = FormatTable \<or> format = FormatWide
      then (case printer_write (de_writeText env) (summarise report) of
          (ls, Some e) \<Rightarrow> (Some (Screen ls), Some (ErrFmt ''writing the debug summary: '' (Some e)))
        | (ls, None) \<Rightarrow> (Some (Screen ls), None))
      else case fst (PrintBounded out (debug_kind en) report) of
          Inl e \<Rightarrow> (None, Some (ErrFmt ''printing the debug report: '' (Some e)))
        | Inr p \<Rightarrow> (case de_write env p of Some e \<Rightarrow> (None, Some (ErrFmt ''printing the debug report: '' (Some e)))
            | None \<Rightarrow> (Some (PrintedDebug p), None)))"

text \<open>The error of a run; the second is \<^verbatim>\<open>partialError\<close>, which says what the report goes without.\<close>

datatype debug_error = DebugError goerr | Incomplete "Unreachable list"

fun debug_Error :: "debug_error \<Rightarrow> string" where
  "debug_Error (DebugError e) = Error e"
| "debug_Error (Incomplete what) = ''the report is incomplete: ''
     @ strings_Join (map (\<lambda>u. u_Resource u @ '': '' @ u_Reason u) what) ''; ''"

definition debug_exit :: "debug_error option \<Rightarrow> int" where
  "debug_exit err = (case err of None \<Rightarrow> ExitCodeFor None | Some (DebugError e) \<Rightarrow> ExitCodeFor (Some e) | Some (Incomplete _) \<Rightarrow> ExitPartial)"

record debug_result =
  dx_shown :: "shown_debug option"
  dx_gathered :: "Options option"
  dx_log :: "string list"
  dx_err :: "debug_error option"

definition stopped :: "goerr option \<Rightarrow> debug_result" where
  "stopped err = \<lparr>dx_shown = None, dx_gathered = None, dx_log = [], dx_err = map_option DebugError err\<rparr>"

definition final_error :: "goerr option \<Rightarrow> goerr option \<Rightarrow> DebugReport \<Rightarrow> debug_error option" where
  "final_error inventoryErr gatherErr report = (case gatherErr of Some e \<Rightarrow> Some (DebugError e)
     | None \<Rightarrow> (case inventoryErr of Some e \<Rightarrow> Some (DebugError e)
       | None \<Rightarrow> if rs_Partial (dr_Status report) then Some (Incomplete (rs_Unreachable (dr_Status report))) else None))"

definition runDebug :: "encoders \<Rightarrow> selector_parser \<Rightarrow> debug_env \<Rightarrow> goerr + 's Source \<Rightarrow> OutputOptions \<Rightarrow> Options \<Rightarrow> string \<Rightarrow> 's \<Rightarrow> debug_result" where
  "runDebug en parse env newSource out gather name s =
     (case OutputOptions_Validate out (debug_kind en) of Some e \<Rightarrow> stopped (Some e)
      | None \<Rightarrow> (case ParseFormat (oo_Format out) of Inl e \<Rightarrow> stopped (Some e)
      | Inr format \<Rightarrow> (case refuseFieldsOnADescription format (oo_Fields out) KindDebugReport of Some e \<Rightarrow> stopped (Some e)
      | None \<Rightarrow> (case ValidateWindows (de_duration env) gather of Some e \<Rightarrow> stopped (Some e)
      | None \<Rightarrow> (case readNode parse newSource name s of Inl err \<Rightarrow> stopped err
      | Inr (node, inventoryErr) \<Rightarrow>
          let opts = prepare env name gather;
              log = [''Using kubeconfig: '' @ de_kubeconfig env, ''Collecting '' @ name @ '' into '' @ o_ArtifactDir opts];
              (gatherErr, here) = de_gather env opts
          in if (case gatherErr of None \<Rightarrow> False | Some e \<Rightarrow> errors_As is_UsageError e \<noteq> None)
             then \<lparr>dx_shown = None, dx_gathered = Some opts, dx_log = log, dx_err = map_option DebugError gatherErr\<rparr>
             else let report = buildReport name node (o_ArtifactDir opts) (readManifest (de_decode env) (de_fails env) here) inventoryErr gatherErr;
                      (shown, err) = printReport en env out format report
               in case err of Some e \<Rightarrow> \<lparr>dx_shown = shown, dx_gathered = Some opts, dx_log = log, dx_err = Some (DebugError e)\<rparr>
                 | None \<Rightarrow> \<lparr>dx_shown = shown, dx_gathered = Some opts,
                     dx_log = log @ (if db_Manifest (dr_Bundle report) \<noteq> []
                       then [''Please send the contents of '' @ o_ArtifactDir opts @ '' to NVIDIA support''] else []),
                     dx_err = final_error inventoryErr gatherErr report\<rparr>)))))"

subsection \<open>What the report counts\<close>

lemma prefix_trim: "strings_TrimPrefix (p @ s) p = s"
  by (simp add: strings_TrimPrefix_def)

lemma status_cases:
  "status_of out = StatusOK \<longleftrightarrow> out = Ran"
  "strings_HasPrefix (status_of out) report_statusSkipped \<longleftrightarrow> (\<exists>why. out = Skipped why)"
  by (cases out; simp add: status_of_def StatusOK_def statusSkipped_def statusError_def report_statusSkipped_def strings_HasPrefix_def)+

definition skipped_of :: "CollectorStatus list \<Rightarrow> outcome list \<Rightarrow> CollectorOutcome list" where
  "skipped_of cs outs = List.map_filter (\<lambda>(c, out). case out of Skipped why \<Rightarrow> Some \<lparr>co_Name = cs_Collector c, co_Reason = why\<rparr> | _ \<Rightarrow> None) (zip cs outs)"

definition errored_of :: "CollectorStatus list \<Rightarrow> outcome list \<Rightarrow> CollectorOutcome list" where
  "errored_of cs outs = List.map_filter (\<lambda>(c, out). case out of Failed e \<Rightarrow> Some \<lparr>co_Name = cs_Collector c, co_Reason = Error e\<rparr> | _ \<Rightarrow> None) (zip cs outs)"

lemma outcomes_of_Nil [simp]: "skipped_of [] outs = []" "errored_of [] outs = []"
  by (simp_all add: skipped_of_def errored_of_def List.map_filter_simps)

lemma outcomes_of_Cons [simp]:
  "skipped_of (c # cs) (out # outs) = (case out of Skipped why \<Rightarrow> [\<lparr>co_Name = cs_Collector c, co_Reason = why\<rparr>] | _ \<Rightarrow> []) @ skipped_of cs outs"
  "errored_of (c # cs) (out # outs) = (case out of Failed e \<Rightarrow> [\<lparr>co_Name = cs_Collector c, co_Reason = Error e\<rparr>] | _ \<Rightarrow> []) @ errored_of cs outs"
  by (cases out; simp add: skipped_of_def errored_of_def List.map_filter_simps)+

lemma summarise_loop_spec:
  assumes "map cs_Status cs = map status_of outs"
  shows "summarise_loop cs b = b\<lparr>db_Collectors := \<lparr>cc_OK = cc_OK (db_Collectors b) + int (length (filter (\<lambda>out. out = Ran) outs)),
       cc_Skipped = cc_Skipped (db_Collectors b) + int (length (skipped_of cs outs)),
       cc_Error = cc_Error (db_Collectors b) + int (length (errored_of cs outs))\<rparr>,
     db_Skipped := db_Skipped b @ skipped_of cs outs, db_Errored := db_Errored b @ errored_of cs outs\<rparr>"
  using assms
proof (induction cs arbitrary: outs b)
  case (Cons c cs)
  then obtain out outs' where o: "outs = out # outs'" "cs_Status c = status_of out" "map cs_Status cs = map status_of outs'" by auto
  show ?case
  proof (cases out)
    case Ran
    then show ?thesis using o by (simp add: Cons.IH [OF o(3)] status_of_def Let_def)
  next
    case (Skipped why)
    moreover have "strings_TrimPrefix (status_of out) report_statusSkipped = why"
      using Skipped prefix_trim [of statusSkipped why] by (simp add: status_of_def statusSkipped_def report_statusSkipped_def)
    ultimately show ?thesis using o status_cases [of out] by (simp add: Cons.IH [OF o(3)] Let_def)
  next
    case (Failed e)
    moreover have "strings_TrimPrefix (status_of out) report_statusError = Error e"
      using Failed prefix_trim [of statusError "Error e"] by (simp add: status_of_def statusError_def report_statusError_def)
    ultimately show ?thesis using o status_cases [of out] by (simp add: Cons.IH [OF o(3)] Let_def)
  qed
qed simp

lemma outcomes_total: "length cs = length outs \<Longrightarrow>
  length (filter (\<lambda>out. out = Ran) outs) + length (skipped_of cs outs) + length (errored_of cs outs) = length outs"
proof (induction cs outs rule: list_induct2)
  case (Cons c cs out outs)
  then show ?case by (cases out) simp_all
qed simp

text \<open>
  C30 (counts_every_collector). The summary of a bundle counts every collector of its manifest once,
  under how its run ended, and names each one that was skipped or failed, in the order they ran, with
  the reason the collector gave or the text of its error.
\<close>

theorem counts_every_collector:
  assumes "map cs_Status (mn_Collectors m) = map status_of outs"
  shows "let b = SummariseBundle dir (Some m); n = db_Collectors b in
    db_Skipped b = skipped_of (mn_Collectors m) outs \<and> db_Errored b = errored_of (mn_Collectors m) outs
    \<and> cc_OK n = int (length (filter (\<lambda>out. out = Ran) outs)) \<and> cc_Skipped n = int (length (db_Skipped b)) \<and> cc_Error n = int (length (db_Errored b))
    \<and> cc_OK n + cc_Skipped n + cc_Error n = int (length (mn_Collectors m)) \<and> db_Files b = int (length (mn_Files m))"
proof -
  have "length (mn_Collectors m) = length outs" using arg_cong [OF assms, of length] by simp
  from outcomes_total [OF this] this show ?thesis
    by (simp add: SummariseBundle_def Let_def summarise_loop_spec [OF assms] no_counts_def)
qed

definition sample_manifest :: Manifest where
  "sample_manifest = \<lparr>mn_BundleSchemaVersion = ''1'', mn_ToolVersion = [], mn_Context = [], mn_Timestamp = [],
     mn_Flags = \<lparr>mf_Node = [], mf_Since = [], mf_NoExec = True, mf_Redact = False\<rparr>,
     mn_Collectors = [\<lparr>cs_Collector = ''nodes'', cs_Status = ''ok'', cs_Artifacts = []\<rparr>,
       \<lparr>cs_Collector = ''bug-report'', cs_Status = ''skipped:--no-exec'', cs_Artifacts = []\<rparr>,
       \<lparr>cs_Collector = ''pods'', cs_Status = ''error:denied'', cs_Artifacts = []\<rparr>],
     mn_Files = [], mn_Dropped = []\<rparr>"

theorem counts_every_collector_witness:
  "db_Collectors (SummariseBundle ''/b'' (Some sample_manifest)) = \<lparr>cc_OK = 1, cc_Skipped = 1, cc_Error = 1\<rparr>"
proof -
  let ?outs = "[Ran, Skipped ''--no-exec'', Failed (ErrText ''denied'')]"
  have "map cs_Status (mn_Collectors sample_manifest) = map status_of ?outs"
    by (simp add: sample_manifest_def status_of_def StatusOK_def statusSkipped_def statusError_def)
  from counts_every_collector [OF this, of "''/b''"] show ?thesis
    by (simp add: sample_manifest_def Let_def)
qed

subsection \<open>What the screen shows\<close>

lemma bounded_length: "0 < limit \<Longrightarrow> length (bounded ls limit what) \<le> limit"
  by (simp add: bounded_def)

lemma truncate_length: "length ellipsis \<le> w \<Longrightarrow> length (truncate_text v w) \<le> w"
  by (simp add: truncate_text_def)

lemma runes_length: "length (runes s) \<le> length s"
proof -
  have "length (runes_of bs) \<le> length bs" for bs
  proof (induction bs rule: runes_of.induct)
    case (2 b bs)
    obtain r w where d: "decode (b # bs) = (r, w)" by fastforce
    then have "0 < w" using decode_width [of "b # bs"] by simp
    then show ?case using 2 [OF d [symmetric] refl] d by (simp del: decode.simps)
  qed simp
  from this [of "map of_char s"] show ?thesis by (simp add: runes_def)
qed

text \<open>Columns of what is printed of a text: its runes, once sanitised, are no more than its bytes.\<close>

lemma columns_bound: "length (runes (sanitizeCell s)) \<le> length s"
  unfolding sanitizeCell_runes length_map using runes_length [of s] le_trans length_filter_le by blast

lemma folded_fit_width: "folded_fit names k = Some l \<Longrightarrow> length l \<le> maxLineWidth"
  by (induction k) (auto simp: Let_def split: if_splits)

lemma outcome_width: "t \<in> set (outcome_texts b) \<Longrightarrow> length t \<le> maxLineWidth \<or> (\<exists>n. t = ''  '' @ strconv_FormatInt n @ '' more, see -o json'')"
proof -
  have cut: "length (truncateLine l) \<le> maxLineWidth" for l
    unfolding truncateLine_def by (rule truncate_length) (simp add: ellipsis_def maxLineWidth_def)
  have named: "l \<in> set (named_outcomes b) \<Longrightarrow> length l \<le> maxLineWidth" for l
    using cut by (auto simp: named_outcomes_def outcomeLine_def)
  have bound: "t \<in> set (bounded (named_outcomes b) k []) \<Longrightarrow> length t \<le> maxLineWidth \<or> (\<exists>n. t = ''  '' @ strconv_FormatInt n @ '' more, see -o json'')" for k t
    using named by (auto simp: bounded_def split: if_splits dest!: in_set_takeD)
  have "length (foldedLine names) \<le> maxLineWidth" for names
    using cut folded_fit_width by (auto simp: foldedLine_def Let_def split: option.split)
  then show "t \<in> set (outcome_texts b) \<Longrightarrow> ?thesis" using bound by (auto simp: outcome_texts_def split: if_splits)
qed

text \<open>
  C31 (summary_fits_screen). The summary of any report is at most thirty lines, whatever the node runs and
  whatever became of its collectors; every line of it, and of the description of \<^verbatim>\<open>info\<close>, is visible
  bytes and the line feed that ends it, so no value of the cluster reaches the terminal as a control
  sequence or a line of its own; and a line about a collector is at most 96 columns wide.
\<close>

theorem summary_fits_screen:
  "length (summarise r) \<le> summaryLineBudget \<and> list_all one_line (summarise r) \<and> list_all one_line (describe en (dr_Node r))
   \<and> list_all (\<lambda>t. length (runes (sanitizeCell t)) \<le> maxLineWidth \<or> (\<exists>n. t = ''  '' @ strconv_FormatInt n @ '' more, see -o json''))
       (outcome_texts (dr_Bundle r))"
proof (intro conjI)
  have "length (operand_texts (dr_Node r)) \<le> 9"
    using bounded_length [of maxOperandLines "map operand_line (g_Operands (dr_Node r))" "''operands''"] by (simp add: operand_texts_def maxOperandLines_def)
  moreover have "length (outcome_texts (dr_Bundle r)) \<le> 8"
    using bounded_length [of maxOutcomeLines "named_outcomes (dr_Bundle r)" "[]"] bounded_length [of "maxOutcomeLines - 1" "named_outcomes (dr_Bundle r)" "[]"]
    by (simp add: outcome_texts_def maxOutcomeLines_def)
  moreover have "length (next_texts (g_Name (dr_Node r)) (dr_Bundle r)) \<le> 3" by (simp add: next_texts_def)
  ultimately show "length (summarise r) \<le> summaryLineBudget" by (simp add: summarise_def Let_def summaryLineBudget_def)
  show "list_all one_line (summarise r)" by (auto simp: summarise_def Let_def list_all_iff)
  show "list_all one_line (describe en (dr_Node r))" by (rule one_line_describe)
  show "list_all (\<lambda>t. length (runes (sanitizeCell t)) \<le> maxLineWidth \<or> (\<exists>n. t = ''  '' @ strconv_FormatInt n @ '' more, see -o json''))
       (outcome_texts (dr_Bundle r))"
    unfolding list_all_iff using outcome_width columns_bound le_trans by blast
qed

subsection \<open>How a run ends\<close>

lemma report_partial_iff:
  "rs_Partial (dr_Status (buildReport name node dir read inventoryErr gatherErr))
     \<longleftrightarrow> rs_Unreachable (dr_Status (buildReport name node dir read inventoryErr gatherErr)) \<noteq> []"
  "rs_Partial (dr_Status (buildReport name node dir read inventoryErr gatherErr)) \<longleftrightarrow> inventoryErr \<noteq> None \<or> gatherErr \<noteq> None \<or> snd read \<noteq> None"
  by (auto simp: buildReport_def Let_def split: prod.splits option.splits)

lemma report_prints:
  assumes "OutputOptions_Validate out (debug_kind en) = None" "ParseFormat (oo_Format out) = Inr format"
    and "de_writeText env = (\<lambda>_. None)" "de_write env = (\<lambda>_. None)"
  shows "\<exists>shown. printReport en env out format report = (Some shown, None)"
proof (cases "format = FormatTable \<or> format = FormatWide")
  case True
  then show ?thesis using assms(3) by (auto simp: printReport_def)
next
  case False
  have "\<not> oo_Limit out < 0" "\<not> 0 < oo_Limit out" "validateFields (oo_Fields out) (FieldPaths (k_decls (debug_kind en)) (k_type (debug_kind en))) = None"
    using assms(1,2) by (auto simp: OutputOptions_Validate_def BoundedOptions_Validate_def isLimitable_def debug_kind_def split: if_splits)
  then have "\<exists>p. fst (PrintBounded out (debug_kind en) report) = Inr p"
    using False assms(2) by (auto simp: PrintBounded_def applyLimit_def print_as_def namePrinter_PrintObj_def debug_kind_def KindDebugReport_def Let_def)
  then show ?thesis using False assms(4) by (auto simp: printReport_def)
qed


text \<open>A cluster of one node, all of it read, and a gather that wrote an index nobody can parse.\<close>

definition one_node :: "unit Source" where
  "one_node = \<lparr>src_ClassifyNodes = (\<lambda>s. ((([sample_node ''gpu-1'' [] []], []), None), s)), src_Pods = (\<lambda>_ _ s. (([], None), s)),
     src_ResourceSlices = (\<lambda>s. (([], None), s)), src_ClusterPolicies = (\<lambda>s. (([], None), s)), src_NodeEvents = None, src_ComputeDomains = None\<rparr>"

definition sample_gather :: Options where
  "sample_gather = \<lparr>o_ArtifactDir = ''/b'', o_Debug = False, o_Node = [], o_Since = 0, o_NoExec = False, o_Redact = False,
     o_ExecTimeout = DefaultExecTimeout, o_ToolVersion = [], o_Context = []\<rparr>"

definition sample_env :: debug_env where
  "sample_env = \<lparr>de_gather = (\<lambda>_. (None, Some [(ManifestFileName, RegularFile 384 ''?'')])), de_fails = (\<lambda>_ _. None),
     de_decode = (\<lambda>_. Inl (ErrText ''invalid character'')), de_duration = (\<lambda>_. []), de_debug = False, de_defaultDir = [], de_version = [],
     de_context = [], de_kubeconfig = [], de_writeText = (\<lambda>_. None), de_write = (\<lambda>_. None)\<rparr>"

lemma one_node_build:
  "\<exists>node s'. inventory_Build parse one_node (info_build_options ''gpu-1'') () = ((Some [node], None), s') \<and> g_Name node = ''gpu-1''"
  by (simp add: inventory_Build_def BuildWithHinted_def parseSelector_def info_build_options_def one_node_def fatal_def kept_err_def
      assemble_def filterNodes_def sort_Slice_def joinPartials_def errors_Join_def sample_node_def Let_def)


subsection \<open>Where the screen and the comments differ\<close>

text \<open>The exponent \<^verbatim>\<open>humanBytes\<close> indexes its six units with is in range for every size.\<close>

lemma human_loop_bound: "sz < 1024 ^ Suc k \<Longrightarrow> snd (human_loop sz d ex) \<le> ex + k"
proof (induction k arbitrary: sz d ex)
  case 0
  then show ?case by (simp add: human_loop.simps [of sz])
next
  case (Suc k)
  then have "sz div 1024 < 1024 ^ Suc k" by (simp add: div_less_iff_less_mult)
  then show ?case using Suc.IH [of "sz div 1024" "d * 1024" "Suc ex"] by (simp add: human_loop.simps [of sz])
qed

lemma unit_in_range: "int64_range n \<Longrightarrow> snd (human_loop (n div 1024) 1024 0) < length ''KMGTPE''"
proof -
  assume "int64_range n"
  then have "n < 1152921504606846976 * 1024" by (simp add: in_range_def)
  then have "n div 1024 < 1024 ^ Suc 5" by simp
  from human_loop_bound [OF this, of 1024 0] show ?thesis by simp
qed

text \<open>A label can be 63 bytes, so the line about MIG can be wider than the comment allows any line but the directory's.\<close>

lemma wide_MIG_line:
  assumes "mig_Strategy (g_MIG n) = ''mixed''" "length (mig_Config (g_MIG n)) = 63" "mig_ConfigState (g_MIG n) = ''pending''"
  shows "keyWidth + 1 + length (migLine n) > maxLineWidth"
  using assms by (auto simp: migLine_def valueOr_def keyWidth_def maxLineWidth_def)

text \<open>A cut in the middle of a rune shows the replacement character.\<close>

lemma cut_rune: "RuneError \<in> set (runes (truncate_text [CHR 0xC3, CHR 0xA9, CHR ''t'', CHR ''e'', CHR ''x''] 4))"
  by (simp add: truncate_text_def ellipsis_def runes_def RuneError_def cont_def)

text \<open>Of two denied reads the report names the first.\<close>

lemma debug_names_first_denial:
  "inventory_unreachable name (ErrJoin [PartialError ''resourceslices'' a, PartialError ''pods'' b])
     = \<lparr>u_Resource = ''resourceslices'', u_Node = [], u_Reason = Error a\<rparr>"
  by (simp add: inventory_unreachable_def errors_As_def)

text \<open>A node that is gone by the time the gather checks it is a usage error after the directory and its logs were made.\<close>

lemma usage_error_after_start:
  assumes "NewGatherer env opts here clients = Inr g" "o_Node opts \<noteq> []" "usableInAName subdomain (o_Node opts)"
    "get (o_Node opts) = Some e" "IsNotFound e" "\<not> o_Redact opts" "indexBundle env (g_dir g) = Inr files" "e_fails env ''write'' ManifestFileName = None"
  shows "\<exists>msg g'. gather_Run env opts here clients subdomain get registry = (Some (UsageError msg None), Some g') \<and> mhas (g_dir g') ManifestFileName"
  using assms by (simp add: gather_Run_def checkNode_def writeManifest_def redactManifest_def on_dir_def gomap_simps split: option.split prod.split)

end
