(* ===== verification/Mcp_Server.thy ===== *)
theory Mcp_Server
  imports Go_Text Output_Printer
begin

text \<open>
  The MCP server, \<^verbatim>\<open>pkg/cmd/mcp\<close>: one tool for each visible leaf of the command tree (\<^verbatim>\<open>tools.go\<close>), the
  command line a call becomes and the result it gets (\<^verbatim>\<open>server.go\<close>, \<^verbatim>\<open>mcp.go\<close>). The protocol is the
  SDK's and the parsing of a command line cobra's: a run of the tree is a parameter.
\<close>

subsection \<open>The command tree\<close>

record Flag =
  fl_Name :: string
  fl_Usage :: string
  fl_Type :: string
  fl_Hidden :: bool
  fl_Annotations :: "string list gomap"

text \<open>
  A command as cobra shows it: the flags of \<^verbatim>\<open>LocalNonPersistentFlags\<close>, of \<^verbatim>\<open>InheritedFlags\<close> and all those
  \<^verbatim>\<open>Flags\<close> holds.
\<close>

record cmd =
  cm_Name :: string
  cm_Use :: string
  cm_Short :: string
  cm_Long :: string
  cm_Hidden :: bool
  cm_Annotations :: "string gomap"
  cm_Local :: "Flag list"
  cm_Inherited :: "Flag list"
  cm_Flags :: "Flag list"

datatype command = Command cmd "command list"

definition neverTools :: "string list" where "neverTools = [''mcp'', ''help'', ''completion'', ''version'']"
definition allowedInheritedFlags :: "string list" where "allowedInheritedFlags = [''namespace'']"
definition execFlags :: "string list" where "execFlags = [''no-exec'', ''exec'']"
definition suppressedFlags :: "string list" where "suppressedFlags = [''output'', ''help'']"
definition outputFlag :: string where "outputFlag = ''output''"
definition noExecFlag :: string where "noExecFlag = ''no-exec''"
definition SuppressAnnotation :: string where "SuppressAnnotation = ''kubectl-nv.nvidia.com/mcp-suppress''"
definition HostDirAnnotation :: string where "HostDirAnnotation = ''kubectl-nv.nvidia.com/host-dir''"
definition ExecAnnotation :: string where "ExecAnnotation = ''kubectl-nv.nvidia.com/exec''"

record ArgSpec =
  as_Min :: int
  as_Max :: int
  as_Usage :: string

definition ArgSpec_Takes :: "ArgSpec \<Rightarrow> bool" where
  "ArgSpec_Takes a \<longleftrightarrow> as_Max a \<noteq> 0"

record Tool =
  t_Name :: string
  t_Path :: "string list"
  t_Description :: string
  t_InputSchema :: json
  t_ForceNoExec :: bool
  t_HasNoExecFlag :: bool
  t_HostDirFlags :: "string list"
  t_WritesHost :: bool
  t_Args :: ArgSpec
  t_HasOutputFlag :: bool

subsection \<open>Describing a leaf\<close>

function fields_loop :: "string \<Rightarrow> string \<Rightarrow> string list" where
  "fields_loop word [] = (if word = [] then [] else [word])"
| "fields_loop word (c # s) = (let n = space_len (map of_char (c # s)) in
     if n = 0 then fields_loop (word @ [c]) s
     else (if word = [] then [] else [word]) @ fields_loop [] (drop n (c # s)))"
  by pat_completeness auto
termination by (relation "measure (\<lambda>(_, s). length s)") auto

text \<open>\<^verbatim>\<open>strings.Fields\<close>.\<close>

definition strings_Fields :: "string \<Rightarrow> string list" where
  "strings_Fields s = fields_loop [] s"

definition parse_token :: "string \<Rightarrow> ArgSpec \<Rightarrow> ArgSpec" where
  "parse_token token a = (let variadic = strings_Contains token ''...''; optional = strings_HasPrefix token ''['' in
     if variadic then (if optional then a\<lparr>as_Max := -1\<rparr> else a\<lparr>as_Max := -1, as_Min := as_Min a + 1\<rparr>)
     else if optional then a\<lparr>as_Max := as_Max a + 1\<rparr>
     else a\<lparr>as_Min := as_Min a + 1, as_Max := as_Max a + 1\<rparr>)"

definition parseArgs :: "string \<Rightarrow> ArgSpec" where
  "parseArgs use = (let fs = strings_Fields use; none = \<lparr>as_Min = 0, as_Max = 0, as_Usage = use\<rparr> in
     if length fs < 2 then none
     else let a = fold parse_token (tl fs) none
       in if as_Max a \<ge> 0 \<and> as_Max a < as_Min a then a\<lparr>as_Max := as_Min a\<rparr> else a)"

definition describe_cmd :: "cmd \<Rightarrow> string" where
  "describe_cmd c = (if cm_Short c \<noteq> [] then cm_Short c
     else strings_TrimSpace (takeWhile (\<lambda>x. x \<noteq> char_of (10::nat)) (cm_Long c)))"

definition annotated :: "string \<Rightarrow> Flag \<Rightarrow> bool" where
  "annotated key f \<longleftrightarrow> mget [] (fl_Annotations f) key \<noteq> []"

definition hostDirFlags :: "cmd \<Rightarrow> string list" where
  "hostDirFlags c = sort_Strings (map fl_Name (filter (annotated HostDirAnnotation) (cm_Flags c)))"

definition elementType :: "string \<Rightarrow> string" where
  "elementType name = (let base = strings_TrimSuffix (strings_TrimSuffix name ''Slice'') ''Array'' in
     if base = ''bool'' then ''boolean''
     else if strings_HasPrefix base ''int'' \<or> strings_HasPrefix base ''uint'' then ''integer''
     else if strings_HasPrefix base ''float'' then ''number'' else ''string'')"

definition flagSchema :: "Flag \<Rightarrow> json" where
  "flagSchema f = (let name = fl_Type f in JMap ((''description'', JString (fl_Usage f)) #
     (if name = ''bool'' then [(''type'', JString ''boolean'')]
      else if name = ''count'' \<or> strings_HasPrefix name ''int'' \<or> strings_HasPrefix name ''uint'' then [(''type'', JString ''integer'')]
      else if strings_HasPrefix name ''float'' then [(''type'', JString ''number'')]
      else if strings_HasSuffix name ''Slice'' \<or> strings_HasSuffix name ''Array''
      then [(''type'', JString ''array''), (''items'', JMap [(''type'', JString (elementType name))])]
      else [(''type'', JString ''string'')])))"

definition addable :: "bool \<Rightarrow> Flag \<Rightarrow> bool" where
  "addable forceNoExec f \<longleftrightarrow> \<not> fl_Hidden f \<and> fl_Name f \<notin> set suppressedFlags \<and> \<not> annotated SuppressAnnotation f
     \<and> \<not> annotated HostDirAnnotation f \<and> \<not> (forceNoExec \<and> fl_Name f \<in> set execFlags)"

definition add_flag :: "bool \<Rightarrow> Flag \<Rightarrow> json gomap \<Rightarrow> json gomap" where
  "add_flag forceNoExec f m = (if addable forceNoExec f then mput m (fl_Name f) (flagSchema f) else m)"

definition args_schema :: "ArgSpec \<Rightarrow> json" where
  "args_schema a = JMap ([(''type'', JString ''array''), (''items'', JMap [(''type'', JString ''string'')]), (''minItems'', JInt (as_Min a)),
     (''description'', JString (''Positional arguments, as in: '' @ as_Usage a @ ''. None of them may be a flag''))]
     @ (if as_Max a \<ge> 0 then [(''maxItems'', JInt (as_Max a))] else []))"

definition schema_properties :: "cmd \<Rightarrow> bool \<Rightarrow> ArgSpec \<Rightarrow> json gomap" where
  "schema_properties c forceNoExec a =
     (let ps = fold (add_flag forceNoExec) (cm_Local c @ filter (\<lambda>f. fl_Name f \<in> set allowedInheritedFlags) (cm_Inherited c)) []
      in if ArgSpec_Takes a then mput ps ''args'' (args_schema a) else ps)"

definition inputSchema :: "cmd \<Rightarrow> bool \<Rightarrow> ArgSpec \<Rightarrow> json" where
  "inputSchema c forceNoExec a = JMap [(''type'', JString ''object''), (''properties'', JMap (schema_properties c forceNoExec a)),
     (''additionalProperties'', JBool False)]"

definition execs :: "cmd \<Rightarrow> bool" where
  "execs c \<longleftrightarrow> sget (cm_Annotations c) ExecAnnotation = ''true''"

definition newTool :: "cmd \<Rightarrow> string list \<Rightarrow> Tool" where
  "newTool c path =
     \<lparr>t_Name = strings_Join path ''_'', t_Path = path, t_Description = describe_cmd c,
      t_InputSchema = inputSchema c (execs c) (parseArgs (cm_Use c)), t_ForceNoExec = execs c,
      t_HasNoExecFlag = (noExecFlag \<in> fl_Name ` set (cm_Flags c)), t_HostDirFlags = hostDirFlags c,
      t_WritesHost = (hostDirFlags c \<noteq> []), t_Args = parseArgs (cm_Use c),
      t_HasOutputFlag = (outputFlag \<in> fl_Name ` set (cm_Flags c))\<rparr>"

text \<open>The leaves in the order of the walk, each with its path.\<close>

fun leaves :: "string list \<Rightarrow> command \<Rightarrow> (cmd \<times> string list) list" where
  "leaves path (Command c ks) =
     (if ks = [] then (if path = [] \<or> last path \<in> set neverTools then [] else [(c, path)])
      else concat (map (\<lambda>k. case k of Command i _ \<Rightarrow> if cm_Hidden i then [] else leaves (path @ [cm_Name i]) k) ks))"

definition Tools :: "command \<Rightarrow> Tool list" where
  "Tools root = sort_Slice t_Name (map (\<lambda>(c, path). newTool c path) (leaves [] root))"

subsection \<open>Positional arguments\<close>

text \<open>\<open>letter\<close> is \<^verbatim>\<open>unicode.IsLetter\<close> beyond ASCII.\<close>

definition unicode_IsLetter :: "(nat \<Rightarrow> bool) \<Rightarrow> nat \<Rightarrow> bool" where
  "unicode_IsLetter letter r = (if r < 128 then 65 \<le> r \<and> r \<le> 90 \<or> 97 \<le> r \<and> r \<le> 122 else letter r)"

definition looksLikeAFlag :: "(nat \<Rightarrow> bool) \<Rightarrow> string \<Rightarrow> bool" where
  "looksLikeAFlag letter arg = (case runes arg of a # b # _ \<Rightarrow> a = 45 \<and> (b = 45 \<or> unicode_IsLetter letter b) | _ \<Rightarrow> False)"

text \<open>\<^verbatim>\<open>%T\<close> of a decoded value.\<close>

fun type_name :: "json \<Rightarrow> string" where
  "type_name JNull = ''<nil>''"
| "type_name (JBool _) = ''bool''"
| "type_name (JInt _) = ''float64''"
| "type_name (JFloat _) = ''float64''"
| "type_name (JString _) = ''string''"
| "type_name (JList _) = ''[]interface {}''"
| "type_name (JMap _) = ''map[string]interface {}''"

fun positional_loop :: "(nat \<Rightarrow> bool) \<Rightarrow> string \<Rightarrow> json list \<Rightarrow> goerr + string list" where
  "positional_loop letter tool [] = Inr []"
| "positional_loop letter tool (v # vs) = (case v of
       JString arg \<Rightarrow> if looksLikeAFlag letter arg
         then Inl (ErrText (tool @ '': '' @ fmt_q (takeWhile (\<lambda>x. x \<noteq> CHR ''='') arg) @ '' is a flag, and a flag cannot be passed as a positional argument''))
         else map_sum id ((#) arg) (positional_loop letter tool vs)
     | _ \<Rightarrow> Inl (ErrText (tool @ '': args must be an array of strings, got a '' @ type_name v @ '' in it'')))"

definition positionalArgs :: "(nat \<Rightarrow> bool) \<Rightarrow> Tool \<Rightarrow> json gomap \<Rightarrow> goerr + string list" where
  "positionalArgs letter tool arguments = (case map_of arguments ''args'' of
       None \<Rightarrow> Inr []
     | Some (JList vs) \<Rightarrow> (case positional_loop letter (t_Name tool) vs of Inl e \<Rightarrow> Inl e
         | Inr out \<Rightarrow> if \<not> ArgSpec_Takes (t_Args tool) \<and> out \<noteq> [] then Inl (ErrText (t_Name tool @ '' takes no positional arguments'')) else Inr out)
     | Some raw \<Rightarrow> Inl (ErrText (t_Name tool @ '': args must be an array of strings, got '' @ type_name raw)))"

definition checkArity :: "Tool \<Rightarrow> string list \<Rightarrow> goerr option" where
  "checkArity tool as = (let n = int (length as); a = t_Args tool in
     if n < as_Min a then Some (ErrText (t_Name tool @ '' needs '' @ strconv_FormatInt (as_Min a) @ '' positional argument(s), got ''
       @ strconv_FormatInt n @ '': '' @ as_Usage a))
     else if as_Max a \<ge> 0 \<and> n > as_Max a then Some (ErrText (t_Name tool @ '' takes at most '' @ strconv_FormatInt (as_Max a)
       @ '' positional argument(s), got '' @ strconv_FormatInt n @ '': '' @ as_Usage a))
     else None)"

subsection \<open>The command line of a call\<close>

text \<open>
  A number is a \<^verbatim>\<open>float64\<close>: one equal to some \<^verbatim>\<open>int64\<close> is \<open>JInt\<close>, any other \<open>JFloat\<close> with the text of
  \<^verbatim>\<open>FormatFloat(f, 'f', -1, 64)\<close>.
\<close>

fun flagValue :: "json \<Rightarrow> goerr + string" and flagValues :: "json list \<Rightarrow> goerr + string list" where
  "flagValue (JString s) = Inr s"
| "flagValue (JBool b) = Inr (strconv_FormatBool b)"
| "flagValue (JInt n) = Inr (strconv_FormatInt n)"
| "flagValue (JFloat s) = Inr s"
| "flagValue (JList vs) = map_sum id (\<lambda>parts. strings_Join parts '','') (flagValues vs)"
| "flagValue JNull = Inl (ErrText ''has no value'')"
| "flagValue (JMap m) = Inl (ErrText (''cannot be a '' @ type_name (JMap m)))"
| "flagValues [] = Inr []"
| "flagValues (v # vs) = (case flagValue v of Inl e \<Rightarrow> Inl e | Inr part \<Rightarrow> map_sum id ((#) part) (flagValues vs))"

definition offered :: "Tool \<Rightarrow> string list" where
  "offered tool = (case t_InputSchema tool of
       JMap m \<Rightarrow> (case map_of m ''properties'' of Some (JMap ps) \<Rightarrow> map fst ps | _ \<Rightarrow> []) | _ \<Rightarrow> [])"

definition flag_text :: "string \<Rightarrow> string \<Rightarrow> string" where
  "flag_text name val = ''--'' @ name @ ''='' @ val"

fun flag_args :: "Tool \<Rightarrow> (string \<times> json) list \<Rightarrow> goerr + string list" where
  "flag_args tool [] = Inr []"
| "flag_args tool ((name, v) # rest) =
     (if name = ''args'' then flag_args tool rest
      else if name \<notin> set (offered tool) then Inl (ErrText (t_Name tool @ '' does not take '' @ fmt_q name))
      else case flagValue v of
          Inl e \<Rightarrow> Inl (ErrFmt (t_Name tool @ '': '' @ name @ '': '') (Some e))
        | Inr val \<Rightarrow> map_sum id ((#) (flag_text name val)) (flag_args tool rest))"

text \<open>The directories pinned: what \<^verbatim>\<open>MkdirTemp\<close> made for each flag, and whether its mode could be set.\<close>

fun pin_dirs :: "(string \<Rightarrow> goerr + string) \<Rightarrow> (string \<Rightarrow> goerr option) \<Rightarrow> string \<Rightarrow> string list \<Rightarrow> goerr + string gomap" where
  "pin_dirs mkdir chmod tool [] = Inr []"
| "pin_dirs mkdir chmod tool (flag # flags) = (case mkdir flag of
       Inl e \<Rightarrow> Inl (ErrFmt (tool @ '': making a directory for --'' @ flag @ '': '') (Some e))
     | Inr dir \<Rightarrow> (case chmod dir of
         Some e \<Rightarrow> Inl (ErrFmt (tool @ '': securing '' @ dir @ '': '') (Some e))
       | None \<Rightarrow> map_sum id ((#) (flag, dir)) (pin_dirs mkdir chmod tool flags)))"

definition in_order :: "'v gomap \<Rightarrow> (string \<times> 'v) list" where
  "in_order m = map (\<lambda>k. (k, the (map_of m k))) (sort_Strings (map fst m))"

definition commandLine :: "(nat \<Rightarrow> bool) \<Rightarrow> (string \<Rightarrow> goerr + string) \<Rightarrow> (string \<Rightarrow> goerr option) \<Rightarrow> Tool \<Rightarrow> json gomap
    \<Rightarrow> goerr + string list \<times> string gomap" where
  "commandLine letter mkdir chmod tool arguments =
     (if t_ForceNoExec tool \<and> \<not> t_HasNoExecFlag tool
      then Inl (ErrText (t_Name tool @ '' can run a command inside a pod and has no --'' @ noExecFlag @ '' flag, so it is not served over MCP''))
      else case flag_args tool (in_order arguments) of Inl e \<Rightarrow> Inl e
      | Inr flags \<Rightarrow> (case positionalArgs letter tool arguments of Inl e \<Rightarrow> Inl e
      | Inr positional \<Rightarrow> (case checkArity tool positional of Some e \<Rightarrow> Inl e
      | None \<Rightarrow> (case pin_dirs mkdir chmod (t_Name tool) (t_HostDirFlags tool) of Inl e \<Rightarrow> Inl e
      | Inr pinned \<Rightarrow> Inr (t_Path tool @ (if t_HasOutputFlag tool then [''--'' @ outputFlag, ''json''] else []) @ flags
          @ map (\<lambda>(flag, dir). flag_text flag dir) pinned
          @ (if t_ForceNoExec tool then [''--'' @ noExecFlag @ ''=true''] else []) @ positional, pinned)))))"

subsection \<open>Running a call\<close>

record CallToolResult =
  cr_IsError :: bool
  cr_Text :: string
  cr_ExitCode :: int
  cr_Structured :: "json option"

definition exit_line :: "int \<Rightarrow> string" where
  "exit_line code = ''exit code '' @ strconv_FormatInt code"

definition newline :: string where "newline = [char_of (10::nat)]"

definition toolError :: "int \<Rightarrow> string \<Rightarrow> CallToolResult" where
  "toolError code msg = \<lparr>cr_IsError = True, cr_Text = msg @ newline @ newline @ exit_line code, cr_ExitCode = code, cr_Structured = None\<rparr>"

definition resultText :: "string \<Rightarrow> int \<Rightarrow> string gomap \<Rightarrow> string" where
  "resultText printed code pinned = strings_Join ([strings_TrimRight printed newline]
     @ map (\<lambda>(flag, dir). ''--'' @ flag @ '': '' @ dir) (in_order pinned) @ [exit_line code]) newline"

text \<open>
  How a run of the tree ended: with an error or none, what it wrote on its two streams, or in a panic,
  with the value and the stack.
\<close>

datatype run_end = Returned "goerr option" string string | Panicked string string

text \<open>
  The server's connection: which cluster it talks to, and the namespace the configuration flags hold. Every
  tree is built over those flags, so a run leaves in them what its command line set.
\<close>

record 'c server =
  sv_connection :: 'c
  sv_namespace :: string

type_synonym 'c tree = "'c \<Rightarrow> string \<Rightarrow> string list \<Rightarrow> run_end \<times> string"

definition structured :: "(string \<Rightarrow> goerr + json) \<Rightarrow> string \<Rightarrow> json option" where
  "structured unmarshal out = (case unmarshal out of Inr (JMap m) \<Rightarrow> Some (JMap m) | Inr (JList vs) \<Rightarrow> Some (JList vs) | _ \<Rightarrow> None)"

definition result_of :: "(string \<Rightarrow> goerr + json) \<Rightarrow> Tool \<Rightarrow> string gomap \<Rightarrow> run_end \<Rightarrow> CallToolResult" where
  "result_of unmarshal tool pinned ending = (case ending of
       Panicked val stack \<Rightarrow> toolError ExitError (t_Name tool @ '' panicked: '' @ val @ newline @ newline @ stack)
     | Returned err out errOut \<Rightarrow> let code = ExitCodeFor err in
         if code = ExitUsage \<or> code = ExitError
         then toolError code (strings_TrimSpace ((case err of Some e \<Rightarrow> Error e | None \<Rightarrow> []) @ newline @ errOut))
         else \<lparr>cr_IsError = False, cr_Text = resultText out code pinned, cr_ExitCode = code, cr_Structured = structured unmarshal out\<rparr>)"

definition execute :: "(string \<Rightarrow> goerr + json) \<Rightarrow> 'c tree \<Rightarrow> Tool \<Rightarrow> string list \<Rightarrow> string gomap \<Rightarrow> 'c server \<Rightarrow> CallToolResult \<times> 'c server" where
  "execute unmarshal root tool argv pinned sv =
     (let (ending, ns) = root (sv_connection sv) (sv_namespace sv) argv
      in (result_of unmarshal tool pinned ending, sv\<lparr>sv_namespace := ns\<rparr>))"

text \<open>What the library answers: the decoders, the directories, and the letters beyond ASCII.\<close>

record mcp_env =
  me_decode :: "string \<Rightarrow> goerr + json gomap"
  me_unmarshal :: "string \<Rightarrow> goerr + json"
  me_letter :: "nat \<Rightarrow> bool"
  me_mkdir :: "string \<Rightarrow> goerr + string"
  me_chmod :: "string \<Rightarrow> goerr option"

text \<open>The handler of one tool; the request carries the arguments as they came, or none.\<close>

definition handlerFor :: "mcp_env \<Rightarrow> 'c tree \<Rightarrow> Tool \<Rightarrow> string \<Rightarrow> 'c server \<Rightarrow> CallToolResult \<times> 'c server" where
  "handlerFor env root tool raw sv =
     (case (if raw = [] then Inr [] else me_decode env raw) of
        Inl e \<Rightarrow> (toolError ExitUsage (''could not read the arguments of '' @ t_Name tool @ '': '' @ Error e), sv)
      | Inr arguments \<Rightarrow> (case commandLine (me_letter env) (me_mkdir env) (me_chmod env) tool arguments of
          Inl e \<Rightarrow> (toolError ExitUsage (Error e), sv)
        | Inr (argv, pinned) \<Rightarrow> execute (me_unmarshal env) root tool argv pinned sv))"

text \<open>A server in use: its connection set once, and then calls, each to one of its tools.\<close>

inductive serves :: "mcp_env \<Rightarrow> 'c tree \<Rightarrow> Tool list \<Rightarrow> 'c server \<Rightarrow> 'c server \<Rightarrow> bool" for env root tools where
  idle: "serves env root tools sv sv"
| call: "serves env root tools sv sv' \<Longrightarrow> tool \<in> set tools \<Longrightarrow> handlerFor env root tool raw sv' = (res, sv'')
    \<Longrightarrow> serves env root tools sv sv''"

subsection \<open>The server\<close>

record sdk_tool =
  st_Name :: string
  st_Description :: string
  st_InputSchema :: json
  st_ReadOnlyHint :: bool

definition sdk_tool_of :: "Tool \<Rightarrow> sdk_tool" where
  "sdk_tool_of tool = \<lparr>st_Name = t_Name tool, st_Description = t_Description tool, st_InputSchema = t_InputSchema tool,
     st_ReadOnlyHint = (\<not> t_WritesHost tool)\<rparr>"

text \<open>\<open>None\<close> for a way to build the tree that is nil.\<close>

definition newServer :: "command option \<Rightarrow> goerr + sdk_tool list" where
  "newServer newRoot = (case newRoot of
       None \<Rightarrow> Inl (ErrText ''the MCP server needs a way to build the command tree'')
     | Some root \<Rightarrow> let tools = Tools root in
         if tools = [] then Inl (ErrText ''the command tree has no read-only leaf to offer as a tool'')
         else Inr (map sdk_tool_of tools))"

definition tool_line :: "Tool \<Rightarrow> string" where
  "tool_line tool = t_Name tool @ [char_of (9::nat)] @ t_Description tool
     @ (if t_ForceNoExec tool then '' (--no-exec forced)'' else [])
     @ (if t_WritesHost tool then '' (writes files on this machine)'' else []) @ newline"

fun printTools_loop :: "(string \<Rightarrow> goerr option) \<Rightarrow> Tool list \<Rightarrow> string list \<times> goerr option" where
  "printTools_loop w [] = ([], None)"
| "printTools_loop w (tool # tools) = (case w (tool_line tool) of
       Some e \<Rightarrow> ([], Some (ErrFmt ''writing the tool list: '' (Some e)))
     | None \<Rightarrow> let (ls, err) = printTools_loop w tools in (tool_line tool # ls, err))"

definition printTools :: "(string \<Rightarrow> goerr option) \<Rightarrow> command \<Rightarrow> string list \<times> goerr option" where
  "printTools w root = printTools_loop w (Tools root)"

subsection \<open>What a call can set\<close>

text \<open>The flag a word of the command line sets.\<close>

definition flag_of :: "string \<Rightarrow> string option" where
  "flag_of tok = (if strings_HasPrefix tok ''--'' then Some (takeWhile (\<lambda>x. x \<noteq> CHR ''='') (drop 2 tok)) else None)"

text \<open>The flags a leaf offers: its own that are not persistent, and the namespace, without those kept back.\<close>

definition settable :: "cmd \<Rightarrow> string set" where
  "settable c = fl_Name ` {f. (f \<in> set (cm_Local c) \<or> f \<in> set (cm_Inherited c) \<and> fl_Name f = ''namespace'') \<and> addable (execs c) f}"

text \<open>Flag names as pflag reads them have no equals sign, and no flag for a directory decides about an exec.\<close>

definition flags_plain :: "cmd \<Rightarrow> bool" where
  "flags_plain c \<longleftrightarrow> (\<forall>f \<in> set (cm_Local c @ cm_Inherited c @ cm_Flags c). CHR ''='' \<notin> set (fl_Name f))
     \<and> set (hostDirFlags c) \<inter> set execFlags = {}"

text \<open>A flag a leaf only inherits, one of the connection's, is not among them.\<close>

lemma inherited_not_settable:
  "fl_Name f \<noteq> ''namespace'' \<Longrightarrow> fl_Name f \<notin> fl_Name ` set (cm_Local c) \<Longrightarrow> fl_Name f \<notin> settable c"
  by (auto simp: settable_def)

lemma flag_of_text: "CHR ''='' \<notin> set name \<Longrightarrow> flag_of (flag_text name val) = Some name"
proof -
  assume "CHR ''='' \<notin> set name"
  then have "takeWhile (\<lambda>x. x \<noteq> CHR ''='') (name @ CHR ''='' # val) = name" by (subst takeWhile_append2) auto
  then show ?thesis by (simp add: flag_of_def flag_text_def strings_HasPrefix_def)
qed

lemma dashes_are_a_flag: "strings_HasPrefix s ''--'' \<Longrightarrow> looksLikeAFlag letter s"
proof -
  assume "strings_HasPrefix s ''--''"
  then obtain t where "s = ''--'' @ t" by (rule hasPrefixE)
  then have "runes s = 45 # 45 # runes t" by (simp add: runes_def)
  then show ?thesis by (simp add: looksLikeAFlag_def)
qed

lemma add_flags_keys: "fst ` set (fold (add_flag ex) fs m) = fst ` set m \<union> fl_Name ` {f \<in> set fs. addable ex f}"
  by (induction fs arbitrary: m) (auto simp: add_flag_def gomap_simps)

lemma offered_newTool: "set (offered (newTool c path)) - {''args''} \<subseteq> settable c"
proof -
  have "set (offered (newTool c path)) = fst ` set (schema_properties c (execs c) (parseArgs (cm_Use c)))"
    by (simp add: offered_def newTool_def inputSchema_def)
  also have "\<dots> \<subseteq> insert ''args'' (fl_Name ` {f \<in> set (cm_Local c @ filter (\<lambda>f. fl_Name f \<in> set allowedInheritedFlags) (cm_Inherited c)). addable (execs c) f})"
    unfolding schema_properties_def Let_def by (cases "ArgSpec_Takes (parseArgs (cm_Use c))") (simp_all only: if_True if_False keys_mput add_flags_keys list.set(1) image_empty, auto)
  also have "\<dots> \<subseteq> insert ''args'' (settable c)"
    unfolding settable_def by (rule insert_mono, rule image_mono) (auto simp: allowedInheritedFlags_def)
  finally show ?thesis by blast
qed

lemma Tools_leaf: "tool \<in> set (Tools root) \<Longrightarrow> \<exists>c path. (c, path) \<in> set (leaves [] root) \<and> tool = newTool c path"
  by (auto simp: Tools_def sort_Slice_def)

lemma flag_args_from:
  "flag_args tool kvs = Inr flags \<Longrightarrow> tok \<in> set flags \<Longrightarrow> \<exists>name val. tok = flag_text name val \<and> name \<in> set (offered tool) - {''args''}"
proof (induction kvs arbitrary: flags)
  case (Cons kv kvs)
  obtain name v where kv: "kv = (name, v)" by fastforce
  show ?case
  proof (cases "name = ''args''")
    case True
    then show ?thesis using Cons kv by simp
  next
    case False
    then obtain val rest where r: "name \<in> set (offered tool)" "flag_args tool kvs = Inr rest" "flags = flag_text name val # rest"
      using Cons.prems(1) kv by (cases "flag_args tool kvs") (auto split: if_splits sum.splits)
    then show ?thesis using Cons.IH [OF r(2)] Cons.prems(2) False by auto
  qed
qed simp

lemma positional_loop_plain: "positional_loop letter tool vs = Inr out \<Longrightarrow> arg \<in> set out \<Longrightarrow> \<not> looksLikeAFlag letter arg"
proof (induction vs arbitrary: out)
  case (Cons v vs)
  then obtain a rest where "v = JString a" "\<not> looksLikeAFlag letter a" "positional_loop letter tool vs = Inr rest" "out = a # rest"
    by (cases v; cases "positional_loop letter tool vs") (auto split: if_splits)
  then show ?case using Cons by auto
qed simp

lemma positional_plain: "positionalArgs letter tool arguments = Inr out \<Longrightarrow> arg \<in> set out \<Longrightarrow> \<not> looksLikeAFlag letter arg"
  by (auto simp: positionalArgs_def split: option.splits json.splits sum.splits if_splits dest: positional_loop_plain)

lemma pin_dirs_flags: "pin_dirs mkdir chmod tool flags = Inr pinned \<Longrightarrow> map fst pinned = flags \<and> (\<forall>(flag, dir) \<in> set pinned. mkdir flag = Inr dir)"
proof (induction flags arbitrary: pinned)
  case (Cons flag flags)
  then obtain dir rest where "mkdir flag = Inr dir" "pin_dirs mkdir chmod tool flags = Inr rest" "pinned = (flag, dir) # rest"
    by (cases "pin_dirs mkdir chmod tool flags") (auto split: sum.splits option.splits)
  then show ?case using Cons.IH by auto
qed simp

subsection \<open>Properties\<close>

text \<open>
  C27 (mcp_call_confined). The command line of a tool call is the path of one visible leaf followed by words
  that set only what that leaf offers, the JSON format, directories the server made itself, and, for a
  leaf that can run something in a pod, \<^verbatim>\<open>--no-exec=true\<close> and nothing else about it; no other word looks like
  a flag. So no call reaches a flag inherited from above but the namespace: not the kubeconfig, the
  server, the token or any other part of the connection.
\<close>

theorem mcp_call_confined:
  assumes "tool \<in> set (Tools root)" and plain: "\<forall>(c, path) \<in> set (leaves [] root). flags_plain c"
    and call: "commandLine letter mkdir chmod tool arguments = Inr (argv, pinned)"
  shows "\<exists>c words. (c, t_Path tool) \<in> set (leaves [] root) \<and> argv = t_Path tool @ words
    \<and> (\<forall>tok \<in> set words. case flag_of tok of
          None \<Rightarrow> \<not> looksLikeAFlag letter tok
        | Some name \<Rightarrow> name \<in> settable c \<or> tok = ''--output'' \<or> execs c \<and> tok = ''--no-exec=true''
            \<or> (\<exists>dir. name \<in> set (hostDirFlags c) \<and> mkdir name = Inr dir \<and> tok = flag_text name dir))
    \<and> (execs c \<longrightarrow> ''--no-exec=true'' \<in> set words \<and> (\<forall>tok \<in> set words. flag_of tok \<in> Some ` set execFlags \<longrightarrow> tok = ''--no-exec=true''))"
proof -
  obtain c path where c: "(c, path) \<in> set (leaves [] root)" "tool = newTool c path" using Tools_leaf [OF assms(1)] by blast
  then have pc: "flags_plain c" using plain by auto
  have fields: "t_Path tool = path" "t_ForceNoExec tool = execs c" "t_HostDirFlags tool = hostDirFlags c" by (simp_all add: c(2) newTool_def)
  obtain flags positional where parts: "flag_args tool (in_order arguments) = Inr flags" "positionalArgs letter tool arguments = Inr positional"
      "pin_dirs mkdir chmod (t_Name tool) (hostDirFlags c) = Inr pinned"
    and argv: "argv = path @ (if t_HasOutputFlag tool then [''--output'', ''json''] else []) @ flags
          @ map (\<lambda>(flag, dir). flag_text flag dir) pinned @ (if execs c then [''--no-exec=true''] else []) @ positional"
    using call unfolding commandLine_def fields by (auto simp: outputFlag_def noExecFlag_def split: if_splits sum.splits option.splits)
  define words where "words = (if t_HasOutputFlag tool then [''--output'', ''json''] else []) @ flags
          @ map (\<lambda>(flag, dir). flag_text flag dir) pinned @ (if execs c then [''--no-exec=true''] else []) @ positional"
  have name_ok: "CHR ''='' \<notin> set name" if "name \<in> settable c \<union> set (hostDirFlags c)" for name
    using that pc unfolding flags_plain_def settable_def hostDirFlags_def by auto
  have off: "set (offered tool) - {''args''} \<subseteq> settable c" unfolding c(2) by (rule offered_newTool)
  have host: "flag \<in> set (hostDirFlags c) \<and> mkdir flag = Inr dir" if "(flag, dir) \<in> set pinned" for flag dir
  proof -
    have "fst ` set pinned = set (hostDirFlags c)" using pin_dirs_flags [OF parts(3)] by (metis list.set_map)
    moreover have "fst (flag, dir) \<in> fst ` set pinned" using that by (rule imageI)
    ultimately show ?thesis using pin_dirs_flags [OF parts(3)] that by auto
  qed
  have pos: "\<not> looksLikeAFlag letter tok \<and> flag_of tok = None" if "tok \<in> set positional" for tok
    using positional_plain [OF parts(2) that] dashes_are_a_flag [of tok letter] by (auto simp: flag_of_def)
  have json: "flag_of ''json'' = None" "\<not> looksLikeAFlag letter ''json''"
    by (simp_all add: flag_of_def strings_HasPrefix_def looksLikeAFlag_def runes_def)
  have fixed: "flag_of ''--output'' = Some ''output''" "flag_of ''--no-exec=true'' = Some ''no-exec''" by (simp_all add: flag_of_def strings_HasPrefix_def)
  have each: "tok \<in> set words \<Longrightarrow> tok \<in> {''--output'', ''json''} \<or> execs c \<and> tok = ''--no-exec=true'' \<or> (\<exists>name val. tok = flag_text name val \<and> name \<in> settable c)
      \<or> (\<exists>name dir. tok = flag_text name dir \<and> name \<in> set (hostDirFlags c) \<and> mkdir name = Inr dir) \<or> tok \<in> set positional" for tok
  proof -
    assume "tok \<in> set words"
    then consider "tok \<in> {''--output'', ''json''}" | "tok \<in> set flags" | "tok \<in> set (map (\<lambda>(flag, dir). flag_text flag dir) pinned)"
      | "execs c" "tok = ''--no-exec=true''" | "tok \<in> set positional" unfolding words_def by (auto split: if_splits)
    then show ?thesis
    proof cases
      case 2
      from flag_args_from [OF parts(1) this] off show ?thesis by blast
    next
      case 3
      then obtain flag dir where "(flag, dir) \<in> set pinned" "tok = flag_text flag dir" by auto
      then show ?thesis using host by blast
    qed simp_all
  qed
  have classified: "(case flag_of tok of None \<Rightarrow> \<not> looksLikeAFlag letter tok
      | Some name \<Rightarrow> name \<in> settable c \<or> tok = ''--output'' \<or> execs c \<and> tok = ''--no-exec=true''
        \<or> (\<exists>dir. name \<in> set (hostDirFlags c) \<and> mkdir name = Inr dir \<and> tok = flag_text name dir))
      \<and> (execs c \<longrightarrow> flag_of tok \<in> Some ` set execFlags \<longrightarrow> tok = ''--no-exec=true'')" if "tok \<in> set words" for tok
  proof -
    have not_exec: "name \<notin> set execFlags" if "execs c" "name \<in> settable c \<union> set (hostDirFlags c)" for name
      using that pc by (auto simp: settable_def addable_def flags_plain_def)
    have out: "''output'' \<notin> set execFlags" by (simp add: execFlags_def)
    from each [OF that] consider "tok = ''--output''" | "tok = ''json''" | "execs c" "tok = ''--no-exec=true''"
      | (set) name val where "tok = flag_text name val" "name \<in> settable c"
      | (dir) name dir where "tok = flag_text name dir" "name \<in> set (hostDirFlags c)" "mkdir name = Inr dir" | "tok \<in> set positional"
      by blast
    then show ?thesis
    proof cases
      case set
      then have "flag_of tok = Some name" using flag_of_text name_ok by blast
      then show ?thesis using set not_exec [of name] by auto
    next
      case dir
      then have "flag_of tok = Some name" using flag_of_text name_ok by blast
      then show ?thesis using dir not_exec [of name] by auto
    qed (use json fixed out pos [of tok] in \<open>simp_all add: image_iff\<close>)
  qed
  have "execs c \<Longrightarrow> ''--no-exec=true'' \<in> set words" "argv = t_Path tool @ words" "(c, t_Path tool) \<in> set (leaves [] root)"
    using c(1) argv fields(1) by (simp_all add: words_def)
  with classified show ?thesis by (intro exI [of _ c] exI [of _ words]) simp
qed

definition sample_flag :: "string \<Rightarrow> string \<Rightarrow> string list \<Rightarrow> Flag" where
  "sample_flag name t keys = \<lparr>fl_Name = name, fl_Usage = [], fl_Type = t, fl_Hidden = False, fl_Annotations = map (\<lambda>k. (k, [''true''])) keys\<rparr>"

definition sample_cmd :: "string \<Rightarrow> string gomap \<Rightarrow> Flag list \<Rightarrow> cmd" where
  "sample_cmd name annotations own = \<lparr>cm_Name = name, cm_Use = name, cm_Short = ''a command'', cm_Long = [], cm_Hidden = False,
     cm_Annotations = annotations, cm_Local = own,
     cm_Inherited = [sample_flag ''kubeconfig'' ''string'' [], sample_flag ''namespace'' ''string'' []],
     cm_Flags = own @ [sample_flag ''kubeconfig'' ''string'' [], sample_flag ''namespace'' ''string'' []]\<rparr>"

definition sample_gather_cmd :: cmd where
  "sample_gather_cmd = sample_cmd ''must-gather'' [(ExecAnnotation, ''true'')]
     [sample_flag ''artifacts-dir'' ''string'' [HostDirAnnotation], sample_flag ''no-exec'' ''bool'' [], sample_flag ''node'' ''string'' []]"

definition sample_tree :: command where
  "sample_tree = Command (sample_cmd ''kubectl-nv'' [] []) [Command (sample_cmd ''adm'' [] []) [Command sample_gather_cmd []],
     Command (sample_cmd ''mcp'' [] []) [], Command (sample_cmd ''topology'' [] [sample_flag ''for'' ''string'' [], sample_flag ''output'' ''string'' []]) []]"

lemma sample_leaves: "map snd (leaves [] sample_tree) = [[''adm'', ''must-gather''], [''topology'']]"
  by code_simp

lemma sample_tools: "map t_Name (Tools sample_tree) = [''adm_must-gather'', ''topology'']"
  by code_simp

lemma sample_line:
  "commandLine (\<lambda>_. False) (\<lambda>_. Inr ''/tmp/d'') (\<lambda>_. None) (newTool sample_gather_cmd [''adm'', ''must-gather'']) [(''node'', JString ''n1'')]
     = Inr ([''adm'', ''must-gather'', ''--node=n1'', ''--artifacts-dir=/tmp/d'', ''--no-exec=true''], [(''artifacts-dir'', ''/tmp/d'')])"
  by code_simp

lemma sample_refused:
  "case commandLine (\<lambda>_. False) (\<lambda>_. Inr ''/tmp/d'') (\<lambda>_. None) (newTool sample_gather_cmd [''adm'', ''must-gather'']) [(''kubeconfig'', JString ''k'')] of
     Inl e \<Rightarrow> Error e = ''adm_must-gather does not take '' @ fmt_q ''kubeconfig'' | Inr _ \<Rightarrow> False"
  by code_simp

lemma sample_flags_plain: "\<forall>(c, path) \<in> set (leaves [] sample_tree). flags_plain c"
  by code_simp

theorem mcp_call_confined_witness:
  "\<exists>c words. (c, [''adm'', ''must-gather'']) \<in> set (leaves [] sample_tree)
     \<and> [''adm'', ''must-gather'', ''--node=n1'', ''--artifacts-dir=/tmp/d'', ''--no-exec=true''] = [''adm'', ''must-gather''] @ words
     \<and> (execs c \<longrightarrow> ''--no-exec=true'' \<in> set words)"
proof -
  have "(sample_gather_cmd, [''adm'', ''must-gather'']) \<in> set (leaves [] sample_tree)"
    by (simp add: sample_tree_def sample_gather_cmd_def sample_cmd_def neverTools_def)
  then have t: "newTool sample_gather_cmd [''adm'', ''must-gather''] \<in> set (Tools sample_tree)" by (force simp: Tools_def sort_Slice_def)
  have "t_Path (newTool sample_gather_cmd [''adm'', ''must-gather'']) = [''adm'', ''must-gather'']" by (simp add: newTool_def)
  moreover from mcp_call_confined [OF t sample_flags_plain sample_line] obtain c words where
    "(c, t_Path (newTool sample_gather_cmd [''adm'', ''must-gather''])) \<in> set (leaves [] sample_tree)"
    "[''adm'', ''must-gather'', ''--node=n1'', ''--artifacts-dir=/tmp/d'', ''--no-exec=true''] = t_Path (newTool sample_gather_cmd [''adm'', ''must-gather'']) @ words"
    "execs c \<longrightarrow> ''--no-exec=true'' \<in> set words" by blast
  ultimately show ?thesis by auto
qed

text \<open>
  C28 (mcp_result_says_exit). Every call gets a result whose last line is the exit code the command would have
  left on the command line, which the metadata carries too, and which is an error exactly for 2 and 4.
  Arguments that cannot be read, or that the tool does not take, are exit 2 and nothing is run, and a
  panic of the command is exit 4 and does not reach the server.
\<close>

theorem mcp_result_says_exit:
  "(let (res, sv') = handlerFor env root tool raw sv in
      strings_HasSuffix (cr_Text res) (newline @ exit_line (cr_ExitCode res)) \<and> (cr_IsError res \<longleftrightarrow> cr_ExitCode res \<in> {2, 4})
      \<and> sv_connection sv' = sv_connection sv
      \<and> (case (if raw = [] then Inr [] else me_decode env raw) of Inl _ \<Rightarrow> cr_ExitCode res = 2 \<and> sv' = sv
         | Inr arguments \<Rightarrow> (case commandLine (me_letter env) (me_mkdir env) (me_chmod env) tool arguments of
             Inl _ \<Rightarrow> cr_ExitCode res = 2 \<and> sv' = sv
           | Inr (argv, pinned) \<Rightarrow> (case fst (root (sv_connection sv) (sv_namespace sv) argv) of
               Panicked _ _ \<Rightarrow> cr_ExitCode res = 4 | Returned err _ _ \<Rightarrow> cr_ExitCode res = ExitCodeFor err))))"
proof -
  have suffix: "strings_HasSuffix (a @ b) b" for a b by (simp add: strings_HasSuffix_def)
  have err: "strings_HasSuffix (cr_Text (toolError code msg)) (newline @ exit_line code)" for code msg
    using suffix [of "msg @ newline"] by (simp add: toolError_def)
  have made: "cr_ExitCode (toolError c m) = c" "cr_IsError (toolError c m)" for c m by (simp_all add: toolError_def)
  have joined: "\<exists>t. strings_Join (x # xs @ [l]) newline = t @ newline @ l" for x :: string and xs l
  proof (induction xs arbitrary: x)
    case (Cons y ys)
    from Cons.IH [of y] obtain t where "strings_Join (y # ys @ [l]) newline = t @ newline @ l" by blast
    then show ?case by (intro exI [of _ "x @ newline @ t"]) (cases ys; simp)
  qed simp
  have ok: "strings_HasSuffix (resultText out code pinned) (newline @ exit_line code)" for out code pinned
  proof -
    from joined [of "strings_TrimRight out newline" "map (\<lambda>(flag, dir). ''--'' @ flag @ '': '' @ dir) (in_order pinned)" "exit_line code"]
    obtain t where "resultText out code pinned = t @ newline @ exit_line code" unfolding resultText_def by auto
    then show ?thesis using suffix [of t "newline @ exit_line code"] by simp
  qed
  have res: "strings_HasSuffix (cr_Text (result_of u tool pinned ending)) (newline @ exit_line (cr_ExitCode (result_of u tool pinned ending)))
      \<and> (cr_IsError (result_of u tool pinned ending) \<longleftrightarrow> cr_ExitCode (result_of u tool pinned ending) \<in> {2, 4})
      \<and> (case ending of Panicked _ _ \<Rightarrow> cr_ExitCode (result_of u tool pinned ending) = 4 | Returned e _ _ \<Rightarrow> cr_ExitCode (result_of u tool pinned ending) = ExitCodeFor e)"
    for u pinned ending
  proof (cases ending)
    case (Panicked val stack)
    then show ?thesis using err [of 4] made by (simp add: result_of_def)
  next
    case (Returned e out errOut)
    let ?code = "ExitCodeFor e"
    show ?thesis
    proof (cases "?code = ExitUsage \<or> ?code = ExitError")
      case True
      then show ?thesis using err [of ?code] made Returned by (simp add: result_of_def Let_def)
    next
      case False
      then show ?thesis using ok Returned by (simp add: result_of_def Let_def)
    qed
  qed
  have usage: "cr_ExitCode (toolError ExitUsage m) = 2" "cr_IsError (toolError ExitUsage m)" for m by (simp_all add: toolError_def)
  have ex: "execute u root tool argv pinned sv
      = (result_of u tool pinned (fst (root (sv_connection sv) (sv_namespace sv) argv)), sv\<lparr>sv_namespace := snd (root (sv_connection sv) (sv_namespace sv) argv)\<rparr>)"
    for u argv pinned by (simp add: execute_def split_beta)
  show ?thesis
  proof (cases "if raw = [] then Inr [] else me_decode env raw")
    case (Inl e)
    then show ?thesis using err [of ExitUsage] made usage unfolding handlerFor_def by simp
  next
    case (Inr arguments)
    show ?thesis
    proof (cases "commandLine (me_letter env) (me_mkdir env) (me_chmod env) tool arguments")
      case (Inl e)
      then show ?thesis using err [of ExitUsage] made usage Inr unfolding handlerFor_def by simp
    next
      case line: (Inr line)
      obtain argv pinned where "line = (argv, pinned)" by fastforce
      then show ?thesis
        using res [of "me_unmarshal env" pinned "fst (root (sv_connection sv) (sv_namespace sv) argv)"] line Inr
        unfolding handlerFor_def by (simp add: ex)
    qed
  qed
qed

subsection \<open>A namespace outlives its call\<close>

text \<open>A session never changes its connection, whatever is called and in whatever order.\<close>

lemma connection_kept: "serves env root tools sv sv' \<Longrightarrow> sv_connection sv' = sv_connection sv"
proof (induction rule: serves.induct)
  case (call sv sv' tool raw res sv'')
  then have "sv_connection sv'' = sv_connection sv'"
    by (auto simp: handlerFor_def execute_def Let_def split: sum.splits prod.splits if_splits)
  then show ?case using call by simp
qed simp

text \<open>
  A tree over shared configuration flags: \<^verbatim>\<open>--namespace\<close> is stored where the flags keep it, and its default is
  what is stored there already. This one prints the namespace it works in.
\<close>

definition set_namespace :: "string list \<Rightarrow> string \<Rightarrow> string" where
  "set_namespace argv ns = fold (\<lambda>tok ns. case strings_CutPrefix tok ''--namespace='' of Some v \<Rightarrow> v | None \<Rightarrow> ns) argv ns"

definition namespace_tree :: "unit tree" where
  "namespace_tree = (\<lambda>_ ns argv. let ns = set_namespace argv ns in
     (Returned None (if ns = [] then ''default'' else ns) [], ns))"

definition namespace_env :: mcp_env where
  "namespace_env = \<lparr>me_decode = (\<lambda>raw. Inr [(''namespace'', JString raw)]), me_unmarshal = (\<lambda>_. Inl (ErrText [])), me_letter = (\<lambda>_. False),
     me_mkdir = (\<lambda>_. Inr ''/tmp/d''), me_chmod = (\<lambda>_. None)\<rparr>"

lemma namespace_outlives_call:
  "let tool = newTool (sample_cmd ''topology'' [] []) [''topology'']; sv = \<lparr>sv_connection = (), sv_namespace = []\<rparr>;
       (res1, sv1) = handlerFor namespace_env namespace_tree tool [] sv;
       (res2, sv2) = handlerFor namespace_env namespace_tree tool ''team-a'' sv1;
       (res3, sv3) = handlerFor namespace_env namespace_tree tool [] sv2
   in cr_Text res1 = ''default'' @ newline @ ''exit code 0'' \<and> cr_Text res3 = ''team-a'' @ newline @ ''exit code 0''"
  by code_simp

end
