(* ===== verification/Spec2Isabelle.thy ===== *)
theory Spec2Isabelle
  imports Topology_Command Gather_Guarantees Debug_Command Mcp_Server
begin

section \<open>kubectl-nv\<close>

text \<open>
  A verification development of kubectl-nv, a kubectl plugin, written in Go, that reads the state of
  the GPUs of a cluster and reports what is wrong with it. Paths below are under \<^verbatim>\<open>src/\<close>.

  \<^bold>\<open>The program.\<close> A \<^emph>\<open>source\<close> (\<^verbatim>\<open>pkg/source\<close>) reads the Kubernetes objects the program looks at, either
  from a live cluster or from a directory an earlier run collected. The \<^emph>\<open>inventory\<close>
  (\<^verbatim>\<open>pkg/inventory\<close>) is built from a source: one record for each GPU node, with what it advertises, runs
  and has been asked for. The \<^emph>\<open>health\<close> rules (\<^verbatim>\<open>pkg/health\<close>, \<^verbatim>\<open>pkg/health/rules\<close>) read the inventory,
  some events and custom resources, and the \<^emph>\<open>engine\<close> (\<^verbatim>\<open>pkg/health/engine\<close>) turns their findings into
  a report. The \<^emph>\<open>topology\<close> (\<^verbatim>\<open>pkg/topology\<close>) groups the nodes of an inventory by what connects them
  and answers whether a job fits. Every command prints through \<^verbatim>\<open>pkg/output\<close>, which owns the exit
  statuses, the findings, the limits, the projection to fields and the printers. The
  \<^emph>\<open>must-gather\<close> (\<^verbatim>\<open>pkg/mustgather\<close>) collects the directory the bundle source reads, and with
  \<^verbatim>\<open>--redact\<close> rewrites it before it is handed on.

  \<^bold>\<open>What happens on an error\<close> is the hard part of this program: a read that was denied must not
  be mistaken for an empty cluster, and it must not hide what the other reads found. Functions
  that return a value together with an error return a pair here, functions that return one or the
  other a sum, and Go's wrapped errors are the datatype \<open>goerr\<close> with \<open>errors_Is\<close> and \<open>errors_As\<close>.
\<close>

subsection \<open>Which theory models what\<close>

text \<open>
  \<^bold>\<open>The language and its library.\<close>
  \<^item> \<open>Go_Prelude\<close>: strings as byte lists with the byte order of Go's \<^verbatim>\<open><\<close>, Go maps as association lists
    in iteration order, \<^verbatim>\<open>int64\<close> and \<^verbatim>\<open>int32\<close> with their wrap-around written out, errors,
    \<^verbatim>\<open>strconv\<close>, and the two sorts of package \<^verbatim>\<open>sort\<close>. The locale \<open>go_sort\<close> is what any sort promises,
    \<open>go_stable_sort\<close> what a stable one adds; both are interpreted on the sorts of the model.
  \<^item> \<open>Go_Time\<close> (instants, durations, RFC 3339), \<open>Go_Utf8\<close> (runes), \<open>Go_Text\<close> (\<^verbatim>\<open>strings.Index\<close>,
    \<^verbatim>\<open>ReplaceAll\<close> and the trims) and \<open>Go_Regexp\<close>, the leftmost-first matching of the regular
    expressions the program compiles, with a declarative match relation it is proved equal to.
  \<^item> \<open>Kube_Types\<close>: the API objects, cut down to the fields the program reads.

  \<^bold>\<open>Output.\<close> \<open>Output_Contract\<close> is \<^verbatim>\<open>exitcode.go\<close>, \<^verbatim>\<open>finding.go\<close> and \<^verbatim>\<open>sort.go\<close>: severities, the order of
  findings and the exit status of a report. \<open>Output_Fields\<close> is \<^verbatim>\<open>fields.go\<close>: the paths \<^verbatim>\<open>--fields\<close> may
  name and the projection of a document to them. \<open>Output_Printer\<close> is \<^verbatim>\<open>printer.go\<close>, \<^verbatim>\<open>options.go\<close> and
  \<^verbatim>\<open>limit.go\<close>: the flags, the limit, the table and what its cells may hold. \<open>Report_Kinds\<close> gives the
  reports of the commands as documents of that contract. The locales \<open>table_rows\<close> (a row has
  a cell for each column) and \<open>limitable\<close> (a limit keeps a prefix and counts the rest) are the
  interfaces \<^verbatim>\<open>TableRenderable\<close> and \<^verbatim>\<open>Limitable\<close>, interpreted on each kind that implements them.

  \<^bold>\<open>Sources.\<close> \<open>Source_Nodes\<close> is \<^verbatim>\<open>source.go\<close>: what makes a node a GPU node. Its locale \<open>node_source\<close> is the
  Go interface \<^verbatim>\<open>Source\<close> as far as the classification of nodes goes; \<open>Source_Live\<close> (\<^verbatim>\<open>live.go\<close>, \<^verbatim>\<open>events.go\<close>,
  \<^verbatim>\<open>jobs.go\<close>, \<^verbatim>\<open>kueue.go\<close>, \<^verbatim>\<open>computedomains.go\<close>, with the memo of the slice list as state and the reads as
  an inductive step relation) and \<open>Source_Bundle\<close> (\<^verbatim>\<open>bundle.go\<close>) interpret it.

  \<^bold>\<open>Inventory.\<close> \<open>Inventory_Model\<close> (\<^verbatim>\<open>model.go\<close>, \<^verbatim>\<open>types.go\<close>, \<^verbatim>\<open>types_components.go\<close>), \<open>Inventory_Pods\<close>
  (\<^verbatim>\<open>operands.go\<close>, \<^verbatim>\<open>driverpods.go\<close>, \<^verbatim>\<open>requested.go\<close>) and \<open>Inventory_Build\<close> (\<^verbatim>\<open>build.go\<close>, \<^verbatim>\<open>table.go\<close>).

  \<^bold>\<open>Health.\<close> \<open>Health_Contract\<close> (\<^verbatim>\<open>rule.go\<close>, \<^verbatim>\<open>rule_version.go\<close>, \<^verbatim>\<open>report.go\<close>) holds the locale
  \<open>health_rule\<close>, what the comments of the \<^verbatim>\<open>Rule\<close> interface ask of every rule. \<open>Rule_Support\<close> is what the
  rules share; \<open>Rules_Node\<close>, \<open>Rules_Operand\<close> and \<open>Rules_Cluster\<close> are the sixteen rules, each an
  interpretation of it, and the registry. \<open>Health_Engine\<close> is one run, \<open>Health_Command\<close> the
  command around it.

  \<^bold>\<open>Topology.\<close> \<open>Topology_Groups\<close> (\<^verbatim>\<open>group.go\<close>, \<^verbatim>\<open>kueue.go\<close>), \<open>Topology_Fit\<close> (\<^verbatim>\<open>report.go\<close>, \<^verbatim>\<open>fit.go\<close>, \<^verbatim>\<open>job.go\<close>)
  and \<open>Topology_Command\<close> (\<^verbatim>\<open>pkg/cmd/topology\<close>).

  \<^bold>\<open>Redaction\<close>, \<^verbatim>\<open>pkg/mustgather/redact.go\<close>. \<open>Redact_Secrets\<close>: the credentials a line of text can carry.
  \<open>Redact_Names\<close>: the pseudonyms, with the redactor's key and cache as state, and the rewriting of a text.
  \<open>Redact_Bundle\<close>: what a directory teaches the redactor, and the rewriting of its files.

  \<^bold>\<open>Must-gather\<close>, the rest of \<^verbatim>\<open>pkg/mustgather\<close>. \<open>Gather_Files\<close>: the state of a gather (the record \<open>Gatherer\<close>:
  the directory, the names recorded, the messages shown, the logs, what the commands answered) and
  how one artifact is written beside its final name and renamed into place. \<open>Gather_Run\<close>: the run,
  the manifest and the exit status, over any registry of collectors; the locale \<open>gather_registry\<close>
  is what the run relies on. \<open>Gather_Tables\<close>, \<open>Gather_Cluster\<close>, \<open>Gather_Collectors\<close> and \<open>Gather_Pods\<close>: the
  text of the tables, the requests to the cluster and the twenty collectors. \<open>Gather_Registry\<close>
  interprets the locale on them, and \<open>Gather_Guarantees\<close> draws the conclusions. \<open>Gather_Copy\<close> is
  \<^verbatim>\<open>cp.go\<close>, the extraction of the archive a pod answers with.

  \<^bold>\<open>The other commands.\<close> \<open>Node_Commands\<close> is \<^verbatim>\<open>list\<close> and \<^verbatim>\<open>info\<close> (\<^verbatim>\<open>pkg/cmd/list\<close>, \<^verbatim>\<open>pkg/cmd/info\<close>) and the node as a kind
  of output; \<open>Debug_Command\<close> is \<^verbatim>\<open>debug\<close> (\<^verbatim>\<open>pkg/debug\<close>, \<^verbatim>\<open>pkg/cmd/debug\<close>), which reads one node, runs a gather
  for it and prints both on one screen. \<open>Mcp_Server\<close> (\<^verbatim>\<open>pkg/cmd/mcp\<close>) serves the command tree as tools: the
  tree is a datatype, the server's state the connection and the namespace its configuration flags
  hold, a session an inductive step relation over calls.
\<close>

subsection \<open>What the theorems show\<close>

text \<open>
  \<^item> \<^bold>\<open>Building.\<close> A build returns the nodes sorted by name, the same for any source that answers the same,
    only those a selector asks for, and names each read that was denied once.
  \<^item> \<^bold>\<open>Health.\<close> Every rule keeps the contract and the registry takes them all; a run reports exactly what the
    rules find, sorted, narrowed to the node asked for, whatever order they are given in; the exit
    status follows from the findings, the denied reads and the errors and from nothing else.
  \<^item> \<^bold>\<open>Topology.\<close> The groups of a level partition the nodes that have its labels; the greedy test of a job
    is equivalent to the existence of a placement, and the answer is the narrowest level that has one.
  \<^item> \<^bold>\<open>Output.\<close> The projection of a document holds exactly what was asked for and what is always kept; no cell
    of a table can carry a control character to a terminal; what the flags ask for is checked
    before anything is printed.
  \<^item> \<^bold>\<open>Redaction.\<close> Credentials and secret blocks do not survive, identities are all learned and
    distinct ones stay apart, and a directory that was rewritten holds no file that was not.
  \<^item> \<^bold>\<open>Gather.\<close> Every collector runs, whatever the others did; an artifact stands in the directory whole or not
    at all; the manifest is true of the directory; a redaction that failed leaves nothing behind;
    no report overwrites another; a copy out of a pod stays inside its destination.
  \<^item> \<^bold>\<open>Commands.\<close> \<^verbatim>\<open>info\<close> blames the user for a missing node only after a complete read; \<^verbatim>\<open>debug\<close> gathers only for a node
    that is there, counts every collector once, fits its screen whatever happened and exits 0 exactly when
    its report is complete; a tool call sets only what its command offers, never an exec and
    never the connection, and always answers with the exit code.
\<close>

subsection \<open>Parameters, hypotheses and bounds\<close>

text \<open>
  What is not code of the repository is a parameter: the API client (a record of what each request
  answers), the file system's faults (a function from an operation and a path to the error, so that every
  call can fail), the YAML and JSON decoders, HMAC and SHA-256, gzip, the tab writer and
  \<^verbatim>\<open>duration.HumanDuration\<close>. A hypothesis about one of them states its documentation, such as
  that a JSON encoder's answer for equal documents is equal, and a property that needs one has a witness
  with the parameter instantiated.

  A Go map has no order, so a map is an association list in some iteration order, and where the
  code must not depend on the order, that is proved. Integers that the code keeps in 64 or 32
  bits are integers with \<open>wrap64\<close> and \<open>wrap32\<close> at each operation; a theorem that needs the absence of
  overflow says so, with the bound. No definition takes fuel. Recursion that is not structural has a measure.
  The one loop that can run for ever is the pagination of \<^verbatim>\<open>listAllPaginated\<close>: it is a partial
  function into \<open>option\<close>, \<open>None\<close> for a loop that does not end, and it is proved to return what
  the cluster has when the cluster's continue tokens end.
\<close>

subsection \<open>Not modelled\<close>

text \<open>
  \<^item> The JSON Schemas, which are made from the Go types by reflection at run time, the deep copies, which
    are the values themselves here, and the embedded catalog of findings.
  \<^item> The wiring of the command line, the kubeconfig and the clients, the exec of a command in a pod and
    the pipe an archive comes out of it through: pure input and output of libraries. The SDK that speaks
    the MCP protocol, and cobra, which parses the command line a tool call becomes.
\<close>

end
